(* ===== verification/Lb_Prelude.thy ===== *)
theory Lb_Prelude
  imports Main "HOL-Library.Word"
begin

section \<open>Prelude: machine integers, durations, outcomes and list helpers\<close>

text \<open>
  What every other theory shares: the names of the machine types, the standard library's
  \<open>Duration\<close> with its checked multiplication, the three ways an \<open>async\<close> call of the code
  can end (it returns, it panics, its await never completes), the error chain of \<open>anyhow\<close>,
  and the list functions behind the iterator chains of the code. The collection
  \<open>outcome_simps\<close> gathers the equations that evaluate a chain of outcomes.
\<close>

subsection \<open>Machine integers and text\<close>

type_synonym u8 = "8 word"
type_synonym u64 = "64 word"

text \<open>The program is built for 64-bit targets, so \<open>usize\<close> has the width of \<open>u64\<close> and the
  cast \<open>x as u64\<close> of a \<open>usize\<close> is the identity. Rust strings and byte slices are both
  sequences of bytes, hence Isabelle's \<open>string\<close>.\<close>

type_synonym usize = "64 word"
type_synonym bytes = string

text \<open>\<open>retries -= 1\<close> on a \<open>u8\<close>: with overflow checks (a debug build) 0 has no predecessor and
  the code panics; without them (the release profile) it wraps to 255.\<close>

definition u8_dec :: "bool \<Rightarrow> u8 \<Rightarrow> u8 option" where
  "u8_dec checks r = (if checks \<and> r = 0 then None else Some (r - 1))"

lemma unat_u8_dec: "(r :: u8) \<noteq> 0 \<Longrightarrow> unat (r - 1) = unat r - 1"
  by (metis unat_minus_one)

lemma unat_u8_pos: "(r :: u8) \<noteq> 0 \<longleftrightarrow> 0 < unat r"
  by (simp add: unat_gt_0)

lemma u8_dec_pos [simp]: "r \<noteq> 0 \<Longrightarrow> u8_dec checks r = Some (r - 1)"
  by (simp add: u8_dec_def)

lemma u8_dec_SomeD: "u8_dec checks r = Some r' \<Longrightarrow> r' = r - 1"
  by (simp add: u8_dec_def split: if_splits)

text \<open>The cast \<open>x as i64\<close> of a \<open>u64\<close> keeps the bits and reads them as two's complement.\<close>

definition u64_as_i64 :: "u64 \<Rightarrow> int" where
  "u64_as_i64 x = sint x"

lemma u64_as_i64_small:
  assumes "unat x < 2 ^ 63"
  shows "u64_as_i64 x = int (unat x)"
proof -
  from assms have "int (unat x) < int (2 ^ 63)"
    by (simp only: of_nat_less_iff)
  then have "uint x < 2 ^ 63"
    by (simp only: uint_nat of_nat_power of_nat_numeral)
  then have "signed_take_bit 63 (uint x) = uint x"
    by (intro signed_take_bit_int_eq_self order.trans [OF _ uint_ge_0]) simp_all
  then show ?thesis
    by (simp only: u64_as_i64_def sint_uint uint_nat) simp
qed

subsection \<open>Durations\<close>

text \<open>\<open>std::time::Duration\<close> holds 64-bit seconds and nanoseconds below one second: a number of
  nanoseconds below \<open>2 ^ 64 * 10 ^ 9\<close>. \<open>d *= k\<close> is \<open>checked_mul\<close> followed by \<open>expect\<close>: a
  product that does not fit panics in every build profile (\<open>None\<close> here).\<close>

type_synonym duration = nat

definition duration_max :: duration where
  "duration_max = 2 ^ 64 * 10 ^ 9 - 1"

definition duration_mul :: "duration \<Rightarrow> nat \<Rightarrow> duration option" where
  "duration_mul d k = (if d * k \<le> duration_max then Some (d * k) else None)"

lemma duration_mul_fits [simp]: "d * k \<le> duration_max \<Longrightarrow> duration_mul d k = Some (d * k)"
  by (simp add: duration_mul_def)

lemma duration_mul_SomeD: "duration_mul d k = Some d' \<Longrightarrow> d' = d * k"
  by (simp add: duration_mul_def split: if_splits)

subsection \<open>How a call ends\<close>

text \<open>\<open>Done v\<close>: the call returned \<open>v\<close> (which may itself be an error value). \<open>Panicked\<close>: it
  panicked; the release profile sets \<open>panic = "abort"\<close>, so this ends the process.
  \<open>Pending\<close>: an await inside it never completes.\<close>

datatype 'a outcome = Done 'a | Panicked | Pending

named_theorems outcome_simps

primrec and_then :: "'a outcome \<Rightarrow> ('a \<Rightarrow> 'b outcome) \<Rightarrow> 'b outcome" where
  "and_then (Done x) f = f x"
| "and_then Panicked f = Panicked"
| "and_then Pending f = Pending"

declare and_then.simps [outcome_simps]

lemma and_then_Done_iff:
  "and_then m f = Done y \<longleftrightarrow> (\<exists>x. m = Done x \<and> f x = Done y)"
  by (cases m) auto

lemma and_then_Done_E [elim]:
  assumes "and_then m f = Done y"
  obtains x where "m = Done x" and "f x = Done y"
  using assms by (auto simp: and_then_Done_iff)

lemma and_then_assoc: "and_then (and_then m f) g = and_then m (\<lambda>x. and_then (f x) g)"
  by (cases m) auto

text \<open>Mapping a fallible conversion over a list, left to right, as \<open>into_iter().map().collect()\<close>
  does: the first panic ends it.\<close>

fun collect_outcomes :: "('a \<Rightarrow> 'b outcome) \<Rightarrow> 'a list \<Rightarrow> 'b list outcome" where
  "collect_outcomes f [] = Done []"
| "collect_outcomes f (x # xs) =
     and_then (f x) (\<lambda>y. and_then (collect_outcomes f xs) (\<lambda>ys. Done (y # ys)))"

lemma collect_outcomes_Done_iff:
  "collect_outcomes f xs = Done ys \<longleftrightarrow> list_all2 (\<lambda>x y. f x = Done y) xs ys"
  by (induction xs arbitrary: ys) (auto simp: and_then_Done_iff list_all2_Cons1)

lemma collect_outcomes_all_Done:
  "(\<And>x. x \<in> set xs \<Longrightarrow> f x = Done (g x)) \<Longrightarrow> collect_outcomes f xs = Done (map g xs)"
  by (induction xs) auto

lemma collect_outcomes_Panicked:
  assumes "\<And>x. x \<in> set xs \<Longrightarrow> f x \<noteq> Pending" and "x \<in> set xs" and "f x = Panicked"
  shows "collect_outcomes f xs = Panicked"
  using assms
proof (induction xs)
  case (Cons z zs)
  have z: "f z \<noteq> Pending"
    by (rule Cons.prems(1)) simp
  show ?case
  proof (cases "f z")
    case (Done y)
    with Cons.prems(2,3) have "x \<in> set zs"
      by auto
    then have "collect_outcomes f zs = Panicked"
      using Cons.IH Cons.prems by auto
    with Done show ?thesis
      by simp
  qed (use z in auto)
qed simp

subsection \<open>Error chains\<close>

text \<open>An \<open>anyhow::Error\<close> is a chain of messages, outermost first: \<open>context\<close> prepends one, and the
  alternate format \<open>{e:#}\<close> joins the chain with a colon and a space.\<close>

type_synonym error = "string list"

definition with_context :: "string \<Rightarrow> error + 'a \<Rightarrow> error + 'a" where
  "with_context msg r = (case r of Inl e \<Rightarrow> Inl (msg # e) | Inr v \<Rightarrow> Inr v)"

fun render_error :: "error \<Rightarrow> string" where
  "render_error [] = []"
| "render_error [m] = m"
| "render_error (m # ms) = m @ '': '' @ render_error ms"

lemma with_context_simps [simp]:
  "with_context msg (Inl e) = Inl (msg # e)"
  "with_context msg (Inr v) = Inr v"
  by (simp_all add: with_context_def)

subsection \<open>Lists\<close>

text \<open>\<open>iter_mut().find(p)\<close> followed by an assignment through the reference: the first match is
  changed, \<open>None\<close> when there is none.\<close>

fun update_first :: "('a \<Rightarrow> bool) \<Rightarrow> ('a \<Rightarrow> 'a) \<Rightarrow> 'a list \<Rightarrow> 'a list option" where
  "update_first p f [] = None"
| "update_first p f (x # xs) =
     (if p x then Some (f x # xs) else map_option ((#) x) (update_first p f xs))"

lemma update_first_None_iff: "update_first p f xs = None \<longleftrightarrow> (\<forall>x \<in> set xs. \<not> p x)"
  by (induction xs) auto

lemma update_first_map:
  assumes "update_first p f xs = Some ys" and "\<And>x. g (f x) = g x"
  shows "map g ys = map g xs"
  using assms(1) by (induction xs arbitrary: ys) (auto simp: assms(2) split: if_splits)

text \<open>When the key that \<open>find\<close> compares is unique, the first match is the only one.\<close>

lemma update_first_unique_key:
  assumes "update_first (\<lambda>x. g x = k) f xs = Some ys" and "distinct (map g xs)"
  shows "ys = map (\<lambda>x. if g x = k then f x else x) xs"
  using assms
proof (induction xs arbitrary: ys)
  case (Cons x xs)
  show ?case
  proof (cases "g x = k")
    case True
    with Cons.prems have "\<forall>z \<in> set xs. g z \<noteq> k"
      by (auto simp: image_iff)
    then have "map (\<lambda>x. if g x = k then f x else x) xs = xs"
      by (auto intro: map_idI)
    with True Cons.prems show ?thesis
      by simp
  next
    case False
    with Cons.prems show ?thesis
      by (auto intro: Cons.IH)
  qed
qed simp

text \<open>\<open>starts_with\<close> on slices.\<close>

definition starts_with :: "'a list \<Rightarrow> 'a list \<Rightarrow> bool" where
  "starts_with xs p = (take (length p) xs = p)"

lemma starts_with_iff: "starts_with xs p \<longleftrightarrow> (\<exists>ys. xs = p @ ys)"
  unfolding starts_with_def by (metis append_eq_conv_conj append_take_drop_id)

end
