(* ===== verification/Http_Types.thy ===== *)
theory Http_Types
  imports Lb_Prelude
begin

section \<open>HTTP data and the libraries behind it\<close>

text \<open>
  Requests and responses as far as the code reads or writes them, the error causes of
  \<open>src/routing.rs\<close> with the responses made from them, and the record \<open>http_env\<close> of the
  functions of third-party crates (\<open>http\<close>, \<open>axum\<close>, \<open>http-body-util\<close>, \<open>ic-bn-lib\<close>) that
  the code calls. Those functions are arguments of every definition that uses them: header
  maps have an abstract type \<open>'h\<close> and bodies an abstract type \<open>'b\<close>. Errors of those crates
  are represented by their rendering \<open>{e:#}\<close>, the only thing the code reads of them.
\<close>

subsection \<open>Requests and responses\<close>

text \<open>A parsed \<open>url::Url\<close>: the code reads its scheme and its authority only.\<close>

record url =
  url_scheme :: string
  url_authority :: string
  url_path :: string

record uri =
  uri_scheme :: "string option"
  uri_authority :: "string option"
  uri_path_and_query :: "string option"

datatype http_version = HTTP_09 | HTTP_10 | HTTP_11 | HTTP_2 | HTTP_3

text \<open>What the TLS layer and the request-meta middleware of \<open>ic-bn-lib\<close> leave in a request's
  extensions for this program: the TLS protocol and cipher names with the handshake's
  duration, the request id, the remote address and the country code.\<close>

record tls_info =
  tls_protocol :: string
  tls_cipher :: string
  tls_handshake :: duration

record request_extensions =
  ext_tls_info :: "tls_info option"
  ext_request_id :: "string option"
  ext_remote_addr :: "string option"
  ext_country_code :: "string option"

record ('h, 'b) request =
  rq_method :: string
  rq_uri :: uri
  rq_version :: http_version
  rq_headers :: 'h
  rq_body :: 'b
  rq_extensions :: request_extensions

text \<open>\<open>ErrorCause\<close> and the \<open>Retries\<close> wrapper travel in a response's extensions.\<close>

datatype error_cause =
    BackendRequestError string
  | BackendBodyError string
  | BackendTimeout
  | NoAuthority
  | ServiceNotReady
  | NoHealthyBackends
  | RequestBodyBufferTimeout

type_synonym status = nat

record ('h, 'b) response =
  rs_status :: status
  rs_headers :: 'h
  rs_body :: 'b
  rs_error_cause :: "error_cause option"
  rs_retries :: "u8 option"

subsection \<open>Third-party functions\<close>

text \<open>\<open>timeout(d, f)\<close> of tokio: the future finished in time or the time elapsed first.\<close>

datatype 'a timed = Elapsed | In_time 'a

text \<open>
  \<^item> \<open>he_uri_build s a p\<close>: \<open>Uri::builder().scheme(s).authority(a).path_and_query(p).build()\<close>;
  \<^item> \<open>he_uri_error\<close>: the conversion \<open>e.into()\<close> of that error into the client's error;
  \<^item> \<open>he_header_value\<close>: \<open>HeaderValue::from_maybe_shared\<close>, \<open>None\<close> for bytes no header may hold;
  \<^item> \<open>he_insert\<close>, \<open>he_get\<close>, \<open>he_strip\<close>: \<open>HeaderMap::insert\<close>, \<open>get\<close> and \<open>strip_connection_headers\<close>;
  \<^item> \<open>he_no_headers\<close>, \<open>he_empty_body\<close>, \<open>he_full_body\<close>: the header map of a fresh request,
    \<open>Body::empty()\<close> and a body made from bytes;
  \<^item> \<open>he_text_headers\<close>: the headers axum gives a response made from a status and a string;
  \<^item> \<open>he_size_exact\<close>: \<open>size_hint().exact()\<close>;
  \<^item> \<open>he_authority\<close>: \<open>extract_authority\<close> as text; \<open>he_host\<close>: \<open>extract_host\<close>;
  \<^item> \<open>he_buffer_body\<close>: \<open>buffer_body(body, limit, timeout)\<close>;
  \<^item> \<open>he_collect d limit body\<close>: \<open>timeout(d, Limited::new(body, limit).collect())\<close>.
\<close>

record ('h, 'b) http_env =
  he_uri_build :: "string \<Rightarrow> string \<Rightarrow> string \<Rightarrow> string + uri"
  he_uri_error :: "string \<Rightarrow> string"
  he_header_value :: "string \<Rightarrow> string option"
  he_insert :: "string \<Rightarrow> string \<Rightarrow> 'h \<Rightarrow> 'h"
  he_get :: "string \<Rightarrow> 'h \<Rightarrow> string option"
  he_strip :: "'h \<Rightarrow> 'h"
  he_no_headers :: 'h
  he_text_headers :: 'h
  he_empty_body :: 'b
  he_full_body :: "bytes \<Rightarrow> 'b"
  he_size_exact :: "'b \<Rightarrow> u64 option"
  he_authority :: "('h, 'b) request \<Rightarrow> string option"
  he_host :: "string \<Rightarrow> string option"
  he_buffer_body :: "'b \<Rightarrow> usize \<Rightarrow> duration \<Rightarrow> string + bytes"
  he_collect :: "duration \<Rightarrow> usize \<Rightarrow> 'b \<Rightarrow> (string + bytes) timed"

text \<open>Documented behaviour of those functions that properties below rely on, as named
  hypotheses: \<open>insert\<close> replaces a header and leaves the others; stripping connection headers
  leaves \<open>x-forwarded-host\<close> alone; the authority of a request is a valid header value, kept as
  it is; a body made from bytes knows its length.\<close>

definition header_laws :: "('h, 'b) http_env \<Rightarrow> bool" where
  "header_laws H \<longleftrightarrow>
     (\<forall>n v h. he_get H n (he_insert H n v h) = Some v) \<and>
     (\<forall>n m v h. n \<noteq> m \<longrightarrow> he_get H m (he_insert H n v h) = he_get H m h)"

definition strip_law :: "('h, 'b) http_env \<Rightarrow> bool" where
  "strip_law H \<longleftrightarrow>
     (\<forall>h. he_get H ''x-forwarded-host'' (he_strip H h) = he_get H ''x-forwarded-host'' h)"

definition authority_law :: "('h, 'b) http_env \<Rightarrow> bool" where
  "authority_law H \<longleftrightarrow>
     (\<forall>req a. he_authority H req = Some a \<longrightarrow> he_header_value H a = Some a)"

definition full_body_law :: "('h, 'b) http_env \<Rightarrow> bool" where
  "full_body_law H \<longleftrightarrow> (\<forall>bs. he_size_exact H (he_full_body H bs) = Some (of_nat (length bs)))"

text \<open>A body collected under a \<open>Limited\<close> is no longer than the limit.\<close>

definition collect_law :: "('h, 'b) http_env \<Rightarrow> bool" where
  "collect_law H \<longleftrightarrow>
     (\<forall>d limit b v. he_collect H d limit b = In_time (Inr v) \<longrightarrow> length v \<le> unat limit)"

subsection \<open>Status codes\<close>

abbreviation (input) OK :: status where "OK \<equiv> 200"
abbreviation (input) NO_CONTENT :: status where "NO_CONTENT \<equiv> 204"
abbreviation (input) BAD_REQUEST :: status where "BAD_REQUEST \<equiv> 400"
abbreviation (input) UNAUTHORIZED :: status where "UNAUTHORIZED \<equiv> 401"
abbreviation (input) REQUEST_TIMEOUT :: status where "REQUEST_TIMEOUT \<equiv> 408"
abbreviation (input) TOO_MANY_REQUESTS :: status where "TOO_MANY_REQUESTS \<equiv> 429"
abbreviation (input) INTERNAL_SERVER_ERROR :: status where "INTERNAL_SERVER_ERROR \<equiv> 500"
abbreviation (input) BAD_GATEWAY :: status where "BAD_GATEWAY \<equiv> 502"
abbreviation (input) SERVICE_UNAVAILABLE :: status where "SERVICE_UNAVAILABLE \<equiv> 503"
abbreviation (input) GATEWAY_TIMEOUT :: status where "GATEWAY_TIMEOUT \<equiv> 504"

definition is_success :: "status \<Rightarrow> bool" where
  "is_success s \<longleftrightarrow> 200 \<le> s \<and> s < 300"

text \<open>\<open>(status, text).into_response()\<close>: the given status, the text as body, no extension.\<close>

definition text_response :: "('h, 'b) http_env \<Rightarrow> status \<Rightarrow> string \<Rightarrow> ('h, 'b) response" where
  "text_response H s t =
     \<lparr>rs_status = s, rs_headers = he_text_headers H, rs_body = he_full_body H t,
      rs_error_cause = None, rs_retries = None\<rparr>"

subsection \<open>Error causes\<close>

text \<open>The messages of \<open>thiserror\<close>, the names \<open>strum\<close> derives in snake case, and the status of
  each cause.\<close>

fun error_display :: "error_cause \<Rightarrow> string" where
  "error_display (BackendRequestError e) = ''Backend request error: '' @ e"
| "error_display (BackendBodyError e) = ''Backend body error: '' @ e"
| "error_display BackendTimeout = ''Backend timeout''"
| "error_display NoAuthority = ''No authority''"
| "error_display ServiceNotReady = ''Service not ready''"
| "error_display NoHealthyBackends = ''No healthy backends available''"
| "error_display RequestBodyBufferTimeout = ''Timed out buffering the request body''"

fun error_name :: "error_cause \<Rightarrow> string" where
  "error_name (BackendRequestError _) = ''backend_request_error''"
| "error_name (BackendBodyError _) = ''backend_body_error''"
| "error_name BackendTimeout = ''backend_timeout''"
| "error_name NoAuthority = ''no_authority''"
| "error_name ServiceNotReady = ''service_not_ready''"
| "error_name NoHealthyBackends = ''no_healthy_backends''"
| "error_name RequestBodyBufferTimeout = ''request_body_buffer_timeout''"

fun error_status :: "error_cause \<Rightarrow> status" where
  "error_status (BackendRequestError _) = BAD_GATEWAY"
| "error_status (BackendBodyError _) = BAD_GATEWAY"
| "error_status BackendTimeout = GATEWAY_TIMEOUT"
| "error_status NoAuthority = BAD_REQUEST"
| "error_status ServiceNotReady = SERVICE_UNAVAILABLE"
| "error_status NoHealthyBackends = SERVICE_UNAVAILABLE"
| "error_status RequestBodyBufferTimeout = REQUEST_TIMEOUT"

definition into_response :: "('h, 'b) http_env \<Rightarrow> error_cause \<Rightarrow> ('h, 'b) response" where
  "into_response H e =
     (text_response H (error_status e) (error_display e))\<lparr>rs_error_cause := Some e\<rparr>"

lemma into_response_sel [simp]:
  "rs_status (into_response H e) = error_status e"
  "rs_body (into_response H e) = he_full_body H (error_display e)"
  "rs_error_cause (into_response H e) = Some e"
  "rs_retries (into_response H e) = None"
  "rs_headers (into_response H e) = he_text_headers H"
  by (simp_all add: into_response_def text_response_def)

lemma into_response_inj [simp]: "into_response H e = into_response H e' \<longleftrightarrow> e = e'"
  by (metis into_response_sel(3) option.inject)

lemma error_status_not_success [simp]: "\<not> is_success (error_status e)"
  by (cases e) (simp_all add: is_success_def)

lemma error_status_range: "400 \<le> error_status e \<and> error_status e < 600"
  by (cases e) simp_all

end
