(* ===== verification/Backend.thy ===== *)
theory Backend
  imports Http_Types
begin

section \<open>Backends: configuration, health checks and request execution\<close>

text \<open>
  The first half of \<open>src/backend.rs\<close>: the configuration as it is read from the file, a backend
  after preprocessing, the set-up of a \<open>BackendRouter\<close> from configured backends, the wait for
  the first health states, the health checker and the request executor.
  The \<open>BackendRouter\<close> itself belongs to \<open>ic-bn-lib\<close>: a router is represented by what the code
  passes to its constructor, with a serial number that tells two routers apart.
\<close>

subsection \<open>Configuration\<close>

text \<open>\<open>Strategy\<close> is an enum of \<open>ic-bn-lib\<close>; the code names one variant of it, the other ones reach
  the program by their name in a configuration file.\<close>

datatype strategy = LeastOutstandingRequests | Strategy_named string

record backend_conf =
  bc_name :: string
  bc_url :: url
  bc_enabled :: bool
  bc_weight :: usize

record config =
  cf_strategy :: strategy
  cf_backends :: "backend_conf list"
  cf_fallback :: "backend_conf list option"

definition config_default :: config where
  "config_default = \<lparr>cf_strategy = LeastOutstandingRequests, cf_backends = [], cf_fallback = None\<rparr>"

subsection \<open>Backends after preprocessing\<close>

record backend =
  be_name :: string
  be_url :: url
  be_uri_health :: uri

text \<open>\<open>Display\<close> of a backend is its name.\<close>

definition backend_display :: "backend \<Rightarrow> string" where
  "backend_display b = be_name b"

text \<open>\<open>From<BackendConf>\<close>: the health URI keeps scheme and authority of the URL and always has the
  path \<open>/health\<close>; a URL for which no such URI can be built panics (\<open>expect\<close>).\<close>

definition backend_from_conf :: "('h, 'b) http_env \<Rightarrow> backend_conf \<Rightarrow> backend outcome" where
  "backend_from_conf H v =
     (case he_uri_build H (url_scheme (bc_url v)) (url_authority (bc_url v)) ''/health'' of
        Inl _ \<Rightarrow> Panicked
      | Inr u \<Rightarrow> Done \<lparr>be_name = bc_name v, be_url = bc_url v, be_uri_health = u\<rparr>)"

text \<open>What \<open>BackendRouter::new\<close> is given: the backends with their weights, the request executor and
  the health checker over the shared client (the checker has the timeout), the strategy and the
  check interval.\<close>

record router =
  rt_id :: nat
  rt_backends :: "(backend \<times> usize) list"
  rt_strategy :: strategy
  rt_check_interval :: duration
  rt_check_timeout :: duration

definition setup_backend_router ::
  "('h, 'b) http_env \<Rightarrow> nat \<Rightarrow> backend_conf list \<Rightarrow> strategy \<Rightarrow> duration \<Rightarrow> duration \<Rightarrow> router outcome" where
  "setup_backend_router H serial backends strat check_interval check_timeout =
     and_then
       (collect_outcomes (\<lambda>x. let w = bc_weight x in
          and_then (backend_from_conf H x) (\<lambda>b. Done (b, w))) backends)
       (\<lambda>bs. Done \<lparr>rt_id = serial, rt_backends = bs, rt_strategy = strat,
          rt_check_interval = check_interval, rt_check_timeout = check_timeout\<rparr>)"

text \<open>A backend's name and its weight, on both sides of the conversion.\<close>

definition conf_entry :: "backend_conf \<Rightarrow> string \<times> url \<times> usize" where
  "conf_entry c = (bc_name c, bc_url c, bc_weight c)"

definition router_entry :: "backend \<times> usize \<Rightarrow> string \<times> url \<times> usize" where
  "router_entry p = (be_name (fst p), be_url (fst p), snd p)"

definition url_ok :: "('h, 'b) http_env \<Rightarrow> backend_conf \<Rightarrow> bool" where
  "url_ok H v \<longleftrightarrow>
     (\<exists>u. he_uri_build H (url_scheme (bc_url v)) (url_authority (bc_url v)) ''/health'' = Inr u)"

lemma backend_from_conf_not_Pending [simp]: "backend_from_conf H v \<noteq> Pending"
  by (simp add: backend_from_conf_def split: sum.splits)

lemma backend_from_conf_Panicked_iff: "backend_from_conf H v = Panicked \<longleftrightarrow> \<not> url_ok H v"
  by (auto simp: backend_from_conf_def url_ok_def split: sum.splits)

lemma backend_from_conf_Done_iff: "(\<exists>b. backend_from_conf H v = Done b) \<longleftrightarrow> url_ok H v"
  by (auto simp: backend_from_conf_def url_ok_def split: sum.splits)

lemma backend_from_conf_DoneD:
  "backend_from_conf H v = Done b \<Longrightarrow> be_name b = bc_name v \<and> be_url b = bc_url v"
  by (auto simp: backend_from_conf_def split: sum.splits)

lemma setup_backend_router_DoneD:
  assumes "setup_backend_router H n bcs st i t = Done r"
  shows "rt_id r = n" and "rt_strategy r = st" and "rt_check_interval r = i"
    and "rt_check_timeout r = t"
    and "map router_entry (rt_backends r) = map conf_entry bcs"
    and "\<forall>c \<in> set bcs. url_ok H c"
proof -
  obtain bs where bs: "collect_outcomes (\<lambda>x. let w = bc_weight x in
       and_then (backend_from_conf H x) (\<lambda>b. Done (b, w))) bcs = Done bs"
    and r: "r = \<lparr>rt_id = n, rt_backends = bs, rt_strategy = st, rt_check_interval = i,
       rt_check_timeout = t\<rparr>"
    using assms by (auto simp: setup_backend_router_def and_then_Done_iff)
  have all: "list_all2 (\<lambda>c p. backend_from_conf H c = Done (fst p) \<and> snd p = bc_weight c) bcs bs"
    using bs by (auto simp: collect_outcomes_Done_iff and_then_Done_iff elim!: list_all2_mono)
  then have "list_all2 (\<lambda>c p. conf_entry c = router_entry p) bcs bs"
    by (rule list_all2_mono) (auto simp: conf_entry_def router_entry_def dest: backend_from_conf_DoneD)
  then have "map router_entry bs = map conf_entry bcs"
    by (induction rule: list_all2_induct) auto
  with r show "map router_entry (rt_backends r) = map conf_entry bcs"
    by simp
  from all show "\<forall>c \<in> set bcs. url_ok H c"
    by (auto simp: list_all2_conv_all_nth in_set_conv_nth backend_from_conf_Done_iff [symmetric])
  show "rt_id r = n" "rt_strategy r = st" "rt_check_interval r = i" "rt_check_timeout r = t"
    by (simp_all add: r)
qed

lemma setup_backend_router_total:
  assumes "\<forall>c \<in> set bcs. url_ok H c"
  shows "\<exists>r. setup_backend_router H n bcs st i t = Done r"
proof -
  let ?g = "\<lambda>x. let w = bc_weight x in and_then (backend_from_conf H x) (\<lambda>b. Done (b, w))"
  have "\<exists>bs. collect_outcomes ?g bcs = Done bs"
    using assms by (induction bcs) (auto simp: Let_def backend_from_conf_Done_iff [symmetric])
  then show ?thesis
    by (auto simp: setup_backend_router_def)
qed

lemma setup_backend_router_Panicked:
  assumes "c \<in> set bcs" and "\<not> url_ok H c"
  shows "setup_backend_router H n bcs st i t = Panicked"
proof -
  have "collect_outcomes (\<lambda>x. let w = bc_weight x in
      and_then (backend_from_conf H x) (\<lambda>b. Done (b, w))) bcs = Panicked"
  proof (rule collect_outcomes_Panicked [where x = c])
    fix x
    show "(let w = bc_weight x in and_then (backend_from_conf H x) (\<lambda>b. Done (b, w))) \<noteq> Pending"
      by (cases "backend_from_conf H x") simp_all
  qed (use assms in \<open>simp_all add: backend_from_conf_Panicked_iff [symmetric]\<close>)
  then show ?thesis
    by (simp add: setup_backend_router_def)
qed

lemma setup_backend_router_not_Pending: "setup_backend_router H n bcs st i t \<noteq> Pending"
  using setup_backend_router_total setup_backend_router_Panicked
  by (metis outcome.distinct(3) outcome.distinct(5))

subsection \<open>Waiting for the first health states\<close>

datatype target_state = Unknown | Degraded | Healthy

text \<open>What the watch channel of a router shows its subscriber from the subscription on: a snapshot
  of the backends' states for each time \<open>changed()\<close> returns \<open>Ok\<close>, until the channel is closed
  (\<open>changed()\<close> returns \<open>Err\<close>) or nothing changes any more.\<close>

datatype watch =
    Changed "(backend \<times> target_state) list" watch
  | Closed
  | Silent

fun wait_healthchecks :: "watch \<Rightarrow> unit outcome" where
  "wait_healthchecks (Changed h rest) =
     (if list_all (\<lambda>x. snd x \<noteq> Unknown) h then Done () else wait_healthchecks rest)"
| "wait_healthchecks Closed = Done ()"
| "wait_healthchecks Silent = Pending"

fun watch_snapshots :: "watch \<Rightarrow> (backend \<times> target_state) list list" where
  "watch_snapshots (Changed h rest) = h # watch_snapshots rest"
| "watch_snapshots Closed = []"
| "watch_snapshots Silent = []"

fun watch_closes :: "watch \<Rightarrow> bool" where
  "watch_closes (Changed h rest) = watch_closes rest"
| "watch_closes Closed = True"
| "watch_closes Silent = False"

definition all_known :: "(backend \<times> target_state) list \<Rightarrow> bool" where
  "all_known h = list_all (\<lambda>x. snd x \<noteq> Unknown) h"

lemma wait_healthchecks_Done_iff:
  "wait_healthchecks w = Done () \<longleftrightarrow> (\<exists>h \<in> set (watch_snapshots w). all_known h) \<or> watch_closes w"
  by (induction w) (auto simp: all_known_def)

lemma wait_healthchecks_not_Panicked [simp]: "wait_healthchecks w \<noteq> Panicked"
  by (induction w) auto

lemma wait_healthchecks_Pending_iff:
  "wait_healthchecks w = Pending \<longleftrightarrow> wait_healthchecks w \<noteq> Done ()"
  using wait_healthchecks_not_Panicked [of w] by (cases "wait_healthchecks w") auto

subsection \<open>Health checks\<close>

text \<open>\<open>Request::builder().uri(u).body(Body::empty()).unwrap()\<close>: a \<open>GET\<close> over HTTP/1.1 by
  default.\<close>

definition no_extensions :: request_extensions where
  "no_extensions = \<lparr>ext_tls_info = None, ext_request_id = None, ext_remote_addr = None,
     ext_country_code = None\<rparr>"

definition health_request :: "('h, 'b) http_env \<Rightarrow> backend \<Rightarrow> ('h, 'b) request" where
  "health_request H target =
     \<lparr>rq_method = ''GET'', rq_uri = be_uri_health target, rq_version = HTTP_11,
      rq_headers = he_no_headers H, rq_body = he_empty_body H, rq_extensions = no_extensions\<rparr>"

text \<open>\<open>timed_execute d req\<close> is \<open>timeout(d, client.execute(req))\<close>.\<close>

definition check ::
  "('h, 'b) http_env \<Rightarrow> (duration \<Rightarrow> ('h, 'b) request \<Rightarrow> (string + ('h, 'b) response) timed) \<Rightarrow>
   duration \<Rightarrow> backend \<Rightarrow> target_state" where
  "check H timed_execute check_timeout target =
     (case timed_execute check_timeout (health_request H target) of
        In_time r \<Rightarrow>
          (case r of
             Inl e \<Rightarrow> Degraded
           | Inr res \<Rightarrow> if \<not> is_success (rs_status res) then Degraded else Healthy)
      | Elapsed \<Rightarrow> Degraded)"

subsection \<open>Executing a request on a backend\<close>

text \<open>The task-local request context: \<open>try_with\<close> does nothing outside its scope (\<open>None\<close>).\<close>

record request_context =
  rc_backend :: "backend option"
  rc_request_body_buffered :: bool
  rc_response_body_buffered :: bool

definition context_default :: request_context where
  "context_default =
     \<lparr>rc_backend = None, rc_request_body_buffered = False, rc_response_body_buffered = False\<rparr>"

type_synonym scope = "request_context option"

text \<open>The URI a request is sent to: scheme and authority of the backend, path and query of the
  request, or \<open>/\<close> when it has none.\<close>

definition request_path :: "('h, 'b) request \<Rightarrow> string" where
  "request_path req =
     (case uri_path_and_query (rq_uri req) of Some p \<Rightarrow> p | None \<Rightarrow> ''/'')"

text \<open>\<open>client\<close> is \<open>self.client.execute\<close>. The call has no time limit of its own in the code: its
  outcome may be that its await never completes (\<open>Pending\<close>), or that it panics. The backend is in
  the context before the call is made, whatever becomes of it.\<close>

definition executor_execute ::
  "('h, 'b) http_env \<Rightarrow> (('h, 'b) request \<Rightarrow> (string + ('h, 'b) response) outcome) \<Rightarrow>
   backend \<Rightarrow> scope \<Rightarrow> ('h, 'b) request \<Rightarrow> (string + ('h, 'b) response) outcome \<times> scope" where
  "executor_execute H client b ctx req =
     (let ctx' = map_option (\<lambda>c. c\<lparr>rc_backend := Some b\<rparr>) ctx in
      case he_uri_build H (url_scheme (be_url b)) (url_authority (be_url b)) (request_path req) of
        Inl e \<Rightarrow> (Done (Inl (he_uri_error H e)), ctx')
      | Inr u \<Rightarrow>
          (client (req\<lparr>rq_uri := u, rq_version := HTTP_11,
             rq_headers := he_strip H (rq_headers req)\<rparr>), ctx'))"

lemma executor_execute_scope:
  "snd (executor_execute H client b ctx req) = map_option (\<lambda>c. c\<lparr>rc_backend := Some b\<rparr>) ctx"
  by (simp add: executor_execute_def Let_def split: sum.splits)

subsection \<open>Executing a request on a router\<close>

text \<open>\<open>BackendRouter::execute\<close> selects one of its healthy backends and runs the executor it was
  given on it; \<open>lb n r ex ctx req\<close> is the outcome of the \<open>n\<close>-th call a handler makes.\<close>

datatype lb_error = No_Healthy_Nodes | Inner string

type_synonym ('h, 'b) executor =
  "backend \<Rightarrow> scope \<Rightarrow> ('h, 'b) request \<Rightarrow> (string + ('h, 'b) response) outcome \<times> scope"

type_synonym ('h, 'b) balancer =
  "nat \<Rightarrow> router \<Rightarrow> ('h, 'b) executor \<Rightarrow> scope \<Rightarrow> ('h, 'b) request \<Rightarrow>
   (lb_error + ('h, 'b) response) outcome \<times> scope"

text \<open>Its documented contract, as a named hypothesis: without a healthy backend it fails and does
  nothing; otherwise its outcome is the executor's on one of the router's backends, which need not
  complete.\<close>

definition wrap_executor ::
  "(string + 'r) outcome \<times> scope \<Rightarrow> (lb_error + 'r) outcome \<times> scope" where
  "wrap_executor p = (map_outcome (map_sum Inner id) (fst p), snd p)"

definition balancer_contract :: "('h, 'b) balancer \<Rightarrow> bool" where
  "balancer_contract lb \<longleftrightarrow>
     (\<forall>n r ex ctx req.
        lb n r ex ctx req = (Done (Inl No_Healthy_Nodes), ctx) \<or>
        (\<exists>p \<in> set (rt_backends r). lb n r ex ctx req = wrap_executor (ex (fst p) ctx req)))"

definition router_execute ::
  "('h, 'b) http_env \<Rightarrow> (nat \<Rightarrow> ('h, 'b) request \<Rightarrow> (string + ('h, 'b) response) outcome) \<Rightarrow>
   ('h, 'b) balancer \<Rightarrow> router \<Rightarrow>
   nat \<Rightarrow> scope \<Rightarrow> ('h, 'b) request \<Rightarrow> (lb_error + ('h, 'b) response) outcome \<times> scope" where
  "router_execute H client lb r n ctx req = lb n r (executor_execute H (client n)) ctx req"

lemma router_execute_cases:
  assumes "balancer_contract lb"
  obtains (none) "router_execute H client lb r n ctx req = (Done (Inl No_Healthy_Nodes), ctx)"
  | (some) b w where "(b, w) \<in> set (rt_backends r)"
      and "router_execute H client lb r n ctx req =
             wrap_executor (executor_execute H (client n) b ctx req)"
  using assms unfolding balancer_contract_def router_execute_def by (metis prod.collapse)

lemma router_execute_scope:
  assumes "balancer_contract lb"
  shows "snd (router_execute H client lb r n ctx req) = ctx \<or>
     (\<exists>p \<in> set (rt_backends r). snd (router_execute H client lb r n ctx req) =
        map_option (\<lambda>c. c\<lparr>rc_backend := Some (fst p)\<rparr>) ctx)"
proof (cases rule: router_execute_cases [OF assms, of H client r n ctx req])
  case (2 b w)
  then show ?thesis
    by (intro disjI2 bexI [of _ "(b, w)"]) (simp_all add: wrap_executor_def executor_execute_scope)
qed simp

text \<open>A call whose client call completes completes itself.\<close>

definition client_completes :: "(nat \<Rightarrow> ('h, 'b) request \<Rightarrow> (string + ('h, 'b) response) outcome) \<Rightarrow> bool" where
  "client_completes client \<longleftrightarrow> (\<forall>n req. \<exists>res. client n req = Done res)"

lemma executor_execute_Done:
  assumes "\<And>q. \<exists>res. client q = Done res"
  shows "\<exists>res. fst (executor_execute H client b ctx req) = Done res"
  using assms by (simp add: executor_execute_def Let_def split: sum.split)

lemma router_execute_Done:
  assumes "balancer_contract lb" and "client_completes client"
  shows "\<exists>res. fst (router_execute H client lb r n ctx req) = Done res"
proof (cases rule: router_execute_cases [OF assms(1), of H client r n ctx req])
  case (2 b w)
  obtain res where "fst (executor_execute H (client n) b ctx req) = Done res"
    using executor_execute_Done [of "client n"] assms(2) unfolding client_completes_def by blast
  with 2 show ?thesis
    by (simp add: wrap_executor_def)
qed simp

end
