(* ===== verification/Backend_Manager.thy ===== *)
theory Backend_Manager
  imports Backend "HOL-Library.Multiset"
begin

section \<open>The backend manager\<close>

text \<open>
  The second half of \<open>src/backend.rs\<close>: \<open>BackendManager\<close>, its two router slots, the operations
  that read, replace, persist and reload the configuration, and the task that reloads it on
  SIGHUP. This theory runs each operation to its end, as it behaves once it holds the
  configuration lock; \<open>Manager_Steps\<close> interleaves them.
  A router slot (an \<open>ArcSwapOption\<close>) is an interface, the locale \<open>router_slot\<close>; what
  \<open>update_router\<close> does to one is proved there once and interpreted for the main and for the
  fallback slot.
\<close>

subsection \<open>State\<close>

text \<open>The fields of \<open>BackendManager\<close> the model keeps; the shared HTTP client and the two metrics
  handles are only passed on.\<close>

record manager =
  bm_config_path :: string
  bm_router :: "router option"
  bm_router_fallback :: "router option"
  bm_check_interval :: duration
  bm_check_timeout :: duration
  bm_config :: config

definition manager_new :: "string \<Rightarrow> duration \<Rightarrow> duration \<Rightarrow> manager" where
  "manager_new config_path check_interval check_timeout =
     \<lparr>bm_config_path = config_path, bm_router = None, bm_router_fallback = None,
      bm_check_interval = check_interval, bm_check_timeout = check_timeout,
      bm_config = config_default\<rparr>"

text \<open>The manager together with what its operations change outside it: the file system, the number
  of routers constructed so far and the serial numbers of the routers stopped, latest first.\<close>

record sys =
  sy_manager :: manager
  sy_files :: "string \<Rightarrow> bytes option"
  sy_created :: nat
  sy_stopped :: "nat list"

text \<open>What the manager calls: the watch channel, the healthy backends and \<open>stop()\<close> of a router,
  the file system, and the YAML and JSON codecs of the configuration.\<close>

record ('h, 'b) mgr_env =
  me_http :: "('h, 'b) http_env"
  me_watch :: "router \<Rightarrow> watch"
  me_healthy :: "router \<Rightarrow> backend list"
  me_stop :: "router \<Rightarrow> unit outcome"
  me_read :: "string \<Rightarrow> (string \<Rightarrow> bytes option) \<Rightarrow> string + bytes"
  me_write :: "string \<Rightarrow> bytes \<Rightarrow> (string \<Rightarrow> bytes option) \<Rightarrow> (string + unit) \<times> (string \<Rightarrow> bytes option)"
  me_from_yaml :: "bytes \<Rightarrow> string + config"
  me_to_yaml :: "config \<Rightarrow> string + bytes"
  me_from_json :: "bytes \<Rightarrow> string + config"
  me_to_json_pretty :: "config \<Rightarrow> string + bytes"

text \<open>Documented behaviour some properties rely on: a file written successfully reads back as
  written and other files stay; what the YAML writer produces, the YAML reader accepts as the
  same configuration.\<close>

definition file_law :: "('h, 'b) mgr_env \<Rightarrow> bool" where
  "file_law E \<longleftrightarrow>
     (\<forall>p b fs fs'. me_write E p b fs = (Inr (), fs') \<longrightarrow>
        me_read E p fs' = Inr b \<and> (\<forall>q. q \<noteq> p \<longrightarrow> fs' q = fs q))"

definition yaml_law :: "('h, 'b) mgr_env \<Rightarrow> bool" where
  "yaml_law E \<longleftrightarrow> (\<forall>c y. me_to_yaml E c = Inr y \<longrightarrow> me_from_yaml E y = Inr c)"

subsection \<open>Creating, installing and stopping routers\<close>

definition create_backend_router ::
  "('h, 'b) mgr_env \<Rightarrow> backend_conf list \<Rightarrow> strategy \<Rightarrow> sys \<Rightarrow> (router \<times> sys) outcome" where
  "create_backend_router E backends strat s =
     and_then
       (setup_backend_router (me_http E) (sy_created s) backends strat
          (bm_check_interval (sy_manager s)) (bm_check_timeout (sy_manager s)))
       (\<lambda>r. Done (r, s\<lparr>sy_created := Suc (sy_created s)\<rparr>))"

definition stop_router :: "('h, 'b) mgr_env \<Rightarrow> router \<Rightarrow> sys \<Rightarrow> sys outcome" where
  "stop_router E v s =
     and_then (me_stop E v) (\<lambda>_. Done (s\<lparr>sy_stopped := rt_id v # sy_stopped s\<rparr>))"

text \<open>\<open>load\<close> and \<open>store\<close> stand for the \<open>ArcSwapOption\<close> the code passes.\<close>

definition update_router ::
  "('h, 'b) mgr_env \<Rightarrow> (manager \<Rightarrow> router option) \<Rightarrow> (router option \<Rightarrow> manager \<Rightarrow> manager) \<Rightarrow>
   backend_conf list \<Rightarrow> strategy \<Rightarrow> sys \<Rightarrow> sys outcome" where
  "update_router E load store backends strat s =
     and_then
       (if backends = [] then Done (None, s)
        else and_then (create_backend_router E backends strat s) (\<lambda>(r, s1).
               and_then (wait_healthchecks (me_watch E r)) (\<lambda>_. Done (Some r, s1))))
       (\<lambda>(router_new, s1).
          let router_old = load (sy_manager s1);
              s2 = s1\<lparr>sy_manager := store router_new (sy_manager s1)\<rparr>
          in case router_old of Some v \<Rightarrow> stop_router E v s2 | None \<Rightarrow> Done s2)"

definition store_main :: "router option \<Rightarrow> manager \<Rightarrow> manager" where
  "store_main r m = m\<lparr>bm_router := r\<rparr>"

definition store_fallback :: "router option \<Rightarrow> manager \<Rightarrow> manager" where
  "store_fallback r m = m\<lparr>bm_router_fallback := r\<rparr>"

definition enabled_backends :: "config \<Rightarrow> backend_conf list" where
  "enabled_backends c = filter bc_enabled (cf_backends c)"

definition fallback_list :: "config \<Rightarrow> backend_conf list" where
  "fallback_list c = (case cf_fallback c of Some l \<Rightarrow> l | None \<Rightarrow> [])"

definition enabled_fallback :: "config \<Rightarrow> backend_conf list" where
  "enabled_fallback c = filter bc_enabled (fallback_list c)"

definition apply_config :: "('h, 'b) mgr_env \<Rightarrow> sys \<Rightarrow> sys outcome" where
  "apply_config E s =
     (let config = bm_config (sy_manager s) in
      and_then
        (update_router E bm_router store_main (enabled_backends config) (cf_strategy config) s)
        (\<lambda>s1. update_router E bm_router_fallback store_fallback (enabled_fallback config)
                 (cf_strategy config) s1))"

subsection \<open>The operations\<close>

definition config_names :: "config \<Rightarrow> string list" where
  "config_names c = map bc_name (cf_backends c @ fallback_list c)"

definition with_config :: "config \<Rightarrow> sys \<Rightarrow> sys" where
  "with_config c s = s\<lparr>sy_manager := (sy_manager s)\<lparr>bm_config := c\<rparr>\<rparr>"

definition set_config ::
  "('h, 'b) mgr_env \<Rightarrow> config \<Rightarrow> sys \<Rightarrow> ((error + unit) \<times> sys) outcome" where
  "set_config E config_new s =
     (if \<not> distinct (config_names config_new)
      then Done (Inl [''Non-unique backend names''], s)
      else and_then (apply_config E (with_config config_new s)) (\<lambda>s1. Done (Inr (), s1)))"

definition load_config :: "('h, 'b) mgr_env \<Rightarrow> sys \<Rightarrow> ((error + unit) \<times> sys) outcome" where
  "load_config E s =
     (case me_read E (bm_config_path (sy_manager s)) (sy_files s) of
        Inl e \<Rightarrow> Done (Inl [''unable to read backends config'', e], s)
      | Inr cfg \<Rightarrow>
          (case me_from_yaml E cfg of
             Inl e \<Rightarrow> Done (Inl [''unable to parse backends config'', e], s)
           | Inr config \<Rightarrow> set_config E config s))"

definition get_config :: "sys \<Rightarrow> config" where
  "get_config s = bm_config (sy_manager s)"

definition persist_config :: "('h, 'b) mgr_env \<Rightarrow> sys \<Rightarrow> (error + unit) \<times> sys" where
  "persist_config E s =
     (case me_to_yaml E (bm_config (sy_manager s)) of
        Inl e \<Rightarrow> (Inl [''unable to serialize config to YAML'', e], s)
      | Inr yaml \<Rightarrow>
          (case me_write E (bm_config_path (sy_manager s)) yaml (sy_files s) of
             (Inl e, fs) \<Rightarrow> (Inl [''unable to save config to disk'', e], s\<lparr>sy_files := fs\<rparr>)
           | (Inr _, fs) \<Rightarrow> (Inr (), s\<lparr>sy_files := fs\<rparr>)))"

definition get_backend_router :: "(router \<Rightarrow> backend list) \<Rightarrow> manager \<Rightarrow> router option" where
  "get_backend_router healthy m =
     (case bm_router m of
        Some x \<Rightarrow> if healthy x \<noteq> [] then Some x else bm_router_fallback m
      | None \<Rightarrow> bm_router_fallback m)"

definition get_healthy_nodes :: "(router \<Rightarrow> backend list) \<Rightarrow> manager \<Rightarrow> backend list" where
  "get_healthy_nodes healthy m =
     (case bm_router m of Some x \<Rightarrow> healthy x | None \<Rightarrow> [])"

definition switch_backend :: "string \<Rightarrow> bool \<Rightarrow> config \<Rightarrow> config option" where
  "switch_backend name enabled c =
     map_option (\<lambda>bs. c\<lparr>cf_backends := bs\<rparr>)
       (update_first (\<lambda>x. bc_name x = name) (\<lambda>b. b\<lparr>bc_enabled := enabled\<rparr>) (cf_backends c))"

definition set_backend_state ::
  "('h, 'b) mgr_env \<Rightarrow> string \<Rightarrow> bool \<Rightarrow> sys \<Rightarrow> ((error + unit) \<times> sys) outcome" where
  "set_backend_state E name enabled s =
     (case switch_backend name enabled (bm_config (sy_manager s)) of
        None \<Rightarrow> Done (Inl [''Backend not found: '' @ name], s)
      | Some c \<Rightarrow> and_then (apply_config E (with_config c s)) (\<lambda>s1. Done (Inr (), s1)))"

text \<open>\<open>run\<close>: the events in the order \<open>select!\<close> takes them. A failed reload is logged and the task
  goes on; without a further event it waits.\<close>

datatype run_event = Token_cancelled | Hangup

fun run_loop :: "('h, 'b) mgr_env \<Rightarrow> run_event list \<Rightarrow> sys \<Rightarrow> ((error + unit) \<times> sys) outcome" where
  "run_loop E [] s = Pending"
| "run_loop E (Token_cancelled # es) s = Done (Inr (), s)"
| "run_loop E (Hangup # es) s =
     and_then (load_config E s) (\<lambda>(r, s1).
       case r of Inr _ \<Rightarrow> run_loop E es s1 | Inl e \<Rightarrow> run_loop E es s1)"

definition manager_run ::
  "('h, 'b) mgr_env \<Rightarrow> string + unit \<Rightarrow> run_event list \<Rightarrow> sys \<Rightarrow> ((error + unit) \<times> sys) outcome" where
  "manager_run E sig es s =
     (case with_context ''unable to listen for SIGHUP'' (case sig of Inl e \<Rightarrow> Inl [e] | Inr u \<Rightarrow> Inr u) of
        Inl e \<Rightarrow> Done (Inl e, s)
      | Inr _ \<Rightarrow> run_loop E es s)"

subsection \<open>Specification: slots that agree with the configuration\<close>

text \<open>\<open>slot_spec\<close>: what a slot should hold for the backends \<open>bcs\<close> that are to be served. \<open>in_sync\<close>:
  both slots hold it for the manager's own configuration.\<close>

definition slot_spec ::
  "duration \<Rightarrow> duration \<Rightarrow> strategy \<Rightarrow> backend_conf list \<Rightarrow> router option \<Rightarrow> bool" where
  "slot_spec interval tmo strat bcs ro =
     (case ro of
        None \<Rightarrow> bcs = []
      | Some r \<Rightarrow> bcs \<noteq> [] \<and> map router_entry (rt_backends r) = map conf_entry bcs \<and>
          rt_strategy r = strat \<and> rt_check_interval r = interval \<and> rt_check_timeout r = tmo)"

definition slot_ok :: "manager \<Rightarrow> backend_conf list \<Rightarrow> router option \<Rightarrow> bool" where
  "slot_ok m bcs ro =
     slot_spec (bm_check_interval m) (bm_check_timeout m) (cf_strategy (bm_config m)) bcs ro"

definition in_sync :: "manager \<Rightarrow> bool" where
  "in_sync m \<longleftrightarrow>
     slot_ok m (enabled_backends (bm_config m)) (bm_router m) \<and>
     slot_ok m (enabled_fallback (bm_config m)) (bm_router_fallback m)"

text \<open>\<open>accounted\<close>: every router ever constructed is, exactly once, either stopped or installed in a
  slot. \<open>all_ready\<close>: an installed router had reported its health states.\<close>

definition ids_of :: "router option \<Rightarrow> nat list" where
  "ids_of ro = (case ro of None \<Rightarrow> [] | Some r \<Rightarrow> [rt_id r])"

definition installed_ids :: "manager \<Rightarrow> nat list" where
  "installed_ids m = ids_of (bm_router m) @ ids_of (bm_router_fallback m)"

definition issued :: "nat \<Rightarrow> nat multiset" where
  "issued n = mset [0..<n]"

definition accounted :: "sys \<Rightarrow> bool" where
  "accounted s \<longleftrightarrow>
     mset (sy_stopped s) + mset (installed_ids (sy_manager s)) = issued (sy_created s)"

lemma issued_simps [simp]: "issued 0 = {#}" "issued (Suc n) = add_mset n (issued n)"
  by (simp_all add: issued_def)

text \<open>Two moves, one after the other, between stopped, first slot and second slot.\<close>

lemma moves_compose:
  fixes st st1 st2 :: "'a multiset"
  assumes "st1 + a1 = st + a + n1" and "st2 + b2 = st1 + b + n2" and "st + a + b = c"
  shows "st2 + a1 + b2 = c + n1 + n2"
proof -
  have "st2 + a1 + b2 = (st2 + b2) + a1"
    by (simp add: ac_simps)
  also have "\<dots> = (st1 + a1) + b + n2"
    using assms(2) by (simp add: ac_simps)
  also have "\<dots> = c + n1 + n2"
    using assms(1,3) by (simp add: ac_simps)
  finally show ?thesis .
qed

lemma set_issued [simp]: "set_mset (issued n) = {..<n}"
  by (auto simp: issued_def)

lemma count_issued [simp]: "count (issued n) i = (if i < n then 1 else 0)"
  by (induction n) auto

definition ready :: "('h, 'b) mgr_env \<Rightarrow> router option \<Rightarrow> bool" where
  "ready E ro = (case ro of None \<Rightarrow> True | Some r \<Rightarrow> wait_healthchecks (me_watch E r) = Done ())"

definition all_ready :: "('h, 'b) mgr_env \<Rightarrow> manager \<Rightarrow> bool" where
  "all_ready E m \<longleftrightarrow> ready E (bm_router m) \<and> ready E (bm_router_fallback m)"

text \<open>The invariant of the manager between two operations.\<close>

definition manager_inv :: "('h, 'b) mgr_env \<Rightarrow> sys \<Rightarrow> bool" where
  "manager_inv E s \<longleftrightarrow>
     distinct (config_names (bm_config (sy_manager s))) \<and> in_sync (sy_manager s) \<and>
     accounted s \<and> all_ready E (sy_manager s)"

definition sys_new :: "string \<Rightarrow> duration \<Rightarrow> duration \<Rightarrow> (string \<Rightarrow> bytes option) \<Rightarrow> sys" where
  "sys_new path interval tmo fs =
     \<lparr>sy_manager = manager_new path interval tmo, sy_files = fs, sy_created = 0, sy_stopped = []\<rparr>"

text \<open>The simplification sets of the proofs below.\<close>

lemmas slot_defs = slot_spec_def slot_ok_def in_sync_def
lemmas id_defs = ids_of_def installed_ids_def

lemma ids_of_simps [simp]: "ids_of None = []" "ids_of (Some r) = [rt_id r]"
  by (simp_all add: ids_of_def)

lemma ready_simps [simp]:
  "ready E None" "ready E (Some r) \<longleftrightarrow> wait_healthchecks (me_watch E r) = Done ()"
  by (simp_all add: ready_def)

lemma store_main_sel [simp]:
  "bm_router (store_main r m) = r"
  "bm_router_fallback (store_main r m) = bm_router_fallback m"
  "bm_config (store_main r m) = bm_config m"
  "bm_config_path (store_main r m) = bm_config_path m"
  "bm_check_interval (store_main r m) = bm_check_interval m"
  "bm_check_timeout (store_main r m) = bm_check_timeout m"
  by (simp_all add: store_main_def)

lemma store_fallback_sel [simp]:
  "bm_router_fallback (store_fallback r m) = r"
  "bm_router (store_fallback r m) = bm_router m"
  "bm_config (store_fallback r m) = bm_config m"
  "bm_config_path (store_fallback r m) = bm_config_path m"
  "bm_check_interval (store_fallback r m) = bm_check_interval m"
  "bm_check_timeout (store_fallback r m) = bm_check_timeout m"
  by (simp_all add: store_fallback_def)

lemma with_config_sel [simp]:
  "bm_config (sy_manager (with_config c s)) = c"
  "bm_router (sy_manager (with_config c s)) = bm_router (sy_manager s)"
  "bm_router_fallback (sy_manager (with_config c s)) = bm_router_fallback (sy_manager s)"
  "bm_config_path (sy_manager (with_config c s)) = bm_config_path (sy_manager s)"
  "bm_check_interval (sy_manager (with_config c s)) = bm_check_interval (sy_manager s)"
  "bm_check_timeout (sy_manager (with_config c s)) = bm_check_timeout (sy_manager s)"
  "sy_files (with_config c s) = sy_files s"
  "sy_created (with_config c s) = sy_created s"
  "sy_stopped (with_config c s) = sy_stopped s"
  by (simp_all add: with_config_def)

lemma create_backend_router_fresh:
  "create_backend_router E bcs st s = Done (r, s1) \<Longrightarrow>
     s1 = s\<lparr>sy_created := Suc (sy_created s)\<rparr> \<and> rt_id r = sy_created s"
  by (auto simp: create_backend_router_def and_then_Done_iff dest: setup_backend_router_DoneD)

lemma create_backend_router_spec:
  assumes "create_backend_router E bcs st s = Done (r, s1)"
  shows "bcs \<noteq> [] \<Longrightarrow> slot_spec (bm_check_interval (sy_manager s)) (bm_check_timeout (sy_manager s)) st
           bcs (Some r)"
    and "\<forall>c \<in> set bcs. url_ok (me_http E) c"
  using assms
  by (auto simp: create_backend_router_def and_then_Done_iff slot_spec_def
      dest: setup_backend_router_DoneD)

lemma stop_router_Done_iff:
  "stop_router E v s = Done s' \<longleftrightarrow>
     me_stop E v = Done () \<and> s' = s\<lparr>sy_stopped := rt_id v # sy_stopped s\<rparr>"
  by (auto simp: stop_router_def and_then_Done_iff)

subsection \<open>A router slot as an interface\<close>

text \<open>What \<open>update_router\<close> needs of a slot: what is stored is what is loaded, and storing touches
  none of the manager's settings.\<close>

locale router_slot =
  fixes load :: "manager \<Rightarrow> router option"
    and store :: "router option \<Rightarrow> manager \<Rightarrow> manager"
  assumes load_store [simp]: "load (store r m) = r"
    and store_config [simp]: "bm_config (store r m) = bm_config m"
    and store_path [simp]: "bm_config_path (store r m) = bm_config_path m"
    and store_interval [simp]: "bm_check_interval (store r m) = bm_check_interval m"
    and store_timeout [simp]: "bm_check_timeout (store r m) = bm_check_timeout m"
begin

lemma update_effect:
  assumes "update_router E load store bcs st s = Done s'"
  obtains ro where
    "sy_manager s' = store ro (sy_manager s)" and
    "slot_spec (bm_check_interval (sy_manager s)) (bm_check_timeout (sy_manager s)) st bcs ro" and
    "ready E ro" and
    "sy_files s' = sy_files s" and
    "sy_stopped s' = ids_of (load (sy_manager s)) @ sy_stopped s" and
    "issued (sy_created s') = issued (sy_created s) + mset (ids_of ro)"
proof -
  obtain ro s1 where new: "(if bcs = [] then Done (None, s)
        else and_then (create_backend_router E bcs st s) (\<lambda>(r, s1).
               and_then (wait_healthchecks (me_watch E r)) (\<lambda>_. Done (Some r, s1)))) = Done (ro, s1)"
    and old: "(case load (sy_manager s1) of
          Some v \<Rightarrow> stop_router E v (s1\<lparr>sy_manager := store ro (sy_manager s1)\<rparr>)
        | None \<Rightarrow> Done (s1\<lparr>sy_manager := store ro (sy_manager s1)\<rparr>)) = Done s'"
    using assms by (auto simp: update_router_def Let_def and_then_Done_iff)
  have s1: "s1 = s\<lparr>sy_created := sy_created s1\<rparr>"
    and ids: "issued (sy_created s1) = issued (sy_created s) + mset (ids_of ro)"
    using new by (auto simp: and_then_Done_iff split: if_splits
        dest!: create_backend_router_fresh)
  have spec: "slot_spec (bm_check_interval (sy_manager s)) (bm_check_timeout (sy_manager s)) st bcs ro"
    and rdy: "ready E ro"
    using new create_backend_router_spec(1) [of E bcs st s]
    by (auto simp: and_then_Done_iff slot_spec_def split: if_splits)
  have m1: "sy_manager s1 = sy_manager s" "sy_files s1 = sy_files s" "sy_stopped s1 = sy_stopped s"
    by (subst s1, simp)+
  show thesis
    by (rule that [OF _ spec rdy])
      (use old m1 ids in \<open>auto simp: stop_router_Done_iff split: option.splits\<close>)
qed

lemma update_installs:
  assumes "update_router E load store bcs st s = Done s'"
  shows "slot_spec (bm_check_interval (sy_manager s)) (bm_check_timeout (sy_manager s)) st bcs
           (load (sy_manager s'))"
    and "ready E (load (sy_manager s'))"
  using assms by (auto elim!: update_effect)

lemma update_frame:
  assumes "update_router E load store bcs st s = Done s'"
  shows "bm_config (sy_manager s') = bm_config (sy_manager s)"
    and "bm_config_path (sy_manager s') = bm_config_path (sy_manager s)"
    and "bm_check_interval (sy_manager s') = bm_check_interval (sy_manager s)"
    and "bm_check_timeout (sy_manager s') = bm_check_timeout (sy_manager s)"
    and "sy_files s' = sy_files s"
  using assms by (auto elim!: update_effect)

text \<open>The router taken out is stopped, the one put in is new: routers are moved, never lost.\<close>

lemma update_moves:
  assumes "update_router E load store bcs st s = Done s'"
  obtains new where "issued (sy_created s') = issued (sy_created s) + new"
    and "mset (sy_stopped s') + mset (ids_of (load (sy_manager s'))) =
           mset (sy_stopped s) + mset (ids_of (load (sy_manager s))) + new"
  using assms by (auto elim!: update_effect intro: that)

text \<open>The update goes through when every URL gives a health URI, the backends report their
  health and the old router stops.\<close>

lemma update_total:
  assumes "\<forall>c \<in> set bcs. url_ok (me_http E) c"
    and "\<And>r. wait_healthchecks (me_watch E r) = Done ()" and "\<And>r. me_stop E r = Done ()"
  shows "\<exists>s'. update_router E load store bcs st s = Done s'"
proof -
  have "\<exists>r. setup_backend_router (me_http E) (sy_created s) bcs st
     (bm_check_interval (sy_manager s)) (bm_check_timeout (sy_manager s)) = Done r"
    by (rule setup_backend_router_total [OF assms(1)])
  then show ?thesis
    using assms(2,3)
    by (auto simp: update_router_def create_backend_router_def stop_router_def Let_def
        split: option.splits)
qed

lemma update_panics:
  assumes "c \<in> set bcs" and "\<not> url_ok (me_http E) c"
  shows "update_router E load store bcs st s = Panicked"
  using assms setup_backend_router_Panicked [OF assms]
  by (auto simp: update_router_def create_backend_router_def)

end

text \<open>Two slots of one manager: storing into one leaves the other. Then updating the first and
  the second installs both and keeps the count of all routers.\<close>

locale router_slots =
  first: router_slot load1 store1 + second: router_slot load2 store2
  for load1 :: "manager \<Rightarrow> router option" and store1 :: "router option \<Rightarrow> manager \<Rightarrow> manager"
    and load2 :: "manager \<Rightarrow> router option" and store2 :: "router option \<Rightarrow> manager \<Rightarrow> manager" +
  assumes load2_store1 [simp]: "load2 (store1 r m) = load2 m"
    and load1_store2 [simp]: "load1 (store2 r m) = load1 m"
begin

lemma both_installed:
  assumes u1: "update_router E load1 store1 bcs1 st s = Done s1"
    and u2: "update_router E load2 store2 bcs2 st s1 = Done s'"
  shows "slot_spec (bm_check_interval (sy_manager s)) (bm_check_timeout (sy_manager s)) st bcs1
           (load1 (sy_manager s'))"
    and "slot_spec (bm_check_interval (sy_manager s)) (bm_check_timeout (sy_manager s)) st bcs2
           (load2 (sy_manager s'))"
    and "ready E (load1 (sy_manager s'))" and "ready E (load2 (sy_manager s'))"
proof -
  have keep: "load1 (sy_manager s') = load1 (sy_manager s1)"
    using u2 by (auto elim!: second.update_effect)
  show "slot_spec (bm_check_interval (sy_manager s)) (bm_check_timeout (sy_manager s)) st bcs1
           (load1 (sy_manager s'))" "ready E (load1 (sy_manager s'))"
    using first.update_installs [OF u1] keep by simp_all
  show "slot_spec (bm_check_interval (sy_manager s)) (bm_check_timeout (sy_manager s)) st bcs2
           (load2 (sy_manager s'))" "ready E (load2 (sy_manager s'))"
    using second.update_installs [OF u2] first.update_frame [OF u1] by simp_all
qed

lemma both_accounted:
  assumes u1: "update_router E load1 store1 bcs1 st s = Done s1"
    and u2: "update_router E load2 store2 bcs2 st s1 = Done s'"
    and acc: "mset (sy_stopped s) + mset (ids_of (load1 (sy_manager s))) +
                mset (ids_of (load2 (sy_manager s))) = issued (sy_created s)"
  shows "mset (sy_stopped s') + mset (ids_of (load1 (sy_manager s'))) +
           mset (ids_of (load2 (sy_manager s'))) = issued (sy_created s')"
proof -
  have keep1: "load2 (sy_manager s1) = load2 (sy_manager s)"
    using u1 by (auto elim!: first.update_effect)
  have keep2: "load1 (sy_manager s') = load1 (sy_manager s1)"
    using u2 by (auto elim!: second.update_effect)
  obtain n1 where n1: "issued (sy_created s1) = issued (sy_created s) + n1"
    "mset (sy_stopped s1) + mset (ids_of (load1 (sy_manager s1))) =
       mset (sy_stopped s) + mset (ids_of (load1 (sy_manager s))) + n1"
    by (rule first.update_moves [OF u1])
  obtain n2 where n2: "issued (sy_created s') = issued (sy_created s1) + n2"
    "mset (sy_stopped s') + mset (ids_of (load2 (sy_manager s'))) =
       mset (sy_stopped s1) + mset (ids_of (load2 (sy_manager s1))) + n2"
    by (rule second.update_moves [OF u2])
  show ?thesis
    using moves_compose [OF n1(2) n2(2) [unfolded keep1] acc] n1(1) n2(1) keep2 by simp
qed

end

interpretation main_slot: router_slot bm_router store_main
  by unfold_locales simp_all

interpretation fallback_slot: router_slot bm_router_fallback store_fallback
  by unfold_locales simp_all

interpretation slots: router_slots bm_router store_main bm_router_fallback store_fallback
  by unfold_locales simp_all

end
