(* ===== verification/Cli.thy ===== *)
theory Cli
  imports Lb_Prelude
begin

section \<open>Command line\<close>

text \<open>
  The argument structs of \<open>src/cli.rs\<close> with their default values and the constraints their
  \<open>clap\<close> attributes declare. Addresses, paths, host names and networks are kept as text. The
  flattened argument groups of \<open>ic-bn-lib\<close> are represented by the fields this program reads of
  them. The parsers \<open>parse_duration\<close> (of \<open>humantime\<close>) and \<open>parse_size_usize\<close> (of \<open>ic-bn-lib\<close>)
  are parameters.
\<close>

record cli_parsers =
  parse_duration :: "string \<Rightarrow> duration"
  parse_size_usize :: "string \<Rightarrow> usize"

record listen_args =
  listen_http :: string
  listen_https :: string
  listen_metrics :: "string option"
  listen_insecure_serve_http_only :: bool

record network_args =
  network_http_client_count :: "16 word"
  network_http_client_insecure_bypass_tls_verification :: bool
  network_request_body_buffer :: bool
  network_response_body_buffer :: bool
  network_trust_x_request_id_from :: "string list"
  network_trust_x_real_ip_from :: "string list"

record api_args =
  api_listen :: "string option"
  api_hostname :: "string option"
  api_token :: "string option"
  api_acme :: bool
  api_acme_url :: string
  api_acme_cache :: "string option"
  api_acme_account_credentials :: "string option"

record health_args =
  health_check_interval :: duration
  health_check_timeout :: duration

record cert_args =
  cert_provider_file :: "string list"
  cert_provider_dir :: "string list"
  cert_provider_poll_interval :: duration
  cert_default :: "string option"

record config_args =
  config_path :: string

record retry_args =
  retry_attempts :: u8
  retry_interval :: duration

record limits_args =
  limits_request_body_size :: usize
  limits_request_body_timeout :: duration
  limits_response_body_size :: usize
  limits_response_body_timeout :: duration

datatype level = ERROR | WARN | INFO | DEBUG | TRACE

record log_args =
  log_level :: level
  log_stdout :: bool
  log_requests :: bool
  log_requests_long :: "duration option"
  log_vector_url :: "string option"

record misc_args =
  misc_env :: string
  misc_hostname :: string
  misc_geoip_db :: "string option"
  misc_threads :: "usize option"

text \<open>\<open>sev_snp_enable\<close> exists in builds with the feature \<open>sev-snp\<close> on Linux only; in the others it
  is \<open>False\<close> here.\<close>

record cli =
  cli_config :: config_args
  cli_listen :: listen_args
  cli_network :: network_args
  cli_limits :: limits_args
  cli_retry :: retry_args
  cli_api :: api_args
  cli_health :: health_args
  cli_custom_domains :: bool
  cli_cert :: cert_args
  cli_log :: log_args
  cli_waf_enable :: bool
  cli_sev_snp_enable :: bool
  cli_misc :: misc_args

subsection \<open>Declared constraints\<close>

text \<open>\<open>value_parser!(..).range(1..)\<close> and \<open>requires\<close>: what \<open>clap\<close> refuses before the program runs.\<close>

definition network_accepted :: "network_args \<Rightarrow> bool" where
  "network_accepted n \<longleftrightarrow> 1 \<le> network_http_client_count n"

definition api_accepted :: "api_args \<Rightarrow> bool" where
  "api_accepted a \<longleftrightarrow>
     (api_listen a \<noteq> None \<longrightarrow> api_token a \<noteq> None) \<and>
     (api_hostname a \<noteq> None \<longrightarrow> api_token a \<noteq> None) \<and>
     (api_acme a \<longrightarrow> api_acme_cache a \<noteq> None)"

definition retry_accepted :: "retry_args \<Rightarrow> bool" where
  "retry_accepted r \<longleftrightarrow> 1 \<le> retry_attempts r"

definition cli_accepted :: "cli \<Rightarrow> bool" where
  "cli_accepted c \<longleftrightarrow>
     network_accepted (cli_network c) \<and> api_accepted (cli_api c) \<and> retry_accepted (cli_retry c)"

subsection \<open>Defaults\<close>

definition listen_default :: listen_args where
  "listen_default = \<lparr>listen_http = ''127.0.0.1:8080'', listen_https = ''127.0.0.1:8443'',
     listen_metrics = None, listen_insecure_serve_http_only = False\<rparr>"

definition network_default :: network_args where
  "network_default = \<lparr>network_http_client_count = 16,
     network_http_client_insecure_bypass_tls_verification = False,
     network_request_body_buffer = False, network_response_body_buffer = False,
     network_trust_x_request_id_from = [], network_trust_x_real_ip_from = []\<rparr>"

definition api_default :: api_args where
  "api_default = \<lparr>api_listen = None, api_hostname = None, api_token = None, api_acme = False,
     api_acme_url = ''le_stag'', api_acme_cache = None, api_acme_account_credentials = None\<rparr>"

definition health_default :: "cli_parsers \<Rightarrow> health_args" where
  "health_default P = \<lparr>health_check_interval = parse_duration P ''1s'',
     health_check_timeout = parse_duration P ''10s''\<rparr>"

definition cert_defaults :: "cli_parsers \<Rightarrow> cert_args" where
  "cert_defaults P = \<lparr>cert_provider_file = [], cert_provider_dir = [],
     cert_provider_poll_interval = parse_duration P ''5s'', cert_default = None\<rparr>"

definition retry_default :: "cli_parsers \<Rightarrow> retry_args" where
  "retry_default P = \<lparr>retry_attempts = 1, retry_interval = parse_duration P ''50ms''\<rparr>"

definition limits_default :: "cli_parsers \<Rightarrow> limits_args" where
  "limits_default P = \<lparr>limits_request_body_size = parse_size_usize P ''10MB'',
     limits_request_body_timeout = parse_duration P ''30s'',
     limits_response_body_size = parse_size_usize P ''30MB'',
     limits_response_body_timeout = parse_duration P ''60s''\<rparr>"

definition log_default :: log_args where
  "log_default = \<lparr>log_level = WARN, log_stdout = False, log_requests = False,
     log_requests_long = None, log_vector_url = None\<rparr>"

definition misc_default :: "string \<Rightarrow> misc_args" where
  "misc_default host = \<lparr>misc_env = ''dev'', misc_hostname = host, misc_geoip_db = None,
     misc_threads = None\<rparr>"

text \<open>The command line that gives nothing but the required configuration path.\<close>

definition cli_default :: "cli_parsers \<Rightarrow> string \<Rightarrow> string \<Rightarrow> cli" where
  "cli_default P host path =
     \<lparr>cli_config = \<lparr>config_path = path\<rparr>, cli_listen = listen_default, cli_network = network_default,
      cli_limits = limits_default P, cli_retry = retry_default P, cli_api = api_default,
      cli_health = health_default P, cli_custom_domains = False, cli_cert = cert_defaults P,
      cli_log = log_default, cli_waf_enable = False, cli_sev_snp_enable = False,
      cli_misc = misc_default host\<rparr>"

lemma cli_default_accepted: "cli_accepted (cli_default P host path)"
  by (simp add: cli_accepted_def cli_default_def network_accepted_def network_default_def
      api_accepted_def api_default_def retry_accepted_def retry_default_def)

lemma retry_accepted_pos: "retry_accepted r \<longleftrightarrow> retry_attempts r \<noteq> 0"
  by (simp add: retry_accepted_def word_le_nat_alt Suc_le_eq unat_gt_0)

end
