(* ===== verification/Routing.thy ===== *)
theory Routing
  imports Backend_Manager Cli
begin

section \<open>Routing: buffering, retries and the request handler\<close>

text \<open>
  \<open>src/routing.rs\<close>: the handler that sends a request to a backend, the buffering of bodies around
  it, its retry loop, and the top-level dispatch between the API and the handler. A handler's
  outcome is its response, the request context it leaves, and the trace of what it did: the
  requests it executed and the times it slept, in order.
\<close>

subsection \<open>State\<close>

record handler_state =
  hs_request_body_buffer :: bool
  hs_request_body_size_limit :: usize
  hs_request_body_timeout :: duration
  hs_response_body_buffer :: bool
  hs_response_body_size_limit :: usize
  hs_response_body_timeout :: duration
  hs_retry_attempts :: u8
  hs_retry_interval :: duration
  hs_retry_interval_no_healthy_nodes :: duration

text \<open>\<open>quarter\<close> is \<open>div_f64(4.0)\<close>, a floating-point division.\<close>

definition handler_state_of :: "(duration \<Rightarrow> duration) \<Rightarrow> cli \<Rightarrow> handler_state" where
  "handler_state_of quarter c =
     \<lparr>hs_request_body_buffer = network_request_body_buffer (cli_network c),
      hs_request_body_size_limit = limits_request_body_size (cli_limits c),
      hs_request_body_timeout = limits_request_body_timeout (cli_limits c),
      hs_response_body_buffer = network_response_body_buffer (cli_network c),
      hs_response_body_size_limit = limits_response_body_size (cli_limits c),
      hs_response_body_timeout = limits_response_body_timeout (cli_limits c),
      hs_retry_attempts = retry_attempts (cli_retry c),
      hs_retry_interval = retry_interval (cli_retry c),
      hs_retry_interval_no_healthy_nodes = quarter (health_check_interval (cli_health c))\<rparr>"

datatype ('h, 'b) event = Executed "('h, 'b) request" | Slept duration

type_synonym ('h, 'b) handled = "('h, 'b) response \<times> scope \<times> ('h, 'b) event list"

text \<open>\<open>backend_router.execute(request)\<close>, the \<open>n\<close>-th call of this handler: how it ends, and the
  request context it leaves.\<close>

type_synonym ('h, 'b) exec =
  "nat \<Rightarrow> scope \<Rightarrow> ('h, 'b) request \<Rightarrow> (lb_error + ('h, 'b) response) outcome \<times> scope"

subsection \<open>Buffering\<close>

text \<open>A size is small enough when it is known and at most the limit.\<close>

definition bufferable :: "('h, 'b) http_env \<Rightarrow> usize \<Rightarrow> 'b \<Rightarrow> bool" where
  "bufferable H limit body =
     (case he_size_exact H body of Some x \<Rightarrow> x \<le> limit | None \<Rightarrow> False)"

definition buffer_request ::
  "('h, 'b) http_env \<Rightarrow> handler_state \<Rightarrow> ('h, 'b) request \<Rightarrow> string + ('h, 'b) request \<times> bytes" where
  "buffer_request H hs req =
     (case he_buffer_body H (rq_body req) (hs_request_body_size_limit hs) (hs_request_body_timeout hs) of
        Inr v \<Rightarrow> Inr (req, v)
      | Inl e \<Rightarrow> Inl e)"

definition buffer_response ::
  "('h, 'b) http_env \<Rightarrow> handler_state \<Rightarrow> scope \<Rightarrow> ('h, 'b) response \<Rightarrow> ('h, 'b) response \<times> scope" where
  "buffer_response H hs ctx resp =
     (if \<not> hs_response_body_buffer hs then (resp, ctx)
      else if \<not> bufferable H (hs_response_body_size_limit hs) (rs_body resp) then (resp, ctx)
      else case he_collect H (hs_response_body_timeout hs) (hs_response_body_size_limit hs) (rs_body resp) of
             Elapsed \<Rightarrow> (into_response H BackendTimeout, ctx)
           | In_time r \<Rightarrow>
               (case r of
                  Inl e \<Rightarrow> (into_response H (BackendBodyError e), ctx)
                | Inr v \<Rightarrow> (resp\<lparr>rs_body := he_full_body H v\<rparr>,
                    map_option (\<lambda>c. c\<lparr>rc_response_body_buffered := True\<rparr>) ctx)))"

subsection \<open>The retry loop\<close>

text \<open>The error response of a failed attempt.\<close>

fun lb_cause :: "lb_error \<Rightarrow> error_cause" where
  "lb_cause No_Healthy_Nodes = NoHealthyBackends"
| "lb_cause (Inner e) = BackendRequestError e"

text \<open>The pause after a failed attempt, and the delay for the next: doubled after a request error
  (\<open>None\<close>: the multiplication overflows and panics), kept when no node was healthy.\<close>

fun pause :: "handler_state \<Rightarrow> duration \<Rightarrow> lb_error \<Rightarrow> duration" where
  "pause hs delay No_Healthy_Nodes = hs_retry_interval_no_healthy_nodes hs"
| "pause hs delay (Inner e) = delay"

fun next_delay :: "duration \<Rightarrow> lb_error \<Rightarrow> duration option" where
  "next_delay delay No_Healthy_Nodes = Some delay"
| "next_delay delay (Inner e) = duration_mul delay 2"

text \<open>The loop over \<open>retries\<close> (a \<open>u8\<close>) and \<open>delay\<close>; it awaits each call of the router, so it hangs
  with one that does not complete. It ends with an error response or with the
  response it breaks with and the \<open>retries\<close> left. \<open>checks\<close>: the build checks overflows.\<close>

type_synonym ('h, 'b) loop_result =
  "(('h, 'b) response + ('h, 'b) response \<times> u8) \<times> scope \<times> ('h, 'b) event list"

function retry_loop ::
  "('h, 'b) http_env \<Rightarrow> handler_state \<Rightarrow> bool \<Rightarrow> ('h, 'b) exec \<Rightarrow> ('h, 'b) request \<Rightarrow>
   nat \<Rightarrow> scope \<Rightarrow> u8 \<Rightarrow> duration \<Rightarrow> ('h, 'b) loop_result outcome" where
  "retry_loop H hs checks exec req n ctx retries delay =
     (case exec n ctx req of
        (Pending, ctx1) \<Rightarrow> Pending
      | (Panicked, ctx1) \<Rightarrow> Panicked
      | (Done (Inr v), ctx1) \<Rightarrow> Done (Inr (v, retries), ctx1, [Executed req])
      | (Done (Inl e), ctx1) \<Rightarrow>
          (case next_delay delay e of
             None \<Rightarrow> Panicked
           | Some delay1 \<Rightarrow>
               (case u8_dec checks retries of
                  None \<Rightarrow> Panicked
                | Some retries1 \<Rightarrow>
                    if retries1 = 0
                    then Done (Inl (into_response H (lb_cause e)), ctx1,
                           [Executed req, Slept (pause hs delay e)])
                    else and_then (retry_loop H hs checks exec req (Suc n) ctx1 retries1 delay1)
                           (\<lambda>(r, ctx2, tr). Done (r, ctx2, Executed req # Slept (pause hs delay e) # tr)))))"
  by pat_completeness auto

text \<open>The loop ends even for 0 attempts: the counter then wraps to 255 (or the build panics).\<close>

termination
  by (relation "measure (\<lambda>(H, hs, checks, exec, req, n, ctx, retries, delay). unat (retries - 1))")
    (auto dest!: u8_dec_SomeD simp: unat_u8_dec unat_u8_pos)

declare retry_loop.simps [simp del]

subsection \<open>The handler\<close>

definition x_forwarded_host :: string where
  "x_forwarded_host = ''x-forwarded-host''"

definition mark_request_buffered :: "scope \<Rightarrow> scope" where
  "mark_request_buffered ctx = map_option (\<lambda>c. c\<lparr>rc_request_body_buffered := True\<rparr>) ctx"

definition should_buffer :: "('h, 'b) http_env \<Rightarrow> handler_state \<Rightarrow> ('h, 'b) request \<Rightarrow> bool" where
  "should_buffer H hs req \<longleftrightarrow>
     bufferable H (hs_request_body_size_limit hs) (rq_body req) \<and>
     (hs_retry_attempts hs > 1 \<or> hs_request_body_buffer hs)"

definition handler ::
  "('h, 'b) http_env \<Rightarrow> handler_state \<Rightarrow> bool \<Rightarrow> (router \<Rightarrow> backend list) \<Rightarrow> manager \<Rightarrow>
   (router \<Rightarrow> ('h, 'b) exec) \<Rightarrow> scope \<Rightarrow> ('h, 'b) request \<Rightarrow> ('h, 'b) handled outcome" where
  "handler H hs checks healthy m execute ctx req =
     (case he_authority H req of
        None \<Rightarrow> Done (into_response H NoAuthority, ctx, [])
      | Some host \<Rightarrow>
     (case get_backend_router healthy m of
        None \<Rightarrow> Done (into_response H ServiceNotReady, ctx, [])
      | Some backend_router \<Rightarrow>
     (case he_header_value H host of
        None \<Rightarrow> Panicked
      | Some hv \<Rightarrow>
     (let req1 = req\<lparr>rq_headers := he_insert H x_forwarded_host hv (rq_headers req)\<rparr> in
      if \<not> should_buffer H hs req1
      then (case execute backend_router 0 ctx req1 of
              (Pending, ctx1) \<Rightarrow> Pending
            | (Panicked, ctx1) \<Rightarrow> Panicked
            | (Done (Inl e), ctx1) \<Rightarrow> Done (into_response H (lb_cause e), ctx1, [Executed req1])
            | (Done (Inr v), ctx1) \<Rightarrow>
                (case buffer_response H hs ctx1 v of
                   (resp, ctx2) \<Rightarrow> Done (resp, ctx2, [Executed req1])))
      else
     (case buffer_request H hs req1 of
        Inl _ \<Rightarrow> Done (into_response H RequestBodyBufferTimeout, ctx, [])
      | Inr (parts, body) \<Rightarrow>
          and_then
            (retry_loop H hs checks (execute backend_router)
               (parts\<lparr>rq_body := he_full_body H body\<rparr>) 0 (mark_request_buffered ctx)
               (hs_retry_attempts hs) (hs_retry_interval hs))
            (\<lambda>(res, ctx1, tr).
               case res of
                 Inl error_response \<Rightarrow> Done (error_response, ctx1, tr)
               | Inr (v, retries) \<Rightarrow>
                   (case buffer_response H hs ctx1
                           (v\<lparr>rs_retries := Some (hs_retry_attempts hs - retries)\<rparr>) of
                      (resp, ctx2) \<Rightarrow> Done (resp, ctx2, tr))))))))"

subsection \<open>Top-level dispatch\<close>

text \<open>The fallback of the router built by \<open>setup_axum_router\<close>: with the API enabled, a request for
  the API's host name goes to the API router, any other to the handler.\<close>

definition dispatch ::
  "('h, 'b) http_env \<Rightarrow> (('h, 'b) request \<Rightarrow> 'r) option \<Rightarrow> string option \<Rightarrow>
   (('h, 'b) request \<Rightarrow> 'r) \<Rightarrow> (('h, 'b) response \<Rightarrow> 'r) \<Rightarrow> ('h, 'b) request \<Rightarrow> 'r" where
  "dispatch H router_api api_host to_handler answer req =
     (case he_authority H req of
        None \<Rightarrow> answer (into_response H NoAuthority)
      | Some host \<Rightarrow>
          (case router_api of
             Some v \<Rightarrow>
               if (case (api_host, he_host H host) of (Some a, Some b) \<Rightarrow> a = b | _ \<Rightarrow> False)
               then v req else to_handler req
           | None \<Rightarrow> to_handler req))"

end
