(* ===== verification/Metrics_Cache.thy ===== *)
theory Metrics_Cache
  imports Http_Types
begin

section \<open>The metrics endpoint\<close>

text \<open>
  \<open>src/metrics.rs\<close>: the cached snapshot of the metrics, the task that refreshes it every five
  seconds and the handler that serves it. The jemalloc statistics, the registry's \<open>gather\<close> and
  the text encoder are arguments, in the record \<open>runner_env\<close>: what \<open>gather\<close> sees of this program
  are the two memory gauges, and \<open>tick\<close> stands for everything else that changes between updates.
\<close>

definition prometheus_content_type :: string where
  "prometheus_content_type = ''text/plain; version=0.0.4''"

record runner =
  mr_buffer :: bytes
  mr_mem_allocated :: int
  mr_mem_resident :: int

definition runner_new :: runner where
  "runner_new = \<lparr>mr_buffer = [], mr_mem_allocated = 0, mr_mem_resident = 0\<rparr>"

record runner_env =
  re_epoch_advance :: "nat \<Rightarrow> string + unit"
  re_allocated :: "nat \<Rightarrow> string + usize"
  re_resident :: "nat \<Rightarrow> string + usize"
  re_encode :: "nat \<Rightarrow> int \<Rightarrow> int \<Rightarrow> error + bytes"

definition update :: "runner_env \<Rightarrow> nat \<Rightarrow> runner \<Rightarrow> (error + unit) \<times> runner" where
  "update R tick s =
     (case re_epoch_advance R tick of
        Inl e \<Rightarrow> (Inl [''unable to advance epoch: '' @ e], s)
      | Inr _ \<Rightarrow>
     (case re_allocated R tick of
        Inl e \<Rightarrow> (Inl [''unable to read stats: '' @ e], s)
      | Inr a \<Rightarrow>
     (let s1 = s\<lparr>mr_mem_allocated := u64_as_i64 a\<rparr> in
      case re_resident R tick of
        Inl e \<Rightarrow> (Inl [''unable to read stats: '' @ e], s1)
      | Inr r \<Rightarrow>
     (let s2 = s1\<lparr>mr_mem_resident := u64_as_i64 r\<rparr> in
      case re_encode R tick (mr_mem_allocated s2) (mr_mem_resident s2) of
        Inl e \<Rightarrow> (Inl e, s2)
      | Inr b \<Rightarrow> (Inr (), s2\<lparr>mr_buffer := b\<rparr>)))))"

text \<open>\<open>run\<close> logs an error and succeeds.\<close>

definition runner_run :: "runner_env \<Rightarrow> nat \<Rightarrow> runner \<Rightarrow> (error + unit) \<times> runner" where
  "runner_run R tick s = (case update R tick s of (Inl e, s1) \<Rightarrow> (Inr (), s1) | (Inr _, s1) \<Rightarrow> (Inr (), s1))"

fun runner_runs :: "runner_env \<Rightarrow> nat list \<Rightarrow> runner \<Rightarrow> runner" where
  "runner_runs R [] s = s"
| "runner_runs R (t # ts) s = runner_runs R ts (snd (runner_run R t s))"

definition metrics_handler :: "('h, 'b) http_env \<Rightarrow> runner \<Rightarrow> ('h, 'b) response" where
  "metrics_handler H s =
     \<lparr>rs_status = OK, rs_headers = he_insert H ''content-type'' prometheus_content_type (he_no_headers H),
      rs_body = he_full_body H (mr_buffer s), rs_error_cause = None, rs_retries = None\<rparr>"

subsection \<open>What is served\<close>

lemma update_cases:
  obtains (failed) e s1 where "update R tick s = (Inl e, s1)" "mr_buffer s1 = mr_buffer s"
  | (updated) a r b where "re_allocated R tick = Inr a" "re_resident R tick = Inr r"
      "re_encode R tick (u64_as_i64 a) (u64_as_i64 r) = Inr b"
      "update R tick s = (Inr (), \<lparr>mr_buffer = b, mr_mem_allocated = u64_as_i64 a,
         mr_mem_resident = u64_as_i64 r\<rparr>)"
proof -
  have "(\<exists>e s1. update R tick s = (Inl e, s1) \<and> mr_buffer s1 = mr_buffer s) \<or>
    (\<exists>a r b. re_allocated R tick = Inr a \<and> re_resident R tick = Inr r \<and>
       re_encode R tick (u64_as_i64 a) (u64_as_i64 r) = Inr b \<and>
       update R tick s = (Inr (), \<lparr>mr_buffer = b, mr_mem_allocated = u64_as_i64 a,
         mr_mem_resident = u64_as_i64 r\<rparr>))"
    by (cases s) (auto simp: update_def Let_def split: sum.split)
  then show ?thesis
    using failed updated by blast
qed

definition succeeds :: "runner_env \<Rightarrow> nat \<Rightarrow> bool" where
  "succeeds R tick = (case update R tick runner_new of (Inl _, _) \<Rightarrow> False | (Inr _, _) \<Rightarrow> True)"

definition snapshot :: "runner_env \<Rightarrow> nat \<Rightarrow> bytes" where
  "snapshot R tick = mr_buffer (snd (update R tick runner_new))"

lemma update_independent:
  "fst (update R tick s) = fst (update R tick s')"
  "succeeds R tick \<Longrightarrow> snd (update R tick s) = snd (update R tick s')"
  by (cases s; cases s'; auto simp: update_def succeeds_def Let_def split: sum.splits)+

lemma runner_run_buffer:
  "mr_buffer (snd (runner_run R tick s)) = (if succeeds R tick then snapshot R tick else mr_buffer s)"
proof (cases rule: update_cases [of R tick s])
  case (failed e s1)
  then have "\<not> succeeds R tick"
    using update_independent(1) [of R tick s runner_new]
    by (auto simp: succeeds_def split: prod.splits sum.splits)
  with failed show ?thesis
    by (simp add: runner_run_def)
next
  case (updated a r b)
  then have "succeeds R tick"
    using update_independent(1) [of R tick s runner_new]
    by (auto simp: succeeds_def split: prod.splits sum.splits)
  with updated update_independent(2) [of R tick s runner_new] show ?thesis
    by (simp add: runner_run_def snapshot_def)
qed

lemma runner_runs_buffer:
  "mr_buffer (runner_runs R ts s) =
     (case filter (succeeds R) (rev ts) of [] \<Rightarrow> mr_buffer s | t # _ \<Rightarrow> snapshot R t)"
proof (induction ts arbitrary: s)
  case (Cons t ts)
  then show ?case
    by (cases "filter (succeeds R) (rev ts)") (simp_all add: runner_run_buffer)
qed simp

text \<open>The endpoint serves the snapshot of the last update that succeeded, whatever failed before
  or since, and an empty body as long as none has; a failed update never stops the task.\<close>

lemma metrics_serve_last_snapshot:
  "rs_body (metrics_handler H (runner_runs R ts runner_new)) =
     he_full_body H (case filter (succeeds R) (rev ts) of [] \<Rightarrow> [] | t # _ \<Rightarrow> snapshot R t) \<and>
   fst (runner_run R t s) = Inr ()"
proof -
  have "mr_buffer runner_new = []"
    by (simp add: runner_new_def)
  then show ?thesis
    by (auto simp: metrics_handler_def runner_runs_buffer runner_run_def
        split: sum.split prod.split list.split)
qed

end
