(* ===== verification/Metrics_Setup.thy ===== *)
theory Metrics_Setup
  imports Metrics_Cache
begin

section \<open>Metrics: registration and the endpoint's set-up\<close>

text \<open>
  What \<open>Metrics::new\<close> of \<open>src/middleware/metrics.rs\<close> and \<open>MetricsRunner::new\<close> and \<open>setup\<close> of
  \<open>src/metrics.rs\<close> register: \<open>unwrap\<close> panics when a registration is refused. The registry belongs to
  the crate \<open>prometheus\<close>: it is an argument, \<open>registry_law\<close> states its documented behaviour. Bounds
  of buckets are in milliseconds.
\<close>

subsection \<open>Registration\<close>

datatype metric_kind = Int_gauge | Int_counter_vec | Histogram_vec "nat list"

record metric_desc =
  md_name :: string
  md_help :: string
  md_kind :: metric_kind
  md_labels :: "string list"

definition LABELS_HTTP :: "string list" where
  "LABELS_HTTP = [''tls'', ''method'', ''http'', ''status'', ''backend'', ''retried'']"

definition HTTP_DURATION_BUCKETS :: "nat list" where
  "HTTP_DURATION_BUCKETS = [50, 200, 1000, 2000]"

definition requests_desc :: metric_desc where
  "requests_desc = \<lparr>md_name = ''http_requests'', md_help = ''Counts occurrences of requests'',
     md_kind = Int_counter_vec, md_labels = LABELS_HTTP\<rparr>"

definition duration_desc :: metric_desc where
  "duration_desc = \<lparr>md_name = ''http_requests_duration_sec'',
     md_help = ''Records the duration of request processing in seconds'',
     md_kind = Histogram_vec HTTP_DURATION_BUCKETS, md_labels = LABELS_HTTP\<rparr>"

definition mem_allocated_desc :: metric_desc where
  "mem_allocated_desc = \<lparr>md_name = ''memory_allocated'', md_help = ''Allocated memory in bytes'',
     md_kind = Int_gauge, md_labels = []\<rparr>"

definition mem_resident_desc :: metric_desc where
  "mem_resident_desc = \<lparr>md_name = ''memory_resident'', md_help = ''Resident memory in bytes'',
     md_kind = Int_gauge, md_labels = []\<rparr>"

text \<open>\<open>ge_register\<close>: the \<open>register_..._with_registry\<close> macros; \<open>ge_names\<close>: the names taken.\<close>

record 'r registry_env =
  ge_register :: "metric_desc \<Rightarrow> 'r \<Rightarrow> string + 'r"
  ge_names :: "'r \<Rightarrow> string set"

text \<open>A descriptor the crate accepts: a help text, distinct labels, and for a histogram strictly
  increasing bounds and no label \<open>le\<close>.\<close>

fun kind_ok :: "metric_kind \<Rightarrow> string list \<Rightarrow> bool" where
  "kind_ok (Histogram_vec bounds) labels = (sorted_wrt (<) bounds \<and> ''le'' \<notin> set labels)"
| "kind_ok _ labels = True"

definition desc_ok :: "metric_desc \<Rightarrow> bool" where
  "desc_ok d \<longleftrightarrow> md_help d \<noteq> [] \<and> distinct (md_labels d) \<and> kind_ok (md_kind d) (md_labels d)"

definition registry_law :: "'r registry_env \<Rightarrow> bool" where
  "registry_law G \<longleftrightarrow>
     (\<forall>d r. case ge_register G d r of
        Inl _ \<Rightarrow> md_name d \<in> ge_names G r \<or> \<not> desc_ok d
      | Inr r' \<Rightarrow> md_name d \<notin> ge_names G r \<and> ge_names G r' = insert (md_name d) (ge_names G r))"

text \<open>\<open>register_...!(..).unwrap()\<close>.\<close>

definition register_unwrap :: "'r registry_env \<Rightarrow> metric_desc \<Rightarrow> 'r \<Rightarrow> (metric_desc \<times> 'r) outcome" where
  "register_unwrap G d r = (case ge_register G d r of Inl _ \<Rightarrow> Panicked | Inr r' \<Rightarrow> Done (d, r'))"

text \<open>\<open>Metrics\<close>: the two vectors the middleware records into.\<close>

record metrics =
  me_requests :: metric_desc
  me_duration :: metric_desc

definition metrics_new :: "'r registry_env \<Rightarrow> 'r \<Rightarrow> (metrics \<times> 'r) outcome" where
  "metrics_new G r =
     and_then (register_unwrap G requests_desc r) (\<lambda>(requests, r1).
     and_then (register_unwrap G duration_desc r1) (\<lambda>(duration, r2).
       Done (\<lparr>me_requests = requests, me_duration = duration\<rparr>, r2)))"

text \<open>\<open>MetricsRunner::new\<close> with the empty \<open>MetricsCache\<close>.\<close>

definition metrics_runner_new :: "'r registry_env \<Rightarrow> 'r \<Rightarrow> (runner \<times> 'r) outcome" where
  "metrics_runner_new G r =
     and_then (register_unwrap G mem_allocated_desc r) (\<lambda>(_, r1).
     and_then (register_unwrap G mem_resident_desc r1) (\<lambda>(_, r2). Done (runner_new, r2)))"

subsection \<open>The endpoint\<close>

text \<open>\<open>setup\<close>: the runner every five seconds, one route, and the encodings of the compression
  layer.\<close>

record metrics_endpoint =
  ep_runner :: runner
  ep_path :: string
  ep_methods :: "string list"
  ep_encodings :: "string list"

definition metrics_setup ::
  "'r registry_env \<Rightarrow> 'r \<Rightarrow> (string \<times> duration) list \<Rightarrow>
   (metrics_endpoint \<times> (string \<times> duration) list \<times> 'r) outcome" where
  "metrics_setup G r tasks =
     and_then (metrics_runner_new G r) (\<lambda>(runner, r1).
       Done (\<lparr>ep_runner = runner, ep_path = ''/metrics'', ep_methods = [''GET'', ''HEAD''],
                ep_encodings = [''gzip'', ''br'', ''zstd'', ''deflate'']\<rparr>,
             tasks @ [(''metrics_runner'', 5 * 10 ^ 9)], r1))"

lemma register_unwrap_cases:
  assumes "registry_law G" and "desc_ok d"
  shows "register_unwrap G d r = Panicked \<longleftrightarrow> md_name d \<in> ge_names G r"
    and "register_unwrap G d r \<noteq> Pending"
    and "register_unwrap G d r = Done (d', r') \<Longrightarrow>
      d' = d \<and> md_name d \<notin> ge_names G r \<and> ge_names G r' = insert (md_name d) (ge_names G r)"
proof -
  have law: "case ge_register G d r of
        Inl _ \<Rightarrow> md_name d \<in> ge_names G r \<or> \<not> desc_ok d
      | Inr r' \<Rightarrow> md_name d \<notin> ge_names G r \<and> ge_names G r' = insert (md_name d) (ge_names G r)"
    using assms(1) unfolding registry_law_def by blast
  show "register_unwrap G d r = Panicked \<longleftrightarrow> md_name d \<in> ge_names G r"
    "register_unwrap G d r \<noteq> Pending"
    "register_unwrap G d r = Done (d', r') \<Longrightarrow>
      d' = d \<and> md_name d \<notin> ge_names G r \<and> ge_names G r' = insert (md_name d) (ge_names G r)"
    using law assms(2) by (cases "ge_register G d r"; force simp: register_unwrap_def)+
qed

lemma descs_ok [simp]:
  "desc_ok requests_desc" "desc_ok duration_desc" "desc_ok mem_allocated_desc" "desc_ok mem_resident_desc"
  by (simp_all add: desc_ok_def requests_desc_def duration_desc_def mem_allocated_desc_def
      mem_resident_desc_def LABELS_HTTP_def HTTP_DURATION_BUCKETS_def)

lemma desc_names [simp]:
  "md_name requests_desc = ''http_requests''" "md_name duration_desc = ''http_requests_duration_sec''"
  "md_name mem_allocated_desc = ''memory_allocated''" "md_name mem_resident_desc = ''memory_resident''"
  by (simp_all add: requests_desc_def duration_desc_def mem_allocated_desc_def mem_resident_desc_def)

text \<open>Two registrations in a row.\<close>

lemma register_two:
  assumes "registry_law G" and "desc_ok d" and "desc_ok e" and "md_name d \<noteq> md_name e"
    and "m = and_then (register_unwrap G d r) (\<lambda>(x, r1).
       and_then (register_unwrap G e r1) (\<lambda>(y, r2). Done (f x y, r2)))"
  shows "m = Panicked \<longleftrightarrow> {md_name d, md_name e} \<inter> ge_names G r \<noteq> {}"
    and "m \<noteq> Pending"
    and "m = Done (v, r') \<Longrightarrow> v = f d e \<and> ge_names G r' = {md_name d, md_name e} \<union> ge_names G r"
proof -
  note first = register_unwrap_cases [OF assms(1,2)] and second = register_unwrap_cases [OF assms(1,3)]
  have "(m = Panicked \<longleftrightarrow> {md_name d, md_name e} \<inter> ge_names G r \<noteq> {}) \<and> m \<noteq> Pending \<and>
    (m = Done (v, r') \<longrightarrow> v = f d e \<and> ge_names G r' = {md_name d, md_name e} \<union> ge_names G r)"
  proof (cases "register_unwrap G d r")
    case (Done p)
    obtain r1 where p: "p = (d, r1)" and r1: "md_name d \<notin> ge_names G r"
      "ge_names G r1 = insert (md_name d) (ge_names G r)"
      using first(3) Done by (cases p) blast
    show ?thesis
    proof (cases "register_unwrap G e r1")
      case (Done q)
      obtain r2 where "q = (e, r2)" "md_name e \<notin> ge_names G r1"
        "ge_names G r2 = insert (md_name e) (ge_names G r1)"
        using second(3) Done by (cases q) blast
      then show ?thesis
        using Done \<open>register_unwrap G d r = Done p\<close> p r1 assms(5) by auto
    next
      case Panicked
      then have "md_name e \<in> ge_names G r"
        using second(1) r1 assms(4) by auto
      with Panicked \<open>register_unwrap G d r = Done p\<close> p assms(5) show ?thesis
        by auto
    qed (use second(2) in blast)
  next
    case Panicked
    then have "md_name d \<in> ge_names G r"
      using first(1) by blast
    with Panicked assms(5) show ?thesis
      by simp
  qed (use first(2) in blast)
  then show "m = Panicked \<longleftrightarrow> {md_name d, md_name e} \<inter> ge_names G r \<noteq> {}" "m \<noteq> Pending"
    "m = Done (v, r') \<Longrightarrow> v = f d e \<and> ge_names G r' = {md_name d, md_name e} \<union> ge_names G r"
    by blast+
qed

lemma metrics_new_law:
  assumes "registry_law G"
  shows "metrics_new G r = Panicked \<longleftrightarrow>
      {''http_requests'', ''http_requests_duration_sec''} \<inter> ge_names G r \<noteq> {}"
    and "metrics_new G r \<noteq> Pending"
    and "metrics_new G r = Done (v, r') \<Longrightarrow>
      v = \<lparr>me_requests = requests_desc, me_duration = duration_desc\<rparr> \<and>
      ge_names G r' = {''http_requests'', ''http_requests_duration_sec''} \<union> ge_names G r"
  using register_two [OF assms descs_ok(1,2) _ metrics_new_def] by simp_all

lemma metrics_runner_new_law:
  assumes "registry_law G"
  shows "metrics_runner_new G r = Panicked \<longleftrightarrow> {''memory_allocated'', ''memory_resident''} \<inter> ge_names G r \<noteq> {}"
    and "metrics_runner_new G r \<noteq> Pending"
    and "metrics_runner_new G r = Done (v, r') \<Longrightarrow>
      v = runner_new \<and> ge_names G r' = {''memory_allocated'', ''memory_resident''} \<union> ge_names G r"
  using register_two [OF assms descs_ok(3,4) _ metrics_runner_new_def] by simp_all

subsection \<open>A concrete registry\<close>

text \<open>A registry for the witnesses: the list of the names taken.\<close>

definition sample_registry :: "string list registry_env" where
  "sample_registry = \<lparr>ge_register = (\<lambda>d r. if md_name d \<in> set r \<or> \<not> desc_ok d then Inl ''refused''
       else Inr (md_name d # r)), ge_names = set\<rparr>"

lemma sample_registry_law: "registry_law sample_registry"
  by (simp add: registry_law_def sample_registry_def)

end
