(* ===== verification/Request_Metrics.thy ===== *)
theory Request_Metrics
  imports Routing Metrics_Setup
begin

section \<open>The metrics middleware\<close>

text \<open>
  \<open>src/middleware/metrics.rs\<close>: what is read from a request before it is handled, the metadata of
  its response, the background task that counts and logs it, and the middleware around the
  handler. The task receives the metadata over a channel; when the middleware's future is dropped
  before it has sent them, the task goes on with the default ones. Floating-point seconds are an
  abstract type \<open>'f\<close>; counters, logger and Vector client are the effects of the task, in order.
\<close>

subsection \<open>What the task reports\<close>

datatype 'f field_value = JText string | JInt int | JFloat 'f | JBool bool

type_synonym 'f fields = "(string \<times> 'f field_value) list"

text \<open>The labels of a counter: TLS version, method, HTTP version, status, backend, retried.\<close>

type_synonym labels = "string list"

datatype 'f effect =
    Requests_inc labels
  | Duration_observe labels 'f
  | Dyn_event level "'f fields"
  | Vector_send "'f fields"

record metrics_state =
  ms_vector :: bool
  ms_metrics :: metrics
  ms_log_requests :: bool
  ms_log_requests_long :: "duration option"

text \<open>Third-party functions: names of methods and versions, the path and query of a URI, the text
  of a status, \<open>as_secs_f64\<close>, and \<open>>=\<close> on \<open>f64\<close>; \<open>mv_env\<close> and \<open>mv_hostname\<close> are the statics of
  \<open>core.rs\<close>.\<close>

record ('h, 'b, 'f) metrics_env =
  mv_http :: "('h, 'b) http_env"
  mv_method :: "string \<Rightarrow> string"
  mv_version :: "http_version \<Rightarrow> string"
  mv_path :: "uri \<Rightarrow> string"
  mv_query :: "uri \<Rightarrow> string option"
  mv_status :: "status \<Rightarrow> string"
  mv_secs :: "duration \<Rightarrow> 'f"
  mv_ge :: "'f \<Rightarrow> 'f \<Rightarrow> bool"
  mv_zero :: 'f
  mv_env :: string
  mv_hostname :: string

subsection \<open>Metadata of the response\<close>

record 'f response_meta =
  rm_ctx :: request_context
  rm_status :: status
  rm_error_cause :: "error_cause option"
  rm_duration :: 'f
  rm_size :: int
  rm_retries :: u8

definition response_meta_default :: "'f \<Rightarrow> 'f response_meta" where
  "response_meta_default zero =
     \<lparr>rm_ctx = context_default, rm_status = REQUEST_TIMEOUT, rm_error_cause = None,
      rm_duration = zero, rm_size = 0, rm_retries = 0\<rparr>"

text \<open>\<open>size_hint().exact().map_or(-1, |x| x as i64)\<close>.\<close>

definition exact_size :: "('h, 'b) http_env \<Rightarrow> 'b \<Rightarrow> int" where
  "exact_size H body = (case he_size_exact H body of None \<Rightarrow> -1 | Some x \<Rightarrow> u64_as_i64 x)"

subsection \<open>What is read from the request\<close>

record request_info =
  ri_tls_version :: string
  ri_tls_cipher :: string
  ri_tls_handshake :: duration
  ri_method :: string
  ri_authority :: string
  ri_http_version :: string
  ri_path :: string
  ri_query :: string
  ri_conn_id :: string
  ri_request_id :: string
  ri_request_size :: int
  ri_remote_addr :: string
  ri_timestamp :: int
  ri_country_code :: string

definition or_empty :: "string option \<Rightarrow> string" where
  "or_empty x = (case x of Some s \<Rightarrow> s | None \<Rightarrow> [])"

definition request_info_of ::
  "('h, 'b, 'f) metrics_env \<Rightarrow> string \<Rightarrow> int \<Rightarrow> ('h, 'b) request \<Rightarrow> request_info" where
  "request_info_of V conn_id timestamp request =
     (let ext = rq_extensions request; tls = ext_tls_info ext in
      \<lparr>ri_tls_version = (case tls of None \<Rightarrow> [] | Some x \<Rightarrow> tls_protocol x),
       ri_tls_cipher = (case tls of None \<Rightarrow> [] | Some x \<Rightarrow> tls_cipher x),
       ri_tls_handshake = (case tls of None \<Rightarrow> 0 | Some x \<Rightarrow> tls_handshake x),
       ri_method = mv_method V (rq_method request),
       ri_authority = or_empty (he_authority (mv_http V) request),
       ri_http_version = mv_version V (rq_version request),
       ri_path = mv_path V (rq_uri request),
       ri_query = or_empty (mv_query V (rq_uri request)),
       ri_conn_id = conn_id,
       ri_request_id = or_empty (ext_request_id ext),
       ri_request_size = exact_size (mv_http V) (rq_body request),
       ri_remote_addr = or_empty (ext_remote_addr ext),
       ri_timestamp = timestamp,
       ri_country_code = or_empty (ext_country_code ext)\<rparr>)"

text \<open>\<open>remove::<RequestId>()\<close> and \<open>remove::<CountryCode>()\<close>.\<close>

definition without_request_id :: "('h, 'b) request \<Rightarrow> ('h, 'b) request" where
  "without_request_id request =
     request\<lparr>rq_extensions := (rq_extensions request)\<lparr>ext_request_id := None, ext_country_code := None\<rparr>\<rparr>"

subsection \<open>The background task\<close>

definition backend_label :: "request_context \<Rightarrow> string" where
  "backend_label ctx = (case rc_backend ctx of None \<Rightarrow> ''unknown'' | Some x \<Rightarrow> be_name x)"

definition meta_labels :: "('h, 'b, 'f) metrics_env \<Rightarrow> request_info \<Rightarrow> 'f response_meta \<Rightarrow> labels" where
  "meta_labels V ri meta =
     [ri_tls_version ri, ri_method ri, ri_http_version ri, mv_status V (rm_status meta),
      backend_label (rm_ctx meta), if rm_retries meta > 0 then ''yes'' else ''no'']"

definition meta_log_level ::
  "('h, 'b, 'f) metrics_env \<Rightarrow> metrics_state \<Rightarrow> 'f response_meta \<Rightarrow> level option" where
  "meta_log_level V st meta =
     (if (case ms_log_requests_long st of
            Some v \<Rightarrow> mv_ge V (rm_duration meta) (mv_secs V v)
          | None \<Rightarrow> False)
      then Some WARN
      else if ms_log_requests st then Some INFO else None)"

definition cause_fields :: "'f response_meta \<Rightarrow> string \<times> string" where
  "cause_fields meta =
     (case rm_error_cause meta of None \<Rightarrow> ([], []) | Some x \<Rightarrow> (error_name x, error_display x))"

definition dyn_event_fields ::
  "('h, 'b, 'f) metrics_env \<Rightarrow> request_info \<Rightarrow> 'f response_meta \<Rightarrow> 'f fields" where
  "dyn_event_fields V ri meta =
     [(''request_id'', JText (ri_request_id ri)),
      (''conn_id'', JText (ri_conn_id ri)),
      (''tls_version'', JText (ri_tls_version ri)),
      (''tls_cipher'', JText (ri_tls_cipher ri)),
      (''tls_handshake'', JFloat (mv_secs V (ri_tls_handshake ri))),
      (''http_version'', JText (ri_http_version ri)),
      (''authority'', JText (ri_authority ri)),
      (''method'', JText (ri_method ri)),
      (''path'', JText (ri_path ri)),
      (''query'', JText (ri_query ri)),
      (''remote_addr'', JText (ri_remote_addr ri)),
      (''status'', JText (mv_status V (rm_status meta))),
      (''duration'', JFloat (rm_duration meta)),
      (''backend'', JText (backend_label (rm_ctx meta))),
      (''request_size'', JInt (ri_request_size ri)),
      (''request_body_buffered'', JBool (rc_request_body_buffered (rm_ctx meta))),
      (''response_size'', JInt (rm_size meta)),
      (''response_body_buffered'', JBool (rc_response_body_buffered (rm_ctx meta))),
      (''retries'', JInt (uint (rm_retries meta))),
      (''country_code'', JText (ri_country_code ri)),
      (''error_cause'', JText (fst (cause_fields meta))),
      (''error_details'', JText (snd (cause_fields meta)))]"

definition vector_fields ::
  "('h, 'b, 'f) metrics_env \<Rightarrow> request_info \<Rightarrow> 'f response_meta \<Rightarrow> 'f fields" where
  "vector_fields V ri meta =
     [(''env'', JText (mv_env V)),
      (''hostname'', JText (mv_hostname V)),
      (''timestamp'', JInt (ri_timestamp ri)),
      (''conn_id'', JText (ri_conn_id ri)),
      (''request_id'', JText (ri_request_id ri)),
      (''tls_version'', JText (ri_tls_version ri)),
      (''tls_cipher'', JText (ri_tls_cipher ri)),
      (''tls_handshake'', JFloat (mv_secs V (ri_tls_handshake ri))),
      (''http_version'', JText (ri_http_version ri)),
      (''authority'', JText (ri_authority ri)),
      (''method'', JText (ri_method ri)),
      (''path'', JText (ri_path ri)),
      (''query'', JText (ri_query ri)),
      (''status'', JInt (int (rm_status meta))),
      (''duration'', JFloat (rm_duration meta)),
      (''backend'', JText (backend_label (rm_ctx meta))),
      (''remote_addr'', JText (ri_remote_addr ri)),
      (''request_body_buffered'', JBool (rc_request_body_buffered (rm_ctx meta))),
      (''request_size'', JInt (ri_request_size ri)),
      (''response_body_buffered'', JBool (rc_response_body_buffered (rm_ctx meta))),
      (''response_size'', JInt (rm_size meta)),
      (''retries'', JInt (uint (rm_retries meta))),
      (''country_code'', JText (ri_country_code ri)),
      (''error_cause'', JText (fst (cause_fields meta))),
      (''error_details'', JText (snd (cause_fields meta)))]"

text \<open>\<open>received\<close> is what arrives over the channel, \<open>None\<close> when the sender was dropped.\<close>

definition logging_task ::
  "('h, 'b, 'f) metrics_env \<Rightarrow> metrics_state \<Rightarrow> request_info \<Rightarrow> 'f response_meta option \<Rightarrow>
   'f effect list" where
  "logging_task V st ri received =
     (let meta = (case received of Some m \<Rightarrow> m | None \<Rightarrow> response_meta_default (mv_zero V));
          labels = meta_labels V ri meta
      in [Requests_inc labels, Duration_observe labels (rm_duration meta)] @
         (case meta_log_level V st meta of
            Some v \<Rightarrow> [Dyn_event v (dyn_event_fields V ri meta)]
          | None \<Rightarrow> []) @
         (if ms_vector st then [Vector_send (vector_fields V ri meta)] else []))"

subsection \<open>The middleware\<close>

text \<open>\<open>next_run\<close> gives the response and the context left in the scope, or \<open>None\<close> when the future
  is dropped before it returns; \<open>elapsed\<close> is the measured duration.\<close>

definition response_meta_of ::
  "('h, 'b, 'f) metrics_env \<Rightarrow> 'f \<Rightarrow> ('h, 'b) response \<Rightarrow> scope \<Rightarrow> 'f response_meta" where
  "response_meta_of V elapsed response ctx =
     \<lparr>rm_ctx = (case ctx of Some c \<Rightarrow> c | None \<Rightarrow> context_default),
      rm_status = rs_status response,
      rm_error_cause = rs_error_cause response,
      rm_duration = elapsed,
      rm_size = exact_size (mv_http V) (rs_body response),
      rm_retries = (case rs_retries response of Some x \<Rightarrow> x | None \<Rightarrow> 0)\<rparr>"

definition middleware ::
  "('h, 'b, 'f) metrics_env \<Rightarrow> metrics_state \<Rightarrow> string \<Rightarrow> int \<Rightarrow> 'f \<Rightarrow>
   (scope \<Rightarrow> ('h, 'b) request \<Rightarrow> (('h, 'b) response \<times> scope) option) \<Rightarrow>
   ('h, 'b) request \<Rightarrow> ('h, 'b) response option \<times> 'f effect list" where
  "middleware V st conn_id timestamp elapsed next_run request =
     (let ri = request_info_of V conn_id timestamp request in
      case next_run (Some context_default) (without_request_id request) of
        None \<Rightarrow> (None, logging_task V st ri None)
      | Some (response, ctx) \<Rightarrow>
          (Some (response\<lparr>rs_retries := None, rs_error_cause := None\<rparr>),
           logging_task V st ri (Some (response_meta_of V elapsed response ctx))))"

end
