(* ===== verification/Retry_Loop.thy ===== *)
theory Retry_Loop
  imports Routing
begin

section \<open>The retry loop against its specification\<close>

text \<open>
  What the attempts of a request would give one after the other, whatever the counter and the
  delays do: \<open>attempt k\<close> is the result of the \<open>k\<close>-th call, \<open>scope_after k\<close> the request context
  before it and \<open>failed_events k\<close> the trace of \<open>k\<close> failed attempts. The loop returns the first
  success among as many attempts as it may make, or else the error of the last one.
\<close>

subsection \<open>The specification\<close>

fun scope_after :: "('h, 'b) exec \<Rightarrow> ('h, 'b) request \<Rightarrow> nat \<Rightarrow> scope \<Rightarrow> nat \<Rightarrow> scope" where
  "scope_after exec req n ctx 0 = ctx"
| "scope_after exec req n ctx (Suc k) = scope_after exec req (Suc n) (snd (exec n ctx req)) k"

definition attempt ::
  "('h, 'b) exec \<Rightarrow> ('h, 'b) request \<Rightarrow> nat \<Rightarrow> scope \<Rightarrow> nat \<Rightarrow> (lb_error + ('h, 'b) response) outcome" where
  "attempt exec req n ctx k = fst (exec (n + k) (scope_after exec req n ctx k) req)"

definition failed :: "(lb_error + 'r) outcome \<Rightarrow> bool" where
  "failed r = (case r of Done (Inl _) \<Rightarrow> True | _ \<Rightarrow> False)"

definition error_of :: "(lb_error + 'r) outcome \<Rightarrow> lb_error" where
  "error_of r = (case r of Done (Inl e) \<Rightarrow> e | _ \<Rightarrow> No_Healthy_Nodes)"

definition completed :: "'a outcome \<Rightarrow> bool" where
  "completed r = (case r of Done _ \<Rightarrow> True | _ \<Rightarrow> False)"

text \<open>The delay in force before attempt \<open>k\<close>: doubled by every request error before it.\<close>

fun delay_after :: "('h, 'b) exec \<Rightarrow> ('h, 'b) request \<Rightarrow> nat \<Rightarrow> scope \<Rightarrow> duration \<Rightarrow> nat \<Rightarrow> duration" where
  "delay_after exec req n ctx d 0 = d"
| "delay_after exec req n ctx d (Suc k) =
     delay_after exec req (Suc n) (snd (exec n ctx req))
       (case fst (exec n ctx req) of Done (Inl (Inner _)) \<Rightarrow> 2 * d | _ \<Rightarrow> d) k"

fun failed_events ::
  "handler_state \<Rightarrow> ('h, 'b) exec \<Rightarrow> ('h, 'b) request \<Rightarrow> nat \<Rightarrow> scope \<Rightarrow> duration \<Rightarrow> nat \<Rightarrow>
   ('h, 'b) event list" where
  "failed_events hs exec req n ctx d 0 = []"
| "failed_events hs exec req n ctx d (Suc k) =
     Executed req # Slept (pause hs d (error_of (fst (exec n ctx req)))) #
     failed_events hs exec req (Suc n) (snd (exec n ctx req))
       (case fst (exec n ctx req) of Done (Inl (Inner _)) \<Rightarrow> 2 * d | _ \<Rightarrow> d) k"

lemma failed_simps [simp]:
  "failed (Done (Inl e))" "\<not> failed (Done (Inr v))" "\<not> failed Pending" "\<not> failed Panicked"
  "error_of (Done (Inl e)) = e"
  by (simp_all add: failed_def error_of_def)

lemma completed_simps [simp]: "completed (Done x)" "\<not> completed Pending" "\<not> completed Panicked"
  by (simp_all add: completed_def)

lemma failedE [elim]:
  assumes "failed r"
  obtains e where "r = Done (Inl e)"
  using assms by (auto simp: failed_def split: outcome.splits sum.splits)

lemma completedE [elim]:
  assumes "completed r"
  obtains v where "r = Done v"
  using assms by (cases r) auto

lemma attempt_0 [simp]: "attempt exec req n ctx 0 = fst (exec n ctx req)"
  by (simp add: attempt_def)

lemma attempt_Suc [simp]:
  "attempt exec req n ctx (Suc k) = attempt exec req (Suc n) (snd (exec n ctx req)) k"
  by (simp add: attempt_def)

lemma all_less_Suc: "(\<forall>i < Suc k. P i) \<longleftrightarrow> P 0 \<and> (\<forall>i < k. P (Suc i))"
  using less_Suc_eq_0_disj by auto

subsection \<open>One turn of the loop\<close>

lemma retry_loop_success_now:
  "exec n ctx req = (Done (Inr v), ctx1) \<Longrightarrow>
     retry_loop H hs checks exec req n ctx r d = Done (Inr (v, r), ctx1, [Executed req])"
  by (subst retry_loop.simps) simp

lemma retry_loop_last:
  assumes "exec n ctx req = (Done (Inl e), ctx1)" and "d * 2 \<le> duration_max" and "r = 1"
  shows "retry_loop H hs checks exec req n ctx r d =
     Done (Inl (into_response H (lb_cause e)), ctx1, [Executed req, Slept (pause hs d e)])"
  by (subst retry_loop.simps) (use assms in \<open>cases e; simp\<close>)

lemma retry_loop_again:
  assumes "exec n ctx req = (Done (Inl e), ctx1)" and "d * 2 \<le> duration_max" and "r \<noteq> 0" and "r \<noteq> 1"
  shows "retry_loop H hs checks exec req n ctx r d =
     and_then (retry_loop H hs checks exec req (Suc n) ctx1 (r - 1)
         (case e of Inner _ \<Rightarrow> 2 * d | No_Healthy_Nodes \<Rightarrow> d))
       (\<lambda>(x, ctx2, tr). Done (x, ctx2, Executed req # Slept (pause hs d e) # tr))"
  by (subst retry_loop.simps) (use assms in \<open>cases e; simp add: mult.commute\<close>)

text \<open>How one turn of a loop that returns goes: it succeeds, it was the last, or the loop goes on.\<close>

lemma retry_loop_turn:
  assumes "retry_loop H hs checks exec req n ctx r d = Done (x, ctx', tr)"
  obtains (success) v where "exec n ctx req = (Done (Inr v), ctx')" and "x = Inr (v, r)"
      and "tr = [Executed req]"
  | (last) e where "exec n ctx req = (Done (Inl e), ctx')" and "u8_dec checks r = Some 0"
      and "x = Inl (into_response H (lb_cause e))" and "tr = [Executed req, Slept (pause hs d e)]"
  | (again) e ctx1 d1 r1 tr1 where "exec n ctx req = (Done (Inl e), ctx1)"
      and "next_delay d e = Some d1" and "u8_dec checks r = Some r1" and "r1 \<noteq> 0"
      and "retry_loop H hs checks exec req (Suc n) ctx1 r1 d1 = Done (x, ctx', tr1)"
      and "tr = Executed req # Slept (pause hs d e) # tr1"
  using assms unfolding retry_loop.simps [of H hs checks exec req n ctx r d]
  by (auto split: prod.splits outcome.splits sum.splits option.splits if_splits simp: and_then_Done_iff)

subsection \<open>First success, or the last error\<close>

text \<open>Both by induction on the number of attempts, with the call number, the context and the delay
  generalised. Each failed attempt at most doubles the delay, so \<open>d * 2 ^ k\<close> bounds it.\<close>

lemma retry_loop_first_not_failed:
  assumes "k < unat r" and "\<forall>i < k. failed (attempt exec req n ctx i)"
    and "\<not> failed (attempt exec req n ctx k)" and "d * 2 ^ k \<le> duration_max"
  shows "retry_loop H hs checks exec req n ctx r d =
     and_then (attempt exec req n ctx k) (\<lambda>x. Done (Inr (projr x, r - of_nat k),
       scope_after exec req n ctx (Suc k), failed_events hs exec req n ctx d k @ [Executed req]))"
  using assms
proof (induction k arbitrary: n ctx r d)
  case 0
  obtain res ctx1 where ex: "exec n ctx req = (res, ctx1)"
    by (cases "exec n ctx req")
  with 0(3) show ?case
    by (subst retry_loop.simps) (auto simp: failed_def split: outcome.splits sum.splits)
next
  case (Suc k)
  obtain e ctx1 where ex: "exec n ctx req = (Done (Inl e), ctx1)"
    using Suc.prems(2) by (cases "exec n ctx req") (auto simp: all_less_Suc)
  let ?d = "case e of Inner _ \<Rightarrow> 2 * d | No_Healthy_Nodes \<Rightarrow> d"
  have r: "r \<noteq> 0" "unat (r - 1) = unat r - 1"
    using Suc.prems(1) unat_u8_dec [of r] by (auto simp: unat_u8_pos)
  then have r1: "r \<noteq> 1"
    using Suc.prems(1) by auto
  have "d * 2 \<le> d * 2 ^ Suc k"
    by (intro mult_left_mono) simp_all
  with Suc.prems(4) have d2: "d * 2 \<le> duration_max"
    by (rule order_trans [rotated])
  have "?d * 2 ^ k \<le> d * 2 ^ Suc k"
    by (cases e) simp_all
  with Suc.prems(4) have dk: "?d * 2 ^ k \<le> duration_max"
    by (rule order_trans [rotated])
  have "retry_loop H hs checks exec req (Suc n) ctx1 (r - 1) ?d =
     and_then (attempt exec req (Suc n) ctx1 k) (\<lambda>x. Done (Inr (projr x, r - 1 - of_nat k),
       scope_after exec req (Suc n) ctx1 (Suc k), failed_events hs exec req (Suc n) ctx1 ?d k @ [Executed req]))"
    by (rule Suc.IH [OF _ _ _ dk]) (use Suc.prems ex r in \<open>simp_all add: all_less_Suc\<close>)
  then show ?case
    unfolding retry_loop_again [where exec = exec and req = req, OF ex d2 r(1) r1] using ex
    by (cases e) (simp_all add: algebra_simps and_then_assoc)
qed

lemma retry_loop_first_success:
  assumes "k < unat r" and "\<forall>i < k. failed (attempt exec req n ctx i)"
    and "attempt exec req n ctx k = Done (Inr v)" and "d * 2 ^ k \<le> duration_max"
  shows "retry_loop H hs checks exec req n ctx r d =
     Done (Inr (v, r - of_nat k), scope_after exec req n ctx (Suc k),
       failed_events hs exec req n ctx d k @ [Executed req])"
  using retry_loop_first_not_failed [OF assms(1,2) _ assms(4)] assms(3) by simp

lemma retry_loop_all_failed:
  assumes "unat r = Suc k" and "\<forall>i < Suc k. failed (attempt exec req n ctx i)"
    and "d * 2 ^ Suc k \<le> duration_max"
  shows "retry_loop H hs checks exec req n ctx r d =
     Done (Inl (into_response H (lb_cause (error_of (attempt exec req n ctx k)))),
       scope_after exec req n ctx (Suc k), failed_events hs exec req n ctx d (Suc k))"
  using assms
proof (induction k arbitrary: n ctx r d)
  case 0
  obtain e ctx1 where ex: "exec n ctx req = (Done (Inl e), ctx1)"
    using 0(2) by (cases "exec n ctx req") auto
  have "r = 1"
    using 0(1) by (simp add: word_unat_eq_iff)
  from retry_loop_last [where exec = exec and req = req, OF ex _ this] 0(3) ex show ?case
    by simp
next
  case (Suc k)
  obtain e ctx1 where ex: "exec n ctx req = (Done (Inl e), ctx1)"
    using Suc.prems(2) by (cases "exec n ctx req") (auto simp: all_less_Suc)
  let ?d = "case e of Inner _ \<Rightarrow> 2 * d | No_Healthy_Nodes \<Rightarrow> d"
  have r: "r \<noteq> 0" "unat (r - 1) = Suc k" "r \<noteq> 1"
    using Suc.prems(1) unat_u8_dec [of r] by (auto simp: unat_u8_pos)
  have "d * 2 \<le> d * 2 ^ Suc (Suc k)"
    by (intro mult_left_mono) simp_all
  with Suc.prems(3) have d2: "d * 2 \<le> duration_max"
    by (rule order_trans [rotated])
  have "?d * 2 ^ Suc k \<le> d * 2 ^ Suc (Suc k)"
    by (cases e) simp_all
  with Suc.prems(3) have dk: "?d * 2 ^ Suc k \<le> duration_max"
    by (rule order_trans [rotated])
  have "retry_loop H hs checks exec req (Suc n) ctx1 (r - 1) ?d =
     Done (Inl (into_response H (lb_cause (error_of (attempt exec req (Suc n) ctx1 k)))),
       scope_after exec req (Suc n) ctx1 (Suc k), failed_events hs exec req (Suc n) ctx1 ?d (Suc k))"
    by (rule Suc.IH [OF r(2) _ dk]) (use Suc.prems ex in \<open>simp add: all_less_Suc\<close>)
  then show ?case
    unfolding retry_loop_again [where exec = exec and req = req, OF ex d2 r(1,3)] using ex by (cases e) simp_all
qed

subsection \<open>Bounds\<close>

fun is_executed :: "('h, 'b) event \<Rightarrow> bool" where
  "is_executed (Executed _) = True"
| "is_executed (Slept _) = False"

fun slept :: "('h, 'b) event list \<Rightarrow> duration list" where
  "slept [] = []"
| "slept (Slept d # es) = d # slept es"
| "slept (Executed _ # es) = slept es"

definition executions :: "('h, 'b) event list \<Rightarrow> nat" where
  "executions tr = length (filter is_executed tr)"

text \<open>However it ends, the loop makes at most \<open>retries\<close> attempts, all with the same request.\<close>

lemma retry_loop_bound:
  assumes "retry_loop H hs checks exec req n ctx r d = Done (x, ctx', tr)" and "r \<noteq> 0"
  shows "executions tr \<le> unat r \<and> 0 < executions tr \<and> (\<forall>q. Executed q \<in> set tr \<longrightarrow> q = req)"
  using assms
proof (induction "unat r" arbitrary: n ctx r d x ctx' tr rule: less_induct)
  case less
  have pos: "0 < unat r"
    using less.prems(2) by (simp add: unat_u8_pos)
  from less.prems(1) show ?case
  proof (cases rule: retry_loop_turn)
    case (again e ctx1 d1 r1 tr1)
    have r1: "r1 = r - 1"
      using again(3) by (rule u8_dec_SomeD)
    have "unat (r - 1) < unat r"
      using unat_u8_dec [OF less.prems(2)] pos by simp
    from less.hyps [OF this again(5) [unfolded r1] again(4) [unfolded r1]] this again(6) show ?thesis
      by (auto simp: executions_def)
  qed (use pos in \<open>auto simp: executions_def\<close>)
qed

text \<open>With request errors only, the pauses double from attempt to attempt.\<close>

lemma failed_events_backoff:
  assumes "\<forall>i < k. \<exists>e. attempt exec req n ctx i = Done (Inl (Inner e))"
  shows "slept (failed_events hs exec req n ctx d k) = map (\<lambda>i. d * 2 ^ i) [0..<k]"
  using assms
proof (induction k arbitrary: n ctx d)
  case (Suc k)
  obtain e where e: "fst (exec n ctx req) = Done (Inl (Inner e))"
    using Suc.prems by (auto simp: all_less_Suc)
  have "slept (failed_events hs exec req (Suc n) (snd (exec n ctx req)) (2 * d) k) =
      map (\<lambda>i. 2 * d * 2 ^ i) [0..<k]"
    using Suc.prems by (intro Suc.IH) (simp add: all_less_Suc)
  with e show ?case
    by (simp add: upt_conv_Cons map_Suc_upt [symmetric] o_def mult.assoc mult.left_commute del: upt_Suc)
qed simp

lemma executions_failed [simp]: "executions (failed_events hs exec req n ctx d k) = k"
  by (induction k arbitrary: n ctx d) (simp_all add: executions_def)

lemma executions_append [simp]: "executions (xs @ ys) = executions xs + executions ys"
  by (simp add: executions_def)

lemma executions_Cons [simp]:
  "executions (Executed q # es) = Suc (executions es)" "executions (Slept d # es) = executions es"
  "executions [] = 0"
  by (simp_all add: executions_def)

text \<open>When every attempt completes, a success is among them, or all of them fail: so the loop returns
  when the delay cannot overflow.\<close>

lemma first_success_or_all_failed:
  fixes f :: "nat \<Rightarrow> (lb_error + 'r) outcome"
  assumes "\<And>i. i < N \<Longrightarrow> completed (f i)"
  obtains k v where "k < N" and "\<forall>i < k. failed (f i)" and "f k = Done (Inr v)"
  | "\<forall>i < N. failed (f i)"
proof (cases "\<forall>i < N. failed (f i)")
  case False
  then obtain j where j: "j < N \<and> \<not> failed (f j)"
    by blast
  define k where "k = (LEAST j. j < N \<and> \<not> failed (f j))"
  have "k < N \<and> \<not> failed (f k)"
    unfolding k_def using LeastI [of "\<lambda>j. j < N \<and> \<not> failed (f j)" j] j by blast
  moreover have "\<forall>i < k. failed (f i)"
    using calculation not_less_Least [of _ "\<lambda>j. j < N \<and> \<not> failed (f j)"] unfolding k_def
    by (meson less_trans)
  moreover obtain v where "f k = Done (Inr v)"
    using calculation(1) assms [of k] by (cases "f k") (auto simp: failed_def split: sum.splits)
  ultimately show ?thesis
    using that(1) by blast
qed (use that(2) in blast)

lemma retry_loop_returns:
  assumes "r \<noteq> 0" and "d * 2 ^ unat r \<le> duration_max"
    and "\<And>n c. completed (fst (exec n c req))"
  shows "\<exists>x. retry_loop H hs checks exec req n ctx r d = Done x"
proof (rule first_success_or_all_failed [of "unat r" "attempt exec req n ctx"])
  show "completed (attempt exec req n ctx i)" for i
    using assms(3) by (simp add: attempt_def)
next
  fix k v
  assume k: "k < unat r" and fs: "\<forall>i < k. failed (attempt exec req n ctx i)"
    "attempt exec req n ctx k = Done (Inr v)"
  have "d * 2 ^ k \<le> d * 2 ^ unat r"
    using k by (intro mult_left_mono power_increasing) simp_all
  then show ?thesis
    using retry_loop_first_success [OF k fs] assms(2) by (meson order_trans)
next
  assume all: "\<forall>i < unat r. failed (attempt exec req n ctx i)"
  obtain k where k: "unat r = Suc k"
    using assms(1) by (metis gr0_implies_Suc unat_u8_pos)
  show ?thesis
    using retry_loop_all_failed [OF k] all assms(2) unfolding k by blast
qed

text \<open>What every execution keeps of the request context, the loop keeps.\<close>

lemma retry_loop_scope:
  assumes "retry_loop H hs checks exec req n ctx r d = Done (x, ctx', tr)"
    and "\<And>n c. P c \<Longrightarrow> P (snd (exec n c req))" and "P ctx"
  shows "P ctx'"
  using assms(1,3)
proof (induction "unat (r - 1)" arbitrary: n ctx r d x ctx' tr rule: less_induct)
  case less
  have keep: "P c" if "exec n ctx req = (res, c)" for res c
    using assms(2) [OF less.prems(2)] that by (metis snd_conv)
  from less.prems(1) show ?case
  proof (cases rule: retry_loop_turn)
    case (again e ctx1 d1 r1 tr1)
    have "unat (r1 - 1) < unat (r - 1)"
      using u8_dec_SomeD [OF again(3)] again(4) unat_u8_dec [OF again(4)] unat_u8_pos [of r1] by simp
    from less.hyps [OF this again(5) keep [OF again(1)]] show ?thesis .
  qed (use keep in auto)
qed

end
