(* ===== verification/Manager_Ops.thy ===== *)
theory Manager_Ops
  imports Backend_Manager
begin

section \<open>What the manager's operations do\<close>

text \<open>
  The lemmas of the operations of \<open>Backend_Manager\<close>, each on every branch: applying a
  configuration installs routers for exactly its enabled backends, every operation keeps the
  manager's invariant, an operation that fails changes nothing, and a persisted configuration
  loads again. The bundle \<open>op_defs\<close> unfolds the operations.
\<close>

lemmas op_defs = set_config_def load_config_def set_backend_state_def

subsection \<open>Applying a configuration\<close>

lemma apply_config_parts:
  assumes "apply_config E s = Done s'"
  obtains s1 where
    "update_router E bm_router store_main (enabled_backends (bm_config (sy_manager s)))
       (cf_strategy (bm_config (sy_manager s))) s = Done s1" and
    "update_router E bm_router_fallback store_fallback (enabled_fallback (bm_config (sy_manager s)))
       (cf_strategy (bm_config (sy_manager s))) s1 = Done s'"
  using assms by (auto simp: apply_config_def Let_def)

lemma apply_config_frame:
  assumes "apply_config E s = Done s'"
  shows "bm_config (sy_manager s') = bm_config (sy_manager s)"
    and "bm_config_path (sy_manager s') = bm_config_path (sy_manager s)"
    and "bm_check_interval (sy_manager s') = bm_check_interval (sy_manager s)"
    and "bm_check_timeout (sy_manager s') = bm_check_timeout (sy_manager s)"
    and "sy_files s' = sy_files s"
  using assms
  by (auto elim!: apply_config_parts simp: main_slot.update_frame fallback_slot.update_frame)

lemma apply_config_in_sync:
  assumes "apply_config E s = Done s'"
  shows "in_sync (sy_manager s')" and "all_ready E (sy_manager s')"
proof -
  obtain s1 where u:
    "update_router E bm_router store_main (enabled_backends (bm_config (sy_manager s)))
       (cf_strategy (bm_config (sy_manager s))) s = Done s1"
    "update_router E bm_router_fallback store_fallback (enabled_fallback (bm_config (sy_manager s)))
       (cf_strategy (bm_config (sy_manager s))) s1 = Done s'"
    using assms by (rule apply_config_parts)
  show "in_sync (sy_manager s')"
    using slots.both_installed(1,2) [OF u] apply_config_frame [OF assms]
    by (simp add: in_sync_def slot_ok_def)
  show "all_ready E (sy_manager s')"
    using slots.both_installed(3,4) [OF u] by (simp add: all_ready_def)
qed

lemma apply_config_accounted:
  assumes "apply_config E s = Done s'" and "accounted s"
  shows "accounted s'"
  using assms(1)
proof (rule apply_config_parts)
  fix s1
  assume "update_router E bm_router store_main (enabled_backends (bm_config (sy_manager s)))
       (cf_strategy (bm_config (sy_manager s))) s = Done s1"
    and "update_router E bm_router_fallback store_fallback (enabled_fallback (bm_config (sy_manager s)))
       (cf_strategy (bm_config (sy_manager s))) s1 = Done s'"
  from slots.both_accounted [OF this] assms(2) show ?thesis
    by (simp add: accounted_def installed_ids_def add.assoc)
qed

lemma apply_config_inv:
  assumes "apply_config E s = Done s'" and "accounted s"
    and "distinct (config_names (bm_config (sy_manager s)))"
  shows "manager_inv E s'"
  using apply_config_frame(1) [OF assms(1)] apply_config_in_sync [OF assms(1)]
    apply_config_accounted [OF assms(1,2)] assms(3)
  by (simp add: manager_inv_def)

lemma accounted_with_config [simp]: "accounted (with_config c s) = accounted s"
  by (simp add: accounted_def installed_ids_def)

text \<open>Nothing blocks and nothing panics when every URL gives a health URI, every router reports
  health and stops.\<close>

definition env_live :: "('h, 'b) mgr_env \<Rightarrow> bool" where
  "env_live E \<longleftrightarrow>
     (\<forall>r. wait_healthchecks (me_watch E r) = Done ()) \<and> (\<forall>r. me_stop E r = Done ())"

lemma apply_config_total:
  assumes "\<forall>c \<in> set (enabled_backends (bm_config (sy_manager s))) \<union>
                 set (enabled_fallback (bm_config (sy_manager s))). url_ok (me_http E) c"
    and "env_live E"
  shows "\<exists>s'. apply_config E s = Done s'"
proof -
  let ?cfg = "bm_config (sy_manager s)"
  have live: "wait_healthchecks (me_watch E r) = Done ()" "me_stop E r = Done ()" for r
    using assms(2) by (simp_all add: env_live_def)
  have ok: "\<forall>c \<in> set (enabled_backends ?cfg). url_ok (me_http E) c"
    "\<forall>c \<in> set (enabled_fallback ?cfg). url_ok (me_http E) c"
    using assms(1) by blast+
  obtain s1 where s1: "update_router E bm_router store_main (enabled_backends ?cfg)
      (cf_strategy ?cfg) s = Done s1"
    using main_slot.update_total [OF ok(1) live] by blast
  obtain s2 where "update_router E bm_router_fallback store_fallback (enabled_fallback ?cfg)
      (cf_strategy ?cfg) s1 = Done s2"
    using fallback_slot.update_total [OF ok(2) live] by blast
  with s1 show ?thesis
    by (simp add: apply_config_def)
qed

subsection \<open>Outcome of each operation\<close>

lemma set_config_cases:
  assumes "set_config E c s = Done (r, s')"
  obtains (rejected) "\<not> distinct (config_names c)" and "r = Inl [''Non-unique backend names'']" and "s' = s"
  | (applied) "distinct (config_names c)" and "r = Inr ()" and "apply_config E (with_config c s) = Done s'"
  using assms by (auto simp: set_config_def and_then_Done_iff split: if_splits)

lemma load_config_cases:
  assumes "load_config E s = Done (r, s')"
  obtains (unreadable) e where "r = Inl [''unable to read backends config'', e]" and "s' = s"
  | (unparsable) e where "r = Inl [''unable to parse backends config'', e]" and "s' = s"
  | (loaded) b c where "me_read E (bm_config_path (sy_manager s)) (sy_files s) = Inr b"
      and "me_from_yaml E b = Inr c" and "set_config E c s = Done (r, s')"
  using assms by (auto simp: load_config_def split: sum.splits)

lemma set_backend_state_cases:
  assumes "set_backend_state E name en s = Done (r, s')"
  obtains (missing) "name \<notin> bc_name ` set (cf_backends (bm_config (sy_manager s)))"
      and "r = Inl [''Backend not found: '' @ name]" and "s' = s"
  | (switched) c where "switch_backend name en (bm_config (sy_manager s)) = Some c" and "r = Inr ()"
      and "apply_config E (with_config c s) = Done s'"
proof (cases "switch_backend name en (bm_config (sy_manager s))")
  case None
  then have "name \<notin> bc_name ` set (cf_backends (bm_config (sy_manager s)))"
    by (auto simp: switch_backend_def update_first_None_iff)
  with None assms show ?thesis
    by (intro missing) (simp_all add: set_backend_state_def)
next
  case (Some c)
  with assms have "r = Inr ()" "apply_config E (with_config c s) = Done s'"
    by (simp_all add: set_backend_state_def and_then_Done_iff)
  with Some show ?thesis
    by (rule switched)
qed

lemma persist_config_frame:
  assumes "persist_config E s = (r, s')"
  shows "sy_manager s' = sy_manager s" and "sy_created s' = sy_created s"
    and "sy_stopped s' = sy_stopped s"
  using assms by (auto simp: persist_config_def split: sum.splits prod.splits)

lemma switch_backend_names:
  "switch_backend name en c = Some c' \<Longrightarrow> config_names c' = config_names c"
  by (auto simp: switch_backend_def config_names_def fallback_list_def
      dest!: update_first_map [where g = bc_name])

lemma switch_backend_Some:
  assumes "switch_backend name en c = Some c'" and "distinct (config_names c)"
  shows "c' = c\<lparr>cf_backends :=
           map (\<lambda>b. if bc_name b = name then b\<lparr>bc_enabled := en\<rparr> else b) (cf_backends c)\<rparr>"
  using assms
  by (auto simp: switch_backend_def config_names_def
      dest!: update_first_unique_key [where g = bc_name])

text \<open>The configuration with one backend switched.\<close>

definition switched :: "string \<Rightarrow> bool \<Rightarrow> config \<Rightarrow> config" where
  "switched name en c =
     c\<lparr>cf_backends := map (\<lambda>b. if bc_name b = name then b\<lparr>bc_enabled := en\<rparr> else b) (cf_backends c)\<rparr>"

lemma set_backend_state_known:
  assumes "manager_inv E s" and "set_backend_state E name en s = Done (r, s')"
    and "name \<in> bc_name ` set (cf_backends (get_config s))"
  shows "r = Inr ()" and "get_config s' = switched name en (get_config s)" and "in_sync (sy_manager s')"
proof -
  have unique: "distinct (config_names (bm_config (sy_manager s)))"
    using assms(1) by (simp add: manager_inv_def)
  have "r = Inr () \<and> get_config s' = switched name en (get_config s) \<and> in_sync (sy_manager s')"
    using assms(2)
  proof (cases rule: set_backend_state_cases)
    case (switched c)
    with switch_backend_Some [OF switched(1) unique] apply_config_frame(1) [OF switched(3)]
      apply_config_in_sync(1) [OF switched(3)]
    show ?thesis
      by (simp add: get_config_def switched_def)
  qed (use assms(3) in \<open>simp add: get_config_def\<close>)
  then show "r = Inr ()" "get_config s' = switched name en (get_config s)" "in_sync (sy_manager s')"
    by simp_all
qed

lemma switched_names [simp]: "bc_name ` set (cf_backends (switched n en c)) = bc_name ` set (cf_backends c)"
proof -
  have "map bc_name (cf_backends (switched n en c)) = map bc_name (cf_backends c)"
    by (simp add: switched_def)
  then show ?thesis
    by (metis list.set_map)
qed

lemma switched_off: "list_all (\<lambda>b. bc_name b \<noteq> n) (enabled_backends (switched n False c))"
proof -
  have "list_all (\<lambda>b. bc_name b \<noteq> n)
      (filter bc_enabled (map (\<lambda>b. if bc_name b = n then b\<lparr>bc_enabled := False\<rparr> else b) xs))" for xs
    by (induction xs) simp_all
  then show ?thesis
    unfolding enabled_backends_def switched_def by simp
qed

lemma switched_back:
  assumes "distinct (config_names c)" and "b \<in> set (cf_backends c)"
  shows "switched (bc_name b) (bc_enabled b) (switched (bc_name b) en c) = c"
proof -
  have "inj_on bc_name (set (cf_backends c))"
    using assms(1) by (simp add: config_names_def distinct_map)
  then have same: "x = b" if "x \<in> set (cf_backends c)" "bc_name x = bc_name b" for x
    using that assms(2) by (auto dest: inj_onD)
  have "map (\<lambda>x. if bc_name x = bc_name b then x\<lparr>bc_enabled := bc_enabled b\<rparr> else x)
      (map (\<lambda>x. if bc_name x = bc_name b then x\<lparr>bc_enabled := en\<rparr> else x) (cf_backends c)) = cf_backends c"
    by (simp only: map_map, rule map_idI) (auto dest: same)
  then show ?thesis
    by (simp add: switched_def)
qed

subsection \<open>Every operation keeps the invariant\<close>

lemma sys_new_inv: "manager_inv E (sys_new path interval tmo fs)"
  by (simp add: manager_inv_def sys_new_def manager_new_def config_default_def config_names_def
      fallback_list_def in_sync_def slot_ok_def slot_spec_def enabled_backends_def enabled_fallback_def
      accounted_def installed_ids_def all_ready_def)

lemma set_config_inv:
  assumes "manager_inv E s" and "set_config E c s = Done (r, s')"
  shows "manager_inv E s'"
  using assms(2)
proof (cases rule: set_config_cases)
  case applied
  show ?thesis
    by (rule apply_config_inv [OF applied(3)]) (use assms(1) applied in \<open>simp_all add: manager_inv_def\<close>)
qed (use assms(1) in simp)

lemma load_config_inv:
  assumes "manager_inv E s" and "load_config E s = Done (r, s')"
  shows "manager_inv E s'"
  using assms(2) by (cases rule: load_config_cases) (use assms(1) in \<open>auto intro: set_config_inv\<close>)

lemma set_backend_state_inv:
  assumes "manager_inv E s" and "set_backend_state E name en s = Done (r, s')"
  shows "manager_inv E s'"
  using assms(2)
proof (cases rule: set_backend_state_cases)
  case (switched c)
  show ?thesis
    by (rule apply_config_inv [OF switched(3)])
      (use assms(1) switch_backend_names [OF switched(1)] in \<open>simp_all add: manager_inv_def\<close>)
qed (use assms(1) in simp)

lemma persist_config_inv:
  assumes "manager_inv E s" and "persist_config E s = (r, s')"
  shows "manager_inv E s'"
  using assms(1) persist_config_frame [OF assms(2)] by (simp add: manager_inv_def accounted_def)

lemma run_loop_inv:
  "manager_inv E s \<Longrightarrow> run_loop E es s = Done (r, s') \<Longrightarrow> manager_inv E s'"
proof (induction E es s rule: run_loop.induct)
  case (3 E es s)
  then obtain r1 s1 where l: "load_config E s = Done (r1, s1)" and k: "run_loop E es s1 = Done (r, s')"
    by (auto simp: and_then_Done_iff split: sum.splits)
  have "manager_inv E s1"
    by (rule load_config_inv [OF 3(3) l])
  with 3(1,2) l k show ?case
    by (cases r1) auto
qed auto

text \<open>A sequence of operations, each started when the one before has returned.\<close>

datatype manager_call =
    Call_set_config config
  | Call_set_backend_state string bool
  | Call_load_config
  | Call_persist_config

fun call :: "('h, 'b) mgr_env \<Rightarrow> manager_call \<Rightarrow> sys \<Rightarrow> ((error + unit) \<times> sys) outcome" where
  "call E (Call_set_config c) s = set_config E c s"
| "call E (Call_set_backend_state n e) s = set_backend_state E n e s"
| "call E Call_load_config s = load_config E s"
| "call E Call_persist_config s = Done (persist_config E s)"

fun calls :: "('h, 'b) mgr_env \<Rightarrow> manager_call list \<Rightarrow> sys \<Rightarrow> ((error + unit) list \<times> sys) outcome" where
  "calls E [] s = Done ([], s)"
| "calls E (c # cs) s =
     and_then (call E c s) (\<lambda>(r, s1). and_then (calls E cs s1) (\<lambda>(rs, s2). Done (r # rs, s2)))"

lemma call_inv: "manager_inv E s \<Longrightarrow> call E c s = Done (r, s') \<Longrightarrow> manager_inv E s'"
  by (cases c) (auto intro: set_config_inv set_backend_state_inv load_config_inv persist_config_inv)

lemma calls_inv: "manager_inv E s \<Longrightarrow> calls E cs s = Done (rs, s') \<Longrightarrow> manager_inv E s'"
  by (induction cs arbitrary: s rs) (auto simp: and_then_Done_iff intro: call_inv)

text \<open>An operation that fails (persisting apart, which may have touched the file) changes
  nothing.\<close>

lemma call_failed_unchanged:
  assumes "call E c s = Done (Inl e, s')" and "c \<noteq> Call_persist_config"
  shows "s' = s"
proof (cases c)
  case (Call_set_config cfg)
  with assms(1) show ?thesis
    by (auto elim!: set_config_cases)
next
  case (Call_set_backend_state n en)
  with assms(1) show ?thesis
    by (auto elim!: set_backend_state_cases)
next
  case Call_load_config
  with assms(1) show ?thesis
    by (auto elim!: load_config_cases set_config_cases)
qed (use assms(2) in simp)

subsection \<open>Persisting and loading\<close>

lemma persist_config_saves:
  assumes "file_law E" and "persist_config E s = (Inr (), s')"
  shows "\<exists>yaml. me_to_yaml E (bm_config (sy_manager s)) = Inr yaml \<and>
     me_read E (bm_config_path (sy_manager s)) (sy_files s') = Inr yaml"
  using assms by (auto simp: persist_config_def file_law_def split: sum.splits prod.splits)

lemma persist_then_load:
  assumes "file_law E" and "yaml_law E" and "persist_config E s = (Inr (), s')"
  shows "load_config E s' = set_config E (bm_config (sy_manager s)) s'"
  using assms
  by (auto simp: persist_config_def load_config_def file_law_def yaml_law_def
      split: sum.splits prod.splits)

end
