(* ===== verification/Sample_Env.thy ===== *)
theory Sample_Env
  imports Manager_Ops
begin

section \<open>A concrete environment for the witnesses\<close>

text \<open>
  One instance of every third-party function the model takes as a parameter, so that the
  properties can be applied at concrete inputs: header maps are association lists, bodies are
  byte strings of known length, a URI needs an authority, routers report their health at once,
  and the YAML codec knows two configurations. The lemmas show that the named hypotheses of
  \<open>Http_Types\<close>, \<open>Backend\<close> and \<open>Backend_Manager\<close> hold for it.
\<close>

type_synonym headers = "(string \<times> string) list"

definition sample_insert :: "string \<Rightarrow> string \<Rightarrow> headers \<Rightarrow> headers" where
  "sample_insert n v h = (n, v) # filter (\<lambda>p. fst p \<noteq> n) h"

definition sample_http :: "(headers, bytes) http_env" where
  "sample_http =
     \<lparr>he_uri_build = (\<lambda>s a p. if a = [] then Inl ''empty authority''
        else Inr \<lparr>uri_scheme = Some s, uri_authority = Some a, uri_path_and_query = Some p\<rparr>),
      he_uri_error = (\<lambda>e. e),
      he_header_value = Some,
      he_insert = sample_insert,
      he_get = (\<lambda>n h. map_of h n),
      he_strip = filter (\<lambda>p. fst p \<noteq> ''connection''),
      he_no_headers = [],
      he_text_headers = [(''content-type'', ''text/plain'')],
      he_empty_body = [],
      he_full_body = (\<lambda>bs. bs),
      he_size_exact = (\<lambda>b. Some (of_nat (length b))),
      he_authority = (\<lambda>req. map_of (rq_headers req) ''host''),
      he_host = Some,
      he_buffer_body = (\<lambda>b limit d. if length b \<le> unat limit then Inr b else Inl ''body too big''),
      he_collect = (\<lambda>d limit b. In_time (if length b \<le> unat limit then Inr b else Inl ''length limit exceeded''))\<rparr>"

lemma map_of_filter_other: "m \<noteq> n \<Longrightarrow> map_of (filter (\<lambda>p. fst p \<noteq> n) h) m = map_of h m"
  by (induction h) auto

lemma sample_header_laws: "header_laws sample_http"
  by (auto simp: header_laws_def sample_http_def sample_insert_def map_of_filter_other)

lemma sample_strip_law: "strip_law sample_http"
  by (simp add: strip_law_def sample_http_def map_of_filter_other)

lemma sample_authority_law: "authority_law sample_http"
  by (simp add: authority_law_def sample_http_def)

lemma sample_full_body_law: "full_body_law sample_http"
  by (simp add: full_body_law_def sample_http_def)

lemma sample_collect_law: "collect_law sample_http"
  by (auto simp: collect_law_def sample_http_def split: if_splits)

subsection \<open>Configurations and the manager's environment\<close>

definition sample_conf :: "string \<Rightarrow> string \<Rightarrow> bool \<Rightarrow> backend_conf" where
  "sample_conf name authority en =
     \<lparr>bc_name = name, bc_url = \<lparr>url_scheme = ''http'', url_authority = authority, url_path = ''/''\<rparr>,
      bc_enabled = en, bc_weight = 1\<rparr>"

definition config_a :: config where
  "config_a = \<lparr>cf_strategy = Strategy_named ''wrr'',
     cf_backends = [sample_conf ''host1'' ''127.0.0.1:9001'' True, sample_conf ''host2'' ''127.0.0.1:9002'' False],
     cf_fallback = Some [sample_conf ''host3'' ''127.0.0.1:9003'' True]\<rparr>"

definition config_b :: config where
  "config_b = \<lparr>cf_strategy = LeastOutstandingRequests,
     cf_backends = [sample_conf ''host4'' ''127.0.0.1:9004'' True], cf_fallback = None\<rparr>"

text \<open>A configuration whose URL has no authority, and one that repeats a name.\<close>

definition config_bad_url :: config where
  "config_bad_url = config_b\<lparr>cf_backends := [sample_conf ''host5'' [] True]\<rparr>"

definition config_dup :: config where
  "config_dup = config_a\<lparr>cf_fallback := Some [sample_conf ''host1'' ''127.0.0.1:9003'' True]\<rparr>"

definition sample_env :: "(headers, bytes) mgr_env" where
  "sample_env =
     \<lparr>me_http = sample_http,
      me_watch = (\<lambda>r. Changed (map (\<lambda>p. (fst p, Unknown)) (rt_backends r))
        (Changed (map (\<lambda>p. (fst p, Healthy)) (rt_backends r)) Silent)),
      me_healthy = (\<lambda>r. map fst (rt_backends r)),
      me_stop = (\<lambda>r. Done ()),
      me_read = (\<lambda>p fs. case fs p of Some b \<Rightarrow> Inr b | None \<Rightarrow> Inl ''No such file or directory''),
      me_write = (\<lambda>p b fs. if p = [] then (Inl ''No such file or directory'', fs)
        else (Inr (), fs(p \<mapsto> b))),
      me_from_yaml = (\<lambda>y. if y = ''a'' then Inr config_a else if y = ''b'' then Inr config_b
        else Inl ''invalid yaml''),
      me_to_yaml = (\<lambda>c. if c = config_a then Inr ''a'' else if c = config_b then Inr ''b''
        else Inl ''unsupported''),
      me_from_json = (\<lambda>j. if j = ''ja'' then Inr config_a else Inl ''invalid json''),
      me_to_json_pretty = (\<lambda>c. if c = config_a then Inr ''ja'' else Inl ''unsupported'')\<rparr>"

lemma sample_watch_done [simp]: "wait_healthchecks (me_watch sample_env r) = Done ()"
  by (simp add: sample_env_def list_all_iff)

lemma sample_env_live: "env_live sample_env"
  by (simp add: env_live_def) (simp add: sample_env_def)

lemma config_b_not_a: "config_b \<noteq> config_a"
  by (simp add: config_a_def config_b_def)

lemma sample_yaml_law: "yaml_law sample_env"
  using config_b_not_a by (auto simp: yaml_law_def sample_env_def)

lemma sample_file_law: "file_law sample_env"
  by (auto simp: file_law_def sample_env_def)

lemma sample_url_ok:
  "url_ok (me_http sample_env) (sample_conf n a en) \<longleftrightarrow> a \<noteq> []"
  by (simp add: url_ok_def sample_env_def sample_http_def sample_conf_def)

lemma sample_url_iff: "url_ok (me_http sample_env) b \<longleftrightarrow> url_authority (bc_url b) \<noteq> []"
  by (simp add: url_ok_def sample_env_def sample_http_def)

text \<open>A manager started on an empty file system.\<close>

definition sample_sys :: sys where
  "sample_sys = sys_new ''config.yaml'' 1000000000 10000000000 (\<lambda>_. None)"

lemma sample_sys_inv: "manager_inv sample_env sample_sys"
  by (simp add: sample_sys_def sys_new_inv)

lemma sample_names [simp]:
  "distinct (config_names config_a)" "distinct (config_names config_b)"
  "distinct (config_names config_bad_url)" "\<not> distinct (config_names config_dup)"
  by (simp_all add: config_names_def fallback_list_def config_a_def config_b_def config_bad_url_def
      config_dup_def sample_conf_def)

lemma sample_enabled [simp]:
  "enabled_backends config_a = [sample_conf ''host1'' ''127.0.0.1:9001'' True]"
  "enabled_fallback config_a = [sample_conf ''host3'' ''127.0.0.1:9003'' True]"
  "enabled_backends config_b = [sample_conf ''host4'' ''127.0.0.1:9004'' True]"
  "enabled_fallback config_b = []"
  by (simp_all add: enabled_backends_def enabled_fallback_def fallback_list_def config_a_def
      config_b_def sample_conf_def)

lemma sample_apply_a: "\<exists>s'. apply_config sample_env (with_config config_a s) = Done s'"
  by (rule apply_config_total) (auto simp: sample_url_ok sample_env_live)

lemma sample_apply_b: "\<exists>s'. apply_config sample_env (with_config config_b s) = Done s'"
  by (rule apply_config_total) (auto simp: sample_url_ok sample_env_live)

lemma sample_set_a: "\<exists>s'. set_config sample_env config_a s = Done (Inr (), s')"
  using sample_apply_a [of s] by (auto simp: set_config_def)

lemma sample_set_b: "\<exists>s'. set_config sample_env config_b s = Done (Inr (), s')"
  using sample_apply_b [of s] by (auto simp: set_config_def)

end
