(* ===== verification/Sample_Requests.thy ===== *)
theory Sample_Requests
  imports Routing Sample_Env
begin

section \<open>Concrete requests for the witnesses\<close>

text \<open>
  A manager with one router, a balancer that takes the router's first backend, a client whose
  first attempts fail, a request with a small body and handler settings with three attempts.
\<close>

definition sample_backend :: backend where
  "sample_backend =
     \<lparr>be_name = ''host1'', be_url = bc_url (sample_conf ''host1'' ''127.0.0.1:9001'' True),
      be_uri_health = \<lparr>uri_scheme = Some ''http'', uri_authority = Some ''127.0.0.1:9001'',
        uri_path_and_query = Some ''/health''\<rparr>\<rparr>"

definition sample_router :: router where
  "sample_router = \<lparr>rt_id = 0, rt_backends = [(sample_backend, 1)],
     rt_strategy = Strategy_named ''wrr'', rt_check_interval = 1000000000, rt_check_timeout = 10000000000\<rparr>"

definition sample_manager :: manager where
  "sample_manager = (manager_new ''config.yaml'' 1000000000 10000000000)
     \<lparr>bm_router := Some sample_router, bm_config := config_a\<lparr>cf_fallback := None\<rparr>\<rparr>"

definition sample_healthy :: "router \<Rightarrow> backend list" where
  "sample_healthy r = map fst (rt_backends r)"

definition sample_lb :: "(headers, bytes) balancer" where
  "sample_lb n r ex ctx req =
     (case rt_backends r of
        [] \<Rightarrow> (Done (Inl No_Healthy_Nodes), ctx)
      | p # _ \<Rightarrow> wrap_executor (ex (fst p) ctx req))"

definition sample_response :: "(headers, bytes) response" where
  "sample_response = \<lparr>rs_status = 200, rs_headers = [], rs_body = ''world'', rs_error_cause = None,
     rs_retries = None\<rparr>"

definition sample_client ::
  "nat \<Rightarrow> nat \<Rightarrow> (headers, bytes) request \<Rightarrow> (string + (headers, bytes) response) outcome" where
  "sample_client k n req = Done (if n < k then Inl ''connection refused'' else Inr sample_response)"

definition sample_request :: "(headers, bytes) request" where
  "sample_request = \<lparr>rq_method = ''POST'',
     rq_uri = \<lparr>uri_scheme = None, uri_authority = None, uri_path_and_query = Some ''/a?b=c''\<rparr>,
     rq_version = HTTP_2, rq_headers = [(''host'', ''example.org'')], rq_body = ''hello'',
     rq_extensions = no_extensions\<rparr>"

definition sample_state :: handler_state where
  "sample_state = \<lparr>hs_request_body_buffer = False, hs_request_body_size_limit = 1000,
     hs_request_body_timeout = 30000000000, hs_response_body_buffer = True,
     hs_response_body_size_limit = 1000, hs_response_body_timeout = 60000000000,
     hs_retry_attempts = 3, hs_retry_interval = 50000000,
     hs_retry_interval_no_healthy_nodes = 250000000\<rparr>"

text \<open>The request as every attempt sends it to the router.\<close>

definition sample_sent :: "(headers, bytes) request" where
  "sample_sent = sample_request\<lparr>rq_headers :=
     [(''x-forwarded-host'', ''example.org''), (''host'', ''example.org'')]\<rparr>"

abbreviation sample_execute :: "nat \<Rightarrow> router \<Rightarrow> (headers, bytes) exec" where
  "sample_execute k \<equiv> router_execute sample_http (sample_client k) sample_lb"

lemma sample_balancer: "balancer_contract sample_lb"
  unfolding balancer_contract_def
proof (intro allI)
  fix n r ex ctx req
  show "sample_lb n r ex ctx req = (Done (Inl No_Healthy_Nodes), ctx) \<or>
     (\<exists>p \<in> set (rt_backends r). sample_lb n r ex ctx req = wrap_executor (ex (fst p) ctx req))"
    by (cases "rt_backends r") (auto simp: sample_lb_def)
qed

lemma sample_execute_eq:
  "sample_execute k sample_router n ctx req =
     (Done (if n < k then Inl (Inner ''connection refused'') else Inr sample_response),
      map_option (\<lambda>c. c\<lparr>rc_backend := Some sample_backend\<rparr>) ctx)"
  by (simp add: router_execute_def sample_lb_def sample_router_def executor_execute_def
      sample_http_def sample_backend_def sample_conf_def wrap_executor_def sample_client_def)

lemma sample_client_completes: "client_completes (sample_client k)"
  by (simp add: client_completes_def sample_client_def)

lemma sample_get_router: "get_backend_router sample_healthy sample_manager = Some sample_router"
  by (simp add: get_backend_router_def sample_manager_def sample_healthy_def sample_router_def)

lemma sample_in_sync: "in_sync sample_manager"
  by (simp add: in_sync_def slot_ok_def slot_spec_def sample_manager_def manager_new_def
      enabled_backends_def enabled_fallback_def fallback_list_def config_a_def sample_conf_def
      sample_router_def sample_backend_def router_entry_def conf_entry_def)

end
