(* ===== verification/Routing_Properties.thy ===== *)
theory Routing_Properties
  imports Retry_Loop Sample_Requests
begin

section \<open>Properties of the request handler\<close>

text \<open>
  What a request's handler answers and does, on every path: the first success or the last error
  of its attempts, the bound on their number, the pauses, the header they carry, and that it
  always returns. \<open>retries_request\<close> names the path with a buffered body.
\<close>

subsection \<open>Lemmas on the handler\<close>

definition forwarded :: "('h, 'b) http_env \<Rightarrow> string \<Rightarrow> ('h, 'b) request \<Rightarrow> ('h, 'b) request" where
  "forwarded H hv req = req\<lparr>rq_headers := he_insert H x_forwarded_host hv (rq_headers req)\<rparr>"

text \<open>The handler reaches the retry loop with router \<open>r\<close> and request \<open>sent\<close>.\<close>

definition retries_request ::
  "('h, 'b) http_env \<Rightarrow> handler_state \<Rightarrow> (router \<Rightarrow> backend list) \<Rightarrow> manager \<Rightarrow> ('h, 'b) request \<Rightarrow>
   router \<Rightarrow> ('h, 'b) request \<Rightarrow> bool" where
  "retries_request H hs healthy m req r sent \<longleftrightarrow>
     (\<exists>host hv bs. he_authority H req = Some host \<and> get_backend_router healthy m = Some r \<and>
        he_header_value H host = Some hv \<and> should_buffer H hs (forwarded H hv req) \<and>
        he_buffer_body H (rq_body req) (hs_request_body_size_limit hs) (hs_request_body_timeout hs) = Inr bs \<and>
        sent = (forwarded H hv req)\<lparr>rq_body := he_full_body H bs\<rparr>)"

text \<open>The handler as a choice between seven paths; on one of them its only call of a backend router
  does not complete.\<close>

lemma handler_cases:
  assumes "handler H hs checks healthy m execute ctx req = out"
  obtains (no_authority) "he_authority H req = None" "out = Done (into_response H NoAuthority, ctx, [])"
  | (not_ready) "get_backend_router healthy m = None" "out = Done (into_response H ServiceNotReady, ctx, [])"
  | (bad_host) host where "he_authority H req = Some host" "he_header_value H host = None" "out = Panicked"
  | (once) host hv r res ctx1 where "he_authority H req = Some host"
      "get_backend_router healthy m = Some r" "he_header_value H host = Some hv"
      "\<not> should_buffer H hs (forwarded H hv req)"
      "execute r 0 ctx (forwarded H hv req) = (Done res, ctx1)"
      "out = (case res of Inl e \<Rightarrow> Done (into_response H (lb_cause e), ctx1, [Executed (forwarded H hv req)])
         | Inr v \<Rightarrow> Done (fst (buffer_response H hs ctx1 v), snd (buffer_response H hs ctx1 v),
             [Executed (forwarded H hv req)]))"
  | (stuck) host hv r res ctx1 where "he_authority H req = Some host"
      "get_backend_router healthy m = Some r" "he_header_value H host = Some hv"
      "execute r 0 ctx (forwarded H hv req) = (res, ctx1)" "\<not> completed res" "\<not> completed out"
  | (body_failed) e where "he_buffer_body H (rq_body req) (hs_request_body_size_limit hs)
        (hs_request_body_timeout hs) = Inl e" "out = Done (into_response H RequestBodyBufferTimeout, ctx, [])"
  | (retried) r sent where "retries_request H hs healthy m req r sent"
      "out = and_then (retry_loop H hs checks (execute r) sent 0 (mark_request_buffered ctx)
          (hs_retry_attempts hs) (hs_retry_interval hs))
        (\<lambda>(res, ctx1, tr). case res of
            Inl error_response \<Rightarrow> Done (error_response, ctx1, tr)
          | Inr (v, retries) \<Rightarrow>
              (case buffer_response H hs ctx1 (v\<lparr>rs_retries := Some (hs_retry_attempts hs - retries)\<rparr>) of
                 (resp, ctx2) \<Rightarrow> Done (resp, ctx2, tr)))"
proof -
  consider (a) "he_authority H req = None"
    | (b) host where "he_authority H req = Some host" "get_backend_router healthy m = None"
    | (c) host r where "he_authority H req = Some host" "get_backend_router healthy m = Some r"
        "he_header_value H host = None"
    | (d) host r hv where "he_authority H req = Some host" "get_backend_router healthy m = Some r"
        "he_header_value H host = Some hv" "\<not> should_buffer H hs (forwarded H hv req)"
    | (e) host r hv where "he_authority H req = Some host" "get_backend_router healthy m = Some r"
        "he_header_value H host = Some hv" "should_buffer H hs (forwarded H hv req)"
    by (metis option.exhaust)
  then show thesis
  proof cases
    case a
    with assms show ?thesis
      by (intro no_authority) (simp_all add: handler_def)
  next
    case b
    with assms show ?thesis
      by (intro not_ready) (simp_all add: handler_def)
  next
    case c
    with assms show ?thesis
      by (intro bad_host) (simp_all add: handler_def)
  next
    case d
    obtain res ctx1 where ex: "execute r 0 ctx (forwarded H hv req) = (res, ctx1)"
      by (cases "execute r 0 ctx (forwarded H hv req)")
    show ?thesis
    proof (cases "completed res")
      case True
      then obtain x where x: "res = Done x"
        by blast
      show ?thesis
        by (rule once [OF d ex [unfolded x]], insert assms d ex x)
          (cases x; auto simp: handler_def forwarded_def [symmetric] split_beta)
    next
      case False
      show ?thesis
        by (rule stuck [OF d(1-3) ex False], insert assms d ex False)
          (cases res; auto simp: handler_def forwarded_def [symmetric])
    qed
  next
    case e
    show ?thesis
    proof (cases "buffer_request H hs (forwarded H hv req)")
      case (Inl err)
      then have "he_buffer_body H (rq_body req) (hs_request_body_size_limit hs)
          (hs_request_body_timeout hs) = Inl err"
        by (simp add: buffer_request_def forwarded_def split: sum.splits)
      then show ?thesis
        by (rule body_failed) (use assms e Inl in \<open>simp add: handler_def forwarded_def [symmetric]\<close>)
    next
      case (Inr pb)
      then obtain bs where bs: "pb = (forwarded H hv req, bs)"
        "he_buffer_body H (rq_body req) (hs_request_body_size_limit hs) (hs_request_body_timeout hs) = Inr bs"
        by (auto simp: buffer_request_def forwarded_def split: sum.splits)
      have "retries_request H hs healthy m req r ((forwarded H hv req)\<lparr>rq_body := he_full_body H bs\<rparr>)"
        using e bs by (auto simp: retries_request_def)
      then show ?thesis
        by (rule retried) (use assms e bs Inr in \<open>simp add: handler_def forwarded_def [symmetric]\<close>)
    qed
  qed
qed

lemma handler_retried:
  assumes "retries_request H hs healthy m req r sent"
  shows "handler H hs checks healthy m execute ctx req =
     and_then (retry_loop H hs checks (execute r) sent 0 (mark_request_buffered ctx)
         (hs_retry_attempts hs) (hs_retry_interval hs))
       (\<lambda>(res, ctx1, tr). case res of
           Inl error_response \<Rightarrow> Done (error_response, ctx1, tr)
         | Inr (v, retries) \<Rightarrow>
             (case buffer_response H hs ctx1 (v\<lparr>rs_retries := Some (hs_retry_attempts hs - retries)\<rparr>) of
                (resp, ctx2) \<Rightarrow> Done (resp, ctx2, tr)))"
proof -
  obtain host hv bs where p: "he_authority H req = Some host" "get_backend_router healthy m = Some r"
    "he_header_value H host = Some hv" "should_buffer H hs (forwarded H hv req)"
    "he_buffer_body H (rq_body req) (hs_request_body_size_limit hs) (hs_request_body_timeout hs) = Inr bs"
    and sent: "sent = (forwarded H hv req)\<lparr>rq_body := he_full_body H bs\<rparr>"
    using assms unfolding retries_request_def by blast
  have "buffer_request H hs (forwarded H hv req) = Inr (forwarded H hv req, bs)"
    using p(5) by (simp add: buffer_request_def forwarded_def)
  with p sent show ?thesis
    by (simp add: handler_def forwarded_def [symmetric])
qed

lemma sample_retries:
  "retries_request sample_http sample_state sample_healthy sample_manager sample_request
     sample_router sample_sent"
  unfolding retries_request_def
  by (intro exI [of _ "''example.org''"] exI [of _ "''hello''"])
    (simp add: sample_get_router, simp add: sample_http_def sample_request_def should_buffer_def
      bufferable_def forwarded_def sample_state_def sample_sent_def x_forwarded_host_def
      sample_insert_def word_le_nat_alt word_less_nat_alt)

lemma handler_loop_result:
  assumes "retries_request H hs healthy m req r sent"
    and "retry_loop H hs checks (execute r) sent 0 (mark_request_buffered ctx)
          (hs_retry_attempts hs) (hs_retry_interval hs) = Done (res, ctx1, tr)"
  shows "handler H hs checks healthy m execute ctx req =
     (case res of
        Inl error_response \<Rightarrow> Done (error_response, ctx1, tr)
      | Inr (v, retries) \<Rightarrow>
          (case buffer_response H hs ctx1 (v\<lparr>rs_retries := Some (hs_retry_attempts hs - retries)\<rparr>) of
             (resp, ctx2) \<Rightarrow> Done (resp, ctx2, tr)))"
  unfolding handler_retried [OF assms(1)] assms(2) by simp

lemma loop_outcome_cases:
  assumes "and_then loop
      (\<lambda>(res, ctx1, tr). case res of
          Inl error_response \<Rightarrow> Done (error_response, ctx1, tr)
        | Inr (v, retries) \<Rightarrow>
            (case buffer_response H hs ctx1 (v\<lparr>rs_retries := Some (attempts - retries)\<rparr>) of
               (resp, ctx2) \<Rightarrow> Done (resp, ctx2, tr))) = Done (resp, ctx', tr)"
  obtains (error) "loop = Done (Inl resp, ctx', tr)"
  | (response) v retries ctx1 where "loop = Done (Inr (v, retries), ctx1, tr)"
      and "buffer_response H hs ctx1 (v\<lparr>rs_retries := Some (attempts - retries)\<rparr>) = (resp, ctx')"
proof -
  from assms obtain x where x: "loop = Done x"
    by blast
  obtain res ctx1 tr1 where p: "x = (res, ctx1, tr1)"
    by (cases x)
  show thesis
  proof (cases res)
    case (Inl e)
    with assms x p show thesis
      by (intro error) simp
  next
    case (Inr vr)
    obtain v retries where "vr = (v, retries)"
      by (cases vr)
    with assms x p Inr show thesis
      by (intro response [of v retries ctx1]) (simp_all add: split_beta prod_eq_iff)
  qed
qed

lemma bufferable_collected:
  assumes "full_body_law H" and "collect_law H" and "he_collect H d limit b = In_time (Inr v)"
  shows "bufferable H limit (he_full_body H v)"
proof -
  have "length v \<le> unat limit"
    using assms(2,3) by (auto simp: collect_law_def)
  then have "(of_nat (length v) :: 64 word) \<le> limit"
    by (simp add: word_le_nat_alt unat_of_nat le_trans [OF mod_less_eq_dividend])
  with assms(1) show ?thesis
    by (simp add: bufferable_def full_body_law_def)
qed

lemma sum_list_doubled:
  "sum_list (map (\<lambda>i. d * 2 ^ i) [0..<n]) = d * (2 ^ n - 1 :: nat)"
proof (induction n)
  case (Suc n)
  have "(1 :: nat) \<le> 2 ^ n"
    by simp
  then have "d * (2 ^ n - 1) + d * 2 ^ n = d * (2 ^ Suc n - 1)"
    by (simp add: add_mult_distrib2 [symmetric] mult_2)
  with Suc show ?case
    by simp
qed simp

lemma sample_handler_run:
  "handler sample_http sample_state checks sample_healthy sample_manager (sample_execute 2) ctx
     sample_request =
     Done (sample_response\<lparr>rs_retries := Some 2\<rparr>,
       map_option (\<lambda>c. c\<lparr>rc_backend := Some sample_backend, rc_request_body_buffered := True,
         rc_response_body_buffered := True\<rparr>) ctx,
       [Executed sample_sent, Slept 50000000, Executed sample_sent, Slept 100000000, Executed sample_sent])"
proof -
  let ?ctx = "map_option (\<lambda>c. c\<lparr>rc_backend := Some sample_backend, rc_request_body_buffered := True\<rparr>) ctx"
  have att: "attempt (sample_execute 2 sample_router) sample_sent 0 (mark_request_buffered ctx) i =
      Done (if i < 2 then Inl (Inner ''connection refused'') else Inr sample_response)" for i
    by (simp add: attempt_def sample_execute_eq)
  have scope: "scope_after (sample_execute 2 sample_router) sample_sent 0 (mark_request_buffered ctx) 3 = ?ctx"
    by (cases ctx) (simp_all add: numeral_3_eq_3 sample_execute_eq mark_request_buffered_def)
  have loop: "retry_loop sample_http sample_state checks (sample_execute 2 sample_router) sample_sent 0
      (mark_request_buffered ctx) (hs_retry_attempts sample_state) (hs_retry_interval sample_state) =
      Done (Inr (sample_response, 1), ?ctx, [Executed sample_sent, Slept 50000000, Executed sample_sent,
        Slept 100000000, Executed sample_sent])"
  proof (subst retry_loop_first_success [where k = 2 and v = sample_response])
    show "2 < unat (hs_retry_attempts sample_state)" "hs_retry_interval sample_state * 2 ^ 2 \<le> duration_max"
      by (simp_all add: sample_state_def duration_max_def)
  qed (simp_all add: att scope, simp_all add: sample_state_def numeral_2_eq_2 sample_execute_eq)
  show ?thesis
    unfolding handler_loop_result [where execute = "sample_execute 2", OF sample_retries loop]
    by (cases ctx) (simp_all add: buffer_response_def sample_state_def bufferable_def sample_http_def
        sample_response_def word_le_nat_alt)
qed

subsection \<open>The retry loop as seen by a client\<close>

text \<open>C5: when the first \<open>k\<close> attempts of a buffered request fail and the next one, still within
  the configured number of attempts, succeeds, the handler answers with that response, marked with
  the number \<open>k\<close> of retries and passed through response buffering; it sent the same request
  \<open>k + 1\<close> times, with a pause after each failed attempt.\<close>

theorem handler_returns_first_success:
  assumes "retries_request H hs healthy m req r sent"
    and "k < unat (hs_retry_attempts hs)"
    and "\<forall>i < k. failed (attempt (execute r) sent 0 (mark_request_buffered ctx) i)"
    and "attempt (execute r) sent 0 (mark_request_buffered ctx) k = Done (Inr v)"
    and "hs_retry_interval hs * 2 ^ k \<le> duration_max"
  shows "handler H hs checks healthy m execute ctx req =
     (case buffer_response H hs (scope_after (execute r) sent 0 (mark_request_buffered ctx) (Suc k))
             (v\<lparr>rs_retries := Some (of_nat k)\<rparr>) of
        (resp, ctx') \<Rightarrow> Done (resp, ctx',
          failed_events hs (execute r) sent 0 (mark_request_buffered ctx) (hs_retry_interval hs) k
            @ [Executed sent]))"
  using handler_loop_result [where execute = execute, OF assms(1)
      retry_loop_first_success [where exec = "execute r" and req = sent, OF assms(2-5)]]
  by simp

theorem handler_returns_first_success_witness:
  "handler sample_http sample_state True sample_healthy sample_manager (sample_execute 2) None
     sample_request =
     Done (sample_response\<lparr>rs_retries := Some 2\<rparr>, None,
       [Executed sample_sent, Slept 50000000, Executed sample_sent, Slept 100000000,
        Executed sample_sent])"
proof -
  have att: "attempt (sample_execute 2 sample_router) sample_sent 0 (mark_request_buffered None) i =
      Done (if i < 2 then Inl (Inner ''connection refused'') else Inr sample_response)" for i
    by (simp add: attempt_def sample_execute_eq)
  have "handler sample_http sample_state True sample_healthy sample_manager (sample_execute 2) None
      sample_request =
     (case buffer_response sample_http sample_state
             (scope_after (sample_execute 2 sample_router) sample_sent 0 (mark_request_buffered None) (Suc 2))
             (sample_response\<lparr>rs_retries := Some (of_nat 2)\<rparr>) of
        (resp, ctx') \<Rightarrow> Done (resp, ctx',
          failed_events sample_state (sample_execute 2 sample_router) sample_sent 0
            (mark_request_buffered None) (hs_retry_interval sample_state) 2 @ [Executed sample_sent]))"
    by (rule handler_returns_first_success [OF sample_retries])
      (simp_all add: att, simp_all add: sample_state_def duration_max_def)
  then show ?thesis
    by (simp add: numeral_2_eq_2 sample_execute_eq mark_request_buffered_def)
      (simp add: buffer_response_def sample_state_def bufferable_def sample_http_def sample_response_def
        word_le_nat_alt)
qed

text \<open>C13: when every attempt of a buffered request fails, the handler makes exactly the configured
  number of attempts and answers with the error response of the last one: 503 when no backend was
  healthy, 502 with the client's error otherwise. That answer carries no retry count.\<close>

theorem handler_gives_up:
  assumes "retries_request H hs healthy m req r sent"
    and "hs_retry_attempts hs \<noteq> 0"
    and "\<forall>i < unat (hs_retry_attempts hs).
           failed (attempt (execute r) sent 0 (mark_request_buffered ctx) i)"
    and "hs_retry_interval hs * 2 ^ unat (hs_retry_attempts hs) \<le> duration_max"
  shows "\<exists>resp ctx' tr.
     handler H hs checks healthy m execute ctx req = Done (resp, ctx', tr) \<and>
     resp = into_response H (lb_cause (error_of (attempt (execute r) sent 0 (mark_request_buffered ctx)
              (unat (hs_retry_attempts hs) - 1)))) \<and>
     (rs_status resp = 502 \<or> rs_status resp = 503) \<and> rs_retries resp = None \<and>
     executions tr = unat (hs_retry_attempts hs)"
proof -
  obtain k where k: "unat (hs_retry_attempts hs) = Suc k"
    using assms(2) by (metis gr0_implies_Suc unat_u8_pos)
  let ?e = "error_of (attempt (execute r) sent 0 (mark_request_buffered ctx) k)"
  have status: "rs_status (into_response H (lb_cause ?e)) = 502 \<or>
      rs_status (into_response H (lb_cause ?e)) = 503" "rs_retries (into_response H (lb_cause ?e)) = None"
    by (cases ?e; simp)+
  show ?thesis
    using handler_loop_result [where execute = execute, OF assms(1)
        retry_loop_all_failed [where exec = "execute r" and req = sent, OF k assms(3,4) [unfolded k]]]
      k status
    by simp
qed

theorem handler_gives_up_witness:
  "\<exists>ctx' tr. handler sample_http sample_state True sample_healthy sample_manager (sample_execute 9)
      None sample_request =
        Done (into_response sample_http (BackendRequestError ''connection refused''), ctx', tr) \<and>
     executions tr = 3"
proof -
  have att: "attempt (sample_execute 9 sample_router) sample_sent 0 (mark_request_buffered None) i =
      Done (if i < 9 then Inl (Inner ''connection refused'') else Inr sample_response)" for i
    by (simp add: attempt_def sample_execute_eq)
  have three: "unat (hs_retry_attempts sample_state) = 3"
    by (simp add: sample_state_def)
  show ?thesis
    using handler_gives_up [where execute = "sample_execute 9" and checks = True, OF sample_retries, of None]
    by (simp add: att three) (simp add: sample_state_def duration_max_def)
qed

text \<open>When every attempt of a buffered request ends in a request error, the handler pauses
  after each of them, the last one included, for the configured interval doubled each time: in
  total \<open>(2 ^ attempts - 1)\<close> intervals before the client has its error.\<close>

lemma handler_backoff_doubles:
  assumes "retries_request H hs healthy m req r sent"
    and "hs_retry_attempts hs \<noteq> 0"
    and "\<forall>i < unat (hs_retry_attempts hs).
           \<exists>e. attempt (execute r) sent 0 (mark_request_buffered ctx) i = Done (Inl (Inner e))"
    and "hs_retry_interval hs * 2 ^ unat (hs_retry_attempts hs) \<le> duration_max"
  shows "\<exists>resp ctx' tr. handler H hs checks healthy m execute ctx req = Done (resp, ctx', tr) \<and>
     slept tr = map (\<lambda>i. hs_retry_interval hs * 2 ^ i) [0..<unat (hs_retry_attempts hs)] \<and>
     sum_list (slept tr) = hs_retry_interval hs * (2 ^ unat (hs_retry_attempts hs) - 1)"
proof -
  obtain k where k: "unat (hs_retry_attempts hs) = Suc k"
    using assms(2) by (metis gr0_implies_Suc unat_u8_pos)
  have fs: "\<forall>i < Suc k. failed (attempt (execute r) sent 0 (mark_request_buffered ctx) i)"
    using assms(3) k by (metis failed_simps(1))
  note pauses = failed_events_backoff [where exec = "execute r" and hs = hs and d = "hs_retry_interval hs",
      OF assms(3)]
  show ?thesis
    using handler_loop_result [where execute = execute, OF assms(1)
        retry_loop_all_failed [where exec = "execute r" and req = sent, OF k fs assms(4) [unfolded k]]]
      pauses
    by (simp add: k [symmetric] sum_list_doubled del: failed_events.simps)
qed

lemma handler_backoff_doubles_witness:
  "\<exists>resp ctx' tr. handler sample_http sample_state True sample_healthy sample_manager
      (sample_execute 9) None sample_request = Done (resp, ctx', tr) \<and>
     slept tr = [50000000, 100000000, 200000000] \<and> sum_list (slept tr) = 350000000"
proof -
  have att: "attempt (sample_execute 9 sample_router) sample_sent 0 (mark_request_buffered None) i =
      Done (if i < 9 then Inl (Inner ''connection refused'') else Inr sample_response)" for i
    by (simp add: attempt_def sample_execute_eq)
  have three: "unat (hs_retry_attempts sample_state) = Suc (Suc (Suc 0))"
    by (simp add: sample_state_def)
  show ?thesis
    using handler_backoff_doubles [where execute = "sample_execute 9" and checks = True,
        OF sample_retries, of None]
    by (simp add: att three) (simp add: sample_state_def duration_max_def)
qed

subsection \<open>Every path of the handler\<close>



lemma handler_answers:
  assumes "authority_law H" and "hs_retry_attempts hs \<noteq> 0"
    and "hs_retry_interval hs * 2 ^ unat (hs_retry_attempts hs) \<le> duration_max"
    and "\<And>r n c q. completed (fst (execute r n c q))"
  shows "\<exists>resp ctx' tr. handler H hs checks healthy m execute ctx req = Done (resp, ctx', tr)"
proof -
  have "handler H hs checks healthy m execute ctx req = handler H hs checks healthy m execute ctx req" ..
  then show ?thesis
  proof (cases rule: handler_cases)
    case (bad_host host)
    with assms(1) show ?thesis
      by (auto simp: authority_law_def)
  next
    case (once host hv r res ctx1)
    then show ?thesis
      by (cases res) auto
  next
    case (stuck host hv r res ctx1)
    with assms(4) [of r 0 ctx "forwarded H hv req"] show ?thesis
      by simp
  next
    case (retried r sent)
    obtain x where x: "retry_loop H hs checks (execute r) sent 0 (mark_request_buffered ctx)
        (hs_retry_attempts hs) (hs_retry_interval hs) = Done x"
      using retry_loop_returns [where exec = "execute r" and req = sent, OF assms(2-4)] by blast
    show ?thesis
      unfolding retried(2) x by (auto split: prod.splits sum.splits)
  qed auto
qed

text \<open>C31: a request whose body is not known to fit the limit, or for which neither retries nor
  buffering are configured, is sent at most once, with its body untouched, without a pause and
  whatever the number of attempts configured; its response carries no retry count.\<close>

theorem unbuffered_request_sent_once:
  assumes "\<not> bufferable H (hs_request_body_size_limit hs) (rq_body req) \<or>
      hs_retry_attempts hs \<le> 1 \<and> \<not> hs_request_body_buffer hs"
    and "handler H hs checks healthy m execute ctx req = Done (resp, ctx', tr)"
  shows "tr = [] \<or> (\<exists>q. tr = [Executed q] \<and> rq_body q = rq_body req)"
proof -
  have unbuffered: "\<not> should_buffer H hs (forwarded H hv req)" for hv
    using assms(1) by (auto simp: should_buffer_def forwarded_def)
  from assms(2) show ?thesis
  proof (cases rule: handler_cases)
    case (once host hv r res ctx1)
    then have "tr = [Executed (forwarded H hv req)]"
      by (auto split: sum.splits)
    then show ?thesis
      by (simp add: forwarded_def)
  next
    case (retried r sent)
    with unbuffered show ?thesis
      by (auto simp: retries_request_def)
  qed auto
qed

theorem unbuffered_request_sent_once_witness:
  "\<exists>resp tr. handler sample_http (sample_state\<lparr>hs_request_body_size_limit := 4\<rparr>) True sample_healthy
      sample_manager (sample_execute 1) None sample_request = Done (resp, None, tr) \<and>
     (tr = [] \<or> (\<exists>q. tr = [Executed q] \<and> rq_body q = ''hello'')) \<and> tr \<noteq> []"
proof -
  let ?hs = "sample_state\<lparr>hs_request_body_size_limit := 4\<rparr>"
  have small: "\<not> bufferable sample_http (hs_request_body_size_limit ?hs) (rq_body sample_request)"
    by (simp add: bufferable_def sample_http_def sample_request_def word_le_nat_alt)
  have auth: "he_authority sample_http sample_request = Some ''example.org''"
    "he_header_value sample_http = Some"
    by (simp_all add: sample_http_def sample_request_def)
  have nb: "\<not> should_buffer sample_http ?hs (sample_request\<lparr>rq_headers := h\<rparr>)" for h
    using small by (simp add: should_buffer_def)
  obtain resp q where run: "handler sample_http ?hs True sample_healthy sample_manager
      (sample_execute 1) None sample_request = Done (resp, None, [Executed q])"
    by (simp add: handler_def auth sample_get_router nb sample_execute_eq)
  from unbuffered_request_sent_once [OF disjI1 [OF small] run] run show ?thesis
    by (intro exI [of _ resp] exI [of _ "[Executed q]"]) (simp add: sample_request_def)
qed

text \<open>C24: the flags a request's context reports are true: the request flag is set exactly when the
  request's body was buffered for the retry loop, and the response flag only when buffering is
  configured and the body of the answer has a known size within the limit.\<close>

theorem buffer_flags_truthful:
  assumes "balancer_contract lb" and "full_body_law H" and "collect_law H"
    and "handler H hs checks healthy m (router_execute H client lb) (Some context_default) req =
           Done (resp, Some c, tr)"
  shows "(rc_request_body_buffered c \<longleftrightarrow> (\<exists>r sent. retries_request H hs healthy m req r sent)) \<and>
     (rc_response_body_buffered c \<longrightarrow>
        hs_response_body_buffer hs \<and> bufferable H (hs_response_body_size_limit hs) (rs_body resp))"
proof -
  define flags where "flags q ctx \<longleftrightarrow>
      (\<forall>c. ctx = Some c \<longrightarrow> (rc_request_body_buffered c \<longleftrightarrow> q) \<and> \<not> rc_response_body_buffered c)"
    for q and ctx :: scope
  have keep: "flags q ctx \<Longrightarrow> flags q (snd (router_execute H client lb r n ctx rq))" for q ctx r n rq
    using router_execute_scope [OF assms(1), of H client r n ctx rq] by (auto simp: flags_def)
  have resp: "(rc_request_body_buffered c \<longleftrightarrow> q) \<and> (rc_response_body_buffered c \<longrightarrow>
      hs_response_body_buffer hs \<and> bufferable H (hs_response_body_size_limit hs) (rs_body resp))"
    if "buffer_response H hs ctx v = (resp, Some c)" "flags q ctx" for q ctx v
    using that bufferable_collected [OF assms(2,3)]
    by (cases ctx) (auto simp: buffer_response_def flags_def split: if_splits timed.splits sum.splits)
  have start: "flags False (Some context_default)" "flags True (mark_request_buffered (Some context_default))"
    by (simp_all add: flags_def context_default_def mark_request_buffered_def)
  have none: "\<not> rc_request_body_buffered context_default" "\<not> rc_response_body_buffered context_default"
    by (simp_all add: context_default_def)
  from assms(4) show ?thesis
  proof (cases rule: handler_cases)
    case (once host hv r res ctx1)
    have "flags False ctx1"
      using keep [OF start(1), of r 0 "forwarded H hv req"] once(5) by simp
    moreover have "\<not> retries_request H hs healthy m req r' sent" for r' sent
      using once(1,3,4) by (auto simp: retries_request_def)
    ultimately show ?thesis
      using once(6) resp [of ctx1 _ False] by (cases res) (auto simp: flags_def prod_eq_iff)
  next
    case (retried r sent)
    show ?thesis
    proof (rule loop_outcome_cases [OF retried(2) [symmetric]])
      assume "retry_loop H hs checks (router_execute H client lb r) sent 0
          (mark_request_buffered (Some context_default)) (hs_retry_attempts hs) (hs_retry_interval hs) =
        Done (Inl resp, Some c, tr)"
      from retry_loop_scope [where P = "flags True", OF this keep start(2)] show ?thesis
        using retried(1) by (auto simp: flags_def)
    next
      fix v retries ctx1
      assume "retry_loop H hs checks (router_execute H client lb r) sent 0
          (mark_request_buffered (Some context_default)) (hs_retry_attempts hs) (hs_retry_interval hs) =
        Done (Inr (v, retries), ctx1, tr)"
        and "buffer_response H hs ctx1 (v\<lparr>rs_retries := Some (hs_retry_attempts hs - retries)\<rparr>) = (resp, Some c)"
      with retry_loop_scope [where P = "flags True", OF this(1) keep start(2)] show ?thesis
        using retried(1) resp by blast
    qed
  next
    case no_authority
    with none show ?thesis
      by (auto simp: retries_request_def)
  next
    case not_ready
    with none show ?thesis
      by (auto simp: retries_request_def)
  next
    case (body_failed e)
    with none show ?thesis
      by (auto simp: retries_request_def)
  qed auto
qed

theorem buffer_flags_truthful_witness:
  "\<exists>resp c tr. handler sample_http sample_state True sample_healthy sample_manager
      (sample_execute 2) (Some context_default) sample_request = Done (resp, Some c, tr) \<and>
     rc_request_body_buffered c \<and> rc_response_body_buffered c \<and>
     bufferable sample_http (hs_response_body_size_limit sample_state) (rs_body resp)"
proof -
  obtain resp c tr where run: "handler sample_http sample_state True sample_healthy sample_manager
      (sample_execute 2) (Some context_default) sample_request = Done (resp, Some c, tr)"
    and c: "rc_request_body_buffered c" "rc_response_body_buffered c"
    using sample_handler_run [of True "Some context_default"] by simp
  with buffer_flags_truthful [OF sample_balancer sample_full_body_law sample_collect_law run] show ?thesis
    by blast
qed

end
