(* ===== verification/Metrics_Properties.thy ===== *)
theory Metrics_Properties
  imports Request_Metrics Routing_Properties
begin

section \<open>Properties of the metrics middleware\<close>

text \<open>
  Each request is counted once, also when its client goes away; what is logged, and at which
  level; what the client never sees; and what the labels say of a request that the handler
  retried.
\<close>

subsection \<open>The handler behind the middleware\<close>

definition handler_service ::
  "(scope \<Rightarrow> ('h, 'b) request \<Rightarrow> ('h, 'b) handled outcome) \<Rightarrow>
   scope \<Rightarrow> ('h, 'b) request \<Rightarrow> (('h, 'b) response \<times> scope) option" where
  "handler_service h ctx req =
     (case h ctx req of Done (resp, ctx', tr) \<Rightarrow> Some (resp, ctx') | _ \<Rightarrow> None)"

fun is_counting :: "'f effect \<Rightarrow> bool" where
  "is_counting (Requests_inc _) = True"
| "is_counting (Duration_observe _ _) = True"
| "is_counting _ = False"

fun is_event :: "'f effect \<Rightarrow> bool" where
  "is_event (Dyn_event _ _) = True"
| "is_event _ = False"

fun counted_labels :: "'f effect list \<Rightarrow> labels" where
  "counted_labels (Requests_inc l # es) = l"
| "counted_labels _ = []"

lemma logging_task_counts:
  "\<exists>rest. logging_task V st ri received =
     [Requests_inc (meta_labels V ri m), Duration_observe (meta_labels V ri m) (rm_duration m)] @ rest \<and>
     list_all (\<lambda>e. \<not> is_counting e) rest"
  if "m = (case received of Some m \<Rightarrow> m | None \<Rightarrow> response_meta_default (mv_zero V))"
  by (simp add: logging_task_def Let_def that split: option.split)

lemma logging_task_events:
  "filter is_event (logging_task V st ri received) =
     (let m = (case received of Some m \<Rightarrow> m | None \<Rightarrow> response_meta_default (mv_zero V)) in
      case meta_log_level V st m of Some v \<Rightarrow> [Dyn_event v (dyn_event_fields V ri m)] | None \<Rightarrow> [])"
  by (simp add: logging_task_def Let_def split: option.split)

lemma middleware_labels:
  assumes "next_run (Some context_default) (without_request_id req) = Some (resp, ctx)"
  shows "counted_labels (snd (middleware V st conn_id ts elapsed next_run req)) =
     meta_labels V (request_info_of V conn_id ts req) (response_meta_of V elapsed resp ctx)"
  by (simp add: middleware_def assms logging_task_def Let_def)

subsection \<open>Counting and logging\<close>

text \<open>C25: every request is counted exactly once and its duration observed once, under the same
  labels, whether it is answered or its client goes away: then it counts as status 408 with an
  unknown backend, no retry and the duration 0.\<close>

theorem request_counted_once:
  "\<exists>l d rest. snd (middleware V st conn_id ts elapsed next_run req) =
     [Requests_inc l, Duration_observe l d] @ rest \<and> list_all (\<lambda>e. \<not> is_counting e) rest \<and>
     (case next_run (Some context_default) (without_request_id req) of
        None \<Rightarrow> d = mv_zero V \<and> drop 3 l = [mv_status V 408, ''unknown'', ''no'']
      | Some (resp, ctx) \<Rightarrow> d = elapsed \<and> l ! 3 = mv_status V (rs_status resp))"
proof (cases "next_run (Some context_default) (without_request_id req)")
  case None
  let ?m = "response_meta_default (mv_zero V)"
  obtain rest where "logging_task V st (request_info_of V conn_id ts req) None =
      [Requests_inc (meta_labels V (request_info_of V conn_id ts req) ?m),
       Duration_observe (meta_labels V (request_info_of V conn_id ts req) ?m) (rm_duration ?m)] @ rest"
    "list_all (\<lambda>e. \<not> is_counting e) rest"
    using logging_task_counts [where m = ?m and received = None and V = V and st = st] by auto
  with None show ?thesis
    by (simp add: middleware_def Let_def meta_labels_def backend_label_def response_meta_default_def
        context_default_def)
next
  case (Some p)
  obtain resp ctx where p: "p = (resp, ctx)"
    by (cases p)
  let ?m = "response_meta_of V elapsed resp ctx"
  obtain rest where "logging_task V st (request_info_of V conn_id ts req) (Some ?m) =
      [Requests_inc (meta_labels V (request_info_of V conn_id ts req) ?m),
       Duration_observe (meta_labels V (request_info_of V conn_id ts req) ?m) (rm_duration ?m)] @ rest"
    "list_all (\<lambda>e. \<not> is_counting e) rest"
    using logging_task_counts [where m = ?m and received = "Some ?m" and V = V and st = st] by auto
  with Some p show ?thesis
    by (simp add: middleware_def Let_def meta_labels_def response_meta_of_def)
qed

text \<open>C40: with a threshold for long requests, an answered request that took at least that long is
  logged exactly once, as a warning, whether requests are logged at all or not; but a request whose
  client goes away is never taken for a long one, however long it took, because it is reported with
  the duration 0: it is logged like any other, as information, and only where requests are logged.\<close>

theorem long_requests_logged:
  assumes "\<And>a b. a \<le> b \<Longrightarrow> mv_ge V (mv_secs V b) (mv_secs V a)"
    and "\<not> mv_ge V (mv_zero V) (mv_secs V v)"
    and "ms_log_requests_long st = Some v" and "v \<le> d"
  shows "map (\<lambda>e. case e of Dyn_event lvl _ \<Rightarrow> lvl)
       (filter is_event (snd (middleware V st conn_id ts (mv_secs V d) next_run req))) =
     (case next_run (Some context_default) (without_request_id req) of
        Some _ \<Rightarrow> [WARN]
      | None \<Rightarrow> if ms_log_requests st then [INFO] else [])"
  using assms(1) [OF assms(4)] assms(2,3)
  by (auto simp: middleware_def Let_def logging_task_events meta_log_level_def response_meta_of_def
      response_meta_default_def split: option.split)

definition sample_metrics :: "(headers, bytes, nat) metrics_env" where
  "sample_metrics = \<lparr>mv_http = sample_http, mv_method = (\<lambda>s. s), mv_version = (\<lambda>_. ''HTTP/2''),
     mv_path = (\<lambda>_. ''/a''), mv_query = (\<lambda>_. Some ''b=c''),
     mv_status = (\<lambda>s. if s = 408 then ''408'' else if s = 502 then ''502'' else ''200''),
     mv_secs = (\<lambda>d. d), mv_ge = (\<ge>), mv_zero = 0, mv_env = ''dev'', mv_hostname = ''host''\<rparr>"

definition sample_metrics_state :: metrics_state where
  "sample_metrics_state =
     \<lparr>ms_vector = True, ms_metrics = \<lparr>me_requests = requests_desc, me_duration = duration_desc\<rparr>,
      ms_log_requests = False, ms_log_requests_long = Some 5000000000\<rparr>"

theorem long_requests_logged_witness:
  "map (\<lambda>e. case e of Dyn_event lvl _ \<Rightarrow> lvl)
     (filter is_event (snd (middleware sample_metrics (sample_metrics_state\<lparr>ms_log_requests := True\<rparr>) ''c1'' 0
        (mv_secs sample_metrics 6000000000) (\<lambda>ctx q. Some (sample_response, ctx)) sample_request))) = [WARN] \<and>
   map (\<lambda>e. case e of Dyn_event lvl _ \<Rightarrow> lvl)
     (filter is_event (snd (middleware sample_metrics sample_metrics_state ''c1'' 0
        (mv_secs sample_metrics 6000000000) (\<lambda>ctx q. Some (sample_response, ctx)) sample_request))) = [WARN]"
proof -
  have laws: "\<And>a b. a \<le> b \<Longrightarrow> mv_ge sample_metrics (mv_secs sample_metrics b) (mv_secs sample_metrics a)"
    "\<not> mv_ge sample_metrics (mv_zero sample_metrics) (mv_secs sample_metrics 5000000000)"
    by (simp_all add: sample_metrics_def)
  have st: "ms_log_requests_long sample_metrics_state = Some 5000000000"
    "ms_log_requests_long (sample_metrics_state\<lparr>ms_log_requests := True\<rparr>) = Some 5000000000"
    "(5000000000 :: nat) \<le> 6000000000"
    by (simp_all add: sample_metrics_state_def)
  show ?thesis
    using long_requests_logged [OF laws st(1,3)] long_requests_logged [OF laws st(2,3)] by simp
qed

text \<open>The response reaches the client as the handler made it, except that its retry count and
  its error cause, which are for the metrics only, are gone; and the request id and the country
  code never reach the handler.\<close>

lemma middleware_hides_extensions:
  "case next_run (Some context_default)
     (req\<lparr>rq_extensions := (rq_extensions req)\<lparr>ext_request_id := None, ext_country_code := None\<rparr>\<rparr>) of
     None \<Rightarrow> fst (middleware V st conn_id ts elapsed next_run req) = None
   | Some (resp, ctx) \<Rightarrow>
       (\<exists>out. fst (middleware V st conn_id ts elapsed next_run req) = Some out \<and>
          rs_retries out = None \<and> rs_error_cause out = None \<and> rs_status out = rs_status resp \<and>
          rs_headers out = rs_headers resp \<and> rs_body out = rs_body resp)"
  by (auto simp: middleware_def Let_def without_request_id_def split: option.split)

subsection \<open>Retries as the labels report them\<close>

text \<open>C39: a request that used up all its attempts, two or more, without a success is counted with
  the label \<open>retried="no"\<close>: the retry count is attached to successful responses only.\<close>

theorem exhausted_retries_labelled_no:
  assumes "retries_request H hs healthy m (without_request_id req) r sent"
    and "1 < unat (hs_retry_attempts hs)"
    and "\<forall>i < unat (hs_retry_attempts hs).
           failed (attempt (execute r) sent 0 (mark_request_buffered (Some context_default)) i)"
    and "hs_retry_interval hs * 2 ^ unat (hs_retry_attempts hs) \<le> duration_max"
  shows "\<exists>resp ctx' tr. handler H hs checks healthy m execute (Some context_default) (without_request_id req) =
       Done (resp, ctx', tr) \<and> 1 < executions tr \<and>
     counted_labels (snd (middleware V st conn_id ts elapsed
       (handler_service (handler H hs checks healthy m execute)) req)) ! 5 = ''no''"
proof -
  obtain k where k: "unat (hs_retry_attempts hs) = Suc k"
    using assms(2) by (metis gr0_implies_Suc less_trans zero_less_one)
  note run = handler_loop_result [where execute = execute and checks = checks, OF assms(1)
      retry_loop_all_failed [where exec = "execute r" and req = sent, OF k assms(3,4) [unfolded k]]]
  let ?out = "into_response H (lb_cause (error_of (attempt (execute r) sent 0
      (mark_request_buffered (Some context_default)) k)))"
  have "handler_service (handler H hs checks healthy m execute) (Some context_default)
      (without_request_id req) = Some (?out, scope_after (execute r) sent 0
        (mark_request_buffered (Some context_default)) (Suc k))"
    unfolding handler_service_def run by simp
  from middleware_labels [where next_run = "handler_service (handler H hs checks healthy m execute)" and
      req = req, OF this, of V st conn_id ts elapsed] have
    "counted_labels (snd (middleware V st conn_id ts elapsed
       (handler_service (handler H hs checks healthy m execute)) req)) ! 5 = ''no''"
    by (simp add: meta_labels_def response_meta_of_def)
  with run k assms(2) show ?thesis
    by simp
qed

theorem exhausted_retries_labelled_no_witness:
  "\<exists>resp ctx' tr. handler sample_http sample_state True sample_healthy sample_manager (sample_execute 9)
      (Some context_default) (without_request_id sample_request) = Done (resp, ctx', tr) \<and>
     1 < executions tr \<and>
     counted_labels (snd (middleware sample_metrics sample_metrics_state ''c1'' 0 0
       (handler_service (handler sample_http sample_state True sample_healthy sample_manager
          (sample_execute 9))) sample_request)) ! 5 = ''no''"
proof -
  have same: "without_request_id sample_request = sample_request"
    by (simp add: without_request_id_def sample_request_def no_extensions_def)
  have att: "attempt (sample_execute 9 sample_router) sample_sent 0 (mark_request_buffered ctx) i =
      Done (if i < 9 then Inl (Inner ''connection refused'') else Inr sample_response)" for i ctx
    by (simp add: attempt_def sample_execute_eq)
  show ?thesis
  proof (rule exhausted_retries_labelled_no)
    show "retries_request sample_http sample_state sample_healthy sample_manager
        (without_request_id sample_request) sample_router sample_sent"
      unfolding same by (rule sample_retries)
  qed (simp_all add: att, simp_all add: sample_state_def duration_max_def)
qed

end
