(* ===== verification/System.thy ===== *)
theory System
  imports Metrics_Properties
begin

section \<open>From the configuration to the backends\<close>

text \<open>
  Lemmas that connect the backend manager with the handler and the metrics: a router handed to a
  request holds only backends that the current configuration enables, the handler leaves in the
  request's context only a backend of that router, and the middleware reports that one.
\<close>

lemma in_sync_router_backend:
  assumes "in_sync m" and "get_backend_router healthy m = Some r" and "p \<in> set (rt_backends r)"
  shows "\<exists>c \<in> set (enabled_backends (bm_config m)) \<union> set (enabled_fallback (bm_config m)).
     be_name (fst p) = bc_name c \<and> be_url (fst p) = bc_url c \<and> bc_enabled c"
proof -
  have "bm_router m = Some r \<or> bm_router_fallback m = Some r"
    using assms(2) by (auto simp: get_backend_router_def split: option.splits if_splits)
  then obtain bcs where entries: "map router_entry (rt_backends r) = map conf_entry bcs"
    and bcs: "bcs = enabled_backends (bm_config m) \<or> bcs = enabled_fallback (bm_config m)"
    using assms(1) by (auto simp: in_sync_def slot_ok_def slot_spec_def)
  have "router_entry p \<in> conf_entry ` set bcs"
    using assms(3) entries by (metis imageI list.set_map)
  then obtain c where c: "c \<in> set bcs" "router_entry p = conf_entry c"
    by blast
  moreover have "bc_enabled c"
    using c(1) bcs by (auto simp: enabled_backends_def enabled_fallback_def)
  ultimately show ?thesis
    using bcs by (auto simp: router_entry_def conf_entry_def)
qed

text \<open>Only a backend of router \<open>r\<close> is in the context.\<close>

definition from_router :: "router \<Rightarrow> scope \<Rightarrow> bool" where
  "from_router r ctx \<longleftrightarrow>
     (case ctx of Some c \<Rightarrow>
        (case rc_backend c of Some b \<Rightarrow> b \<in> fst ` set (rt_backends r) | None \<Rightarrow> True)
      | None \<Rightarrow> True)"

lemma from_router_start [simp]:
  "from_router r (Some context_default)" "from_router r (mark_request_buffered (Some context_default))"
  by (simp_all add: from_router_def context_default_def mark_request_buffered_def)

lemma from_router_execute:
  assumes "balancer_contract lb" and "from_router r ctx"
  shows "from_router r (snd (router_execute H client lb r n ctx req))"
proof (cases "snd (router_execute H client lb r n ctx req) = ctx")
  case False
  then obtain p where "p \<in> set (rt_backends r)" "snd (router_execute H client lb r n ctx req) =
      map_option (\<lambda>c. c\<lparr>rc_backend := Some (fst p)\<rparr>) ctx"
    using router_execute_scope [OF assms(1)] by blast
  then show ?thesis
    by (cases ctx) (simp_all add: from_router_def)
qed (use assms(2) in simp)

lemma from_router_buffer_response:
  "from_router r ctx \<Longrightarrow> buffer_response H hs ctx v = (resp, ctx') \<Longrightarrow> from_router r ctx'"
  by (cases ctx) (auto simp: buffer_response_def from_router_def split: if_splits timed.splits sum.splits)

lemma handler_backend:
  assumes "balancer_contract lb"
    and "handler H hs checks healthy m (router_execute H client lb) (Some context_default) req =
           Done (resp, ctx', tr)"
  shows "ctx' = Some context_default \<or> (\<exists>r. get_backend_router healthy m = Some r \<and> from_router r ctx')"
  using assms(2)
proof (cases rule: handler_cases)
  case (once host hv r res ctx1)
  have f: "from_router r ctx1"
    using from_router_execute [OF assms(1) from_router_start(1), of r H client 0 "forwarded H hv req"] once(5)
    by simp
  have "from_router r ctx'"
  proof (cases res)
    case (Inl e)
    with once(6) f show ?thesis
      by simp
  next
    case (Inr v)
    with once(6) have "buffer_response H hs ctx1 v = (resp, ctx')"
      by (simp add: prod_eq_iff)
    with f show ?thesis
      by (rule from_router_buffer_response)
  qed
  with once(2) show ?thesis
    by blast
next
  case (retried r sent)
  have r: "get_backend_router healthy m = Some r"
    using retried(1) by (auto simp: retries_request_def)
  note keep = retry_loop_scope [where P = "from_router r" and exec = "router_execute H client lb r" and req = sent,
      OF _ from_router_execute [OF assms(1)] from_router_start(2)]
  have "from_router r ctx'"
    by (rule loop_outcome_cases [OF retried(2) [symmetric]])
      (auto dest: keep intro: from_router_buffer_response)
  with r show ?thesis
    by blast
qed auto

text \<open>The context names a backend of router \<open>r\<close>: it does after every execution but one that found no
  healthy backend, so after the handler's last one in particular.\<close>

definition located :: "router \<Rightarrow> scope \<Rightarrow> bool" where
  "located r ctx \<longleftrightarrow>
     (case ctx of Some c \<Rightarrow>
        (case rc_backend c of Some b \<Rightarrow> b \<in> fst ` set (rt_backends r) | None \<Rightarrow> False)
      | None \<Rightarrow> False)"

lemma located_execute:
  assumes "balancer_contract lb" and "router_execute H client lb r n ctx req = (Done res, ctx1)"
    and "res \<noteq> Inl No_Healthy_Nodes" and "ctx \<noteq> None"
  shows "located r ctx1"
proof (cases rule: router_execute_cases [OF assms(1), of H client r n ctx req])
  case (2 b w)
  then have "ctx1 = map_option (\<lambda>c. c\<lparr>rc_backend := Some b\<rparr>) ctx"
    using assms(2) executor_execute_scope [of H "client n" b ctx req] by (simp add: wrap_executor_def)
  moreover have "b \<in> fst ` set (rt_backends r)"
    using 2(1) by force
  ultimately show ?thesis
    using assms(4) by (cases ctx) (simp_all add: located_def)
qed (use assms(2,3) in simp)

lemma located_buffer_response:
  "located r ctx \<Longrightarrow> buffer_response H hs ctx v = (resp, ctx') \<Longrightarrow> located r ctx'"
  by (cases ctx) (auto simp: buffer_response_def located_def split: if_splits timed.splits sum.splits)

lemma loop_located:
  assumes "balancer_contract lb"
    and "retry_loop H hs checks (router_execute H client lb r) req n ctx retries d = Done (x, ctx', tr)"
    and "ctx \<noteq> None"
  shows "tr \<noteq> [] \<and> (case x of
       Inl resp \<Rightarrow> rs_error_cause resp \<noteq> Some NoHealthyBackends \<longrightarrow> located r ctx'
     | Inr _ \<Rightarrow> located r ctx')"
  using assms(2,3)
proof (induction "unat (retries - 1)" arbitrary: n ctx retries d x ctx' tr rule: less_induct)
  case less
  from less.prems(1) show ?case
  proof (cases rule: retry_loop_turn)
    case (success v)
    then show ?thesis
      using located_execute [OF assms(1) success(1)] less.prems(2) by simp
  next
    case (last e)
    have "lb_cause e \<noteq> NoHealthyBackends \<longrightarrow> located r ctx'"
      using located_execute [OF assms(1) last(1)] less.prems(2) by (cases e) auto
    with last(3,4) show ?thesis
      by simp
  next
    case (again e ctx1 d1 r1 tr1)
    have "unat (r1 - 1) < unat (retries - 1)"
      using u8_dec_SomeD [OF again(3)] again(4) unat_u8_dec [OF again(4)] unat_u8_pos [of r1] by simp
    moreover have "ctx1 \<noteq> None"
      using router_execute_scope [OF assms(1), of H client r n ctx req] again(1) less.prems(2) by auto
    ultimately show ?thesis
      using less.hyps [OF _ again(5)] again(6) by blast
  qed
qed

lemma handler_located:
  assumes "balancer_contract lb"
    and "handler H hs checks healthy m (router_execute H client lb) (Some context_default) req =
           Done (resp, ctx', tr)"
  shows "if tr = [] then ctx' = Some context_default
     else \<exists>r. get_backend_router healthy m = Some r \<and>
       (rs_error_cause resp \<noteq> Some NoHealthyBackends \<longrightarrow> located r ctx')"
  using assms(2)
proof (cases rule: handler_cases)
  case (once host hv r res ctx1)
  have loc: "res \<noteq> Inl No_Healthy_Nodes \<Longrightarrow> located r ctx1"
    by (rule located_execute [OF assms(1) once(5)]) simp_all
  have "tr \<noteq> [] \<and> (rs_error_cause resp \<noteq> Some NoHealthyBackends \<longrightarrow> located r ctx')"
  proof (cases res)
    case (Inl e)
    with once(6) loc show ?thesis
      by (cases e) auto
  next
    case (Inr v)
    with once(6) have "buffer_response H hs ctx1 v = (resp, ctx')"
      by (simp add: prod_eq_iff)
    with loc Inr once(6) show ?thesis
      using located_buffer_response by fastforce
  qed
  with once(2) show ?thesis
    by auto
next
  case (retried r sent)
  have r: "get_backend_router healthy m = Some r"
    using retried(1) by (auto simp: retries_request_def)
  have some: "mark_request_buffered (Some context_default) \<noteq> None"
    by (simp add: mark_request_buffered_def)
  have "tr \<noteq> [] \<and> (rs_error_cause resp \<noteq> Some NoHealthyBackends \<longrightarrow> located r ctx')"
  proof (rule loop_outcome_cases [OF retried(2) [symmetric]])
    assume "retry_loop H hs checks (router_execute H client lb r) sent 0
        (mark_request_buffered (Some context_default)) (hs_retry_attempts hs) (hs_retry_interval hs) =
      Done (Inl resp, ctx', tr)"
    from loop_located [OF assms(1) this some] show ?thesis
      by simp
  next
    fix v retries ctx1
    assume "retry_loop H hs checks (router_execute H client lb r) sent 0
        (mark_request_buffered (Some context_default)) (hs_retry_attempts hs) (hs_retry_interval hs) =
      Done (Inr (v, retries), ctx1, tr)"
      and buf: "buffer_response H hs ctx1 (v\<lparr>rs_retries := Some (hs_retry_attempts hs - retries)\<rparr>) = (resp, ctx')"
    from loop_located [OF assms(1) this(1) some] located_buffer_response [OF _ buf] show ?thesis
      by auto
  qed
  with r show ?thesis
    by auto
qed auto

text \<open>So the backend label of a request that was sent nowhere is \<open>unknown\<close>, and of any other it names
  a backend that is enabled, or perhaps \<open>unknown\<close> when the last attempt found none healthy.\<close>

definition enabled_names :: "config \<Rightarrow> string set" where
  "enabled_names c = bc_name ` {b \<in> set (cf_backends c @ fallback_list c). bc_enabled b}"

lemma handler_label_enabled:
  assumes "in_sync m" and "balancer_contract lb"
    and "handler H hs checks healthy m (router_execute H client lb) (Some context_default) req =
           Done (resp, ctx, tr)"
  shows "backend_label (case ctx of Some c \<Rightarrow> c | None \<Rightarrow> context_default)
     \<in> (if tr = [] then {''unknown''}
        else if rs_error_cause resp = Some NoHealthyBackends then insert ''unknown'' (enabled_names (bm_config m))
        else enabled_names (bm_config m))"
proof -
  have enabled: "be_name b \<in> enabled_names (bm_config m)"
    if "get_backend_router healthy m = Some r" "b \<in> fst ` set (rt_backends r)" for r b
    using that in_sync_router_backend [OF assms(1) that(1)]
    by (force simp: enabled_names_def enabled_backends_def enabled_fallback_def)
  show ?thesis
    using handler_located [OF assms(2,3)] handler_backend [OF assms(2,3)] enabled
    by (auto simp: backend_label_def from_router_def located_def context_default_def
        split: option.splits if_splits)
qed

end
