(* ===== verification/Manager_Steps.thy ===== *)
theory Manager_Steps
  imports Manager_Ops
begin

section \<open>The backend manager under concurrency\<close>

text \<open>
  \<open>Manager_Ops\<close> runs an operation to its end. Here the operations of concurrent tasks are
  interleaved: API handlers and the SIGHUP task contend for the configuration lock, the holder
  applies its configuration in the steps of \<open>update_router\<close> (build, wait for health, install,
  stop the old one; first the main slot, then the fallback slot), persisting takes the lock only
  to copy the configuration, and request handlers read the slots at any moment. A handler's
  future may also be dropped at an await, which releases the lock half-way: the relation
  \<open>cancel_step\<close>. The invariants are stated for the states reachable without and with
  cancellation; the locale \<open>transition_system\<close> holds the induction over reachable states.
\<close>

subsection \<open>Slots in the order they are updated\<close>

datatype slot = Main | Fallback

instantiation slot :: linorder
begin

fun less_eq_slot :: "slot \<Rightarrow> slot \<Rightarrow> bool" where
  "less_eq_slot Main y = True"
| "less_eq_slot Fallback y = (y = Fallback)"

definition less_slot :: "slot \<Rightarrow> slot \<Rightarrow> bool" where
  "less_slot x y = (x \<le> y \<and> x \<noteq> y)"

instance
proof
  fix x y z :: slot
  show "(x < y) = (x \<le> y \<and> \<not> y \<le> x)"
    by (cases x; cases y) (simp_all add: less_slot_def)
  show "x \<le> x"
    by (cases x) simp_all
  show "x \<le> y \<Longrightarrow> y \<le> z \<Longrightarrow> x \<le> z"
    by (cases x; cases y; cases z) simp_all
  show "x \<le> y \<Longrightarrow> y \<le> x \<Longrightarrow> x = y"
    by (cases x; cases y) simp_all
  show "x \<le> y \<or> y \<le> x"
    by (cases x; cases y) simp_all
qed

end

lemma less_slot_simps [simp]: "sl < Main \<longleftrightarrow> False" "sl < Fallback \<longleftrightarrow> sl = Main"
  by (cases sl; simp add: less_slot_def)+

fun slot_load :: "slot \<Rightarrow> manager \<Rightarrow> router option" where
  "slot_load Main m = bm_router m"
| "slot_load Fallback m = bm_router_fallback m"

fun slot_store :: "slot \<Rightarrow> router option \<Rightarrow> manager \<Rightarrow> manager" where
  "slot_store Main r m = store_main r m"
| "slot_store Fallback r m = store_fallback r m"

fun slot_backends :: "slot \<Rightarrow> config \<Rightarrow> backend_conf list" where
  "slot_backends Main c = enabled_backends c"
| "slot_backends Fallback c = enabled_fallback c"

subsection \<open>States and steps\<close>

text \<open>Where the task that holds the configuration lock stands inside \<open>apply\<close>.\<close>

datatype pc =
    Build slot
  | Wait slot router
  | Install slot "router option"
  | Stop slot "router option"

text \<open>\<open>cs_lock\<close>: the lock's holder; \<open>cs_pending\<close>: configurations copied by \<open>persist_config\<close> calls
  that have not yet written them.\<close>

record cstate =
  cs_sys :: sys
  cs_lock :: "pc option"
  cs_pending :: "config list"

abbreviation cs_manager :: "cstate \<Rightarrow> manager" where
  "cs_manager s \<equiv> sy_manager (cs_sys s)"

abbreviation cs_config :: "cstate \<Rightarrow> config" where
  "cs_config s \<equiv> bm_config (sy_manager (cs_sys s))"

fun next_pc :: "slot \<Rightarrow> pc option" where
  "next_pc Main = Some (Build Fallback)"
| "next_pc Fallback = None"

definition put_slot :: "slot \<Rightarrow> router option \<Rightarrow> sys \<Rightarrow> sys" where
  "put_slot sl ro s = s\<lparr>sy_manager := slot_store sl ro (sy_manager s)\<rparr>"

text \<open>The holder's steps through \<open>apply\<close>.\<close>

inductive apply_step :: "('h, 'b) mgr_env \<Rightarrow> cstate \<Rightarrow> cstate \<Rightarrow> bool" for E where
  build_none: "cs_lock s = Some (Build sl) \<Longrightarrow> slot_backends sl (cs_config s) = [] \<Longrightarrow>
     apply_step E s (s\<lparr>cs_lock := Some (Install sl None)\<rparr>)"
| build_some: "cs_lock s = Some (Build sl) \<Longrightarrow> slot_backends sl (cs_config s) \<noteq> [] \<Longrightarrow>
     create_backend_router E (slot_backends sl (cs_config s)) (cf_strategy (cs_config s)) (cs_sys s)
       = Done (r, s1) \<Longrightarrow>
     apply_step E s (s\<lparr>cs_sys := s1, cs_lock := Some (Wait sl r)\<rparr>)"
| waited: "cs_lock s = Some (Wait sl r) \<Longrightarrow> wait_healthchecks (me_watch E r) = Done () \<Longrightarrow>
     apply_step E s (s\<lparr>cs_lock := Some (Install sl (Some r))\<rparr>)"
| install: "cs_lock s = Some (Install sl ro) \<Longrightarrow>
     apply_step E s (s\<lparr>cs_sys := put_slot sl ro (cs_sys s),
       cs_lock := Some (Stop sl (slot_load sl (cs_manager s)))\<rparr>)"
| stop_none: "cs_lock s = Some (Stop sl None) \<Longrightarrow> apply_step E s (s\<lparr>cs_lock := next_pc sl\<rparr>)"
| stop_some: "cs_lock s = Some (Stop sl (Some v)) \<Longrightarrow> stop_router E v (cs_sys s) = Done s1 \<Longrightarrow>
     apply_step E s (s\<lparr>cs_sys := s1, cs_lock := next_pc sl\<rparr>)"

text \<open>Any step of the manager: a task takes the free lock to replace the configuration
  (\<open>set_config\<close>, also at the end of \<open>load_config\<close>) or to switch a backend, the holder goes on, or
  \<open>persist_config\<close> copies the configuration under the lock and writes it after releasing it.\<close>

inductive mgr_step :: "('h, 'b) mgr_env \<Rightarrow> cstate \<Rightarrow> cstate \<Rightarrow> bool" for E where
  begin_set: "cs_lock s = None \<Longrightarrow> distinct (config_names c) \<Longrightarrow>
     mgr_step E s (s\<lparr>cs_sys := with_config c (cs_sys s), cs_lock := Some (Build Main)\<rparr>)"
| begin_switch: "cs_lock s = None \<Longrightarrow> switch_backend n en (cs_config s) = Some c \<Longrightarrow>
     mgr_step E s (s\<lparr>cs_sys := with_config c (cs_sys s), cs_lock := Some (Build Main)\<rparr>)"
| holder: "apply_step E s t \<Longrightarrow> mgr_step E s t"
| persist_copy: "cs_lock s = None \<Longrightarrow>
     mgr_step E s (s\<lparr>cs_pending := cs_config s # cs_pending s\<rparr>)"
| persist_write: "cs_pending s = before @ c # after \<Longrightarrow> me_to_yaml E c = Inr y \<Longrightarrow>
     me_write E (bm_config_path (cs_manager s)) y (sy_files (cs_sys s)) = (res, fs) \<Longrightarrow>
     mgr_step E s (s\<lparr>cs_sys := (cs_sys s)\<lparr>sy_files := fs\<rparr>, cs_pending := before @ after\<rparr>)"

text \<open>The future of the lock's holder is dropped at an await (waiting for health states, or for the
  old router to stop): the guard goes with it, and so does the router it carries.\<close>

inductive cancel_step :: "cstate \<Rightarrow> cstate \<Rightarrow> bool" where
  cancel_wait: "cs_lock s = Some (Wait sl r) \<Longrightarrow> cancel_step s (s\<lparr>cs_lock := None\<rparr>)"
| cancel_stop: "cs_lock s = Some (Stop sl (Some v)) \<Longrightarrow> cancel_step s (s\<lparr>cs_lock := None\<rparr>)"

definition any_step :: "('h, 'b) mgr_env \<Rightarrow> cstate \<Rightarrow> cstate \<Rightarrow> bool" where
  "any_step E s t \<longleftrightarrow> mgr_step E s t \<or> cancel_step s t"

definition initial :: "cstate \<Rightarrow> bool" where
  "initial s \<longleftrightarrow> (\<exists>path interval tmo fs.
     s = \<lparr>cs_sys = sys_new path interval tmo fs, cs_lock = None, cs_pending = []\<rparr>)"

inductive_cases apply_step_E: "apply_step E s t"
inductive_cases cancel_step_E: "cancel_step s t"

lemma put_slot_sel [simp]:
  "sy_manager (put_slot sl ro s) = slot_store sl ro (sy_manager s)"
  "sy_files (put_slot sl ro s) = sy_files s"
  "sy_created (put_slot sl ro s) = sy_created s"
  "sy_stopped (put_slot sl ro s) = sy_stopped s"
  by (simp_all add: put_slot_def)

lemma slot_store_sel [simp]:
  "bm_config (slot_store sl ro m) = bm_config m"
  "bm_config_path (slot_store sl ro m) = bm_config_path m"
  "bm_check_interval (slot_store sl ro m) = bm_check_interval m"
  "bm_check_timeout (slot_store sl ro m) = bm_check_timeout m"
  "slot_load sl' (slot_store sl ro m) = (if sl' = sl then ro else slot_load sl' m)"
  by (cases sl; cases sl'; simp)+

subsection \<open>Invariants by induction over reachable states\<close>

locale transition_system =
  fixes start :: "'s \<Rightarrow> bool"
    and step :: "'s \<Rightarrow> 's \<Rightarrow> bool"
    and inv :: "'s \<Rightarrow> bool"
  assumes start_inv: "start s \<Longrightarrow> inv s"
    and step_inv: "inv s \<Longrightarrow> step s t \<Longrightarrow> inv t"
begin

lemma steps_inv:
  assumes "step\<^sup>*\<^sup>* s t" and "inv s"
  shows "inv t"
  using assms by (induction rule: rtranclp_induct) (auto intro: step_inv)

lemma reachable_inv: "start s \<Longrightarrow> step\<^sup>*\<^sup>* s t \<Longrightarrow> inv t"
  by (blast intro: steps_inv start_inv)

end

text \<open>The invariant. \<open>slot_good m sl ro\<close>: slot \<open>sl\<close> of the manager's configuration is served by
  \<open>ro\<close>. The holder has finished the slots before the one it works on (\<open>earlier_good\<close>), and what
  it carries fits. Every router is stopped, installed or in the holder's hands.\<close>

definition slot_good :: "manager \<Rightarrow> slot \<Rightarrow> router option \<Rightarrow> bool" where
  "slot_good m sl ro \<longleftrightarrow> slot_ok m (slot_backends sl (bm_config m)) ro"

definition earlier_good :: "manager \<Rightarrow> slot \<Rightarrow> bool" where
  "earlier_good m sl \<longleftrightarrow> (\<forall>sl' < sl. slot_good m sl' (slot_load sl' m))"

fun held_ids :: "pc option \<Rightarrow> nat list" where
  "held_ids None = []"
| "held_ids (Some (Build _)) = []"
| "held_ids (Some (Wait _ r)) = [rt_id r]"
| "held_ids (Some (Install _ ro)) = ids_of ro"
| "held_ids (Some (Stop _ ro)) = ids_of ro"

fun lock_inv :: "('h, 'b) mgr_env \<Rightarrow> manager \<Rightarrow> pc option \<Rightarrow> bool" where
  "lock_inv E m None = in_sync m"
| "lock_inv E m (Some (Build sl)) = earlier_good m sl"
| "lock_inv E m (Some (Wait sl r)) = (earlier_good m sl \<and> slot_good m sl (Some r))"
| "lock_inv E m (Some (Install sl ro)) = (earlier_good m sl \<and> slot_good m sl ro \<and> ready E ro)"
| "lock_inv E m (Some (Stop sl ro)) = (earlier_good m sl \<and> slot_good m sl (slot_load sl m))"

definition all_routers :: "cstate \<Rightarrow> nat multiset" where
  "all_routers s = mset (sy_stopped (cs_sys s)) + mset (installed_ids (cs_manager s)) +
     mset (held_ids (cs_lock s))"

definition cs_inv :: "('h, 'b) mgr_env \<Rightarrow> cstate \<Rightarrow> bool" where
  "cs_inv E s \<longleftrightarrow>
     distinct (config_names (cs_config s)) \<and> all_ready E (cs_manager s) \<and>
     all_routers s = issued (sy_created (cs_sys s)) \<and> lock_inv E (cs_manager s) (cs_lock s)"

lemma in_sync_slots: "in_sync m \<longleftrightarrow> (\<forall>sl. slot_good m sl (slot_load sl m))"
proof
  assume "\<forall>sl. slot_good m sl (slot_load sl m)"
  then have "slot_good m Main (slot_load Main m)" "slot_good m Fallback (slot_load Fallback m)"
    by blast+
  then show "in_sync m"
    by (simp add: in_sync_def slot_good_def)
next
  assume "in_sync m"
  then show "\<forall>sl. slot_good m sl (slot_load sl m)"
    by (auto simp: in_sync_def slot_good_def intro: slot.induct)
qed

lemma all_ready_slots: "all_ready E m \<longleftrightarrow> (\<forall>sl. ready E (slot_load sl m))"
  by (metis all_ready_def slot.exhaust slot_load.simps)

lemma slot_good_store [simp]: "slot_good (slot_store sl ro m) sl' ro' = slot_good m sl' ro'"
  by (simp add: slot_good_def slot_ok_def)

lemma earlier_good_store [simp]: "earlier_good (slot_store sl ro m) sl = earlier_good m sl"
  by (auto simp: earlier_good_def)

lemma earlier_good_Main [simp]: "earlier_good m Main"
  by (simp add: earlier_good_def)

lemma installed_store:
  "mset (installed_ids (slot_store sl ro m)) + mset (ids_of (slot_load sl m)) =
     mset (installed_ids m) + mset (ids_of ro)"
  by (cases sl) (simp_all add: installed_ids_def)

lemma next_pc_inv:
  "earlier_good m sl \<Longrightarrow> slot_good m sl (slot_load sl m) \<Longrightarrow> lock_inv E m (next_pc sl)"
  by (cases sl) (auto simp: earlier_good_def in_sync_slots slot_good_def intro: slot.induct)

end
