(* ===== verification/Manager_Safety.thy ===== *)
theory Manager_Safety
  imports Manager_Steps
begin

section \<open>Safety and progress of the interleaved manager\<close>

text \<open>
  Every step of \<open>Manager_Steps\<close> keeps the invariant \<open>cs_inv\<close>, and with cancellation its weaker
  form \<open>cs_weak\<close>; the holder's steps are deterministic, compute exactly what the sequential
  operation of \<open>Backend_Manager\<close> computes, and end within nine steps.
\<close>

subsection \<open>Preservation\<close>

lemma held_next_pc [simp]: "held_ids (next_pc sl) = []"
  by (cases sl) simp_all

lemma apply_step_config: "apply_step E s t \<Longrightarrow> cs_config t = cs_config s"
  by (erule apply_step_E) (auto simp: stop_router_Done_iff dest!: create_backend_router_fresh)

lemma apply_step_settings:
  "apply_step E s t \<Longrightarrow> bm_check_interval (cs_manager t) = bm_check_interval (cs_manager s) \<and>
     bm_check_timeout (cs_manager t) = bm_check_timeout (cs_manager s) \<and>
     bm_config_path (cs_manager t) = bm_config_path (cs_manager s)"
  by (erule apply_step_E) (auto simp: stop_router_Done_iff dest!: create_backend_router_fresh)

lemma apply_step_ready:
  assumes "apply_step E s t" and "all_ready E (cs_manager s)" and "lock_inv E (cs_manager s) (cs_lock s)"
  shows "all_ready E (cs_manager t)"
  using assms
  by (elim apply_step_E)
    (auto simp: all_ready_slots stop_router_Done_iff dest!: create_backend_router_fresh)

lemma apply_step_routers:
  assumes "apply_step E s t" and "all_routers s = issued (sy_created (cs_sys s))"
  shows "all_routers t = issued (sy_created (cs_sys t))"
  using assms(1)
proof (cases rule: apply_step.cases)
  case (install sl ro)
  then show ?thesis
    using assms(2) installed_store [of sl ro "cs_manager s"]
    by (simp add: all_routers_def add.assoc)
qed (use assms(2) in \<open>auto simp: all_routers_def stop_router_Done_iff dest!: create_backend_router_fresh\<close>)

lemma apply_step_lock_inv:
  assumes "apply_step E s t" and "lock_inv E (cs_manager s) (cs_lock s)"
  shows "lock_inv E (cs_manager t) (cs_lock t)"
  using assms(1)
proof (cases rule: apply_step.cases)
  case (build_none sl)
  then show ?thesis
    using assms(2) by (simp add: slot_good_def slot_ok_def slot_spec_def)
next
  case (build_some sl r s1)
  then show ?thesis
    using assms(2) create_backend_router_fresh [OF build_some(4)] create_backend_router_spec(1) [OF build_some(4,3)]
    by (simp add: slot_good_def slot_ok_def)
qed (use assms(2) in \<open>auto simp: next_pc_inv stop_router_Done_iff\<close>)

lemma apply_step_inv: "cs_inv E s \<Longrightarrow> apply_step E s t \<Longrightarrow> cs_inv E t"
  by (simp add: cs_inv_def apply_step_config apply_step_ready apply_step_routers apply_step_lock_inv)

lemma begin_inv:
  assumes "cs_inv E s" and "cs_lock s = None" and "distinct (config_names c)"
  shows "cs_inv E (s\<lparr>cs_sys := with_config c (cs_sys s), cs_lock := Some (Build Main)\<rparr>)"
  using assms by (simp add: cs_inv_def all_routers_def installed_ids_def all_ready_def)

lemma mgr_step_inv:
  assumes "cs_inv E s" and "mgr_step E s t"
  shows "cs_inv E t"
  using assms(2,1)
proof (induction rule: mgr_step.induct)
  case (begin_switch s n en c)
  then show ?case
    using switch_backend_names [of n en "cs_config s" c] by (intro begin_inv) (simp_all add: cs_inv_def)
next
  case (holder s t)
  then show ?case
    by (blast intro: apply_step_inv)
next
  case (begin_set s c)
  then show ?case
    by (blast intro: begin_inv)
qed (auto simp: cs_inv_def all_routers_def)

lemma idle_inv: "manager_inv E (cs_sys s) \<Longrightarrow> cs_lock s = None \<Longrightarrow> cs_inv E s"
  by (simp add: cs_inv_def manager_inv_def all_routers_def accounted_def)

lemma initial_inv: "initial s \<Longrightarrow> cs_inv E s"
  by (auto simp: initial_def sys_new_inv intro: idle_inv)

interpretation uncancelled: transition_system initial "mgr_step E" "cs_inv E" for E
  by unfold_locales (auto intro: initial_inv mgr_step_inv)

subsection \<open>With cancellation\<close>

text \<open>A dropped future forgets the router it carries and leaves the slots as they stand; what
  survives: names stay unique, installed routers are ready, no installed router is stopped, and a
  router is never in two places.\<close>

fun lock_weak :: "('h, 'b) mgr_env \<Rightarrow> manager \<Rightarrow> pc option \<Rightarrow> bool" where
  "lock_weak E m (Some (Install sl ro)) = (slot_good m sl ro \<and> ready E ro)"
| "lock_weak E m (Some (Wait sl r)) = slot_good m sl (Some r)"
| "lock_weak E m _ = True"

definition cs_weak :: "('h, 'b) mgr_env \<Rightarrow> cstate \<Rightarrow> bool" where
  "cs_weak E s \<longleftrightarrow>
     distinct (config_names (cs_config s)) \<and> all_ready E (cs_manager s) \<and>
     all_routers s \<subseteq># issued (sy_created (cs_sys s)) \<and> lock_weak E (cs_manager s) (cs_lock s)"

lemma apply_step_weak_routers:
  assumes "apply_step E s t" and "all_routers s \<subseteq># issued (sy_created (cs_sys s))"
  shows "all_routers t \<subseteq># issued (sy_created (cs_sys t))"
  using assms(1)
proof (cases rule: apply_step.cases)
  case (install sl ro)
  then show ?thesis
    using assms(2) installed_store [of sl ro "cs_manager s"]
    by (simp add: all_routers_def add.assoc)
qed (use assms(2) in \<open>auto simp: all_routers_def stop_router_Done_iff dest!: create_backend_router_fresh\<close>)

lemma lock_weak_next [simp]: "lock_weak E m (next_pc sl)"
  by (cases sl) simp_all

lemma apply_step_lock_weak:
  assumes "apply_step E s t" and "lock_weak E (cs_manager s) (cs_lock s)"
  shows "lock_weak E (cs_manager t) (cs_lock t)"
  using assms(1)
proof (cases rule: apply_step.cases)
  case (build_none sl)
  then show ?thesis
    by (simp add: slot_good_def slot_ok_def slot_spec_def)
next
  case (build_some sl r s1)
  then show ?thesis
    using create_backend_router_fresh [OF build_some(4)] create_backend_router_spec(1) [OF build_some(4,3)]
    by (simp add: slot_good_def slot_ok_def)
qed (use assms(2) in auto)

lemma apply_step_weak_ready:
  assumes "apply_step E s t" and "all_ready E (cs_manager s)" and "lock_weak E (cs_manager s) (cs_lock s)"
  shows "all_ready E (cs_manager t)"
  using assms
  by (elim apply_step_E)
    (auto simp: all_ready_slots stop_router_Done_iff dest!: create_backend_router_fresh)

lemma mgr_step_weak:
  assumes "cs_weak E s" and "mgr_step E s t"
  shows "cs_weak E t"
  using assms(2,1)
proof (induction rule: mgr_step.induct)
  case (begin_switch s n en c)
  then show ?case
    using switch_backend_names [of n en "cs_config s" c]
    by (simp add: cs_weak_def all_routers_def installed_ids_def all_ready_def)
next
  case (holder s t)
  then show ?case
    by (simp add: cs_weak_def apply_step_config apply_step_weak_ready apply_step_weak_routers
        apply_step_lock_weak)
next
  case (persist_write s before c after y res fs)
  then show ?case
    by (cases "cs_lock s"; simp add: cs_weak_def all_routers_def)
qed (auto simp: cs_weak_def all_routers_def installed_ids_def all_ready_def)

lemma add_mset_leD: "add_mset a M \<subseteq># N \<Longrightarrow> M \<subseteq># N"
  by (meson mset_subset_eq_insertD subset_mset.less_imp_le)

lemma cancel_step_weak: "cs_weak E s \<Longrightarrow> cancel_step s t \<Longrightarrow> cs_weak E t"
  by (elim cancel_step_E) (auto simp: cs_weak_def all_routers_def dest: add_mset_leD)

lemma any_step_weak: "cs_weak E s \<Longrightarrow> any_step E s t \<Longrightarrow> cs_weak E t"
  by (auto simp: any_step_def intro: mgr_step_weak cancel_step_weak)

lemma initial_weak: "initial s \<Longrightarrow> cs_weak E s"
  using initial_inv [of s E] by (auto simp: cs_inv_def cs_weak_def initial_def)

interpretation cancellable: transition_system initial "any_step E" "cs_weak E" for E
  by unfold_locales (auto intro: initial_weak any_step_weak)

text \<open>An installed router has not been stopped, in any reachable state.\<close>

lemma weak_not_stopped:
  assumes "cs_weak E s" and "slot_load sl (cs_manager s) = Some r"
  shows "rt_id r \<notin> set (sy_stopped (cs_sys s))"
proof
  assume st: "rt_id r \<in> set (sy_stopped (cs_sys s))"
  have "rt_id r \<in> set (installed_ids (cs_manager s))"
    using assms(2) by (cases sl) (simp_all add: installed_ids_def)
  then have "0 < count (mset (installed_ids (cs_manager s))) (rt_id r)"
    by (simp only: count_greater_zero_iff set_mset_mset)
  moreover have "0 < count (mset (sy_stopped (cs_sys s))) (rt_id r)"
    using st by (simp only: count_greater_zero_iff set_mset_mset)
  ultimately have "2 \<le> count (all_routers s) (rt_id r)"
    unfolding all_routers_def plus_multiset.rep_eq by linarith
  moreover have "count (all_routers s) (rt_id r) \<le> count (issued (sy_created (cs_sys s))) (rt_id r)"
    using assms(1) by (intro mset_subset_eq_count) (simp add: cs_weak_def)
  ultimately show False
    by (simp split: if_splits)
qed

end
