(* ===== verification/Manager_Refinement.thy ===== *)
theory Manager_Refinement
  imports Manager_Safety
begin

section \<open>The interleaved manager refines the sequential one\<close>

text \<open>
  \<open>finish\<close> is the rest of the sequential computation from each point the lock's holder can be at.
  Every step of the holder keeps it, so a holder that reaches the end has computed exactly what
  \<open>apply_config\<close> computes, and one whose sequential computation succeeds is never stuck.
\<close>

subsection \<open>The rest of the computation\<close>

definition install_slot :: "('h, 'b) mgr_env \<Rightarrow> slot \<Rightarrow> router option \<Rightarrow> sys \<Rightarrow> sys outcome" where
  "install_slot E sl ro s =
     (case slot_load sl (sy_manager s) of
        Some v \<Rightarrow> stop_router E v (put_slot sl ro s)
      | None \<Rightarrow> Done (put_slot sl ro s))"

definition update_slot :: "('h, 'b) mgr_env \<Rightarrow> slot \<Rightarrow> sys \<Rightarrow> sys outcome" where
  "update_slot E sl s =
     update_router E (slot_load sl) (slot_store sl) (slot_backends sl (bm_config (sy_manager s)))
       (cf_strategy (bm_config (sy_manager s))) s"

fun after_slot :: "('h, 'b) mgr_env \<Rightarrow> slot \<Rightarrow> sys \<Rightarrow> sys outcome" where
  "after_slot E Main s = update_slot E Fallback s"
| "after_slot E Fallback s = Done s"

fun finish :: "('h, 'b) mgr_env \<Rightarrow> pc option \<Rightarrow> sys \<Rightarrow> sys outcome" where
  "finish E None s = Done s"
| "finish E (Some (Build sl)) s = and_then (update_slot E sl s) (after_slot E sl)"
| "finish E (Some (Wait sl r)) s =
     and_then (wait_healthchecks (me_watch E r)) (\<lambda>_.
       and_then (install_slot E sl (Some r) s) (after_slot E sl))"
| "finish E (Some (Install sl ro)) s = and_then (install_slot E sl ro s) (after_slot E sl)"
| "finish E (Some (Stop sl None)) s = after_slot E sl s"
| "finish E (Some (Stop sl (Some v))) s = and_then (stop_router E v s) (after_slot E sl)"

lemma slot_fields [simp]:
  "slot_load Main = bm_router" "slot_store Main = store_main"
  "slot_load Fallback = bm_router_fallback" "slot_store Fallback = store_fallback"
  "slot_backends Main = enabled_backends" "slot_backends Fallback = enabled_fallback"
  by (simp_all add: fun_eq_iff)

lemma update_router_alt:
  "update_router E (slot_load sl) (slot_store sl) bcs st s =
     and_then
       (if bcs = [] then Done (None, s)
        else and_then (create_backend_router E bcs st s) (\<lambda>(r, s1).
               and_then (wait_healthchecks (me_watch E r)) (\<lambda>_. Done (Some r, s1))))
       (\<lambda>(ro, s1). install_slot E sl ro s1)"
  unfolding update_router_def install_slot_def put_slot_def Let_def ..

text \<open>The main update leaves the configuration, so the sequential \<open>apply\<close> is the whole rest.\<close>

lemma finish_start: "finish E (Some (Build Main)) s = apply_config E s"
proof (cases "update_slot E Main s")
  case (Done s1)
  then have "bm_config (sy_manager s1) = bm_config (sy_manager s)"
    unfolding update_slot_def slot_fields by (rule main_slot.update_frame(1))
  with Done show ?thesis
    by (simp add: apply_config_def update_slot_def Let_def)
qed (simp_all add: apply_config_def update_slot_def Let_def)

lemma finish_next: "finish E (next_pc sl) s = after_slot E sl s"
proof (cases sl)
  case Main
  have "and_then m (after_slot E Fallback) = m" for m
    by (cases m) simp_all
  then show ?thesis
    by (simp add: Main)
qed simp

lemma apply_step_finish:
  assumes "apply_step E s t"
  shows "finish E (cs_lock t) (cs_sys t) = finish E (cs_lock s) (cs_sys s)"
  using assms
proof (cases rule: apply_step.cases)
  case (build_some sl r s1)
  then show ?thesis
    by (simp add: update_slot_def update_router_alt and_then_assoc)
next
  case (install sl ro)
  then show ?thesis
    by (cases "slot_load sl (cs_manager s)") (simp_all add: install_slot_def)
qed (simp_all add: update_slot_def update_router_alt finish_next)

lemma apply_steps_finish:
  "(apply_step E)\<^sup>*\<^sup>* s t \<Longrightarrow> finish E (cs_lock t) (cs_sys t) = finish E (cs_lock s) (cs_sys s)"
  by (induction rule: rtranclp_induct) (auto dest: apply_step_finish)

subsection \<open>Progress and termination\<close>

text \<open>Steps left before the lock is released, at most.\<close>

fun todo :: "pc option \<Rightarrow> nat" where
  "todo None = 0"
| "todo (Some (Build sl)) = (if sl = Main then 8 else 4)"
| "todo (Some (Wait sl r)) = (if sl = Main then 7 else 3)"
| "todo (Some (Install sl ro)) = (if sl = Main then 6 else 2)"
| "todo (Some (Stop sl ro)) = (if sl = Main then 5 else 1)"

lemma apply_step_todo: "apply_step E s t \<Longrightarrow> todo (cs_lock t) < todo (cs_lock s)"
proof (erule apply_step.cases)
  fix sa sl
  assume "s = sa" "t = sa\<lparr>cs_lock := next_pc sl\<rparr>" "cs_lock sa = Some (Stop sl None)"
  then show ?thesis
    by (cases sl) simp_all
next
  fix sa sl v s1
  assume "s = sa" "t = sa\<lparr>cs_sys := s1, cs_lock := next_pc sl\<rparr>" "cs_lock sa = Some (Stop sl (Some v))"
  then show ?thesis
    by (cases sl) simp_all
qed auto

lemma apply_run_length:
  "(apply_step E ^^ n) s t \<Longrightarrow> n + todo (cs_lock t) \<le> todo (cs_lock s)"
proof (induction n arbitrary: t)
  case (Suc n)
  then obtain u where "(apply_step E ^^ n) s u" and "apply_step E u t"
    by auto
  with Suc.IH [of u] apply_step_todo [of E u t] show ?case
    by simp
qed simp

lemma apply_step_enabled:
  assumes "finish E (cs_lock s) (cs_sys s) = Done x" and "cs_lock s \<noteq> None"
  shows "\<exists>t. apply_step E s t"
proof -
  obtain pc where pc: "cs_lock s = Some pc"
    using assms(2) by auto
  show ?thesis
  proof (cases pc)
    case (Build sl)
    show ?thesis
    proof (cases "slot_backends sl (cs_config s) = []")
      case True
      with pc Build show ?thesis
        by (blast intro: build_none)
    next
      case False
      with assms(1) pc Build obtain r s1 where
        "create_backend_router E (slot_backends sl (cs_config s)) (cf_strategy (cs_config s)) (cs_sys s)
           = Done (r, s1)"
        by (auto simp: update_slot_def update_router_alt and_then_Done_iff)
      with False pc Build show ?thesis
        by (blast intro: build_some)
    qed
  next
    case (Wait sl r)
    with assms(1) pc show ?thesis
      by (auto simp: and_then_Done_iff intro: waited)
  next
    case (Install sl ro)
    with pc show ?thesis
      by (blast intro: install)
  next
    case (Stop sl ro)
    with assms(1) pc show ?thesis
      by (cases ro) (auto simp: and_then_Done_iff intro: stop_none stop_some)
  qed
qed

text \<open>Whoever can finish does finish.\<close>

lemma apply_run_completes:
  assumes "finish E (cs_lock s) (cs_sys s) = Done x"
  shows "\<exists>u. (apply_step E)\<^sup>*\<^sup>* s u \<and> cs_lock u = None \<and> cs_sys u = x"
  using assms
proof (induction "todo (cs_lock s)" arbitrary: s rule: less_induct)
  case less
  show ?case
  proof (cases "cs_lock s = None")
    case True
    with less.prems show ?thesis
      by (intro exI [of _ s]) simp
  next
    case False
    then obtain t where t: "apply_step E s t"
      using apply_step_enabled less.prems by blast
    then obtain u where "(apply_step E)\<^sup>*\<^sup>* t u" "cs_lock u = None" "cs_sys u = x"
      using less.hyps [OF apply_step_todo [OF t]] less.prems apply_step_finish [OF t] by auto
    with t show ?thesis
      by (blast intro: converse_rtranclp_into_rtranclp)
  qed
qed

lemma apply_run_iff:
  assumes "cs_lock s = Some (Build Main)"
  shows "(\<exists>u. (apply_step E)\<^sup>*\<^sup>* s u \<and> cs_lock u = None \<and> cs_sys u = x) \<longleftrightarrow>
     apply_config E (cs_sys s) = Done x"
proof
  assume "\<exists>u. (apply_step E)\<^sup>*\<^sup>* s u \<and> cs_lock u = None \<and> cs_sys u = x"
  then obtain u where "(apply_step E)\<^sup>*\<^sup>* s u" "cs_lock u = None" "cs_sys u = x"
    by blast
  then show "apply_config E (cs_sys s) = Done x"
    using apply_steps_finish [of E s u] assms finish_start [of E "cs_sys s"] by simp
next
  assume "apply_config E (cs_sys s) = Done x"
  then show "\<exists>u. (apply_step E)\<^sup>*\<^sup>* s u \<and> cs_lock u = None \<and> cs_sys u = x"
    using assms finish_start [of E "cs_sys s"] by (intro apply_run_completes) simp
qed

text \<open>The holder's choices never matter: its steps are deterministic.\<close>

lemma apply_step_deterministic: "apply_step E s t \<Longrightarrow> apply_step E s u \<Longrightarrow> t = u"
  by (elim apply_step_E) (auto simp: stop_router_Done_iff)

text \<open>The state in which a task has just taken the lock to install configuration \<open>c\<close>.\<close>

definition started :: "config \<Rightarrow> cstate \<Rightarrow> cstate" where
  "started c s = s\<lparr>cs_sys := with_config c (cs_sys s), cs_lock := Some (Build Main)\<rparr>"

end
