(* ===== verification/Interleaving_Properties.thy ===== *)
theory Interleaving_Properties
  imports Manager_Refinement Sample_Env
begin

section \<open>Properties of the interleaved manager\<close>

text \<open>
  What holds of every reachable state of the concurrent manager, without and with dropped
  futures, and what does not. \<open>sample_start\<close> and the lemmas after it build the concrete runs of
  the witnesses.
\<close>

subsection \<open>Concrete runs\<close>

definition sample_start :: cstate where
  "sample_start = \<lparr>cs_sys = sample_sys, cs_lock = None, cs_pending = []\<rparr>"

lemma sample_start_initial: "initial sample_start"
  by (auto simp: initial_def sample_start_def sample_sys_def)

lemma started_step:
  "cs_lock s = None \<Longrightarrow> distinct (config_names c) \<Longrightarrow> mgr_step E s (started c s)"
  unfolding started_def by (rule begin_set)

lemma apply_run_mgr: "(apply_step E)\<^sup>*\<^sup>* s t \<Longrightarrow> (mgr_step E)\<^sup>*\<^sup>* s t"
  by (induction rule: rtranclp_induct) (auto intro: rtranclp.rtrancl_into_rtrancl holder)

lemma mgr_run_any: "(mgr_step E)\<^sup>*\<^sup>* s t \<Longrightarrow> (any_step E)\<^sup>*\<^sup>* s t"
  by (induction rule: rtranclp_induct) (auto intro: rtranclp.rtrancl_into_rtrancl simp: any_step_def)

lemma started_sel [simp]:
  "cs_lock (started c s) = Some (Build Main)" "cs_sys (started c s) = with_config c (cs_sys s)"
  "cs_pending (started c s) = cs_pending s"
  by (simp_all add: started_def)

lemma apply_step_frame:
  "apply_step E s t \<Longrightarrow> cs_pending t = cs_pending s \<and> sy_files (cs_sys t) = sy_files (cs_sys s)"
  by (erule apply_step.cases) (auto simp: stop_router_Done_iff dest!: create_backend_router_fresh)

lemma apply_run_frame:
  "(apply_step E)\<^sup>*\<^sup>* s t \<Longrightarrow>
     cs_pending t = cs_pending s \<and> sy_files (cs_sys t) = sy_files (cs_sys s) \<and>
     cs_config t = cs_config s \<and> bm_config_path (cs_manager t) = bm_config_path (cs_manager s)"
  by (induction rule: rtranclp_induct)
    (auto dest: apply_step_frame apply_step_config apply_step_settings)

text \<open>A task that installs a configuration from an idle state, to the end.\<close>

lemma install_run:
  assumes "cs_lock s = None" and "distinct (config_names c)"
    and "apply_config E (with_config c (cs_sys s)) = Done x"
  obtains u where "(mgr_step E)\<^sup>*\<^sup>* s u" and "cs_lock u = None" and "cs_sys u = x"
    and "cs_config u = c" and "cs_pending u = cs_pending s"
    and "sy_files (cs_sys u) = sy_files (cs_sys s)"
    and "bm_config_path (cs_manager u) = bm_config_path (cs_manager s)"
proof -
  obtain u where u: "(apply_step E)\<^sup>*\<^sup>* (started c s) u" "cs_lock u = None" "cs_sys u = x"
    using apply_run_iff [of "started c s" E x] assms(3) by auto
  have "(mgr_step E)\<^sup>*\<^sup>* s u"
    using started_step [OF assms(1,2)] apply_run_mgr [OF u(1)] by (rule converse_rtranclp_into_rtranclp)
  then show thesis
    using u apply_run_frame [OF u(1)] by (intro that [of u]) simp_all
qed

subsection \<open>Without cancellation\<close>

text \<open>The interleaved run of one task refines the sequential operation: from an idle state, the
  task that takes the lock for configuration \<open>c\<close> can release it with the manager in state \<open>x\<close>
  exactly when the sequential \<open>set_config\<close> returns with that state.\<close>

lemma interleaved_refines_sequential:
  assumes "cs_lock s = None" and "distinct (config_names c)"
  shows "(\<exists>u. (apply_step E)\<^sup>*\<^sup>* (started c s) u \<and> cs_lock u = None \<and> cs_sys u = x) \<longleftrightarrow>
     set_config E c (cs_sys s) = Done (Inr (), x)"
  using apply_run_iff [of "started c s" E x] assms(2)
  by (auto simp: set_config_def and_then_Done_iff)

lemma interleaved_refines_sequential_witness:
  "\<exists>x u. set_config sample_env config_a sample_sys = Done (Inr (), x) \<and>
     (apply_step sample_env)\<^sup>*\<^sup>* (started config_a sample_start) u \<and> cs_lock u = None \<and> cs_sys u = x"
proof -
  obtain x where x: "set_config sample_env config_a sample_sys = Done (Inr (), x)"
    using sample_set_a by blast
  have "cs_lock sample_start = None" "cs_sys sample_start = sample_sys"
    by (simp_all add: sample_start_def)
  with interleaved_refines_sequential [of sample_start config_a sample_env x] x show ?thesis
    by auto
qed

text \<open>C11: as long as no future is dropped, in every reachable state in which the lock is free the
  slots serve exactly the current configuration and every router ever built is, once, either
  stopped or installed: none is lost, none is stopped twice.\<close>

theorem idle_manager_in_sync:
  assumes "initial s0" and "(mgr_step E)\<^sup>*\<^sup>* s0 s" and "cs_lock s = None"
  shows "in_sync (cs_manager s) \<and> accounted (cs_sys s)"
  using uncancelled.reachable_inv [OF assms(1,2)] assms(3)
  by (simp add: cs_inv_def all_routers_def accounted_def)

theorem idle_manager_in_sync_witness:
  "\<exists>s. (mgr_step sample_env)\<^sup>*\<^sup>* sample_start s \<and> cs_lock s = None \<and> cs_config s = config_a \<and>
     in_sync (cs_manager s) \<and> accounted (cs_sys s)"
proof -
  obtain x where x: "apply_config sample_env (with_config config_a (cs_sys sample_start)) = Done x"
    using sample_apply_a by blast
  obtain u where u: "(mgr_step sample_env)\<^sup>*\<^sup>* sample_start u" "cs_lock u = None" "cs_config u = config_a"
    by (rule install_run [OF _ _ x]) (simp_all add: sample_start_def)
  show ?thesis
    using idle_manager_in_sync [OF sample_start_initial u(1,2)] u by blast
qed

text \<open>C19: replacing configurations never opens a gap: in any step of a reachable state, if the main
  slot holds a router before it and the configuration after it has an enabled main backend, the
  main slot holds a router after it too.\<close>

theorem main_slot_stays_occupied:
  assumes "initial s0" and "(mgr_step E)\<^sup>*\<^sup>* s0 s" and "mgr_step E s t"
    and "bm_router (cs_manager s) \<noteq> None" and "enabled_backends (cs_config t) \<noteq> []"
  shows "bm_router (cs_manager t) \<noteq> None"
proof -
  have inv: "lock_inv E (cs_manager s) (cs_lock s)"
    using uncancelled.reachable_inv [OF assms(1,2)] by (simp add: cs_inv_def)
  show ?thesis
    using assms(3)
  proof (cases rule: mgr_step.cases)
    case holder
    then show ?thesis
    proof (cases rule: apply_step.cases)
      case (install sl ro)
      then show ?thesis
        using inv assms(4,5)
        by (cases sl; cases ro) (simp_all add: slot_good_def slot_ok_def slot_spec_def)
    qed (use assms(4) in \<open>auto simp: stop_router_Done_iff dest!: create_backend_router_fresh\<close>)
  qed (use assms(4) in auto)
qed

theorem main_slot_stays_occupied_witness:
  "\<exists>s t. (mgr_step sample_env)\<^sup>*\<^sup>* sample_start s \<and> mgr_step sample_env s t \<and>
     cs_config s = config_a \<and> cs_config t = config_b \<and> bm_router (cs_manager t) \<noteq> None"
proof -
  obtain x where x: "apply_config sample_env (with_config config_a (cs_sys sample_start)) = Done x"
    using sample_apply_a by blast
  obtain s where s: "(mgr_step sample_env)\<^sup>*\<^sup>* sample_start s" "cs_lock s = None" "cs_config s = config_a"
    by (rule install_run [OF _ _ x]) (simp_all add: sample_start_def)
  have "in_sync (cs_manager s)"
    using uncancelled.reachable_inv [OF sample_start_initial s(1)] s(2) by (simp add: cs_inv_def)
  then have main: "bm_router (cs_manager s) \<noteq> None"
    using s(3) by (auto simp: in_sync_def slot_ok_def slot_spec_def split: option.splits)
  have step: "mgr_step sample_env s (started config_b s)"
    by (rule started_step [OF s(2)]) simp
  show ?thesis
    using main_slot_stays_occupied [OF sample_start_initial s(1) step main] s step by fastforce
qed

text \<open>The lock is always released: once a task has taken it for a configuration whose enabled
  backends have usable URLs, and health states are reported and routers stop, every run of its
  steps takes at most eight of them, and one that cannot go on has released the lock.\<close>

lemma lock_is_released:
  assumes "env_live E"
    and "\<forall>b \<in> set (enabled_backends c) \<union> set (enabled_fallback c). url_ok (me_http E) b"
    and "(apply_step E ^^ n) (started c s) u"
  shows "n \<le> 8 \<and> (cs_lock u = None \<or> (\<exists>v. apply_step E u v))"
proof -
  obtain x where "apply_config E (with_config c (cs_sys s)) = Done x"
    using apply_config_total [of "with_config c (cs_sys s)" E] assms(1,2) by auto
  then have "finish E (cs_lock u) (cs_sys u) = Done x"
    using apply_steps_finish [OF relpowp_imp_rtranclp [OF assms(3)]] finish_start [of E] by simp
  then show ?thesis
    using apply_run_length [OF assms(3)] apply_step_enabled [of E u x]
    by (cases "cs_lock u = None") simp_all
qed

lemma lock_is_released_witness:
  "\<exists>n u. (apply_step sample_env ^^ n) (started config_a sample_start) u \<and> n \<le> 8 \<and> cs_lock u = None"
proof -
  obtain x where "set_config sample_env config_a sample_sys = Done (Inr (), x)"
    using sample_set_a by blast
  then obtain u where u: "(apply_step sample_env)\<^sup>*\<^sup>* (started config_a sample_start) u" "cs_lock u = None"
    using apply_run_iff [of "started config_a sample_start" sample_env x]
    by (auto simp: set_config_def and_then_Done_iff sample_start_def)
  then obtain n where n: "(apply_step sample_env ^^ n) (started config_a sample_start) u"
    using rtranclp_imp_relpowp by fastforce
  have "\<forall>b \<in> set (enabled_backends config_a) \<union> set (enabled_fallback config_a).
      url_ok (me_http sample_env) b"
    by (simp add: sample_url_ok)
  from lock_is_released [OF sample_env_live this n] n u show ?thesis
    by blast
qed

subsection \<open>With cancellation, and what does not hold\<close>

text \<open>C18: whatever is interleaved and whichever futures are dropped, a router handed to a request
  handler has shown its subscriber, at least once, a snapshot in which no backend's health state was
  unknown, unless its watch channel was closed first (then the wait ends without one); and it has
  not been stopped.\<close>

theorem handed_out_router_is_live:
  assumes "initial s0" and "(any_step E)\<^sup>*\<^sup>* s0 s"
    and "get_backend_router healthy (cs_manager s) = Some r"
  shows "((\<exists>h \<in> set (watch_snapshots (me_watch E r)). list_all (\<lambda>x. snd x \<noteq> Unknown) h) \<or>
      watch_closes (me_watch E r)) \<and> rt_id r \<notin> set (sy_stopped (cs_sys s))"
proof -
  have weak: "cs_weak E s"
    by (rule cancellable.reachable_inv [OF assms(1,2)])
  obtain sl where sl: "slot_load sl (cs_manager s) = Some r"
    using assms(3) by (auto simp: get_backend_router_def split: option.splits if_splits
        intro: that [of Main] that [of Fallback])
  have "ready E (slot_load sl (cs_manager s))"
    using weak by (simp add: cs_weak_def all_ready_slots)
  with sl weak_not_stopped [OF weak sl] show ?thesis
    by (simp add: wait_healthchecks_Done_iff all_known_def)
qed

theorem handed_out_router_is_live_witness:
  "\<exists>s r. (any_step sample_env)\<^sup>*\<^sup>* sample_start s \<and>
     get_backend_router (me_healthy sample_env) (cs_manager s) = Some r \<and>
     ((\<exists>h \<in> set (watch_snapshots (me_watch sample_env r)). list_all (\<lambda>x. snd x \<noteq> Unknown) h) \<or>
      watch_closes (me_watch sample_env r)) \<and> rt_id r \<notin> set (sy_stopped (cs_sys s))"
proof -
  obtain x where x: "apply_config sample_env (with_config config_a (cs_sys sample_start)) = Done x"
    using sample_apply_a by blast
  obtain s where s: "(mgr_step sample_env)\<^sup>*\<^sup>* sample_start s" "cs_lock s = None" "cs_config s = config_a"
    by (rule install_run [OF _ _ x]) (simp_all add: sample_start_def)
  have "in_sync (cs_manager s)"
    using uncancelled.reachable_inv [OF sample_start_initial s(1)] s(2) by (simp add: cs_inv_def)
  then obtain r where r: "bm_router_fallback (cs_manager s) = Some r"
    using s(3) by (auto simp: in_sync_def slot_ok_def slot_spec_def split: option.splits)
  then have "get_backend_router (me_healthy sample_env) (cs_manager s) \<noteq> None"
    by (simp add: get_backend_router_def split: option.splits)
  then obtain r' where r': "get_backend_router (me_healthy sample_env) (cs_manager s) = Some r'"
    by blast
  show ?thesis
    using handed_out_router_is_live [OF sample_start_initial mgr_run_any [OF s(1)] r']
      mgr_run_any [OF s(1)] r' by blast
qed

text \<open>The update to \<open>config_a\<close> after its first step: the main slot's router \<open>r\<close> is built and
  waited for.\<close>

definition sample_built :: "router \<Rightarrow> cstate" where
  "sample_built r = (started config_a sample_start)\<lparr>
     cs_sys := (with_config config_a sample_sys)\<lparr>sy_created := 1\<rparr>, cs_lock := Some (Wait Main r)\<rparr>"

lemma sample_built_step: "\<exists>r. apply_step sample_env (started config_a sample_start) (sample_built r)"
proof -
  let ?t = "started config_a sample_start"
  obtain r where "setup_backend_router (me_http sample_env) (sy_created (cs_sys ?t))
      (enabled_backends config_a) (cf_strategy config_a) (bm_check_interval (cs_manager ?t))
      (bm_check_timeout (cs_manager ?t)) = Done r"
    using setup_backend_router_total [of "enabled_backends config_a" "me_http sample_env"]
    by (simp only: sample_enabled) (force simp: sample_url_ok)
  then have "create_backend_router sample_env (slot_backends Main (cs_config ?t))
      (cf_strategy (cs_config ?t)) (cs_sys ?t) = Done (r, (with_config config_a sample_sys)\<lparr>sy_created := 1\<rparr>)"
    by (simp add: create_backend_router_def) (simp add: sample_start_def sample_sys_def sys_new_def)
  from build_some [OF _ _ this] show ?thesis
    by (intro exI [of _ r]) (simp add: sample_built_def)
qed

text \<open>C28: the agreement of slots and configuration is lost when the future that applies a
  configuration is dropped while it waits: a state is reachable in which the lock is free and the
  manager reports a configuration that no slot serves.\<close>

theorem dropped_future_breaks_sync:
  "\<exists>s0 s. initial s0 \<and> (any_step sample_env)\<^sup>*\<^sup>* s0 s \<and> cs_lock s = None \<and>
     get_config (cs_sys s) = config_a \<and> bm_router (cs_manager s) = None \<and> \<not> in_sync (cs_manager s)"
proof -
  obtain r where r: "apply_step sample_env (started config_a sample_start) (sample_built r)"
    using sample_built_step by blast
  let ?u = "(sample_built r)\<lparr>cs_lock := None\<rparr>"
  have "any_step sample_env sample_start (started config_a sample_start)"
    using started_step [of sample_start config_a sample_env] by (simp add: any_step_def sample_start_def)
  moreover have "any_step sample_env (started config_a sample_start) (sample_built r)"
    unfolding any_step_def by (intro disjI1 holder r)
  moreover have "any_step sample_env (sample_built r) ?u"
    unfolding any_step_def by (intro disjI2 cancel_wait [where sl = Main and r = r]) (simp add: sample_built_def)
  ultimately have "(any_step sample_env)\<^sup>*\<^sup>* sample_start ?u"
    by (blast intro: converse_rtranclp_into_rtranclp)
  then show ?thesis
    using sample_start_initial
    by (intro exI [of _ sample_start] exI [of _ ?u])
      (simp add: sample_built_def get_config_def in_sync_def slot_ok_def slot_spec_def sample_sys_def
        sys_new_def manager_new_def)
qed

text \<open>C30: persisting is not part of the update it follows: two uploads can interleave so that the
  file ends up with the configuration that was replaced. A state is reachable, without any dropped
  future, in which no task is at work, the manager runs \<open>config_b\<close> and the file holds
  \<open>config_a\<close>.\<close>

theorem persist_race:
  "\<exists>s0 s. initial s0 \<and> (mgr_step sample_env)\<^sup>*\<^sup>* s0 s \<and> cs_lock s = None \<and> cs_pending s = [] \<and>
     cs_config s = config_b \<and>
     (\<exists>y. sy_files (cs_sys s) (bm_config_path (cs_manager s)) = Some y \<and>
        me_from_yaml sample_env y = Inr config_a)"
proof -
  obtain x where x: "apply_config sample_env (with_config config_a (cs_sys sample_start)) = Done x"
    using sample_apply_a by blast
  obtain s1 where s1: "(mgr_step sample_env)\<^sup>*\<^sup>* sample_start s1" "cs_lock s1 = None"
    "cs_config s1 = config_a" "cs_pending s1 = []" "bm_config_path (cs_manager s1) = ''config.yaml''"
    by (rule install_run [OF _ _ x])
      (simp_all add: sample_start_def sample_sys_def sys_new_def manager_new_def)
  let ?s2 = "s1\<lparr>cs_pending := [config_a]\<rparr>"
  have c1: "mgr_step sample_env s1 ?s2"
    using persist_copy [of s1 sample_env] s1 by simp
  obtain x' where x': "apply_config sample_env (with_config config_b (cs_sys ?s2)) = Done x'"
    using sample_apply_b by blast
  obtain s3 where s3: "(mgr_step sample_env)\<^sup>*\<^sup>* ?s2 s3" "cs_lock s3 = None" "cs_config s3 = config_b"
    "cs_pending s3 = [config_a]" "bm_config_path (cs_manager s3) = ''config.yaml''"
    by (rule install_run [OF _ _ x']) (simp_all add: s1)
  let ?s4 = "s3\<lparr>cs_pending := [config_b, config_a]\<rparr>"
  have c2: "mgr_step sample_env s3 ?s4"
    using persist_copy [of s3 sample_env] s3 by simp
  let ?f5 = "(sy_files (cs_sys s3))(''config.yaml'' \<mapsto> ''b'')"
  let ?s5 = "?s4\<lparr>cs_sys := (cs_sys s3)\<lparr>sy_files := ?f5\<rparr>, cs_pending := [config_a]\<rparr>"
  have c3: "mgr_step sample_env ?s4 ?s5"
    using persist_write [of ?s4 "[]" config_b "[config_a]" sample_env "''b''" "Inr ()" ?f5]
      s3 config_b_not_a by (simp add: sample_env_def)
  let ?f6 = "?f5(''config.yaml'' \<mapsto> ''a'')"
  let ?s6 = "?s5\<lparr>cs_sys := (cs_sys s3)\<lparr>sy_files := ?f6\<rparr>, cs_pending := []\<rparr>"
  have c4: "mgr_step sample_env ?s5 ?s6"
    using persist_write [of ?s5 "[]" config_a "[]" sample_env "''a''" "Inr ()" ?f6]
      s3 by (simp add: sample_env_def)
  have "(mgr_step sample_env)\<^sup>*\<^sup>* sample_start ?s6"
    using s1(1) c1 s3(1) c2 c3 c4 by (meson rtranclp.rtrancl_into_rtrancl rtranclp_trans)
  then show ?thesis
    using sample_start_initial s3
    by (intro exI [of _ sample_start] exI [of _ ?s6]) (simp add: sample_env_def)
qed

end
