(* ===== verification/In_Flight.thy ===== *)
theory In_Flight
  imports System Interleaving_Properties
begin

section \<open>Requests in flight while the configuration is replaced\<close>

text \<open>
  The request handler of \<open>src/routing.rs\<close> in steps, one from await to await, interleaved with the
  steps of \<open>Manager_Steps\<close> and with any number of other requests. A request takes its router once,
  when it starts, and keeps it (the code clones the \<open>Arc\<close>) through all its attempts, whatever the
  manager does with the slots meanwhile; health states may be different at every start, and the
  balancer decides each attempt anew. The lemmas show that a request in flight is answered as the
  sequential \<open>handler\<close> answers it on the manager of the moment it started, and that a backend that
  has been disabled gets no request that starts later.
\<close>

subsection \<open>The handler from await to await\<close>

text \<open>\<open>Arrived\<close>: not yet polled; \<open>Single\<close>: about to be executed without retries; \<open>Buffering\<close>: the
  body is being read; \<open>Trying\<close>, \<open>Pausing\<close>: in the retry loop, before attempt \<open>n\<close> and after it
  failed; \<open>Collecting\<close>: in \<open>buffer_response\<close>; \<open>Dropped\<close>: the client has gone.\<close>

datatype ('h, 'b) phase =
    Arrived
  | Single router "('h, 'b) request"
  | Buffering router "('h, 'b) request"
  | Trying router "('h, 'b) request" nat scope u8 duration
  | Pausing router "('h, 'b) request" nat scope u8 duration lb_error
  | Collecting "('h, 'b) response" scope
  | Answered "('h, 'b) response" scope
  | Crashed
  | Dropped

text \<open>From the beginning to the first await: the router is taken here.\<close>

definition start_handler ::
  "('h, 'b) http_env \<Rightarrow> handler_state \<Rightarrow> (router \<Rightarrow> backend list) \<Rightarrow> manager \<Rightarrow> scope \<Rightarrow>
   ('h, 'b) request \<Rightarrow> ('h, 'b) phase" where
  "start_handler H hs healthy m ctx req =
     (case he_authority H req of
        None \<Rightarrow> Answered (into_response H NoAuthority) ctx
      | Some host \<Rightarrow>
     (case get_backend_router healthy m of
        None \<Rightarrow> Answered (into_response H ServiceNotReady) ctx
      | Some backend_router \<Rightarrow>
     (case he_header_value H host of
        None \<Rightarrow> Crashed
      | Some hv \<Rightarrow>
     (let req1 = req\<lparr>rq_headers := he_insert H x_forwarded_host hv (rq_headers req)\<rparr> in
      if \<not> should_buffer H hs req1 then Single backend_router req1 else Buffering backend_router req1))))"

text \<open>From each await to the next, with the events in between; \<open>None\<close> when it is over, or when the
  call of the backend router that it awaits never completes.\<close>

fun advance ::
  "('h, 'b) http_env \<Rightarrow> handler_state \<Rightarrow> bool \<Rightarrow> (router \<Rightarrow> ('h, 'b) exec) \<Rightarrow> scope \<Rightarrow>
   ('h, 'b) phase \<Rightarrow> (('h, 'b) phase \<times> ('h, 'b) event list) option" where
  "advance H hs checks execute ctx (Single r req) =
     (case execute r 0 ctx req of
        (Pending, ctx1) \<Rightarrow> None
      | (Panicked, ctx1) \<Rightarrow> Some (Crashed, [Executed req])
      | (Done (Inl e), ctx1) \<Rightarrow> Some (Answered (into_response H (lb_cause e)) ctx1, [Executed req])
      | (Done (Inr v), ctx1) \<Rightarrow> Some (Collecting v ctx1, [Executed req]))"
| "advance H hs checks execute ctx (Buffering r req) =
     (case buffer_request H hs req of
        Inl _ \<Rightarrow> Some (Answered (into_response H RequestBodyBufferTimeout) ctx, [])
      | Inr (parts, body) \<Rightarrow>
          Some (Trying r (parts\<lparr>rq_body := he_full_body H body\<rparr>) 0 (mark_request_buffered ctx)
            (hs_retry_attempts hs) (hs_retry_interval hs), []))"
| "advance H hs checks execute ctx (Trying r req n ctx0 retries delay) =
     (case execute r n ctx0 req of
        (Pending, ctx1) \<Rightarrow> None
      | (Panicked, ctx1) \<Rightarrow> Some (Crashed, [Executed req])
      | (Done (Inr v), ctx1) \<Rightarrow>
          Some (Collecting (v\<lparr>rs_retries := Some (hs_retry_attempts hs - retries)\<rparr>) ctx1, [Executed req])
      | (Done (Inl e), ctx1) \<Rightarrow> Some (Pausing r req n ctx1 retries delay e, [Executed req]))"
| "advance H hs checks execute ctx (Pausing r req n ctx1 retries delay e) =
     Some
       (case next_delay delay e of
          None \<Rightarrow> Crashed
        | Some delay1 \<Rightarrow>
            (case u8_dec checks retries of
               None \<Rightarrow> Crashed
             | Some retries1 \<Rightarrow>
                 if retries1 = 0 then Answered (into_response H (lb_cause e)) ctx1
                 else Trying r req (Suc n) ctx1 retries1 delay1),
        [Slept (pause hs delay e)])"
| "advance H hs checks execute ctx (Collecting v ctx1) =
     (case buffer_response H hs ctx1 v of (resp, ctx2) \<Rightarrow> Some (Answered resp ctx2, []))"
| "advance H hs checks execute ctx _ = None"

subsection \<open>The rest of a request\<close>

text \<open>What the sequential handler does from each phase on.\<close>

definition after_loop ::
  "('h, 'b) http_env \<Rightarrow> handler_state \<Rightarrow> ('h, 'b) loop_result \<Rightarrow> ('h, 'b) handled outcome" where
  "after_loop H hs = (\<lambda>(res, ctx1, tr).
     case res of
       Inl error_response \<Rightarrow> Done (error_response, ctx1, tr)
     | Inr (v, retries) \<Rightarrow>
         (case buffer_response H hs ctx1 (v\<lparr>rs_retries := Some (hs_retry_attempts hs - retries)\<rparr>) of
            (resp, ctx2) \<Rightarrow> Done (resp, ctx2, tr)))"

text \<open>Events come before what is still to be done.\<close>

definition after_events ::
  "('h, 'b) event list \<Rightarrow> ('h, 'b) handled outcome \<Rightarrow> ('h, 'b) handled outcome" where
  "after_events evs m = and_then m (\<lambda>(resp, ctx, tr). Done (resp, ctx, evs @ tr))"

fun rest_of ::
  "('h, 'b) http_env \<Rightarrow> handler_state \<Rightarrow> bool \<Rightarrow> (router \<Rightarrow> ('h, 'b) exec) \<Rightarrow> scope \<Rightarrow>
   ('h, 'b) phase \<Rightarrow> ('h, 'b) handled outcome" where
  "rest_of H hs checks execute ctx (Single r req) =
     (case execute r 0 ctx req of
        (Pending, ctx1) \<Rightarrow> Pending
      | (Panicked, ctx1) \<Rightarrow> Panicked
      | (Done (Inl e), ctx1) \<Rightarrow> Done (into_response H (lb_cause e), ctx1, [Executed req])
      | (Done (Inr v), ctx1) \<Rightarrow>
          (case buffer_response H hs ctx1 v of (resp, ctx2) \<Rightarrow> Done (resp, ctx2, [Executed req])))"
| "rest_of H hs checks execute ctx (Buffering r req) =
     (case buffer_request H hs req of
        Inl _ \<Rightarrow> Done (into_response H RequestBodyBufferTimeout, ctx, [])
      | Inr (parts, body) \<Rightarrow>
          and_then
            (retry_loop H hs checks (execute r) (parts\<lparr>rq_body := he_full_body H body\<rparr>) 0
               (mark_request_buffered ctx) (hs_retry_attempts hs) (hs_retry_interval hs))
            (after_loop H hs))"
| "rest_of H hs checks execute ctx (Trying r req n ctx0 retries delay) =
     and_then (retry_loop H hs checks (execute r) req n ctx0 retries delay) (after_loop H hs)"
| "rest_of H hs checks execute ctx (Pausing r req n ctx1 retries delay e) =
     after_events [Slept (pause hs delay e)]
       (case next_delay delay e of
          None \<Rightarrow> Panicked
        | Some delay1 \<Rightarrow>
            (case u8_dec checks retries of
               None \<Rightarrow> Panicked
             | Some retries1 \<Rightarrow>
                 if retries1 = 0 then Done (into_response H (lb_cause e), ctx1, [])
                 else and_then (retry_loop H hs checks (execute r) req (Suc n) ctx1 retries1 delay1)
                        (after_loop H hs)))"
| "rest_of H hs checks execute ctx (Collecting v ctx1) =
     (case buffer_response H hs ctx1 v of (resp, ctx2) \<Rightarrow> Done (resp, ctx2, []))"
| "rest_of H hs checks execute ctx (Answered resp ctx1) = Done (resp, ctx1, [])"
| "rest_of H hs checks execute ctx Crashed = Panicked"
| "rest_of H hs checks execute ctx _ = Pending"

lemma after_events_simps [simp]:
  "after_events evs (Done (resp, ctx, tr)) = Done (resp, ctx, evs @ tr)"
  "after_events evs Panicked = Panicked" "after_events evs Pending = Pending"
  by (simp_all add: after_events_def)

lemma after_loop_simps [simp]:
  "after_loop H hs (Inl resp, ctx, tr) = Done (resp, ctx, tr)"
  "after_loop H hs (Inr (v, retries), ctx, tr) =
     (case buffer_response H hs ctx (v\<lparr>rs_retries := Some (hs_retry_attempts hs - retries)\<rparr>) of
        (resp, ctx2) \<Rightarrow> Done (resp, ctx2, tr))"
  by (simp_all add: after_loop_def)

lemma after_events_append: "after_events (evs @ evs') m = after_events evs (after_events evs' m)"
  by (cases m) (auto simp: after_events_def)

lemma after_events_Nil [simp]: "after_events [] m = m"
  by (cases m) (auto simp: after_events_def)

lemma start_handler_rest:
  "handler H hs checks healthy m execute ctx req =
     rest_of H hs checks execute ctx (start_handler H hs healthy m ctx req)"
  by (simp add: handler_def start_handler_def after_loop_def Let_def split: option.split sum.split outcome.split)

lemma after_loop_prefix:
  "after_loop H hs (res, ctx, evs @ tr) = after_events evs (after_loop H hs (res, ctx, tr))"
  by (cases res) (simp_all add: after_loop_def split_beta)

lemma after_loop_again:
  "and_then (and_then m (\<lambda>(r, ctx2, tr). Done (r, ctx2, a # b # tr))) (after_loop H hs) =
     after_events [a] (after_events [b] (and_then m (after_loop H hs)))"
proof (cases m)
  case (Done p)
  then show ?thesis
    using after_loop_prefix [of H hs "fst p" "fst (snd p)" "[a, b]" "snd (snd p)"]
    by (cases p) (simp add: after_events_append [of "[a]" "[b]", simplified])
qed simp_all

text \<open>Every step does the first part of the rest.\<close>

lemma advance_rest:
  assumes "advance H hs checks execute ctx p = Some (p', evs)"
  shows "rest_of H hs checks execute ctx p = after_events evs (rest_of H hs checks execute ctx p')"
proof (cases p)
  case (Single r req)
  with assms show ?thesis
    by (cases "execute r 0 ctx req") (auto split: prod.splits outcome.splits sum.splits)
next
  case (Buffering r req)
  with assms show ?thesis
    by (auto split: sum.splits prod.splits)
next
  case (Trying r req n ctx0 retries delay)
  note loop = retry_loop.simps [of H hs checks "execute r" req n ctx0 retries delay]
  obtain res ctx1 where ex: "execute r n ctx0 req = (res, ctx1)"
    by (cases "execute r n ctx0 req")
  show ?thesis
  proof (cases res)
    case (Done x)
    show ?thesis
    proof (cases x)
      case (Inr v)
      with assms Trying ex Done show ?thesis
        by (auto simp: loop split: prod.split)
    next
      case (Inl e)
      with assms Trying ex Done show ?thesis
        by (auto simp: loop after_loop_again split: option.split)
    qed
  qed (use assms Trying ex in \<open>auto simp: loop\<close>)
next
  case (Pausing r req n ctx1 retries delay e)
  with assms show ?thesis
    by (auto split: option.splits)
next
  case (Collecting v ctx1)
  with assms show ?thesis
    by (auto split: prod.splits)
qed (use assms in simp_all)

subsection \<open>How long it takes\<close>

definition attempts_left :: "u8 \<Rightarrow> nat" where
  "attempts_left retries = Suc (unat (retries - 1))"

fun phase_size :: "handler_state \<Rightarrow> ('h, 'b) phase \<Rightarrow> nat" where
  "phase_size hs Arrived = 2 * attempts_left (hs_retry_attempts hs) + 3"
| "phase_size hs (Buffering r req) = 2 * attempts_left (hs_retry_attempts hs) + 2"
| "phase_size hs (Trying r req n ctx0 retries delay) = 2 * attempts_left retries + 1"
| "phase_size hs (Pausing r req n ctx1 retries delay e) = 2 * attempts_left retries"
| "phase_size hs (Single r req) = 2"
| "phase_size hs (Collecting v ctx1) = 1"
| "phase_size hs _ = 0"

lemma attempts_left_dec:
  assumes "u8_dec checks retries = Some retries1" and "retries1 \<noteq> 0"
  shows "attempts_left retries = Suc (attempts_left retries1)"
  using u8_dec_SomeD [OF assms(1)] unat_u8_pos [of retries1] unat_minus_one [OF assms(2)] assms(2)
  by (simp add: attempts_left_def)

lemma advance_size:
  "advance H hs checks execute ctx p = Some (p', evs) \<Longrightarrow> phase_size hs p' < phase_size hs p"
  by (cases p)
    (auto split: sum.splits prod.splits outcome.splits option.splits dest!: attempts_left_dec
      simp: attempts_left_def)

lemma start_size: "phase_size hs (start_handler H hs healthy m ctx req) < phase_size hs Arrived"
  by (auto simp: start_handler_def Let_def attempts_left_def split: option.split)

text \<open>A request that is not over goes on, unless it waits for a call that never completes.\<close>

fun over :: "('h, 'b) phase \<Rightarrow> bool" where
  "over (Answered _ _) = True"
| "over Crashed = True"
| "over Dropped = True"
| "over _ = False"

fun hanging :: "(router \<Rightarrow> ('h, 'b) exec) \<Rightarrow> scope \<Rightarrow> ('h, 'b) phase \<Rightarrow> bool" where
  "hanging execute ctx (Single r req) = (fst (execute r 0 ctx req) = Pending)"
| "hanging execute ctx (Trying r req n ctx0 retries delay) = (fst (execute r n ctx0 req) = Pending)"
| "hanging execute ctx _ = False"

lemma advance_enabled:
  "\<not> over p \<Longrightarrow> p \<noteq> Arrived \<Longrightarrow> \<not> hanging execute ctx p \<Longrightarrow> advance H hs checks execute ctx p \<noteq> None"
  by (cases p) (auto split: sum.splits prod.splits outcome.splits)

subsection \<open>Manager and requests together\<close>

text \<open>\<open>fl_steps\<close> counts the steps a request has taken.\<close>

record ('h, 'b) flight =
  fl_request :: "('h, 'b) request"
  fl_client :: "nat \<Rightarrow> ('h, 'b) request \<Rightarrow> (string + ('h, 'b) response) outcome"
  fl_phase :: "('h, 'b) phase"
  fl_trace :: "('h, 'b) event list"
  fl_steps :: nat

record ('h, 'b) fleet =
  ft_core :: cstate
  ft_flights :: "('h, 'b) flight list"

definition new_flight ::
  "('h, 'b) request \<Rightarrow> (nat \<Rightarrow> ('h, 'b) request \<Rightarrow> (string + ('h, 'b) response) outcome) \<Rightarrow>
   ('h, 'b) flight" where
  "new_flight req client =
     \<lparr>fl_request = req, fl_client = client, fl_phase = Arrived, fl_trace = [], fl_steps = 0\<rparr>"

definition moved :: "('h, 'b) phase \<Rightarrow> ('h, 'b) event list \<Rightarrow> ('h, 'b) flight \<Rightarrow> ('h, 'b) flight" where
  "moved p evs f = f\<lparr>fl_phase := p, fl_trace := fl_trace f @ evs, fl_steps := Suc (fl_steps f)\<rparr>"

definition flight_execute ::
  "('h, 'b) http_env \<Rightarrow> ('h, 'b) balancer \<Rightarrow> ('h, 'b) flight \<Rightarrow> router \<Rightarrow> ('h, 'b) exec" where
  "flight_execute H lb f = router_execute H (fl_client f) lb"

text \<open>One request's own step: it starts, with the health states of this moment, or goes on.\<close>

inductive flight_step ::
  "('h, 'b) mgr_env \<Rightarrow> handler_state \<Rightarrow> bool \<Rightarrow> ('h, 'b) balancer \<Rightarrow> manager \<Rightarrow>
   ('h, 'b) flight \<Rightarrow> ('h, 'b) flight \<Rightarrow> bool" for E hs checks lb m where
  start: "fl_phase f = Arrived \<Longrightarrow>
     flight_step E hs checks lb m f
       (moved (start_handler (me_http E) hs healthy m (Some context_default) (fl_request f)) [] f)"
| go: "advance (me_http E) hs checks (flight_execute (me_http E) lb f) (Some context_default) (fl_phase f) =
       Some (p, evs) \<Longrightarrow> flight_step E hs checks lb m f (moved p evs f)"
| drop: "\<not> over (fl_phase f) \<Longrightarrow> flight_step E hs checks lb m f (moved Dropped [] f)"

text \<open>All of it: the manager does a step, a request comes in, or one of the requests moves. The
  manager's steps are those of \<open>core\<close>: all that \<open>any_step\<close> allows, or some of them.\<close>

inductive fleet_step ::
  "(cstate \<Rightarrow> cstate \<Rightarrow> bool) \<Rightarrow> ('h, 'b) mgr_env \<Rightarrow> handler_state \<Rightarrow> bool \<Rightarrow> ('h, 'b) balancer \<Rightarrow>
   ('h, 'b) fleet \<Rightarrow> ('h, 'b) fleet \<Rightarrow> bool" for core E hs checks lb where
  manage: "core (ft_core s) c \<Longrightarrow> fleet_step core E hs checks lb s (s\<lparr>ft_core := c\<rparr>)"
| incoming: "fleet_step core E hs checks lb s (s\<lparr>ft_flights := ft_flights s @ [new_flight req client]\<rparr>)"
| fly: "i < length (ft_flights s) \<Longrightarrow>
     flight_step E hs checks lb (cs_manager (ft_core s)) (ft_flights s ! i) f \<Longrightarrow>
     fleet_step core E hs checks lb s (s\<lparr>ft_flights := (ft_flights s)[i := f]\<rparr>)"

lemma moved_sel [simp]:
  "fl_phase (moved p evs f) = p" "fl_trace (moved p evs f) = fl_trace f @ evs"
  "fl_steps (moved p evs f) = Suc (fl_steps f)" "fl_request (moved p evs f) = fl_request f"
  "fl_client (moved p evs f) = fl_client f" "flight_execute H lb (moved p evs f) = flight_execute H lb f"
  by (simp_all add: moved_def flight_execute_def)

lemma new_flight_sel [simp]:
  "fl_phase (new_flight req client) = Arrived" "fl_trace (new_flight req client) = []"
  "fl_steps (new_flight req client) = 0"
  by (simp_all add: new_flight_def)

text \<open>An invariant of the manager's steps and one of every flight that these steps do not disturb
  are together an invariant of the fleet. The flights with an index below \<open>k\<close> are left out.\<close>

definition fleet_good ::
  "(cstate \<Rightarrow> bool) \<Rightarrow> (cstate \<Rightarrow> ('h, 'b) flight \<Rightarrow> bool) \<Rightarrow> nat \<Rightarrow> ('h, 'b) fleet \<Rightarrow> bool" where
  "fleet_good holds good k s \<longleftrightarrow> holds (ft_core s) \<and> k \<le> length (ft_flights s) \<and>
     (\<forall>i. k \<le> i \<longrightarrow> i < length (ft_flights s) \<longrightarrow> good (ft_core s) (ft_flights s ! i))"

locale flight_invariant =
  fixes core :: "cstate \<Rightarrow> cstate \<Rightarrow> bool"
    and E :: "('h, 'b) mgr_env" and hs :: handler_state and checks :: bool and lb :: "('h, 'b) balancer"
    and holds :: "cstate \<Rightarrow> bool" and good :: "cstate \<Rightarrow> ('h, 'b) flight \<Rightarrow> bool"
  assumes steady: "holds c \<Longrightarrow> core c c' \<Longrightarrow> holds c'"
    and arrives: "holds c \<Longrightarrow> good c (new_flight req client)"
    and stable: "holds c \<Longrightarrow> good c f \<Longrightarrow> core c c' \<Longrightarrow> good c' f"
    and flies: "holds c \<Longrightarrow> good c f \<Longrightarrow> flight_step E hs checks lb (cs_manager c) f f' \<Longrightarrow> good c f'"
begin

lemma fleet_step_good:
  assumes "fleet_good holds good k s" and "fleet_step core E hs checks lb s t"
  shows "fleet_good holds good k t"
  using assms(2)
proof (cases rule: fleet_step.cases)
  case (manage c)
  then show ?thesis
    using assms(1) by (auto simp: fleet_good_def intro: steady stable)
next
  case (incoming req client)
  then show ?thesis
    using assms(1) by (auto simp: fleet_good_def nth_append less_Suc_eq intro: arrives)
next
  case (fly i f)
  then show ?thesis
    using assms(1) by (auto simp: fleet_good_def nth_list_update intro: flies)
qed

lemma fleet_run_good:
  assumes "(fleet_step core E hs checks lb)\<^sup>*\<^sup>* s t" and "fleet_good holds good k s"
  shows "fleet_good holds good k t"
  using assms by (induction rule: rtranclp_induct) (auto intro: fleet_step_good)

lemma later_flight_good:
  assumes "(fleet_step core E hs checks lb)\<^sup>*\<^sup>* s t" and "holds (ft_core s)"
    and "length (ft_flights s) \<le> i" and "i < length (ft_flights t)"
  shows "holds (ft_core t) \<and> good (ft_core t) (ft_flights t ! i)"
proof -
  have "fleet_good holds good (length (ft_flights s)) s"
    using assms(2) by (simp add: fleet_good_def)
  from fleet_run_good [OF assms(1) this] assms(3,4) show ?thesis
    by (simp add: fleet_good_def)
qed

end

subsection \<open>Flights are answered as the handler answers\<close>

text \<open>The flight has done the first part of what \<open>handler\<close> does on the manager of an earlier moment
  \<open>c1\<close> of the run that began in \<open>c0\<close>, and takes only so many steps.\<close>

definition as_handled ::
  "('h, 'b) mgr_env \<Rightarrow> handler_state \<Rightarrow> bool \<Rightarrow> ('h, 'b) balancer \<Rightarrow> cstate \<Rightarrow> cstate \<Rightarrow>
   ('h, 'b) flight \<Rightarrow> bool" where
  "as_handled E hs checks lb c0 c f \<longleftrightarrow>
     (\<exists>c1 healthy. (any_step E)\<^sup>*\<^sup>* c0 c1 \<and> (any_step E)\<^sup>*\<^sup>* c1 c \<and>
        handler (me_http E) hs checks healthy (cs_manager c1) (flight_execute (me_http E) lb f)
          (Some context_default) (fl_request f) =
        after_events (fl_trace f)
          (rest_of (me_http E) hs checks (flight_execute (me_http E) lb f) (Some context_default) (fl_phase f)))"

definition flight_ok ::
  "('h, 'b) mgr_env \<Rightarrow> handler_state \<Rightarrow> bool \<Rightarrow> ('h, 'b) balancer \<Rightarrow> cstate \<Rightarrow> cstate \<Rightarrow>
   ('h, 'b) flight \<Rightarrow> bool" where
  "flight_ok E hs checks lb c0 c f \<longleftrightarrow>
     fl_steps f + phase_size hs (fl_phase f) \<le> phase_size hs (Arrived :: ('h, 'b) phase) \<and>
     (fl_phase f = Arrived \<longrightarrow> fl_trace f = []) \<and>
     (fl_phase f = Arrived \<or> fl_phase f = Dropped \<or> as_handled E hs checks lb c0 c f)"

lemma start_not: "start_handler H hs healthy m ctx req \<noteq> Arrived \<and> start_handler H hs healthy m ctx req \<noteq> Dropped"
  by (auto simp: start_handler_def Let_def split: option.split)

lemma advance_not:
  "advance H hs checks execute ctx p = Some (p', evs) \<Longrightarrow> p \<noteq> Arrived \<and> p \<noteq> Dropped \<and> p' \<noteq> Arrived \<and> p' \<noteq> Dropped"
  by (cases p) (auto split: sum.splits prod.splits outcome.splits option.splits if_splits)

lemma drop_size: "\<not> over p \<Longrightarrow> 0 < phase_size hs p"
  by (cases p) (simp_all add: attempts_left_def)

lemma flight_step_ok:
  assumes "(any_step E)\<^sup>*\<^sup>* c0 c" and "flight_ok E hs checks lb c0 c f"
    and "flight_step E hs checks lb (cs_manager c) f f'"
  shows "flight_ok E hs checks lb c0 c f'"
  using assms(3)
proof (cases rule: flight_step.cases)
  case (start healthy)
  let ?p = "start_handler (me_http E) hs healthy (cs_manager c) (Some context_default) (fl_request f)"
  have "as_handled E hs checks lb c0 c f'"
    using assms(1,2) start start_handler_rest [of "me_http E" hs checks healthy "cs_manager c"
        "flight_execute (me_http E) lb f" "Some context_default" "fl_request f"]
    by (auto simp: as_handled_def flight_ok_def intro!: exI [of _ c])
  moreover have "phase_size hs ?p < phase_size hs (Arrived :: ('h, 'b) phase)"
    by (rule start_size)
  ultimately show ?thesis
    using assms(2) start start_not [of "me_http E" hs healthy "cs_manager c"] by (auto simp: flight_ok_def)
next
  case (go p evs)
  then have "as_handled E hs checks lb c0 c f'"
    using assms(2) advance_rest [OF go(2)] advance_not [OF go(2)]
    by (auto simp: as_handled_def flight_ok_def after_events_append)
  then show ?thesis
    using assms(2) go advance_not [OF go(2)] advance_size [OF go(2)] by (simp add: flight_ok_def)
next
  case drop
  then show ?thesis
    using assms(2) drop_size [OF drop(2), of hs] by (simp add: flight_ok_def)
qed

lemma flight_ok_stable:
  "flight_ok E hs checks lb c0 c f \<Longrightarrow> any_step E c c' \<Longrightarrow> flight_ok E hs checks lb c0 c' f"
  by (auto simp: flight_ok_def as_handled_def intro: rtranclp.rtrancl_into_rtrancl)

interpretation flown: flight_invariant "any_step E" E hs checks lb
  "(any_step E)\<^sup>*\<^sup>* c0" "flight_ok E hs checks lb c0" for E hs checks lb c0
proof unfold_locales
  show "flight_ok E hs checks lb c0 c (new_flight req client)" for c req client
    by (simp add: flight_ok_def)
qed (blast intro: flight_step_ok flight_ok_stable rtranclp.rtrancl_into_rtrancl)+

subsection \<open>A disabled backend\<close>

text \<open>\<open>avoids n r\<close>: router \<open>r\<close> has no backend of that name. The manager is rid of it when neither the
  configuration enables it nor a slot or the lock's holder has a router with it.\<close>

definition avoids :: "string \<Rightarrow> router \<Rightarrow> bool" where
  "avoids n r \<longleftrightarrow> n \<notin> (be_name \<circ> fst) ` set (rt_backends r)"

fun held_router :: "pc option \<Rightarrow> router option" where
  "held_router (Some (Wait _ r)) = Some r"
| "held_router (Some (Install _ ro)) = ro"
| "held_router _ = None"

definition rid_of :: "string \<Rightarrow> cstate \<Rightarrow> bool" where
  "rid_of n c \<longleftrightarrow>
     n \<notin> enabled_names (cs_config c) \<and>
     pred_option (avoids n) (bm_router (cs_manager c)) \<and>
     pred_option (avoids n) (bm_router_fallback (cs_manager c)) \<and>
     pred_option (avoids n) (held_router (cs_lock c))"

text \<open>Steps after which the configuration does not enable the backend.\<close>

definition leaves_out :: "('h, 'b) mgr_env \<Rightarrow> string \<Rightarrow> cstate \<Rightarrow> cstate \<Rightarrow> bool" where
  "leaves_out E n c c' \<longleftrightarrow> any_step E c c' \<and> n \<notin> enabled_names (cs_config c')"

lemma slot_spec_avoids:
  assumes "slot_spec i t st bcs (Some r)" and "n \<notin> bc_name ` set bcs"
  shows "avoids n r"
proof -
  have "map fst (map router_entry (rt_backends r)) = map fst (map conf_entry bcs)"
    using assms(1) by (simp add: slot_spec_def)
  then have "map (be_name \<circ> fst) (rt_backends r) = map bc_name bcs"
    by (simp add: router_entry_def conf_entry_def comp_def)
  then show ?thesis
    using assms(2) by (metis avoids_def list.set_map)
qed

lemma slot_backends_enabled: "bc_name ` set (slot_backends sl c) \<subseteq> enabled_names c"
  by (cases sl) (auto simp: enabled_names_def enabled_backends_def enabled_fallback_def)

lemma rid_of_slots:
  "rid_of n c \<longleftrightarrow> n \<notin> enabled_names (cs_config c) \<and>
     (\<forall>sl. pred_option (avoids n) (slot_load sl (cs_manager c))) \<and> pred_option (avoids n) (held_router (cs_lock c))"
  unfolding rid_of_def by (metis slot.exhaust slot_load.simps)

lemma rid_of_start:
  assumes "in_sync (cs_manager c)" and "cs_lock c = None" and "n \<notin> enabled_names (cs_config c)"
  shows "rid_of n c"
proof -
  have "avoids n r" if r: "slot_load sl (cs_manager c) = Some r" for sl r
  proof -
    have "slot_ok (cs_manager c) (slot_backends sl (cs_config c)) (Some r)"
      using assms(1) r by (metis in_sync_slots slot_good_def)
    then show ?thesis
      using assms(3) slot_backends_enabled [of sl "cs_config c"] unfolding slot_ok_def
      by (blast intro: slot_spec_avoids)
  qed
  then have "pred_option (avoids n) (slot_load sl (cs_manager c))" for sl
    by (cases "slot_load sl (cs_manager c)") simp_all
  with assms show ?thesis
    by (simp add: rid_of_slots)
qed

lemma held_next [simp]: "held_router (next_pc sl) = None"
  by (cases sl) simp_all

lemma rid_of_apply_step:
  assumes "rid_of n c" and "apply_step E c c'"
  shows "rid_of n c'"
  using assms(2)
proof (cases rule: apply_step.cases)
  case (build_some sl r s1)
  have "slot_spec (bm_check_interval (cs_manager c)) (bm_check_timeout (cs_manager c)) (cf_strategy (cs_config c))
      (slot_backends sl (cs_config c)) (Some r)"
    using create_backend_router_spec(1) [OF build_some(4)] build_some(3) by blast
  then have "avoids n r"
    using assms(1) slot_backends_enabled [of sl "cs_config c"] by (auto simp: rid_of_def intro: slot_spec_avoids)
  then show ?thesis
    using assms(1) build_some create_backend_router_fresh [OF build_some(4)] by (simp add: rid_of_def)
next
  case (install sl ro)
  then show ?thesis
    using assms(1) by (auto simp: rid_of_slots)
qed (use assms(1) in \<open>auto simp: rid_of_def stop_router_Done_iff\<close>)

lemma rid_of_step:
  assumes "rid_of n c" and "leaves_out E n c c'"
  shows "rid_of n c'"
proof -
  have out: "n \<notin> enabled_names (cs_config c')" and "mgr_step E c c' \<or> cancel_step c c'"
    using assms(2) by (simp_all add: leaves_out_def any_step_def)
  then consider "mgr_step E c c'" | "cancel_step c c'"
    by blast
  then show ?thesis
  proof cases
    case 1
    then show ?thesis
      by (cases rule: mgr_step.cases) (use assms(1) out rid_of_apply_step in \<open>auto simp: rid_of_def\<close>)
  next
    case 2
    then show ?thesis
      by (cases rule: cancel_step.cases) (use assms(1) in \<open>simp_all add: rid_of_def\<close>)
  qed
qed

text \<open>\<open>spared n f\<close>: flight \<open>f\<close> neither has a router with the backend nor has been executed on it.\<close>

definition executed_on :: "string \<Rightarrow> scope \<Rightarrow> bool" where
  "executed_on n ctx \<longleftrightarrow>
     (case ctx of None \<Rightarrow> False
      | Some c \<Rightarrow> (case rc_backend c of None \<Rightarrow> False | Some b \<Rightarrow> be_name b = n))"

fun spared :: "string \<Rightarrow> ('h, 'b) phase \<Rightarrow> bool" where
  "spared n (Single r req) = avoids n r"
| "spared n (Buffering r req) = avoids n r"
| "spared n (Trying r req k ctx retries delay) = (avoids n r \<and> \<not> executed_on n ctx)"
| "spared n (Pausing r req k ctx retries delay e) = (avoids n r \<and> \<not> executed_on n ctx)"
| "spared n (Collecting v ctx) = (\<not> executed_on n ctx)"
| "spared n (Answered v ctx) = (\<not> executed_on n ctx)"
| "spared n _ = True"

lemma executed_on_default [simp]:
  "\<not> executed_on n (Some context_default)" "\<not> executed_on n (mark_request_buffered (Some context_default))"
  by (simp_all add: executed_on_def context_default_def mark_request_buffered_def)

lemma executed_on_buffer_response:
  "buffer_response H hs ctx v = (resp, ctx2) \<Longrightarrow> executed_on n ctx2 = executed_on n ctx"
  by (cases ctx) (auto simp: buffer_response_def executed_on_def split: if_splits timed.splits sum.splits)

lemma executed_on_execute:
  assumes "balancer_contract lb" and "avoids n r" and "router_execute H client lb r k ctx req = (res, ctx1)"
    and "\<not> executed_on n ctx"
  shows "\<not> executed_on n ctx1"
proof -
  have "ctx1 = ctx \<or> (\<exists>p \<in> set (rt_backends r). ctx1 = map_option (\<lambda>c. c\<lparr>rc_backend := Some (fst p)\<rparr>) ctx)"
    using router_execute_scope [OF assms(1), of H client r k ctx req] by (simp add: assms(3))
  then show ?thesis
    using assms(2,4) by (cases ctx) (force simp: executed_on_def avoids_def)+
qed

lemma start_spared:
  assumes "rid_of n c"
  shows "spared n (start_handler H hs healthy (cs_manager c) (Some context_default) req)"
proof -
  have "avoids n r" if "get_backend_router healthy (cs_manager c) = Some r" for r
    using that assms by (auto simp: get_backend_router_def rid_of_def split: option.splits if_splits)
  then show ?thesis
    by (auto simp: start_handler_def Let_def split: option.split)
qed

lemma advance_spared:
  assumes "balancer_contract lb" and "spared n p"
    and "advance H hs checks (router_execute H client lb) (Some context_default) p = Some (p', evs)"
  shows "spared n p'"
  using assms
  by (cases p)
    (auto split: sum.splits prod.splits outcome.splits option.splits dest: executed_on_execute
      simp: executed_on_buffer_response)

lemma flight_step_spared:
  assumes "balancer_contract lb" and "rid_of n c" and "spared n (fl_phase f)"
    and "flight_step E hs checks lb (cs_manager c) f f'"
  shows "spared n (fl_phase f')"
  using assms(4)
  by (cases rule: flight_step.cases)
    (use assms(1-3) in \<open>auto simp: flight_execute_def intro: start_spared advance_spared\<close>)

end
