(* ===== verification/Router_Provenance.thy ===== *)
theory Router_Provenance
  imports In_Flight
begin

section \<open>Where a router comes from\<close>

text \<open>
  The manager stores a configuration before it builds the routers for it, and swaps them one after
  the other while requests are served (\<open>apply\<close> of \<open>src/backend.rs\<close>). So the router a request is
  handed need not be one of the current configuration. The invariant here, of all interleavings and
  also with dropped futures: every router in a slot or in the hands of the lock's holder was built
  for one slot of a configuration that the manager had at some moment before.
\<close>

definition built_for :: "config \<Rightarrow> router \<Rightarrow> bool" where
  "built_for c r \<longleftrightarrow> (\<exists>sl. map router_entry (rt_backends r) = map conf_entry (slot_backends sl c))"

definition in_use :: "cstate \<Rightarrow> router set" where
  "in_use s = {r. (\<exists>sl. slot_load sl (cs_manager s) = Some r) \<or> held_router (cs_lock s) = Some r}"

definition traceable :: "('h, 'b) mgr_env \<Rightarrow> cstate \<Rightarrow> cstate \<Rightarrow> bool" where
  "traceable E s0 s \<longleftrightarrow> (any_step E)\<^sup>*\<^sup>* s0 s \<and>
     (\<forall>r \<in> in_use s. \<exists>c. (any_step E)\<^sup>*\<^sup>* s0 c \<and> (any_step E)\<^sup>*\<^sup>* c s \<and> built_for (cs_config c) r)"

lemma slot_good_built: "slot_good m sl (Some r) \<Longrightarrow> built_for (bm_config m) r"
  by (auto simp: slot_good_def slot_ok_def slot_spec_def built_for_def)

lemma built_for_backend:
  assumes "built_for c r" and "p \<in> set (rt_backends r)"
  shows "\<exists>b \<in> set (enabled_backends c) \<union> set (enabled_fallback c).
     be_name (fst p) = bc_name b \<and> be_url (fst p) = bc_url b \<and> bc_enabled b"
proof -
  obtain sl where sl: "map router_entry (rt_backends r) = map conf_entry (slot_backends sl c)"
    using assms(1) by (auto simp: built_for_def)
  have "router_entry p \<in> conf_entry ` set (slot_backends sl c)"
    using assms(2) sl by (metis imageI list.set_map)
  then obtain b where b: "b \<in> set (slot_backends sl c)" "router_entry p = conf_entry b"
    by blast
  then have "b \<in> set (enabled_backends c) \<union> set (enabled_fallback c) \<and> bc_enabled b"
    by (cases sl) (auto simp: enabled_backends_def enabled_fallback_def)
  with b(2) show ?thesis
    by (auto simp: router_entry_def conf_entry_def)
qed

lemma slot_load_with_config [simp]:
  "slot_load sl (sy_manager (with_config c s)) = slot_load sl (sy_manager s)"
  by (cases sl) simp_all

text \<open>A step brings at most one new router into use, built for the configuration of that moment.\<close>

lemma in_use_apply_step:
  assumes "apply_step E s t" and "r \<in> in_use t" and "r \<notin> in_use s"
  shows "built_for (cs_config s) r"
  using assms(1)
proof (cases rule: apply_step.cases)
  case (build_some sl r' s1)
  have "r = r'"
    using assms(2,3) build_some(1) create_backend_router_fresh [OF build_some(4)] by (auto simp: in_use_def)
  moreover have "slot_good (cs_manager s) sl (Some r')"
    using create_backend_router_spec(1) [OF build_some(4,3)] by (simp add: slot_good_def slot_ok_def)
  ultimately show ?thesis
    using slot_good_built by blast
qed (use assms(2,3) in \<open>auto simp: in_use_def stop_router_Done_iff split: if_splits\<close>)

lemma in_use_step:
  assumes "any_step E s t" and "r \<in> in_use t" and "r \<notin> in_use s"
  shows "built_for (cs_config s) r"
proof -
  consider "mgr_step E s t" | "cancel_step s t"
    using assms(1) by (auto simp: any_step_def)
  then show ?thesis
  proof cases
    case 1
    then show ?thesis
    proof (cases rule: mgr_step.cases)
      case holder
      then show ?thesis
        by (rule in_use_apply_step [OF _ assms(2,3)])
    next
      case (begin_set c)
      have "in_use t \<subseteq> in_use s"
        unfolding begin_set(1) by (auto simp: in_use_def)
      then show ?thesis
        using assms(2,3) by blast
    next
      case (begin_switch n en c)
      have "in_use t \<subseteq> in_use s"
        unfolding begin_switch(1) by (auto simp: in_use_def)
      then show ?thesis
        using assms(2,3) by blast
    qed (use assms(2,3) in \<open>auto simp: in_use_def\<close>)
  next
    case 2
    then show ?thesis
      by (cases rule: cancel_step.cases) (use assms(2,3) in \<open>auto simp: in_use_def\<close>)
  qed
qed

interpretation traced: transition_system "\<lambda>s. initial s \<and> s = s0" "any_step E" "traceable E s0" for E s0
proof unfold_locales
  fix s
  assume "initial s \<and> s = s0"
  then have "in_use s = {}" "s = s0"
    by (auto simp: in_use_def initial_def sys_new_def manager_new_def elim: slot_load.elims)
  then show "traceable E s0 s"
    by (simp add: traceable_def)
next
  fix s t
  assume inv: "traceable E s0 s" and step: "any_step E s t"
  have "\<exists>c. (any_step E)\<^sup>*\<^sup>* s0 c \<and> (any_step E)\<^sup>*\<^sup>* c t \<and> built_for (cs_config c) r" if "r \<in> in_use t" for r
  proof (cases "r \<in> in_use s")
    case True
    then show ?thesis
      using inv step by (meson rtranclp.rtrancl_into_rtrancl traceable_def)
  next
    case False
    then show ?thesis
      using inv step in_use_step [OF step that] by (auto simp: traceable_def)
  qed
  with inv step show "traceable E s0 t"
    by (auto simp: traceable_def intro: rtranclp.rtrancl_into_rtrancl)
qed

text \<open>What an execution on a backend with the URL of a configured one comes to, written out.\<close>

lemma wrapped_execution:
  assumes "be_url b = bc_url c"
  shows "snd (wrap_executor (executor_execute H client b ctx req)) = map_option (\<lambda>x. x\<lparr>rc_backend := Some b\<rparr>) ctx"
    and "fst (wrap_executor (executor_execute H client b ctx req)) =
      (case he_uri_build H (url_scheme (bc_url c)) (url_authority (bc_url c))
              (case uri_path_and_query (rq_uri req) of Some p \<Rightarrow> p | None \<Rightarrow> ''/'') of
         Inl e \<Rightarrow> Done (Inl (Inner (he_uri_error H e)))
       | Inr u \<Rightarrow>
           (case client (req\<lparr>rq_uri := u, rq_version := HTTP_11,
                    rq_headers := he_strip H (rq_headers req)\<rparr>) of
              Done (Inl e) \<Rightarrow> Done (Inl (Inner e))
            | Done (Inr v) \<Rightarrow> Done (Inr v)
            | Panicked \<Rightarrow> Panicked
            | Pending \<Rightarrow> Pending))"
  by (simp_all add: wrap_executor_def executor_execute_scope)
    (simp add: executor_execute_def request_path_def assms Let_def split: sum.split outcome.split)

text \<open>The router a request is handed: built for a configuration of an earlier moment, and for the
  current one when no task holds the lock and no future has been dropped.\<close>

lemma handed_out_provenance:
  assumes "initial s0" and "(any_step E)\<^sup>*\<^sup>* s0 s" and "get_backend_router healthy (cs_manager s) = Some r"
  shows "\<exists>c. (any_step E)\<^sup>*\<^sup>* s0 c \<and> (any_step E)\<^sup>*\<^sup>* c s \<and> built_for (cs_config c) r \<and>
     ((mgr_step E)\<^sup>*\<^sup>* s0 s \<and> cs_lock s = None \<longrightarrow> c = s)"
proof -
  obtain sl where sl: "slot_load sl (cs_manager s) = Some r"
    using assms(3) by (auto simp: get_backend_router_def split: option.splits if_splits
        intro: that [of Main] that [of Fallback])
  show ?thesis
  proof (cases "(mgr_step E)\<^sup>*\<^sup>* s0 s \<and> cs_lock s = None")
    case True
    then have "in_sync (cs_manager s)"
      using uncancelled.reachable_inv [OF assms(1), of E s] by (simp add: cs_inv_def)
    then have "slot_good (cs_manager s) sl (Some r)"
      using sl by (metis in_sync_slots)
    then show ?thesis
      using slot_good_built assms(2) by blast
  next
    case False
    have "traceable E s0 s"
      using traced.reachable_inv [OF _ assms(2)] assms(1) by blast
    moreover have "r \<in> in_use s"
      using sl by (auto simp: in_use_def)
    ultimately show ?thesis
      using False by (auto simp: traceable_def)
  qed
qed

end
