(* ===== verification/Manager_Properties.thy ===== *)
theory Manager_Properties
  imports Manager_Refinement Sample_Env
begin

section \<open>Properties of the backend manager\<close>

text \<open>
  The properties of \<open>BackendManager\<close>, sequential and interleaved, each with a witness on the
  environment of \<open>Sample_Env\<close>.
\<close>

subsection \<open>Sequential operations\<close>

text \<open>C4: starting from a fresh manager, any sequence of set, switch, load and persist operations
  leaves the manager with unique backend names, with both router slots serving exactly the enabled
  backends of the current configuration (names, URLs, weights, strategy, intervals), with every
  router ever built either stopped or installed exactly once, and with installed routers ready.\<close>

theorem operations_keep_manager_inv:
  assumes "calls E cs (sys_new path interval tmo fs) = Done (rs, s')"
  shows "manager_inv E s'"
  by (rule calls_inv [OF sys_new_inv assms])

theorem operations_keep_manager_inv_witness:
  "\<exists>rs s'. calls sample_env [Call_set_config config_a, Call_set_config config_dup,
       Call_persist_config] sample_sys = Done (rs, s') \<and> manager_inv sample_env s'"
proof -
  obtain s1 where s1: "set_config sample_env config_a sample_sys = Done (Inr (), s1)"
    using sample_set_a by blast
  have s2: "set_config sample_env config_dup s1 = Done (Inl [''Non-unique backend names''], s1)"
    by (simp add: set_config_def)
  obtain rs s' where run: "calls sample_env [Call_set_config config_a, Call_set_config config_dup,
      Call_persist_config] sample_sys = Done (rs, s')"
    using s1 s2 by (cases "persist_config sample_env s1") simp
  show ?thesis
    using run operations_keep_manager_inv [OF run [unfolded sample_sys_def]] by blast
qed

text \<open>C17: \<open>set_config\<close> on every branch: a configuration that repeats a backend name, across the
  main and the fallback list, is rejected and nothing changes; any other one becomes the current
  configuration and both slots serve it.\<close>

theorem set_config_outcome:
  assumes "set_config E c s = Done (r, s')"
  shows "if distinct (config_names c)
     then r = Inr () \<and> get_config s' = c \<and> in_sync (sy_manager s') \<and> sy_files s' = sy_files s
     else r = Inl [''Non-unique backend names''] \<and> s' = s"
  using assms
  by (cases rule: set_config_cases)
    (simp_all add: get_config_def apply_config_frame apply_config_in_sync)

theorem set_config_outcome_witness:
  "\<exists>s'. set_config sample_env config_a sample_sys = Done (Inr (), s') \<and> get_config s' = config_a \<and>
     set_config sample_env config_dup s' = Done (Inl [''Non-unique backend names''], s')"
proof -
  obtain s1 where s1: "set_config sample_env config_a sample_sys = Done (Inr (), s1)"
    using sample_set_a by blast
  have "set_config sample_env config_dup s1 = Done (Inl [''Non-unique backend names''], s1)"
    by (simp add: set_config_def)
  with s1 set_config_outcome [OF s1] show ?thesis
    by simp
qed

text \<open>An operation other than persisting that returns an error (a repeated name, a file that
  cannot be read or parsed, an unknown backend) leaves configuration, routers and files as they
  were.\<close>

lemma failed_operation_changes_nothing:
  assumes "call E c s = Done (Inl e, s')" and "c \<noteq> Call_persist_config"
  shows "s' = s"
  using assms by (rule call_failed_unchanged)

lemma failed_operation_changes_nothing_witness:
  "\<exists>e. call sample_env Call_load_config sample_sys = Done (Inl e, sample_sys) \<and> sample_sys = sample_sys"
proof -
  have run: "call sample_env Call_load_config sample_sys =
      Done (Inl [''unable to read backends config'', ''No such file or directory''], sample_sys)"
    by (simp add: load_config_def sample_env_def sample_sys_def sys_new_def)
  then show ?thesis
    using failed_operation_changes_nothing [OF run] by blast
qed

text \<open>C27: given that health states are reported and routers stop, \<open>set_config\<close> panics exactly when
  the configuration has unique names and some enabled backend, main or fallback, has a URL from
  which no health URI can be built (one without an authority, for instance); disabled backends
  never matter. Such a URL is not rejected with an error.\<close>

theorem set_config_panics_iff:
  assumes "env_live E"
  shows "set_config E c s = Panicked \<longleftrightarrow>
     distinct (config_names c) \<and>
     (\<exists>b \<in> set (enabled_backends c) \<union> set (enabled_fallback c). \<not> url_ok (me_http E) b)"
proof -
  have live: "wait_healthchecks (me_watch E r) = Done ()" "me_stop E r = Done ()" for r
    using assms by (simp_all add: env_live_def)
  have panics: "apply_config E (with_config c s) = Panicked"
    if bad: "\<exists>b \<in> set (enabled_backends c) \<union> set (enabled_fallback c). \<not> url_ok (me_http E) b"
  proof (cases "\<exists>b \<in> set (enabled_backends c). \<not> url_ok (me_http E) b")
    case True
    then show ?thesis
      using main_slot.update_panics by (fastforce simp: apply_config_def)
  next
    case False
    then obtain s1 where "update_router E bm_router store_main (enabled_backends c)
        (cf_strategy c) (with_config c s) = Done s1"
      using main_slot.update_total live by blast
    moreover obtain b where "b \<in> set (enabled_fallback c)" "\<not> url_ok (me_http E) b"
      using bad False by blast
    ultimately show ?thesis
      by (simp add: apply_config_def fallback_slot.update_panics)
  qed
  have returns: "\<exists>s'. apply_config E (with_config c s) = Done s'"
    if "\<not> (\<exists>b \<in> set (enabled_backends c) \<union> set (enabled_fallback c). \<not> url_ok (me_http E) b)"
    using that by (intro apply_config_total [OF _ assms]) simp
  show ?thesis
  proof (cases "\<exists>b \<in> set (enabled_backends c) \<union> set (enabled_fallback c). \<not> url_ok (me_http E) b")
    case True
    show ?thesis
      unfolding set_config_def panics [OF True] using True by simp
  next
    case False
    then obtain s' where "apply_config E (with_config c s) = Done s'"
      using returns by blast
    with False show ?thesis
      by (simp add: set_config_def)
  qed
qed

theorem set_config_panics_iff_witness:
  "set_config sample_env config_bad_url sample_sys = Panicked"
  unfolding set_config_panics_iff [OF sample_env_live]
  by (simp add: sample_url_ok config_bad_url_def enabled_backends_def)
    (simp add: sample_conf_def config_b_def config_names_def fallback_list_def)

text \<open>Only main backends can be switched: for any other name, one of a fallback backend
  included, \<open>set_backend_state\<close> reports \<open>Backend not found\<close> and changes nothing.\<close>

lemma set_backend_state_fallback_not_found:
  assumes "manager_inv E s" and "name \<in> bc_name ` set (fallback_list (get_config s))"
  shows "set_backend_state E name en s = Done (Inl [''Backend not found: '' @ name], s)"
proof -
  have "name \<notin> bc_name ` set (cf_backends (bm_config (sy_manager s)))"
    using assms by (auto simp: manager_inv_def config_names_def get_config_def)
  then have "switch_backend name en (bm_config (sy_manager s)) = None"
    by (auto simp: switch_backend_def update_first_None_iff)
  then show ?thesis
    by (simp add: set_backend_state_def)
qed

lemma set_backend_state_fallback_not_found_witness:
  "\<exists>s. get_config s = config_a \<and> set_backend_state sample_env ''host3'' False s =
     Done (Inl [''Backend not found: host3''], s)"
proof -
  obtain s where s: "set_config sample_env config_a sample_sys = Done (Inr (), s)"
    using sample_set_a by blast
  have inv: "manager_inv sample_env s"
    by (rule set_config_inv [OF sample_sys_inv s])
  have cfg: "get_config s = config_a"
    using s by (auto simp: set_config_def and_then_Done_iff get_config_def apply_config_frame)
  have "''host3'' \<in> bc_name ` set (fallback_list (get_config s))"
    by (simp add: cfg config_a_def fallback_list_def sample_conf_def)
  from set_backend_state_fallback_not_found [OF inv this, of False] cfg show ?thesis
    by auto
qed

text \<open>A configuration that was persisted successfully loads again as the same configuration:
  reloading succeeds, keeps the current configuration and leaves both slots serving it.\<close>

lemma persist_load_roundtrip:
  assumes "file_law E" and "yaml_law E" and "manager_inv E s"
    and "persist_config E s = (Inr (), s1)" and "load_config E s1 = Done (r, s2)"
  shows "r = Inr () \<and> get_config s2 = get_config s \<and> in_sync (sy_manager s2)"
proof -
  have "set_config E (bm_config (sy_manager s)) s1 = Done (r, s2)"
    using persist_then_load [OF assms(1,2,4)] assms(5) by simp
  moreover have "distinct (config_names (bm_config (sy_manager s)))"
    using assms(3) by (simp add: manager_inv_def)
  ultimately show ?thesis
    by (auto simp: get_config_def apply_config_frame apply_config_in_sync elim!: set_config_cases)
qed

lemma persist_load_roundtrip_witness:
  "\<exists>s s1 s2. get_config s = config_a \<and> persist_config sample_env s = (Inr (), s1) \<and>
     load_config sample_env s1 = Done (Inr (), s2) \<and> get_config s2 = config_a"
proof -
  obtain s where s: "set_config sample_env config_a sample_sys = Done (Inr (), s)"
    using sample_set_a by blast
  have inv: "manager_inv sample_env s"
    by (rule set_config_inv [OF sample_sys_inv s])
  have cfg: "bm_config (sy_manager s) = config_a" "bm_config_path (sy_manager s) = ''config.yaml''"
    using s by (auto simp: set_config_def and_then_Done_iff apply_config_frame sample_sys_def
        sys_new_def manager_new_def)
  obtain s1 where p: "persist_config sample_env s = (Inr (), s1)"
    using cfg by (simp add: persist_config_def sample_env_def)
  obtain s2 where l: "load_config sample_env s1 = Done (Inr (), s2)"
    using persist_then_load [OF sample_file_law sample_yaml_law p] sample_set_a [of s1] cfg by auto
  show ?thesis
    using persist_load_roundtrip [OF sample_file_law sample_yaml_law inv p l] p l cfg
    by (intro exI [of _ s] exI [of _ s1] exI [of _ s2]) (simp add: get_config_def)
qed

text \<open>On SIGHUP a configuration file that cannot be read or parsed, or whose names repeat,
  leaves the running configuration untouched however often the signal comes, and the task goes on
  to stop on cancellation without an error.\<close>

lemma failed_reloads_keep_running:
  assumes "load_config E s = Done (Inl e, s)"
  shows "manager_run E (Inr ()) (replicate n Hangup @ [Token_cancelled]) s = Done (Inr (), s)"
proof -
  have "run_loop E (replicate n Hangup @ [Token_cancelled]) s = Done (Inr (), s)"
    by (induction n) (simp_all add: assms)
  then show ?thesis
    by (simp add: manager_run_def)
qed

lemma failed_reloads_keep_running_witness:
  "manager_run sample_env (Inr ()) [Hangup, Hangup, Token_cancelled] sample_sys = Done (Inr (), sample_sys)"
proof -
  have "load_config sample_env sample_sys =
      Done (Inl [''unable to read backends config'', ''No such file or directory''], sample_sys)"
    by (simp add: load_config_def sample_env_def sample_sys_def sys_new_def)
  from failed_reloads_keep_running [OF this, of 2] show ?thesis
    by (simp add: numeral_2_eq_2)
qed

text \<open>The router handed to requests is the main one exactly when it has a healthy node, and
  otherwise the fallback one, healthy or not.\<close>

lemma get_backend_router_choice:
  "get_backend_router healthy m = Some r \<longleftrightarrow>
     (bm_router m = Some r \<and> get_healthy_nodes healthy m \<noteq> []) \<or>
     (bm_router_fallback m = Some r \<and> get_healthy_nodes healthy m = [])"
  by (auto simp: get_backend_router_def get_healthy_nodes_def split: option.splits if_splits)

text \<open>Waiting for the first health states returns exactly when some snapshot knows every
  backend's state or the channel closes; it never panics, so otherwise it waits for ever.\<close>

lemma wait_healthchecks_returns_iff:
  "wait_healthchecks w =
     (if (\<exists>h. h \<in> set (watch_snapshots w) \<and> list_all (\<lambda>x. snd x \<noteq> Unknown) h) \<or> watch_closes w
      then Done () else Pending)"
proof (cases "(\<exists>h \<in> set (watch_snapshots w). all_known h) \<or> watch_closes w")
  case True
  then have "wait_healthchecks w = Done ()"
    by (simp add: wait_healthchecks_Done_iff)
  with True show ?thesis
    by (auto simp: all_known_def)
next
  case False
  then have "wait_healthchecks w = Pending"
    by (simp add: wait_healthchecks_Pending_iff wait_healthchecks_Done_iff)
  with False show ?thesis
    by (auto simp: all_known_def)
qed

end
