(* ===== verification/Api.thy ===== *)
theory Api
  imports Manager_Ops Cli
begin

section \<open>The API\<close>

text \<open>
  \<open>src/api.rs\<close>: the bearer-token middleware, one definition per handler, the route table that
  \<open>setup_api_axum_router\<close> builds and the way a request passes through it. The handlers see the
  backend manager through the interface \<open>manager_ops\<close>; the locale \<open>manager_service\<close> holds the
  laws they rely on and what follows from them, and its interpretation at the end proves these
  laws for \<open>BackendManager\<close>. Matching a path against the table's patterns, extracting a body,
  the WAF and SEV-SNP endpoints and the rate limiter belong to \<open>axum\<close>, \<open>tower\<close> and
  \<open>ic-bn-lib\<close>: they are arguments, in the record \<open>api_env\<close>; the states that the last three keep are
  part of the world.
\<close>

subsection \<open>State and environment\<close>

record 's manager_ops =
  mo_set_config :: "config \<Rightarrow> 's \<Rightarrow> ((error + unit) \<times> 's) outcome"
  mo_load_config :: "'s \<Rightarrow> ((error + unit) \<times> 's) outcome"
  mo_set_backend_state :: "string \<Rightarrow> bool \<Rightarrow> 's \<Rightarrow> ((error + unit) \<times> 's) outcome"
  mo_persist_config :: "'s \<Rightarrow> (error + unit) \<times> 's"
  mo_get_config :: "'s \<Rightarrow> config"
  mo_get_healthy_nodes :: "'s \<Rightarrow> backend list"

text \<open>What API requests read and change: the manager, the level behind the log's reload handle
  (\<open>None\<close> once the layer it belongs to is gone, when \<open>modify\<close> fails), the WAF's own state, and that
  of the SEV-SNP endpoint: the cache of reports and the counters of the global rate limiter in
  front of it.\<close>

record ('s, 'w, 'v) world =
  wo_manager :: 's
  wo_log_level :: "level option"
  wo_waf :: 'w
  wo_sev :: 'v

text \<open>
  \<^item> \<open>ae_captures\<close>: the decoded captures of a path against a route pattern, \<open>None\<close> if it does not
    match; a nested router matches by prefix;
  \<^item> \<open>ae_bytes\<close>: the extractor of a body as \<open>Bytes\<close>, or the rejection axum answers with;
  \<^item> \<open>ae_level\<close>: \<open>Level::from_str\<close>; \<open>ae_from_json\<close>, \<open>ae_from_yaml\<close>, \<open>ae_to_json_pretty\<close>: serde;
  \<^item> \<open>ae_waf\<close>: the router of the WAF; \<open>ae_sev_snp\<close>: the report handler, with \<open>ae_sev_snp_init\<close>
    its initialisation; \<open>ae_admit\<close>: whether the global rate limiter lets a request through, with
    \<open>ae_limiter_init\<close> its construction;
  \<^item> \<open>ae_path_rejection\<close>, \<open>ae_not_found\<close>, \<open>ae_method_not_allowed\<close>: axum's answers when the
    captures are not what the handler's \<open>Path\<close> expects, no route matches, or the method is wrong.
\<close>

datatype pattern = Exact string | Nested string

record ('h, 'b, 'w, 'v) api_env =
  ae_http :: "('h, 'b) http_env"
  ae_captures :: "pattern \<Rightarrow> ('h, 'b) request \<Rightarrow> string list option"
  ae_bytes :: "'b \<Rightarrow> ('h, 'b) response + bytes"
  ae_level :: "string \<Rightarrow> level option"
  ae_from_json :: "bytes \<Rightarrow> string + config"
  ae_from_yaml :: "bytes \<Rightarrow> string + config"
  ae_to_json_pretty :: "config \<Rightarrow> string + bytes"
  ae_waf :: "('h, 'b) request \<Rightarrow> 'w \<Rightarrow> ('h, 'b) response \<times> 'w"
  ae_sev_snp :: "('h, 'b) request \<Rightarrow> 'v \<Rightarrow> ('h, 'b) response \<times> 'v"
  ae_sev_snp_init :: "error + unit"
  ae_limiter_init :: "error + unit"
  ae_admit :: "('h, 'b) request \<Rightarrow> 'v \<Rightarrow> bool \<times> 'v"
  ae_path_rejection :: "('h, 'b) response"
  ae_not_found :: "('h, 'b) response"
  ae_method_not_allowed :: "('h, 'b) response"

type_synonym ('h, 'b, 's, 'w, 'v) reply = "(('h, 'b) response \<times> ('s, 'w, 'v) world) outcome"

subsection \<open>Authentication\<close>

definition authorization :: string where
  "authorization = ''authorization''"

definition bearer :: string where
  "bearer = ''Bearer ''"

definition auth_middleware ::
  "('h, 'b) http_env \<Rightarrow> string \<Rightarrow> (('h, 'b) request \<Rightarrow> ('s, 'w, 'v) world \<Rightarrow> ('h, 'b, 's, 'w, 'v) reply) \<Rightarrow>
   ('h, 'b) request \<Rightarrow> ('s, 'w, 'v) world \<Rightarrow> ('h, 'b, 's, 'w, 'v) reply" where
  "auth_middleware H token next_run request w =
     (case he_get H authorization (rq_headers request) of
        None \<Rightarrow> Done (text_response H UNAUTHORIZED ''Authorization header not found'', w)
      | Some auth \<Rightarrow>
          if \<not> starts_with auth bearer \<or> length auth < 8
          then Done (text_response H UNAUTHORIZED ''Incorrect header format'', w)
          else if drop 7 auth \<noteq> token
          then Done (text_response H UNAUTHORIZED ''Incorrect bearer token'', w)
          else next_run request w)"

subsection \<open>Handlers\<close>

text \<open>A response made of a status alone, and the text \<open>Ok\<close> with its line feed.\<close>

definition status_response :: "('h, 'b) http_env \<Rightarrow> status \<Rightarrow> ('h, 'b) response" where
  "status_response H s = \<lparr>rs_status = s, rs_headers = he_no_headers H, rs_body = he_empty_body H,
     rs_error_cause = None, rs_retries = None\<rparr>"

definition ok_text :: string where
  "ok_text = ''Ok'' @ [CHR 0x0A]"

definition health_handler ::
  "('h, 'b) http_env \<Rightarrow> 's manager_ops \<Rightarrow> ('s, 'w, 'v) world \<Rightarrow> ('h, 'b, 's, 'w, 'v) reply" where
  "health_handler H M w =
     Done (status_response H
       (if mo_get_healthy_nodes M (wo_manager w) = [] then SERVICE_UNAVAILABLE else NO_CONTENT), w)"

definition backend_handler ::
  "('h, 'b) http_env \<Rightarrow> 's manager_ops \<Rightarrow> string \<Rightarrow> string \<Rightarrow> ('s, 'w, 'v) world \<Rightarrow>
   ('h, 'b, 's, 'w, 'v) reply" where
  "backend_handler H M backend action w =
     (if action = ''enable'' \<or> action = ''disable''
      then and_then (mo_set_backend_state M backend (action = ''enable'') (wo_manager w))
        (\<lambda>(r, s). case r of
            Inl e \<Rightarrow> Done (text_response H BAD_REQUEST (''Error: '' @ render_error e), w\<lparr>wo_manager := s\<rparr>)
          | Inr _ \<Rightarrow> Done (text_response H OK ok_text, w\<lparr>wo_manager := s\<rparr>))
      else Done (text_response H BAD_REQUEST (''Unknown action: '' @ action), w))"

definition log_handler ::
  "('h, 'b) http_env \<Rightarrow> (string \<Rightarrow> level option) \<Rightarrow> string \<Rightarrow> ('s, 'w, 'v) world \<Rightarrow>
   ('h, 'b, 's, 'w, 'v) reply" where
  "log_handler H level_of lvl w =
     (case level_of lvl of
        None \<Rightarrow> Done (text_response H BAD_REQUEST
          (''Unable to parse '' @ [CHR 0x27] @ lvl @ [CHR 0x27] @ '' as log level''), w)
      | Some l \<Rightarrow> Done (text_response H OK ok_text,
          w\<lparr>wo_log_level := map_option (\<lambda>_. l) (wo_log_level w)\<rparr>))"

definition config_reload ::
  "('h, 'b) http_env \<Rightarrow> 's manager_ops \<Rightarrow> ('s, 'w, 'v) world \<Rightarrow> ('h, 'b, 's, 'w, 'v) reply" where
  "config_reload H M w =
     and_then (mo_load_config M (wo_manager w))
       (\<lambda>(r, s). case r of
           Inl e \<Rightarrow> Done (text_response H INTERNAL_SERVER_ERROR
             (''Error reloading config: '' @ render_error e), w\<lparr>wo_manager := s\<rparr>)
         | Inr _ \<Rightarrow> Done (text_response H OK ok_text, w\<lparr>wo_manager := s\<rparr>))"

definition config_get ::
  "('h, 'b) http_env \<Rightarrow> (config \<Rightarrow> string + bytes) \<Rightarrow> 's manager_ops \<Rightarrow> ('s, 'w, 'v) world \<Rightarrow>
   ('h, 'b, 's, 'w, 'v) reply" where
  "config_get H to_json M w =
     (case to_json (mo_get_config M (wo_manager w)) of
        Inl _ \<Rightarrow> Done (text_response H INTERNAL_SERVER_ERROR ''Unable to encode to JSON'', w)
      | Inr cfg \<Rightarrow> Done (text_response H OK cfg, w))"

text \<open>\<open>from_json(b).or_else(from_yaml(b))\<close>.\<close>

definition parse_config ::
  "(bytes \<Rightarrow> string + config) \<Rightarrow> (bytes \<Rightarrow> string + config) \<Rightarrow> bytes \<Rightarrow> string + config" where
  "parse_config from_json from_yaml body =
     (case from_json body of Inr c \<Rightarrow> Inr c | Inl _ \<Rightarrow> from_yaml body)"

definition config_put ::
  "('h, 'b) http_env \<Rightarrow> (bytes \<Rightarrow> string + config) \<Rightarrow> 's manager_ops \<Rightarrow> bytes \<Rightarrow> ('s, 'w, 'v) world \<Rightarrow>
   ('h, 'b, 's, 'w, 'v) reply" where
  "config_put H parse M body w =
     (case parse body of
        Inl _ \<Rightarrow> Done (text_response H BAD_REQUEST ''Unable to parse config as JSON or YAML'', w)
      | Inr cfg \<Rightarrow>
          and_then (mo_set_config M cfg (wo_manager w))
            (\<lambda>(r, s). case r of
                Inl e \<Rightarrow> Done (text_response H BAD_REQUEST
                  (''Unable to apply new config: '' @ render_error e), w\<lparr>wo_manager := s\<rparr>)
              | Inr _ \<Rightarrow>
                  (case mo_persist_config M s of
                     (Inl e, s1) \<Rightarrow> Done (text_response H INTERNAL_SERVER_ERROR
                       (''Unable to persist new config: '' @ render_error e), w\<lparr>wo_manager := s1\<rparr>)
                   | (Inr _, s1) \<Rightarrow> Done (text_response H OK ok_text, w\<lparr>wo_manager := s1\<rparr>))))"

subsection \<open>The route table\<close>

datatype endpoint =
    Ep_health | Ep_log | Ep_backend | Ep_config_reload | Ep_config_get | Ep_config_put
  | Ep_waf | Ep_sev_snp

text \<open>\<open>get\<close> also answers \<open>HEAD\<close>; a nested router sees every method (\<open>None\<close>).\<close>

record route =
  ro_pattern :: pattern
  ro_methods :: "string list option"
  ro_auth :: bool
  ro_endpoint :: endpoint

definition get_methods :: "string list option" where
  "get_methods = Some [''GET'', ''HEAD'']"

definition api_routes :: "bool \<Rightarrow> bool \<Rightarrow> route list" where
  "api_routes waf sev_snp =
     [\<lparr>ro_pattern = Exact ''/health'', ro_methods = get_methods, ro_auth = False, ro_endpoint = Ep_health\<rparr>,
      \<lparr>ro_pattern = Exact ''/log/{log_level}'', ro_methods = get_methods, ro_auth = True,
        ro_endpoint = Ep_log\<rparr>,
      \<lparr>ro_pattern = Exact ''/backend/{backend}/{action}'', ro_methods = get_methods, ro_auth = True,
        ro_endpoint = Ep_backend\<rparr>,
      \<lparr>ro_pattern = Exact ''/config/reload'', ro_methods = get_methods, ro_auth = True,
        ro_endpoint = Ep_config_reload\<rparr>,
      \<lparr>ro_pattern = Exact ''/config/get'', ro_methods = get_methods, ro_auth = True,
        ro_endpoint = Ep_config_get\<rparr>,
      \<lparr>ro_pattern = Exact ''/config/put'', ro_methods = Some [''PUT''], ro_auth = True,
        ro_endpoint = Ep_config_put\<rparr>] @
     (if waf then [\<lparr>ro_pattern = Nested ''/waf'', ro_methods = None, ro_auth = True,
        ro_endpoint = Ep_waf\<rparr>] else []) @
     (if sev_snp then [\<lparr>ro_pattern = Exact ''/sev-snp/report'', ro_methods = Some [''POST''],
        ro_auth = False, ro_endpoint = Ep_sev_snp\<rparr>] else [])"

text \<open>The router: the token its middleware compares with, and its routes.\<close>

record api_router =
  ar_token :: string
  ar_routes :: "route list"

definition setup_api_axum_router ::
  "('h, 'b, 'w, 'v) api_env \<Rightarrow> cli \<Rightarrow> bool \<Rightarrow> error + api_router" where
  "setup_api_axum_router A c waf_layer =
     (case api_token (cli_api c) of
        None \<Rightarrow> Inl [''API token not specified'']
      | Some token \<Rightarrow>
          if cli_sev_snp_enable c
          then (case with_context ''unable to init SEV-SNP'' (ae_sev_snp_init A) of
                  Inl e \<Rightarrow> Inl e
                | Inr _ \<Rightarrow>
                    (case ae_limiter_init A of
                       Inl e \<Rightarrow> Inl e
                     | Inr _ \<Rightarrow> Inr \<lparr>ar_token = token, ar_routes = api_routes waf_layer True\<rparr>))
          else Inr \<lparr>ar_token = token, ar_routes = api_routes waf_layer False\<rparr>)"

subsection \<open>Serving a request\<close>

text \<open>The handler of an endpoint, with the captures of its pattern.\<close>

definition endpoint_handler ::
  "('h, 'b, 'w, 'v) api_env \<Rightarrow> 's manager_ops \<Rightarrow> endpoint \<Rightarrow> string list \<Rightarrow>
   ('h, 'b) request \<Rightarrow> ('s, 'w, 'v) world \<Rightarrow> ('h, 'b, 's, 'w, 'v) reply" where
  "endpoint_handler A M ep caps req w =
     (let H = ae_http A in
      case ep of
        Ep_health \<Rightarrow> health_handler H M w
      | Ep_log \<Rightarrow>
          (case caps of [lvl] \<Rightarrow> log_handler H (ae_level A) lvl w | _ \<Rightarrow> Done (ae_path_rejection A, w))
      | Ep_backend \<Rightarrow>
          (case caps of
             [backend, action] \<Rightarrow> backend_handler H M backend action w
           | _ \<Rightarrow> Done (ae_path_rejection A, w))
      | Ep_config_reload \<Rightarrow> config_reload H M w
      | Ep_config_get \<Rightarrow> config_get H (ae_to_json_pretty A) M w
      | Ep_config_put \<Rightarrow>
          (case ae_bytes A (rq_body req) of
             Inl rejection \<Rightarrow> Done (rejection, w)
           | Inr body \<Rightarrow> config_put H (parse_config (ae_from_json A) (ae_from_yaml A)) M body w)
      | Ep_waf \<Rightarrow> (case ae_waf A req (wo_waf w) of (resp, f) \<Rightarrow> Done (resp, w\<lparr>wo_waf := f\<rparr>))
      | Ep_sev_snp \<Rightarrow> (case ae_sev_snp A req (wo_sev w) of (resp, v) \<Rightarrow> Done (resp, w\<lparr>wo_sev := v\<rparr>)))"

text \<open>\<open>rate_limiter::layer_global\<close>, the layer of the SEV-SNP route.\<close>

definition rate_limiter ::
  "('h, 'b, 'w, 'v) api_env \<Rightarrow> (('h, 'b) request \<Rightarrow> ('s, 'w, 'v) world \<Rightarrow> ('h, 'b, 's, 'w, 'v) reply) \<Rightarrow>
   ('h, 'b) request \<Rightarrow> ('s, 'w, 'v) world \<Rightarrow> ('h, 'b, 's, 'w, 'v) reply" where
  "rate_limiter A next_run req w =
     (case ae_admit A req (wo_sev w) of
        (True, v) \<Rightarrow> next_run req (w\<lparr>wo_sev := v\<rparr>)
      | (False, v) \<Rightarrow> Done (text_response (ae_http A) TOO_MANY_REQUESTS
          ''Too many requests, try again later'', w\<lparr>wo_sev := v\<rparr>))"

text \<open>A layer on a route covers its answer to a wrong method too.\<close>

definition route_service ::
  "('h, 'b, 'w, 'v) api_env \<Rightarrow> 's manager_ops \<Rightarrow> route \<Rightarrow> string list \<Rightarrow>
   ('h, 'b) request \<Rightarrow> ('s, 'w, 'v) world \<Rightarrow> ('h, 'b, 's, 'w, 'v) reply" where
  "route_service A M ro caps req w =
     (if (case ro_methods ro of None \<Rightarrow> True | Some ms \<Rightarrow> rq_method req \<in> set ms)
      then and_then (endpoint_handler A M (ro_endpoint ro) caps req w)
             (\<lambda>(resp, w1). Done (if rq_method req = ''HEAD'' \<and> ro_methods ro = get_methods
                then resp\<lparr>rs_body := he_empty_body (ae_http A)\<rparr> else resp, w1))
      else Done (ae_method_not_allowed A, w))"

fun find_route ::
  "('h, 'b, 'w, 'v) api_env \<Rightarrow> ('h, 'b) request \<Rightarrow> route list \<Rightarrow> (route \<times> string list) option" where
  "find_route A req [] = None"
| "find_route A req (ro # rest) =
     (case ae_captures A (ro_pattern ro) req of
        Some caps \<Rightarrow> Some (ro, caps)
      | None \<Rightarrow> find_route A req rest)"

definition serve_api ::
  "('h, 'b, 'w, 'v) api_env \<Rightarrow> 's manager_ops \<Rightarrow> api_router \<Rightarrow>
   ('h, 'b) request \<Rightarrow> ('s, 'w, 'v) world \<Rightarrow> ('h, 'b, 's, 'w, 'v) reply" where
  "serve_api A M router req w =
     (case find_route A req (ar_routes router) of
        None \<Rightarrow> Done (ae_not_found A, w)
      | Some (ro, caps) \<Rightarrow>
          if ro_auth ro
          then auth_middleware (ae_http A) (ar_token router) (route_service A M ro caps) req w
          else if ro_endpoint ro = Ep_sev_snp
          then rate_limiter A (route_service A M ro caps) req w
          else route_service A M ro caps req w)"

text \<open>Requests served one after the other.\<close>

fun serve_all ::
  "('h, 'b, 'w, 'v) api_env \<Rightarrow> 's manager_ops \<Rightarrow> api_router \<Rightarrow>
   ('h, 'b) request list \<Rightarrow> ('s, 'w, 'v) world \<Rightarrow> (('h, 'b) response list \<times> ('s, 'w, 'v) world) outcome" where
  "serve_all A M router [] w = Done ([], w)"
| "serve_all A M router (q # qs) w =
     and_then (serve_api A M router q w) (\<lambda>(resp, w1).
       and_then (serve_all A M router qs w1) (\<lambda>(resps, w2). Done (resp # resps, w2)))"

end
