(* ===== verification/Api_Service.thy ===== *)
theory Api_Service
  imports Api
begin

section \<open>What the API relies on\<close>

text \<open>
  The contract between the API's handlers and the backend manager, as the locale
  \<open>manager_service\<close>: a configuration that was accepted is the current one, an operation that
  fails leaves the manager as it was, persisting does not change the configuration, and all of
  them keep the manager's invariant. The handlers' lemmas are proved from it once; the
  interpretation \<open>api_manager\<close> shows that \<open>BackendManager\<close> keeps it.
\<close>

subsection \<open>Replies\<close>

lemma text_response_status [simp]: "rs_status (text_response H s msg) = s"
  by (simp add: text_response_def)

lemma auth_middleware_cases:
  "auth_middleware H token next_run req w =
     (if token \<noteq> [] \<and> he_get H authorization (rq_headers req) = Some (bearer @ token)
      then next_run req w
      else Done (text_response H UNAUTHORIZED
        (case he_get H authorization (rq_headers req) of
           None \<Rightarrow> ''Authorization header not found''
         | Some auth \<Rightarrow> if \<not> starts_with auth bearer \<or> length auth < 8 then ''Incorrect header format''
             else ''Incorrect bearer token''), w))"
  by (auto simp: auth_middleware_def starts_with_iff bearer_def split: option.split)

lemma auth_middleware_refused:
  assumes "\<not> (token \<noteq> [] \<and> he_get H authorization (rq_headers req) = Some (bearer @ token))"
  shows "\<exists>msg. auth_middleware H token next_run req w = Done (text_response H UNAUTHORIZED msg, w)"
  unfolding auth_middleware_cases using assms by auto

lemma route_service_cases:
  assumes "route_service A M ro caps req w = Done (resp, w')"
  obtains (wrong_method) "w' = w" "resp = ae_method_not_allowed A"
  | (handled) resp0 where "endpoint_handler A M (ro_endpoint ro) caps req w = Done (resp0, w')"
      "rs_status resp = rs_status resp0"
proof (cases "case ro_methods ro of None \<Rightarrow> True | Some ms \<Rightarrow> rq_method req \<in> set ms")
  case True
  then obtain resp0 where "endpoint_handler A M (ro_endpoint ro) caps req w = Done (resp0, w')"
    "rs_status resp = rs_status resp0"
    using assms by (auto simp: route_service_def and_then_Done_iff)
  then show ?thesis
    by (rule handled)
qed (use assms wrong_method in \<open>simp add: route_service_def\<close>)

lemma serve_api_cases:
  assumes "serve_api A M router req w = Done (resp, w')"
  obtains (unserved) "w' = w" "find_route A req (ar_routes router) = None" "resp = ae_not_found A"
  | (refused) ro caps msg where "find_route A req (ar_routes router) = Some (ro, caps)" "ro_auth ro"
      "w' = w" "resp = text_response (ae_http A) UNAUTHORIZED msg"
  | (limited) ro caps v where "find_route A req (ar_routes router) = Some (ro, caps)" "\<not> ro_auth ro"
      "ro_endpoint ro = Ep_sev_snp" "w' = w\<lparr>wo_sev := v\<rparr>" "rs_status resp = 429"
  | (admitted) ro caps v where "find_route A req (ar_routes router) = Some (ro, caps)" "\<not> ro_auth ro"
      "ro_endpoint ro = Ep_sev_snp" "route_service A M ro caps req (w\<lparr>wo_sev := v\<rparr>) = Done (resp, w')"
  | (routed) ro caps where "find_route A req (ar_routes router) = Some (ro, caps)"
      "\<not> ro_auth ro \<and> ro_endpoint ro \<noteq> Ep_sev_snp \<or> ro_auth ro \<and> ar_token router \<noteq> [] \<and>
         he_get (ae_http A) authorization (rq_headers req) = Some (bearer @ ar_token router)"
      "route_service A M ro caps req w = Done (resp, w')"
  using assms
  by (auto simp: serve_api_def auth_middleware_cases rate_limiter_def split: option.splits if_splits
      prod.splits bool.splits)

lemma backend_handler_cases:
  assumes "backend_handler H M backend action w = Done (resp, w')"
  obtains (unknown) "action \<noteq> ''enable''" "action \<noteq> ''disable''" "rs_status resp = 400" "w' = w"
  | (failed) e s where
      "mo_set_backend_state M backend (action = ''enable'') (wo_manager w) = Done (Inl e, s)"
      "rs_status resp = 400" "w' = w\<lparr>wo_manager := s\<rparr>"
  | (switched) s where
      "mo_set_backend_state M backend (action = ''enable'') (wo_manager w) = Done (Inr (), s)"
      "action = ''enable'' \<or> action = ''disable''" "rs_status resp = 200" "w' = w\<lparr>wo_manager := s\<rparr>"
proof (cases "action = ''enable'' \<or> action = ''disable''")
  case True
  then obtain r s where rs:
    "mo_set_backend_state M backend (action = ''enable'') (wo_manager w) = Done (r, s)"
    using assms by (auto simp: backend_handler_def and_then_Done_iff)
  show ?thesis
  proof (cases r)
    case (Inl e)
    with True rs assms show ?thesis
      by (intro failed [of e s]) (auto simp: backend_handler_def)
  next
    case (Inr u)
    with True rs assms show ?thesis
      by (intro switched [of s]) (auto simp: backend_handler_def)
  qed
next
  case False
  then have "Done (text_response H BAD_REQUEST (''Unknown action: '' @ action), w) = Done (resp, w')"
    using assms by (simp add: backend_handler_def)
  then have "resp = text_response H BAD_REQUEST (''Unknown action: '' @ action)" "w' = w"
    by simp_all
  with False show ?thesis
    by (intro unknown) simp_all
qed

lemma config_reload_cases:
  assumes "config_reload H M w = Done (resp, w')"
  obtains (failed) e s where "mo_load_config M (wo_manager w) = Done (Inl e, s)"
      "rs_status resp = 500" "w' = w\<lparr>wo_manager := s\<rparr>"
  | (reloaded) s where "mo_load_config M (wo_manager w) = Done (Inr (), s)"
      "rs_status resp = 200" "w' = w\<lparr>wo_manager := s\<rparr>"
proof -
  obtain r s where rs: "mo_load_config M (wo_manager w) = Done (r, s)"
    using assms by (auto simp: config_reload_def and_then_Done_iff)
  show ?thesis
  proof (cases r)
    case (Inl e)
    with rs assms show ?thesis
      by (intro failed [of e s]) (auto simp: config_reload_def)
  next
    case (Inr u)
    with rs assms show ?thesis
      by (intro reloaded [of s]) (auto simp: config_reload_def)
  qed
qed

text \<open>The handler behind the endpoints that reach the manager.\<close>

lemma endpoint_handler_cases:
  assumes "endpoint_handler A M ep caps req w = Done (resp, w')"
  obtains (other) "wo_manager w' = wo_manager w" "ep = Ep_waf \<or> ep = Ep_sev_snp \<or> w' = w \<or> ep = Ep_log \<and> rs_status resp = 200"
  | (backend) name action where "ep = Ep_backend"
      "backend_handler (ae_http A) M name action w = Done (resp, w')"
  | (reload) "ep = Ep_config_reload" "config_reload (ae_http A) M w = Done (resp, w')"
  | (put) body where "ep = Ep_config_put" "ae_bytes A (rq_body req) = Inr body"
      "config_put (ae_http A) (parse_config (ae_from_json A) (ae_from_yaml A)) M body w = Done (resp, w')"
proof (cases ep)
  case Ep_log
  with assms show ?thesis
    by (intro other) (auto simp: endpoint_handler_def log_handler_def Let_def
        split: list.splits option.splits)
next
  case Ep_backend
  with assms other backend show ?thesis
    by (auto simp: endpoint_handler_def Let_def split: list.splits)
next
  case Ep_config_reload
  with assms reload show ?thesis
    by (simp add: endpoint_handler_def Let_def)
next
  case Ep_config_put
  with assms other put show ?thesis
    by (auto simp: endpoint_handler_def Let_def split: sum.splits)
qed (use assms in \<open>intro other, auto simp: endpoint_handler_def health_handler_def config_get_def Let_def
      split: sum.splits prod.splits if_splits\<close>)

lemma find_route_SomeD:
  "find_route A req ros = Some (ro, caps) \<Longrightarrow> ro \<in> set ros \<and> ae_captures A (ro_pattern ro) req = Some caps"
  by (induction ros) (auto split: option.splits)

text \<open>Only the liveness and the attestation endpoints are open: the one changes nothing, the other at
  most the state it shares with its rate limiter.\<close>

lemma api_routes_open:
  assumes "ro \<in> set (api_routes waf sev)" and "\<not> ro_auth ro"
  shows "ro_endpoint ro = Ep_health \<or> ro_endpoint ro = Ep_sev_snp"
  using assms by (auto simp: api_routes_def split: if_splits)

lemma open_endpoint_changes:
  assumes "endpoint_handler A M ep caps req w = Done (resp, w')" and "ep = Ep_health \<or> ep = Ep_sev_snp"
  shows "w' = w \<or> ep = Ep_sev_snp \<and> (\<exists>v. w' = w\<lparr>wo_sev := v\<rparr>)"
  using assms by (auto simp: endpoint_handler_def health_handler_def Let_def split: prod.splits)

lemma sev_snp_changes:
  assumes "route_service A M ro caps req w = Done (resp, w')" and "ro_endpoint ro = Ep_sev_snp"
  shows "\<exists>v. w' = w\<lparr>wo_sev := v\<rparr>"
  using assms(1)
proof (cases rule: route_service_cases)
  case wrong_method
  then show ?thesis
    by (intro exI [of _ "wo_sev w"]) simp
next
  case (handled resp0)
  then show ?thesis
    using assms(2) by (auto simp: endpoint_handler_def split: prod.splits)
qed

lemma serve_api_changes_need_token:
  assumes "ar_routes router = api_routes waf sev" and "serve_api A M router req w = Done (resp, w')"
  shows "w' = w \<or> (\<exists>ro caps v. find_route A req (ar_routes router) = Some (ro, caps) \<and>
       ro_endpoint ro = Ep_sev_snp \<and> w' = w\<lparr>wo_sev := v\<rparr>) \<or>
     he_get (ae_http A) authorization (rq_headers req) = Some (bearer @ ar_token router)"
  using assms(2)
proof (cases rule: serve_api_cases)
  case (admitted ro caps v)
  then show ?thesis
    using sev_snp_changes [OF admitted(4,3)] by auto
next
  case (routed ro caps)
  show ?thesis
  proof (cases "ro_auth ro")
    case False
    then have "ro_endpoint ro = Ep_health"
      using api_routes_open find_route_SomeD [OF routed(1)] assms(1) routed(2) by metis
    with routed(3) show ?thesis
      by (auto elim!: route_service_cases dest: open_endpoint_changes)
  qed (use routed(2) in simp)
qed auto

lemma setup_api_axum_router_InrD:
  assumes "setup_api_axum_router A c waf = Inr router"
  shows "api_token (cli_api c) = Some (ar_token router)"
    and "ar_routes router = api_routes waf (cli_sev_snp_enable c)"
  using assms by (auto simp: setup_api_axum_router_def split: option.splits sum.splits if_splits)

subsection \<open>The contract\<close>

locale manager_service =
  fixes M :: "'s manager_ops" and inv :: "'s \<Rightarrow> bool"
  assumes set_accepts: "mo_set_config M c s = Done (Inr (), s') \<Longrightarrow> mo_get_config M s' = c"
    and set_rejects: "mo_set_config M c s = Done (Inl e, s') \<Longrightarrow> s' = s"
    and load_rejects: "mo_load_config M s = Done (Inl e, s') \<Longrightarrow> s' = s"
    and switch_rejects: "mo_set_backend_state M n b s = Done (Inl e, s') \<Longrightarrow> s' = s"
    and persist_keeps_config: "mo_persist_config M s = (p, s') \<Longrightarrow> mo_get_config M s' = mo_get_config M s"
    and set_inv: "inv s \<Longrightarrow> mo_set_config M c s = Done (r, s') \<Longrightarrow> inv s'"
    and load_inv: "inv s \<Longrightarrow> mo_load_config M s = Done (r, s') \<Longrightarrow> inv s'"
    and switch_inv: "inv s \<Longrightarrow> mo_set_backend_state M n b s = Done (r, s') \<Longrightarrow> inv s'"
    and persist_inv: "inv s \<Longrightarrow> mo_persist_config M s = (p, s') \<Longrightarrow> inv s'"
begin

lemma config_put_cases:
  assumes "config_put H parse M body w = Done (resp, w')"
  obtains (unparsable) e where "parse body = Inl e" "rs_status resp = 400" "w' = w"
  | (rejected) c e where "parse body = Inr c" "mo_set_config M c (wo_manager w) = Done (Inl e, wo_manager w)"
      "rs_status resp = 400" "w' = w"
  | (not_saved) c s e where "parse body = Inr c" "mo_set_config M c (wo_manager w) = Done (Inr (), s)"
      "mo_persist_config M s = (Inl e, wo_manager w')" "rs_status resp = 500"
      "mo_get_config M (wo_manager w') = c"
  | (saved) c s where "parse body = Inr c" "mo_set_config M c (wo_manager w) = Done (Inr (), s)"
      "mo_persist_config M s = (Inr (), wo_manager w')" "rs_status resp = 200"
      "mo_get_config M (wo_manager w') = c"
proof (cases "parse body")
  case (Inl e)
  with assms show ?thesis
    by (intro unparsable [of e]) (auto simp: config_put_def)
next
  case (Inr c)
  then obtain r s where rs: "mo_set_config M c (wo_manager w) = Done (r, s)"
    using assms by (auto simp: config_put_def and_then_Done_iff)
  show ?thesis
  proof (cases r)
    case (Inl e)
    with rs set_rejects have "s = wo_manager w"
      by blast
    with assms rs Inl Inr show ?thesis
      by (intro rejected [of c e]) (auto simp: config_put_def)
  next
    case (Inr u)
    obtain p s1 where p: "mo_persist_config M s = (p, s1)"
      by (cases "mo_persist_config M s")
    have active: "mo_get_config M s1 = c"
      using persist_keeps_config [OF p] set_accepts [of c "wo_manager w" s] rs Inr by simp
    note facts = assms rs p Inr \<open>parse body = Inr c\<close> active
    show ?thesis
    proof (cases p)
      case (Inl e)
      with facts show ?thesis
        by (intro not_saved [of c s e]) (auto simp: config_put_def)
    next
      case (Inr v)
      with facts show ?thesis
        by (intro saved [of c s]) (auto simp: config_put_def)
    qed
  qed
qed

lemma endpoint_inv:
  assumes "inv (wo_manager w)" and "endpoint_handler A M ep caps req w = Done (resp, w')"
  shows "inv (wo_manager w')"
  using assms(2)
proof (cases rule: endpoint_handler_cases)
  case (backend name action)
  from backend(2) show ?thesis
    by (cases rule: backend_handler_cases) (use assms(1) in \<open>auto intro: switch_inv\<close>)
next
  case reload
  from reload(2) show ?thesis
    by (cases rule: config_reload_cases) (use assms(1) in \<open>auto intro: load_inv\<close>)
next
  case (put body)
  from put(3) show ?thesis
    by (cases rule: config_put_cases) (use assms(1) in \<open>auto intro: set_inv persist_inv\<close>)
qed (use assms(1) in simp)

lemma serve_inv:
  assumes "inv (wo_manager w)" and "serve_api A M router req w = Done (resp, w')"
  shows "inv (wo_manager w')"
  using assms(2)
proof (cases rule: serve_api_cases)
  case (admitted ro caps v)
  show ?thesis
    using sev_snp_changes [OF admitted(4,3)] assms(1) by auto
next
  case (routed ro caps)
  show ?thesis
    by (rule route_service_cases [OF routed(3)]) (use assms(1) endpoint_inv in auto)
qed (use assms(1) in simp_all)

lemma serve_all_inv:
  "inv (wo_manager w) \<Longrightarrow> serve_all A M router reqs w = Done (resps, w') \<Longrightarrow> inv (wo_manager w')"
  by (induction reqs arbitrary: w resps) (auto simp: and_then_Done_iff intro: serve_inv)

text \<open>A configuration request that was refused or failed before anything was applied.\<close>

lemma client_error_unchanged:
  assumes "endpoint_handler A M ep caps req w = Done (resp, w')" and "rs_status resp = 400"
    and "ep \<noteq> Ep_waf" and "ep \<noteq> Ep_sev_snp"
  shows "w' = w"
  using assms(1)
proof (cases rule: endpoint_handler_cases)
  case (backend name action)
  from backend(2) show ?thesis
    by (cases rule: backend_handler_cases) (use assms(2) in \<open>auto dest: switch_rejects\<close>)
next
  case reload
  from reload(2) show ?thesis
    by (cases rule: config_reload_cases) (use assms(2) in auto)
next
  case (put body)
  from put(3) show ?thesis
    by (cases rule: config_put_cases) (use assms(2) in auto)
qed (use assms(2-4) in auto)

end

subsection \<open>The backend manager keeps the contract\<close>

definition bm_ops :: "('h, 'b) mgr_env \<Rightarrow> sys manager_ops" where
  "bm_ops E = \<lparr>mo_set_config = set_config E, mo_load_config = load_config E,
     mo_set_backend_state = set_backend_state E, mo_persist_config = persist_config E,
     mo_get_config = get_config,
     mo_get_healthy_nodes = (\<lambda>s. get_healthy_nodes (me_healthy E) (sy_manager s))\<rparr>"

lemma bm_ops_sel [simp]:
  "mo_set_config (bm_ops E) = set_config E" "mo_load_config (bm_ops E) = load_config E"
  "mo_set_backend_state (bm_ops E) = set_backend_state E"
  "mo_persist_config (bm_ops E) = persist_config E" "mo_get_config (bm_ops E) = get_config"
  "mo_get_healthy_nodes (bm_ops E) s = get_healthy_nodes (me_healthy E) (sy_manager s)"
  by (simp_all add: bm_ops_def)

lemma persist_keeps_current: "persist_config E s = (p, s') \<Longrightarrow> get_config s' = get_config s"
  by (simp add: get_config_def persist_config_frame)

lemma set_config_current: "set_config E c s = Done (Inr (), s') \<Longrightarrow> get_config s' = c"
  by (auto simp: get_config_def apply_config_frame elim!: set_config_cases)

interpretation api_manager: manager_service "bm_ops E" "manager_inv E" for E :: "('h, 'b) mgr_env"
proof
  show "\<And>s e s'. mo_load_config (bm_ops E) s = Done (Inl e, s') \<Longrightarrow> s' = s"
    by (auto elim!: load_config_cases set_config_cases)
  show "\<And>n b s e s'. mo_set_backend_state (bm_ops E) n b s = Done (Inl e, s') \<Longrightarrow> s' = s"
    by (auto elim!: set_backend_state_cases)
qed (auto elim: set_config_cases intro: set_config_current persist_keeps_current set_config_inv
    load_config_inv set_backend_state_inv persist_config_inv)

end
