(* ===== verification/Api_Properties.thy ===== *)
theory Api_Properties
  imports Api_Service Sample_Requests
begin

section \<open>Properties of the API\<close>

text \<open>
  Who may change the load balancer through the API, and what each answer says about the
  configuration that is active and the one that is saved.
\<close>

subsection \<open>A concrete API\<close>

definition sample_captures :: "pattern \<Rightarrow> (headers, bytes) request \<Rightarrow> string list option" where
  "sample_captures p req =
     (if p = Exact ''/backend/{backend}/{action}'' \<and>
         uri_path_and_query (rq_uri req) = Some ''/backend/host2/enable'' then Some [''host2'', ''enable'']
      else (case p of
              Exact s \<Rightarrow> if uri_path_and_query (rq_uri req) = Some s then Some [] else None
            | Nested _ \<Rightarrow> None))"

definition sample_api :: "(headers, bytes, unit, nat) api_env" where
  "sample_api = \<lparr>ae_http = sample_http, ae_captures = sample_captures, ae_bytes = Inr,
     ae_level = (\<lambda>s. if s = ''info'' then Some INFO else None),
     ae_from_json = me_from_json sample_env, ae_from_yaml = me_from_yaml sample_env,
     ae_to_json_pretty = me_to_json_pretty sample_env,
     ae_waf = (\<lambda>req f. (sample_response, f)), ae_sev_snp = (\<lambda>req n. (sample_response, n)),
     ae_sev_snp_init = Inr (), ae_limiter_init = Inr (), ae_admit = (\<lambda>req n. (n < 100, Suc n)),
     ae_path_rejection = status_response sample_http 500,
     ae_not_found = status_response sample_http 404,
     ae_method_not_allowed = status_response sample_http 405\<rparr>"

definition sample_api_router :: api_router where
  "sample_api_router = \<lparr>ar_token = ''deadbeef'', ar_routes = api_routes False False\<rparr>"

definition sample_world :: "(sys, unit, nat) world" where
  "sample_world = \<lparr>wo_manager = sample_sys, wo_log_level = Some WARN, wo_waf = (), wo_sev = (0 :: nat)\<rparr>"

definition api_request :: "string \<Rightarrow> string \<Rightarrow> string \<Rightarrow> bytes \<Rightarrow> (headers, bytes) request" where
  "api_request meth path auth body = \<lparr>rq_method = meth,
     rq_uri = \<lparr>uri_scheme = None, uri_authority = None, uri_path_and_query = Some path\<rparr>,
     rq_version = HTTP_11, rq_headers = [(''authorization'', auth)], rq_body = body,
     rq_extensions = no_extensions\<rparr>"

text \<open>The command line of the API's tests.\<close>

definition sample_parsers :: cli_parsers where
  "sample_parsers = \<lparr>parse_duration = (\<lambda>s. if s = ''50ms'' then 50000000 else 1000000000),
     parse_size_usize = (\<lambda>_. 10000000)\<rparr>"

definition sample_cli :: cli where
  "sample_cli = (cli_default sample_parsers ''host'' ''config.yaml'')
     \<lparr>cli_api := api_default\<lparr>api_token := Some ''deadbeef'', api_hostname := Some ''foobarhost''\<rparr>\<rparr>"

lemma sample_api_setup: "setup_api_axum_router sample_api sample_cli False = Inr sample_api_router"
  by (simp add: setup_api_axum_router_def sample_cli_def cli_default_def sample_api_router_def)

subsection \<open>Authentication\<close>

text \<open>The middleware lets a request through exactly when its \<open>authorization\<close> header is the
  word \<open>Bearer\<close>, one space and the token, and the token is not empty; any other request is
  answered with 401 and changes nothing. With an empty token nobody is let in.\<close>

lemma auth_passes_iff:
  "if token \<noteq> [] \<and> he_get H ''authorization'' (rq_headers req) = Some (''Bearer '' @ token)
   then auth_middleware H token next_run req w = next_run req w
   else \<exists>msg. auth_middleware H token next_run req w = Done (text_response H 401 msg, w)"
  using auth_middleware_refused [of token H req next_run w]
  by (simp add: auth_middleware_cases authorization_def bearer_def)

text \<open>C10: a request that does not carry the token changes nothing in the whole program, whatever its
  path, its method and its body are, except that one for the SEV-SNP endpoint counts for its rate
  limiter and may fill its cache; unless it is for one of the two open endpoints or for no route at
  all, its answer is 401. This holds for every command line the API can be set up from.\<close>

theorem unauthenticated_requests_change_nothing:
  assumes "setup_api_axum_router A c waf = Inr router"
    and "he_get (ae_http A) ''authorization'' (rq_headers req) \<noteq> Some (''Bearer '' @ ar_token router)"
    and "serve_api A M router req w = Done (resp, w')"
  shows "case find_route A req (ar_routes router) of
       None \<Rightarrow> w' = w
     | Some (ro, _) \<Rightarrow>
         if ro_endpoint ro = Ep_sev_snp then w' = w\<lparr>wo_sev := wo_sev w'\<rparr>
         else w' = w \<and> (ro_endpoint ro = Ep_health \<or> rs_status resp = 401)"
  using assms(3)
proof (cases rule: serve_api_cases)
  case (refused ro caps msg)
  then show ?thesis
    by auto
next
  case (admitted ro caps v)
  then show ?thesis
    using sev_snp_changes [OF admitted(4,3)] by auto
next
  case (routed ro caps)
  have "\<not> ro_auth ro"
    using routed(2) assms(2) by (auto simp: authorization_def bearer_def)
  then have open_ep: "ro_endpoint ro = Ep_health"
    using api_routes_open find_route_SomeD [OF routed(1)] setup_api_axum_router_InrD(2) [OF assms(1)] routed(2)
    by metis
  have "w' = w"
    by (rule route_service_cases [OF routed(3)]) (use open_ep in \<open>auto dest: open_endpoint_changes\<close>)
  with open_ep routed(1) show ?thesis
    by simp
qed auto

theorem unauthenticated_requests_change_nothing_witness:
  "\<exists>resp w'. serve_api sample_api (bm_ops sample_env) sample_api_router
      (api_request ''PUT'' ''/config/put'' ''Bearer foobar'' ''a'') sample_world = Done (resp, w') \<and>
     w' = sample_world \<and> rs_status resp = 401"
proof -
  let ?req = "api_request ''PUT'' ''/config/put'' ''Bearer foobar'' ''a''"
  have bad: "he_get (ae_http sample_api) ''authorization'' (rq_headers ?req) \<noteq>
      Some (''Bearer '' @ ar_token sample_api_router)"
    by (simp add: sample_api_def sample_http_def api_request_def sample_api_router_def)
  have route: "find_route sample_api ?req (ar_routes sample_api_router) =
      Some (\<lparr>ro_pattern = Exact ''/config/put'', ro_methods = Some [''PUT''], ro_auth = True,
        ro_endpoint = Ep_config_put\<rparr>, [])"
    by (simp add: sample_api_router_def api_routes_def sample_api_def sample_captures_def api_request_def)
  obtain resp w' where run: "serve_api sample_api (bm_ops sample_env) sample_api_router ?req sample_world =
      Done (resp, w')"
    using bad by (auto simp: serve_api_def route auth_middleware_cases authorization_def bearer_def)
  from unauthenticated_requests_change_nothing [OF sample_api_setup bad run] run route show ?thesis
    by simp
qed

text \<open>No sequence of API requests, authenticated or not, breaks the manager's invariant: names
  stay unique, the slots serve the current configuration and no router leaks.\<close>

lemma api_requests_keep_manager_inv:
  assumes "manager_inv E (wo_manager w)" and "serve_all A (bm_ops E) router reqs w = Done (resps, w')"
  shows "manager_inv E (wo_manager w')"
  using assms by (rule api_manager.serve_all_inv)

lemma api_requests_keep_manager_inv_witness:
  "\<exists>resps w'. serve_all sample_api (bm_ops sample_env) sample_api_router
      [api_request ''GET'' ''/backend/host2/enable'' ''Bearer deadbeef'' [],
       api_request ''GET'' ''/nowhere'' [] []] sample_world = Done (resps, w') \<and>
     map rs_status resps = [400, 404] \<and> manager_inv sample_env (wo_manager w')"
proof -
  have none: "set_backend_state sample_env ''host2'' True sample_sys =
      Done (Inl [''Backend not found: host2''], sample_sys)"
    by (simp add: set_backend_state_def sample_sys_def sys_new_def manager_new_def config_default_def
        switch_backend_def)
  have inv: "manager_inv sample_env (wo_manager sample_world)"
    by (simp add: sample_world_def sample_sys_inv)
  obtain resps w' where run: "serve_all sample_api (bm_ops sample_env) sample_api_router
      [api_request ''GET'' ''/backend/host2/enable'' ''Bearer deadbeef'' [],
       api_request ''GET'' ''/nowhere'' [] []] sample_world = Done (resps, w')"
    and st: "map rs_status resps = [400, 404]"
    by (simp add: serve_api_def sample_api_router_def api_routes_def sample_api_def sample_captures_def
        api_request_def auth_middleware_cases authorization_def bearer_def sample_http_def
        route_service_def get_methods_def endpoint_handler_def backend_handler_def sample_world_def
        none status_response_def text_response_def)
  show ?thesis
    by (intro exI [of _ resps] exI [of _ w'] conjI run st api_requests_keep_manager_inv [OF inv run])
qed

subsection \<open>Configuration through the API\<close>

lemma config_put_reads:
  assumes "file_law E" and "config_put H parse (bm_ops E) body w = Done (resp, w')" and "rs_status resp = 200"
  obtains c yaml s where "parse body = Inr c" and "set_config E c (wo_manager w) = Done (Inr (), s)"
    and "sy_manager (wo_manager w') = sy_manager s" and "get_config (wo_manager w') = c"
    and "me_to_yaml E c = Inr yaml"
    and "me_read E (bm_config_path (sy_manager (wo_manager w'))) (sy_files (wo_manager w')) = Inr yaml"
  using assms(2)
proof (cases rule: api_manager.config_put_cases)
  case (saved c s)
  have set: "set_config E c (wo_manager w) = Done (Inr (), s)" and
    save: "persist_config E s = (Inr (), wo_manager w')"
    using saved(2,3) by simp_all
  have cfg: "bm_config (sy_manager s) = c"
    using set_config_current [OF set] by (simp add: get_config_def)
  have "\<exists>yaml. me_to_yaml E c = Inr yaml \<and>
      me_read E (bm_config_path (sy_manager s)) (sy_files (wo_manager w')) = Inr yaml"
    using persist_config_saves [OF assms(1) save] cfg by simp
  with saved set that persist_config_frame(1) [OF save] show ?thesis
    by auto
qed (use assms(3) in auto)


lemma sample_put:
  "\<exists>w'. config_put sample_http (parse_config (me_from_json sample_env) (me_from_yaml sample_env))
     (bm_ops sample_env) ''a'' sample_world = Done (text_response sample_http 200 ok_text, w')"
proof -
  obtain s where s: "set_config sample_env config_a sample_sys = Done (Inr (), s)"
    using sample_set_a by blast
  have "bm_config (sy_manager s) = config_a" "bm_config_path (sy_manager s) = ''config.yaml''"
    using s by (auto simp: set_config_def and_then_Done_iff apply_config_frame sample_sys_def
        sys_new_def manager_new_def)
  then obtain s1 where p: "persist_config sample_env s = (Inr (), s1)"
    by (simp add: persist_config_def sample_env_def)
  have parse: "parse_config (me_from_json sample_env) (me_from_yaml sample_env) ''a'' = Inr config_a"
    by (simp add: parse_config_def sample_env_def)
  show ?thesis
    by (simp add: config_put_def parse sample_world_def s p)
qed


text \<open>C22: a configuration the API answered 200 for survives a restart: a new process that loads the
  same file runs the same configuration, with slots that serve it.\<close>

theorem accepted_config_survives_restart:
  assumes "file_law E" and "yaml_law E"
    and "config_put H parse (bm_ops E) body w = Done (resp, w')" and "rs_status resp = 200"
    and "load_config E (sys_new (bm_config_path (sy_manager (wo_manager w'))) interval tmo
            (sy_files (wo_manager w'))) = Done (r, s)"
  shows "r = Inr () \<and> get_config s = get_config (wo_manager w') \<and> in_sync (sy_manager s)"
proof (rule config_put_reads [OF assms(1,3,4)])
  fix c yaml s0
  assume c: "get_config (wo_manager w') = c" and y: "me_to_yaml E c = Inr yaml"
    "me_read E (bm_config_path (sy_manager (wo_manager w'))) (sy_files (wo_manager w')) = Inr yaml"
    and set: "set_config E c (wo_manager w) = Done (Inr (), s0)"
  let ?new = "sys_new (bm_config_path (sy_manager (wo_manager w'))) interval tmo (sy_files (wo_manager w'))"
  have "load_config E ?new = set_config E c ?new"
    using y assms(2) by (simp add: load_config_def sys_new_def manager_new_def yaml_law_def)
  then have "set_config E c ?new = Done (r, s)"
    using assms(5) by simp
  moreover have "distinct (config_names c)"
    using set by (auto elim: set_config_cases)
  ultimately show ?thesis
    using c by (auto elim!: set_config_cases simp: apply_config_in_sync apply_config_frame get_config_def)
qed

theorem accepted_config_survives_restart_witness:
  "\<exists>resp w' s. config_put sample_http (parse_config (me_from_json sample_env) (me_from_yaml sample_env))
      (bm_ops sample_env) ''a'' sample_world = Done (resp, w') \<and> rs_status resp = 200 \<and>
     load_config sample_env (sys_new (bm_config_path (sy_manager (wo_manager w'))) 1 1
            (sy_files (wo_manager w'))) = Done (Inr (), s) \<and> get_config s = get_config (wo_manager w')"
proof -
  let ?parse = "parse_config (me_from_json sample_env) (me_from_yaml sample_env)"
  obtain w' where run: "config_put sample_http ?parse (bm_ops sample_env) ''a'' sample_world =
      Done (text_response sample_http 200 ok_text, w')"
    using sample_put by blast
  have ok: "rs_status (text_response sample_http 200 ok_text) = 200"
    by simp
  have parse: "?parse ''a'' = Inr config_a"
    by (simp add: parse_config_def sample_env_def)
  obtain yaml where y: "me_to_yaml sample_env config_a = Inr yaml"
    "me_read sample_env (bm_config_path (sy_manager (wo_manager w'))) (sy_files (wo_manager w')) = Inr yaml"
    by (rule config_put_reads [OF sample_file_law run ok]) (use parse in auto)
  obtain s where s: "set_config sample_env config_a (sys_new (bm_config_path (sy_manager (wo_manager w'))) 1 1
      (sy_files (wo_manager w'))) = Done (Inr (), s)"
    using sample_set_a by blast
  have load: "load_config sample_env (sys_new (bm_config_path (sy_manager (wo_manager w'))) 1 1
      (sy_files (wo_manager w'))) = Done (Inr (), s)"
    using y s sample_yaml_law by (simp add: load_config_def sys_new_def manager_new_def yaml_law_def)
  from accepted_config_survives_restart [OF sample_file_law sample_yaml_law run ok load] run ok load
  show ?thesis
    by blast
qed

text \<open>\<open>/health\<close> speaks of the main backends only: it answers 204 exactly when requests go to
  the main router because one of its backends is healthy, and 503 also while requests are served
  by the fallback router.\<close>

lemma health_reports_main_router:
  "\<exists>resp. health_handler H (bm_ops E) w = Done (resp, w) \<and>
     (rs_status resp = 204 \<or> rs_status resp = 503) \<and>
     (rs_status resp = 204 \<longleftrightarrow>
        (\<exists>r. bm_router (sy_manager (wo_manager w)) = Some r \<and> me_healthy E r \<noteq> [] \<and>
           get_backend_router (me_healthy E) (sy_manager (wo_manager w)) = Some r))"
  by (auto simp: health_handler_def status_response_def get_healthy_nodes_def get_backend_router_def
      split: option.split)

text \<open>C32: taking an enabled backend out and putting it back in through the API leaves the
  configuration as it was before, with both slots serving it.\<close>

theorem disable_enable_restores:
  assumes "manager_inv E (wo_manager w)"
    and "b \<in> set (cf_backends (get_config (wo_manager w)))" and "bc_enabled b"
    and "backend_handler H (bm_ops E) (bc_name b) ''disable'' w = Done (r1, w1)"
    and "backend_handler H (bm_ops E) (bc_name b) ''enable'' w1 = Done (r2, w2)"
  shows "rs_status r1 = 200 \<and> rs_status r2 = 200 \<and> b \<notin> set (enabled_backends (get_config (wo_manager w1))) \<and>
     get_config (wo_manager w2) = get_config (wo_manager w) \<and> in_sync (sy_manager (wo_manager w2))"
proof -
  have known: "bc_name b \<in> bc_name ` set (cf_backends (get_config (wo_manager w)))"
    using assms(2) by simp
  have unique: "distinct (config_names (get_config (wo_manager w)))"
    using assms(1) by (simp add: manager_inv_def get_config_def)
  obtain s1 where s1: "set_backend_state E (bc_name b) False (wo_manager w) = Done (Inr (), s1)"
    "rs_status r1 = 200" "w1 = w\<lparr>wo_manager := s1\<rparr>"
    using assms(4) by (cases rule: backend_handler_cases)
      (auto dest: set_backend_state_known(1) [OF assms(1) _ known])
  have inv1: "manager_inv E s1"
    by (rule set_backend_state_inv [OF assms(1) s1(1)])
  note off = set_backend_state_known [OF assms(1) s1(1) known]
  have known1: "bc_name b \<in> bc_name ` set (cf_backends (get_config s1))"
    using known off(2) by simp
  obtain s2 where s2: "set_backend_state E (bc_name b) True s1 = Done (Inr (), s2)"
    "rs_status r2 = 200" "w2 = w1\<lparr>wo_manager := s2\<rparr>"
    using assms(5) s1(3) by (cases rule: backend_handler_cases)
      (auto dest: set_backend_state_known(1) [OF inv1 _ known1])
  note on = set_backend_state_known [OF inv1 s2(1) known1]
  have "b \<notin> set (enabled_backends (get_config s1))"
    using switched_off [of "bc_name b" "get_config (wo_manager w)"]
    unfolding off(2) list_all_iff by blast
  moreover have "get_config s2 = get_config (wo_manager w)"
    unfolding on(2) off(2) using switched_back [OF unique assms(2), of False] assms(3) by simp
  ultimately show ?thesis
    unfolding s2(3) s1(3) by (simp add: s1(2) s2(2) on(3))
qed

lemma sample_switch:
  assumes "get_config s = config_a \<or> get_config s = switched ''host1'' False config_a" and "manager_inv sample_env s"
  shows "\<exists>resp w'. backend_handler sample_http (bm_ops sample_env) ''host1'' (if en then ''enable'' else ''disable'')
     \<lparr>wo_manager = s, wo_log_level = None, wo_waf = (), wo_sev = (0 :: nat)\<rparr> = Done (resp, w') \<and>
     set_backend_state sample_env ''host1'' en s = Done (Inr (), wo_manager w')"
proof -
  have "\<exists>c. switch_backend ''host1'' en (bm_config (sy_manager s)) = Some c \<and>
      (\<forall>b \<in> set (enabled_backends c) \<union> set (enabled_fallback c). url_ok (me_http sample_env) b)"
    using assms(1) by (auto simp: get_config_def switch_backend_def config_a_def enabled_backends_def
        enabled_fallback_def fallback_list_def sample_conf_def sample_url_iff switched_def)
  then obtain c where c: "switch_backend ''host1'' en (bm_config (sy_manager s)) = Some c"
    and ok: "\<forall>b \<in> set (enabled_backends c) \<union> set (enabled_fallback c). url_ok (me_http sample_env) b"
    by blast
  obtain s' where "apply_config sample_env (with_config c s) = Done s'"
    using apply_config_total [of "with_config c s", OF _ sample_env_live] ok by auto
  with c have "set_backend_state sample_env ''host1'' en s = Done (Inr (), s')"
    by (simp add: set_backend_state_def)
  then show ?thesis
    by (cases en) (simp_all add: backend_handler_def)
qed

theorem disable_enable_restores_witness:
  "\<exists>(w :: (sys, unit, nat) world) r1 w1 r2 w2. get_config (wo_manager w) = config_a \<and>
     backend_handler sample_http (bm_ops sample_env) ''host1'' ''disable'' w = Done (r1, w1) \<and>
     backend_handler sample_http (bm_ops sample_env) ''host1'' ''enable'' w1 = Done (r2, w2) \<and>
     enabled_backends (get_config (wo_manager w1)) = [] \<and> get_config (wo_manager w2) = config_a"
proof -
  let ?w = "\<lambda>s. \<lparr>wo_manager = s, wo_log_level = None, wo_waf = (), wo_sev = (0 :: nat)\<rparr>"
  let ?b = "sample_conf ''host1'' ''127.0.0.1:9001'' True"
  obtain s where s: "set_config sample_env config_a sample_sys = Done (Inr (), s)"
    using sample_set_a by blast
  have inv: "manager_inv sample_env s"
    by (rule set_config_inv [OF sample_sys_inv s])
  have cfg: "get_config s = config_a"
    by (rule set_config_current [OF s])
  obtain r1 w1 where run1: "backend_handler sample_http (bm_ops sample_env) ''host1'' ''disable'' (?w s) = Done (r1, w1)"
    and sw1: "set_backend_state sample_env ''host1'' False s = Done (Inr (), wo_manager w1)"
    using sample_switch [of s False] inv cfg by auto
  have known: "''host1'' \<in> bc_name ` set (cf_backends (get_config s))"
    by (simp add: cfg config_a_def sample_conf_def)
  have inv1: "manager_inv sample_env (wo_manager w1)"
    by (rule set_backend_state_inv [OF inv sw1])
  have cfg1: "get_config (wo_manager w1) = switched ''host1'' False config_a"
    using set_backend_state_known(2) [OF inv sw1 known] cfg by simp
  have w1: "w1 = ?w (wo_manager w1)"
    using run1 by (cases rule: backend_handler_cases) simp_all
  obtain r2 w2 where run2: "backend_handler sample_http (bm_ops sample_env) ''host1'' ''enable''
      (?w (wo_manager w1)) = Done (r2, w2)"
    using sample_switch [of "wo_manager w1" True] inv1 cfg1 by auto
  have b: "?b \<in> set (cf_backends (get_config (wo_manager (?w s))))" "bc_enabled ?b" "bc_name ?b = ''host1''"
    by (simp_all add: cfg config_a_def) (simp_all add: sample_conf_def)
  have inv': "manager_inv sample_env (wo_manager (?w s))"
    using inv by simp
  have none: "enabled_backends (get_config (wo_manager w1)) = []"
    by (simp add: cfg1 switched_def config_a_def sample_conf_def enabled_backends_def)
  from disable_enable_restores [OF inv' b(1,2), unfolded b(3), OF run1 run2 [folded w1]]
  show ?thesis
    using run1 run2 w1 cfg none by (intro exI [of _ "?w s"] exI [of _ r1] exI [of _ w1] exI [of _ r2] exI [of _ w2]) simp
qed

end
