(* ===== verification/App.thy ===== *)
theory App
  imports Request_Metrics Api_Service
begin

section \<open>The top-level router\<close>

text \<open>
  What \<open>setup_axum_router\<close> of \<open>src/routing.rs\<close> builds from the command line, and how a request
  passes through it: the WAF layer if there is one, then the fallback that chooses between the API
  and the handler. The metrics middleware around it is \<open>middleware\<close> of \<open>Request_Metrics\<close>.
\<close>

definition metrics_state_of :: "bool \<Rightarrow> metrics \<Rightarrow> cli \<Rightarrow> metrics_state" where
  "metrics_state_of vector metrics c =
     \<lparr>ms_vector = vector, ms_metrics = metrics, ms_log_requests = log_requests (cli_log c),
      ms_log_requests_long = log_requests_long (cli_log c)\<rparr>"

record app_router =
  ap_state :: handler_state
  ap_metrics_state :: metrics_state
  ap_api :: "api_router option"
  ap_api_hostname :: "string option"
  ap_waf :: bool

text \<open>\<open>request_meta\<close>: the set-up of that middleware, with the GeoIP database, which can fail; the
  metrics are registered before, in the registry \<open>r\<close>, which panics when their names are taken.\<close>

definition setup_axum_router ::
  "'r registry_env \<Rightarrow> (duration \<Rightarrow> duration) \<Rightarrow> error + unit \<Rightarrow> cli \<Rightarrow> api_router option \<Rightarrow> bool \<Rightarrow> bool \<Rightarrow>
   'r \<Rightarrow> ((error + app_router) \<times> 'r) outcome" where
  "setup_axum_router G quarter request_meta c router_api vector waf_layer r =
     and_then (metrics_new G r) (\<lambda>(metrics, r1).
       Done
         (case with_context ''unable to build RequestMeta state'' request_meta of
            Inl e \<Rightarrow> Inl e
          | Inr _ \<Rightarrow> Inr
              \<lparr>ap_state = handler_state_of quarter c, ap_metrics_state = metrics_state_of vector metrics c,
               ap_api = router_api, ap_api_hostname = api_hostname (cli_api c), ap_waf = waf_layer\<rparr>,
          r1))"

text \<open>\<open>waf_blocks\<close>: the answer of the WAF to a request it does not let through. The handler reads
  the manager as it is when the request arrives.\<close>

definition app_serve ::
  "('h, 'b, 'w, 'v) api_env \<Rightarrow> ('h, 'b) mgr_env \<Rightarrow> bool \<Rightarrow>
   (('h, 'b) request \<Rightarrow> 'w \<Rightarrow> ('h, 'b) response option) \<Rightarrow> (router \<Rightarrow> ('h, 'b) exec) \<Rightarrow>
   app_router \<Rightarrow> scope \<Rightarrow> ('h, 'b) request \<Rightarrow> (sys, 'w, 'v) world \<Rightarrow>
   (('h, 'b) handled \<times> (sys, 'w, 'v) world) outcome" where
  "app_serve A E checks waf_blocks execute app ctx req w =
     (case (if ap_waf app then waf_blocks req (wo_waf w) else None) of
        Some resp \<Rightarrow> Done ((resp, ctx, []), w)
      | None \<Rightarrow>
          dispatch (ae_http A)
            (map_option (\<lambda>v req. and_then (serve_api A (bm_ops E) v req w)
               (\<lambda>(resp, w'). Done ((resp, ctx, []), w'))) (ap_api app))
            (ap_api_hostname app)
            (\<lambda>req. and_then (handler (ae_http A) (ap_state app) checks (me_healthy E)
               (sy_manager (wo_manager w)) execute ctx req) (\<lambda>h. Done (h, w)))
            (\<lambda>resp. Done ((resp, ctx, []), w))
            req)"

text \<open>A request is for the API when the API is there and the host of its authority is the API's.\<close>

definition for_api :: "('h, 'b) http_env \<Rightarrow> app_router \<Rightarrow> ('h, 'b) request \<Rightarrow> bool" where
  "for_api H app req \<longleftrightarrow>
     ap_api app \<noteq> None \<and>
     (case (ap_api_hostname app, Option.bind (he_authority H req) (he_host H)) of
        (Some a, Some b) \<Rightarrow> a = b
      | _ \<Rightarrow> False)"

lemma app_serve_cases:
  assumes "app_serve A E checks waf_blocks execute app ctx req w = Done ((resp, ctx', tr), w')"
  obtains (answered) "tr = []" "ctx' = ctx" "w' = w"
  | (api) v where "for_api (ae_http A) app req" "ap_api app = Some v" "tr = []" "ctx' = ctx"
      "serve_api A (bm_ops E) v req w = Done (resp, w')"
  | (handled) "\<not> for_api (ae_http A) app req" "w' = w"
      "handler (ae_http A) (ap_state app) checks (me_healthy E) (sy_manager (wo_manager w)) execute ctx req =
         Done (resp, ctx', tr)"
proof (cases "if ap_waf app then waf_blocks req (wo_waf w) else None")
  case (Some b)
  with assms show ?thesis
    by (intro answered) (auto simp: app_serve_def)
next
  case None
  note d = assms [unfolded app_serve_def None option.case dispatch_def]
  show ?thesis
  proof (cases "he_authority (ae_http A) req")
    case None
    with d show ?thesis
      by (intro answered) auto
  next
    case (Some host)
    show ?thesis
    proof (cases "for_api (ae_http A) app req")
      case True
      then obtain v where v: "ap_api app = Some v"
        by (auto simp: for_api_def)
      from d True Some v have s: "tr = []" "ctx' = ctx" "serve_api A (bm_ops E) v req w = Done (resp, w')"
        by (auto simp: for_api_def and_then_Done_iff split: option.splits)
      show ?thesis
        by (rule api [OF True v s])
    next
      case False
      with d Some have "handler (ae_http A) (ap_state app) checks (me_healthy E)
          (sy_manager (wo_manager w)) execute ctx req = Done (resp, ctx', tr) \<and> w' = w"
        by (auto simp: for_api_def and_then_Done_iff split: option.splits if_splits)
      with False show ?thesis
        by (intro handled) simp_all
    qed
  qed
qed

end
