(* ===== verification/Startup.thy ===== *)
theory Startup
  imports App Metrics_Setup
begin

section \<open>Startup and shutdown\<close>

text \<open>
  \<open>src/core.rs\<close>, \<open>src/tls.rs\<close>, \<open>src/log.rs\<close> and \<open>src/main.rs\<close>: what the program builds from its
  command line, in which order, and which failure ends it. A step works on the tasks registered
  so far, on the journal of what was done, on the Prometheus registry and on the backend manager; it
  returns a value or an error, or panics. The constructors of libraries that can fail are arguments, in the record
  \<open>startup_env\<close>: of the objects they build the model keeps what the code configures.
\<close>

subsection \<open>State and steps\<close>

datatype provider = Provider_file string | Provider_dir string | Provider_custom_domains

datatype tls_version = TLS12 | TLS13

record acme_opts =
  ao_acme_url :: string
  ao_domains :: "string list"
  ao_contact :: string
  ao_cache_path :: string
  ao_account_credentials :: "bytes option"

record server_config =
  sc_providers :: "provider list"
  sc_default_cert :: "string option"
  sc_acme :: "acme_opts option"
  sc_tls_versions :: "tls_version list"
  sc_additional_alpn :: "bytes list"

text \<open>The router behind a server: all endpoints (with the API's router when there is one), the
  redirect to HTTPS, the API or the metrics alone.\<close>

datatype served =
    Serve_all app_router
  | Serve_redirect_to_https
  | Serve_api api_router
  | Serve_metrics metrics_endpoint

datatype task =
    Server string string served "server_config option"
  | Interval string duration
  | Background string

datatype journal_entry =
    Config_loaded
  | Tasks_started "task list"
  | Tasks_stopped
  | Vector_stopped

text \<open>The client that talks to the backends: one Hyper client, or several sharing the load; with
  \<open>bypass\<close> it does not verify certificates.\<close>

datatype http_client =
    Hyper_client (bypass: bool)
  | Hyper_client_least_loaded (bypass: bool) (client_count: nat)

text \<open>\<open>su_statics\<close> are the statics \<open>ENV\<close> and \<open>HOSTNAME\<close>; \<open>su_registry\<close> is the registry of metrics
  once it has been created.\<close>

record 'r startup =
  su_statics :: "(string \<times> string) option"
  su_client :: "http_client option"
  su_registry :: "'r option"
  su_tasks :: "task list"
  su_journal :: "journal_entry list"
  su_sys :: sys

type_synonym ('r, 'a) stepped = "((error + 'a) \<times> 'r startup) outcome"

definition try_step :: "('r, 'a) stepped \<Rightarrow> ('a \<Rightarrow> 'r startup \<Rightarrow> ('r, 'c) stepped) \<Rightarrow> ('r, 'c) stepped" where
  "try_step m f = and_then m (\<lambda>(r, s). case r of Inl e \<Rightarrow> Done (Inl e, s) | Inr v \<Rightarrow> f v s)"

definition add_task :: "task \<Rightarrow> 'r startup \<Rightarrow> 'r startup" where
  "add_task t s = s\<lparr>su_tasks := su_tasks s @ [t]\<rparr>"

definition journal :: "journal_entry \<Rightarrow> 'r startup \<Rightarrow> 'r startup" where
  "journal j s = s\<lparr>su_journal := su_journal s @ [j]\<rparr>"

text \<open>\<open>se_build name\<close>: \<open>ServerBuilder::build\<close> of that server; \<open>se_custom_domains\<close>: the set-up of
  \<open>ic-bn-lib\<close>'s custom domains, with the number of its workers; \<open>se_quarter\<close>: \<open>div_f64(4.0)\<close>;
  \<open>se_registry\<close>: \<open>Registry::new_custom\<close>; \<open>se_lib_register part\<close>: what a part of \<open>ic-bn-lib\<close> registers
  when it is constructed, which may panic.\<close>

record ('h, 'b, 'w, 'v, 'r) startup_env =
  se_manager_env :: "('h, 'b) mgr_env"
  se_api :: "('h, 'b, 'w, 'v) api_env"
  se_quarter :: "duration \<Rightarrow> duration"
  se_registry :: "error + 'r"
  se_registry_env :: "'r registry_env"
  se_lib_register :: "string \<Rightarrow> 'r \<Rightarrow> 'r outcome"
  se_resolver :: "error + unit"
  se_reqwest :: "error + unit"
  se_vector_options :: "error + unit"
  se_waf :: "error + unit"
  se_request_meta :: "error + unit"
  se_build :: "string \<Rightarrow> error + unit"
  se_custom_domains :: "error + nat"
  se_sigterm :: "error + unit"
  se_alpn_acme :: bytes

subsection \<open>The registry\<close>

text \<open>Nothing is registered before there is a registry.\<close>

definition on_registry :: "('r \<Rightarrow> ('a \<times> 'r) outcome) \<Rightarrow> 'r startup \<Rightarrow> ('r, 'a) stepped" where
  "on_registry f s =
     (case su_registry s of
        None \<Rightarrow> Panicked
      | Some r \<Rightarrow> and_then (f r) (\<lambda>(x, r1). Done (Inr x, s\<lparr>su_registry := Some r1\<rparr>)))"

definition create_registry :: "('h, 'b, 'w, 'v, 'r) startup_env \<Rightarrow> 'r startup \<Rightarrow> ('r, unit) stepped" where
  "create_registry S s =
     (case with_context ''unable to create Prometheus registry'' (se_registry S) of
        Inl e \<Rightarrow> Done (Inl e, s)
      | Inr r \<Rightarrow> Done (Inr (), s\<lparr>su_registry := Some r\<rparr>))"

text \<open>A constructor of the library that is given the registry.\<close>

definition lib_metrics ::
  "('h, 'b, 'w, 'v, 'r) startup_env \<Rightarrow> string \<Rightarrow> 'r startup \<Rightarrow> ('r, unit) stepped" where
  "lib_metrics S part s =
     on_registry (\<lambda>r. and_then (se_lib_register S part r) (\<lambda>r1. Done ((), r1))) s"

subsection \<open>TLS\<close>

fun worker_tasks :: "string list \<Rightarrow> 'r startup \<Rightarrow> 'r startup" where
  "worker_tasks [] s = s"
| "worker_tasks (i # is) s = worker_tasks is (add_task (Background (''custom_domains_worker_'' @ i)) s)"

text \<open>The set-up is given the registry and the static \<open>HOSTNAME\<close>, which \<open>unwrap\<close> takes.\<close>

definition setup_custom_domains ::
  "('h, 'b, 'w, 'v, 'r) startup_env \<Rightarrow> (nat \<Rightarrow> string) \<Rightarrow> provider list \<Rightarrow> 'r startup \<Rightarrow> ('r, provider list) stepped" where
  "setup_custom_domains S show_nat cert_providers s =
     (case su_statics s of
        None \<Rightarrow> Panicked
      | Some _ \<Rightarrow>
          try_step (lib_metrics S ''custom_domains'' s) (\<lambda>_ s.
            case se_custom_domains S of
              Inl e \<Rightarrow> Done (Inl e, s)
            | Inr workers \<Rightarrow>
                Done (Inr (cert_providers @ [Provider_custom_domains]),
                  add_task (Background ''custom_domains_canister_client'')
                    (worker_tasks (map show_nat [0..<workers]) s))))"

definition api_acme_resolver :: "api_args \<Rightarrow> acme_opts option outcome" where
  "api_acme_resolver a =
     (if \<not> api_acme a then Done None
      else case api_hostname a of
             None \<Rightarrow> Panicked
           | Some host \<Rightarrow>
               (case api_acme_cache a of
                  None \<Rightarrow> Panicked
                | Some cache \<Rightarrow> Done (Some
                    \<lparr>ao_acme_url = api_acme_url a, ao_domains = [host],
                     ao_contact = ''mailto:boundary-nodes@dfinity.org'', ao_cache_path = cache,
                     ao_account_credentials = api_acme_account_credentials a\<rparr>)))"

definition tls_setup ::
  "('h, 'b, 'w, 'v, 'r) startup_env \<Rightarrow> (nat \<Rightarrow> string) \<Rightarrow> cli \<Rightarrow> 'r startup \<Rightarrow> ('r, server_config) stepped" where
  "tls_setup S show_nat c s =
     (let cert = cli_cert c;
          cert_providers = map Provider_file (cert_provider_file cert) @
            map Provider_dir (cert_provider_dir cert)
      in try_step (lib_metrics S ''tls_storage'' s) (\<lambda>_ s. try_step
        (if cli_custom_domains c then setup_custom_domains S show_nat cert_providers s
         else Done (Inr cert_providers, s))
        (\<lambda>cert_providers s1.
           if cert_providers = []
           then Done (Inl [''No certificate providers specified - HTTPS cannot be used''], s1)
           else
             let s2 = add_task (Interval ''cert_aggregator'' (cert_provider_poll_interval cert)) s1 in
             and_then (api_acme_resolver (cli_api c)) (\<lambda>acme.
               let s3 = (if api_acme (cli_api c) then add_task (Background ''acme_alpn'') s2 else s2) in
               try_step (lib_metrics S ''tls_resolver'' s3) (\<lambda>_ s.
               try_step (lib_metrics S ''tls_server_config'' s) (\<lambda>_ s.
                 Done (Inr \<lparr>sc_providers = cert_providers, sc_default_cert = cert_default cert,
                    sc_acme = acme, sc_tls_versions = [TLS13, TLS12],
                    sc_additional_alpn = (if api_acme (cli_api c) then [se_alpn_acme S] else [])\<rparr>, s)))))))"

subsection \<open>Building everything\<close>

definition build_server ::
  "('h, 'b, 'w, 'v, 'r) startup_env \<Rightarrow> string \<Rightarrow> string \<Rightarrow> string \<Rightarrow> served \<Rightarrow> server_config option \<Rightarrow>
   'r startup \<Rightarrow> ('r, unit) stepped" where
  "build_server S msg name addr serve tls s =
     (case with_context msg (se_build S name) of
        Inl e \<Rightarrow> Done (Inl e, s)
      | Inr _ \<Rightarrow> Done (Inr (), add_task (Server name addr serve tls) s))"

definition checked :: "string \<Rightarrow> error + 'a \<Rightarrow> 'r startup \<Rightarrow> ('r, 'a) stepped" where
  "checked msg r s = Done (with_context msg r, s)"

text \<open>\<open>OnceLock::set(..).unwrap()\<close> panics when the value is there already.\<close>

definition set_statics :: "cli \<Rightarrow> 'r startup \<Rightarrow> ('r, unit) stepped" where
  "set_statics c s =
     (case su_statics s of
        Some _ \<Rightarrow> Panicked
      | None \<Rightarrow> Done (Inr (), s\<lparr>su_statics := Some (misc_env (cli_misc c), misc_hostname (cli_misc c))\<rparr>))"

definition http_client_of :: "cli \<Rightarrow> http_client" where
  "http_client_of c =
     (let insecure = network_http_client_insecure_bypass_tls_verification (cli_network c) in
      if network_http_client_count (cli_network c) > 1
      then Hyper_client_least_loaded insecure (unat (network_http_client_count (cli_network c)))
      else Hyper_client insecure)"

text \<open>Several clients report their load to the registry, a single one does not.\<close>

definition setup_http_client ::
  "('h, 'b, 'w, 'v, 'r) startup_env \<Rightarrow> cli \<Rightarrow> 'r startup \<Rightarrow> ('r, unit) stepped" where
  "setup_http_client S c s =
     try_step (if network_http_client_count (cli_network c) > 1 then lib_metrics S ''http_client'' s
               else Done (Inr (), s))
       (\<lambda>_ s. Done (Inr (), s\<lparr>su_client := Some (http_client_of c)\<rparr>))"

definition setup_vector :: "('h, 'b, 'w, 'v, 'r) startup_env \<Rightarrow> cli \<Rightarrow> 'r startup \<Rightarrow> ('r, bool) stepped" where
  "setup_vector S c s =
     (if log_vector_url (cli_log c) \<noteq> None
      then try_step (checked ''unable to parse Vector options'' (se_vector_options S) s) (\<lambda>_ s.
           try_step (lib_metrics S ''vector'' s) (\<lambda>_ s. Done (Inr True, s)))
      else Done (Inr False, s))"

text \<open>\<open>BackendManager::new\<close> registers the metrics its routers report to; its state is \<open>startup_new\<close>'s.\<close>

definition setup_backend_manager ::
  "('h, 'b, 'w, 'v, 'r) startup_env \<Rightarrow> 'r startup \<Rightarrow> ('r, unit) stepped" where
  "setup_backend_manager S s =
     try_step (lib_metrics S ''distributor'' s) (\<lambda>_ s. lib_metrics S ''health_check'' s)"

definition setup_waf :: "('h, 'b, 'w, 'v, 'r) startup_env \<Rightarrow> cli \<Rightarrow> 'r startup \<Rightarrow> ('r, bool) stepped" where
  "setup_waf S c s =
     (if cli_waf_enable c
      then try_step (checked ''unable to create WAF layer'' (se_waf S) s)
             (\<lambda>_ s. Done (Inr True, add_task (Background ''waf'') s))
      else Done (Inr False, s))"

definition api_enabled :: "cli \<Rightarrow> bool" where
  "api_enabled c \<longleftrightarrow> api_hostname (cli_api c) \<noteq> None \<or> api_listen (cli_api c) \<noteq> None"

definition setup_router_api ::
  "('h, 'b, 'w, 'v, 'r) startup_env \<Rightarrow> cli \<Rightarrow> bool \<Rightarrow> 'r startup \<Rightarrow> ('r, api_router option) stepped" where
  "setup_router_api S c waf s =
     (if api_enabled c
      then try_step (checked ''unable to setup API Axum Router'' (setup_api_axum_router (se_api S) c waf) s)
             (\<lambda>router s. Done (Inr (Some router), s))
      else Done (Inr None, s))"

text \<open>\<open>setup_axum_router\<close> with the registry as it is.\<close>

definition setup_axum ::
  "('h, 'b, 'w, 'v, 'r) startup_env \<Rightarrow> cli \<Rightarrow> api_router option \<Rightarrow> bool \<Rightarrow> bool \<Rightarrow> 'r startup \<Rightarrow>
   ('r, app_router) stepped" where
  "setup_axum S c router_api vector waf s =
     try_step
       (on_registry
         (setup_axum_router (se_registry_env S) (se_quarter S) (se_request_meta S) c router_api vector waf) s)
       (checked ''unable to create Axum Router'')"

definition start_api_server ::
  "('h, 'b, 'w, 'v, 'r) startup_env \<Rightarrow> cli \<Rightarrow> api_router option \<Rightarrow> 'r startup \<Rightarrow> ('r, unit) stepped" where
  "start_api_server S c router_api s =
     (case (api_listen (cli_api c), router_api) of
        (Some listen, Some router) \<Rightarrow>
          build_server S ''unable to build API HTTP server'' ''server_api'' listen (Serve_api router) None s
      | _ \<Rightarrow> Done (Inr (), s))"

definition start_metrics_server ::
  "('h, 'b, 'w, 'v, 'r) startup_env \<Rightarrow> cli \<Rightarrow> 'r startup \<Rightarrow> ('r, unit) stepped" where
  "start_metrics_server S c s =
     (case listen_metrics (cli_listen c) of
        Some addr \<Rightarrow>
          try_step
            (on_registry (\<lambda>r. and_then (metrics_setup (se_registry_env S) r [])
               (\<lambda>(router, tasks, r1). Done ((router, tasks), r1))) s)
            (\<lambda>(router, tasks) s.
               build_server S ''unable to create metrics HTTP server'' ''metrics_server'' addr
                 (Serve_metrics router) None (fold (\<lambda>(name, every). add_task (Interval name every)) tasks s))
      | None \<Rightarrow> Done (Inr (), s))"

definition start_https_server ::
  "('h, 'b, 'w, 'v, 'r) startup_env \<Rightarrow> (nat \<Rightarrow> string) \<Rightarrow> cli \<Rightarrow> served \<Rightarrow> 'r startup \<Rightarrow> ('r, unit) stepped" where
  "start_https_server S show_nat c axum_router s =
     (if \<not> listen_insecure_serve_http_only (cli_listen c)
      then try_step
        (and_then (tls_setup S show_nat c s) (\<lambda>(r, s). Done (with_context ''unable to setup TLS'' r, s)))
        (\<lambda>cfg s. build_server S ''unable to build HTTP server'' ''server_https''
            (listen_https (cli_listen c)) axum_router (Some cfg) s)
      else Done (Inr (), s))"

definition load_initial_config ::
  "('h, 'b, 'w, 'v, 'r) startup_env \<Rightarrow> 'r startup \<Rightarrow> ('r, unit) stepped" where
  "load_initial_config S s =
     and_then (load_config (se_manager_env S) (su_sys s)) (\<lambda>(r, sys).
       case with_context ''unable to load backends config'' r of
         Inl e \<Rightarrow> Done (Inl e, s\<lparr>su_sys := sys\<rparr>)
       | Inr _ \<Rightarrow> Done (Inr (), journal Config_loaded
           (add_task (Background ''backend_manager'') (s\<lparr>su_sys := sys\<rparr>))))"

text \<open>From \<open>tasks.start()\<close> on: a failure to listen for SIGTERM ends the program at once; else it
  waits for a signal and stops the tasks, then Vector.\<close>

definition run_and_shutdown :: "('h, 'b, 'w, 'v, 'r) startup_env \<Rightarrow> bool \<Rightarrow> 'r startup \<Rightarrow> ('r, unit) stepped" where
  "run_and_shutdown S vector s =
     (let s1 = journal (Tasks_started (su_tasks s)) s in
      try_step (checked ''unable to listen for SIGTERM'' (se_sigterm S) s1)
        (\<lambda>_ s2. let s3 = journal Tasks_stopped s2 in
           Done (Inr (), if vector then journal Vector_stopped s3 else s3)))"

definition core_main ::
  "('h, 'b, 'w, 'v, 'r) startup_env \<Rightarrow> (nat \<Rightarrow> string) \<Rightarrow> cli \<Rightarrow> 'r startup \<Rightarrow> ('r, unit) stepped" where
  "core_main S show_nat c s0 =
     try_step (set_statics c s0) (\<lambda>_ s.
     try_step (create_registry S s) (\<lambda>_ s.
     try_step (checked ''unable to create DNS resolver'' (se_resolver S) s) (\<lambda>_ s.
     try_step (checked ''unable to setup HTTP client'' (se_reqwest S) s) (\<lambda>_ s.
     try_step (setup_http_client S c s) (\<lambda>_ s.
     try_step (setup_vector S c s) (\<lambda>vector s.
     try_step (setup_backend_manager S s) (\<lambda>_ s.
     try_step (setup_waf S c s) (\<lambda>waf s.
     try_step (setup_router_api S c waf s) (\<lambda>router_api s.
     try_step (setup_axum S c router_api vector waf s) (\<lambda>app s.
     try_step (lib_metrics S ''http_server'' s) (\<lambda>_ s.
     try_step (build_server S ''unable to build HTTP server'' ''server_http'' (listen_http (cli_listen c))
         (if listen_insecure_serve_http_only (cli_listen c) then Serve_all app
          else Serve_redirect_to_https) None s) (\<lambda>_ s.
     try_step (start_api_server S c router_api s) (\<lambda>_ s.
     try_step (start_metrics_server S c s) (\<lambda>_ s.
     try_step (start_https_server S show_nat c (Serve_all app) s) (\<lambda>_ s.
     try_step (load_initial_config S s) (\<lambda>_ s.
     run_and_shutdown S vector s))))))))))))))))"

text \<open>The state \<open>main\<close> starts from: no task yet and the manager \<open>BackendManager::new\<close> gives.\<close>

definition startup_new :: "cli \<Rightarrow> (string \<Rightarrow> bytes option) \<Rightarrow> 'r startup" where
  "startup_new c fs = \<lparr>su_statics = None, su_client = None, su_registry = None, su_tasks = [], su_journal = [],
     su_sys = sys_new (config_path (cli_config c)) (health_check_interval (cli_health c))
       (health_check_timeout (cli_health c)) fs\<rparr>"

subsection \<open>Logging and the runtime\<close>

text \<open>The level behind the reload handle: the filter layer lives only in the stdout layer, so without
  \<open>log_stdout\<close> the handle points nowhere. \<open>installed\<close>: the result of \<open>set_global_default\<close>.\<close>

definition setup_logging :: "error + unit \<Rightarrow> log_args \<Rightarrow> error + level option" where
  "setup_logging installed l =
     (case with_context ''unable to set global subscriber'' installed of
        Inl e \<Rightarrow> Inl e
      | Inr _ \<Rightarrow> Inr (if log_stdout l then Some (log_level l) else None))"

text \<open>\<open>worker_threads(0)\<close> panics. \<open>cpus\<close>: \<open>available_parallelism\<close>, never 0; \<open>built\<close>: the result of
  building the runtime.\<close>

definition main ::
  "('h, 'b, 'w, 'v, 'r) startup_env \<Rightarrow> (nat \<Rightarrow> string) \<Rightarrow> error + unit \<Rightarrow> error + usize \<Rightarrow> error + unit \<Rightarrow>
   cli \<Rightarrow> 'r startup \<Rightarrow> ('r, unit) stepped" where
  "main S show_nat installed cpus built c s =
     try_step (Done (with_context ''unable to setup logging'' (setup_logging installed (cli_log c)), s))
       (\<lambda>_ s.
     try_step (Done (case misc_threads (cli_misc c) of
         Some v \<Rightarrow> Inr v
       | None \<Rightarrow> with_context ''unable to get the number of CPUs'' cpus, s)) (\<lambda>threads s.
     if threads = 0 then Panicked
     else try_step (Done (built, s)) (\<lambda>_ s.
       and_then (core_main S show_nat c s) (\<lambda>(r, s). Done (with_context ''Startup failed'' r, s)))))"

end
