(* ===== verification/Startup_Properties.thy ===== *)
theory Startup_Properties
  imports Startup Api_Properties
begin

section \<open>Properties of startup\<close>

text \<open>
  That nothing runs before the configuration is loaded and served, that no endpoint is served in
  the clear unless asked for, and which accepted command lines panic. The steps are taken apart
  by \<open>ends\<close>: every way a step returns satisfies a predicate.
\<close>

subsection \<open>Reasoning about steps\<close>

definition ends :: "(error + 'a \<Rightarrow> 'r startup \<Rightarrow> bool) \<Rightarrow> ('r, 'a) stepped \<Rightarrow> bool" where
  "ends Q m \<longleftrightarrow> (\<forall>r s. m = Done (r, s) \<longrightarrow> Q r s)"

lemma ends_Done [simp]: "ends Q (Done (r, s)) \<longleftrightarrow> Q r s"
  by (simp add: ends_def)

lemma ends_not_Done [simp]: "ends Q Panicked" "ends Q Pending"
  by (simp_all add: ends_def)

lemma ends_try:
  assumes "ends (\<lambda>_. I) m" and "\<And>e s. I s \<Longrightarrow> Q (Inl e) s" and "\<And>v s. I s \<Longrightarrow> ends Q (f v s)"
  shows "ends Q (try_step m f)"
proof (cases m)
  case (Done p)
  obtain r s where p: "p = (r, s)"
    by (cases p)
  have "I s"
    using assms(1) Done p by (simp add: ends_def)
  with assms(2,3) Done p show ?thesis
    by (cases r) (simp_all add: try_step_def)
qed (simp_all add: try_step_def)

lemma ends_renamed [simp]:
  "ends (\<lambda>_. I) (and_then m (\<lambda>(r, s). Done (with_context msg r, s))) \<longleftrightarrow> ends (\<lambda>_. I) m"
  by (cases m) (auto simp: ends_def)

lemma ends_checked [simp]: "ends (\<lambda>_. I) (checked msg r s) \<longleftrightarrow> I s"
  by (simp add: checked_def)

text \<open>An assertion about startup states that does not look at the tasks, plus one about each task.\<close>

definition tasks_sat :: "(task \<Rightarrow> bool) \<Rightarrow> sys \<Rightarrow> 'r startup \<Rightarrow> bool" where
  "tasks_sat P sys s \<longleftrightarrow> su_journal s = [] \<and> su_sys s = sys \<and> list_all P (su_tasks s)"

lemma tasks_sat_add [simp]: "tasks_sat P sys (add_task t s) \<longleftrightarrow> tasks_sat P sys s \<and> P t"
  by (auto simp: tasks_sat_def add_task_def)

lemma registry_sat [simp]:
  "tasks_sat P sys s \<Longrightarrow> ends (\<lambda>_. tasks_sat P sys) (on_registry f s)"
  "tasks_sat P sys s \<Longrightarrow> ends (\<lambda>_. tasks_sat P sys) (lib_metrics S part s)"
  "tasks_sat P sys s \<Longrightarrow> ends (\<lambda>_. tasks_sat P sys) (create_registry S s)"
proof -
  show reg: "tasks_sat P sys s \<Longrightarrow> ends (\<lambda>_. tasks_sat P sys) (on_registry f s)" for f
    by (auto simp: on_registry_def ends_def tasks_sat_def split: option.splits)
  show "tasks_sat P sys s \<Longrightarrow> ends (\<lambda>_. tasks_sat P sys) (lib_metrics S part s)"
    unfolding lib_metrics_def by (rule reg)
  show "tasks_sat P sys s \<Longrightarrow> ends (\<lambda>_. tasks_sat P sys) (create_registry S s)"
    by (simp add: create_registry_def tasks_sat_def split: sum.split)
qed

lemma statics_sat [simp]:
  "tasks_sat P sys s \<Longrightarrow> ends (\<lambda>_. tasks_sat P sys) (set_statics c s)"
  by (simp add: set_statics_def tasks_sat_def split: option.split)

text \<open>What each server serves and where: over TLS the application alone, on the address for HTTPS;
  without TLS the redirect, the API on its own address and the metrics on theirs, and the
  application only when the insecure mode was asked for.\<close>

fun secure :: "cli \<Rightarrow> task \<Rightarrow> bool" where
  "secure c (Server _ addr serve tls) =
     (case (tls, serve) of
        (Some _, Serve_all _) \<Rightarrow> addr = listen_https (cli_listen c)
      | (Some _, _) \<Rightarrow> False
      | (None, Serve_all _) \<Rightarrow>
          listen_insecure_serve_http_only (cli_listen c) \<and> addr = listen_http (cli_listen c)
      | (None, Serve_redirect_to_https) \<Rightarrow> addr = listen_http (cli_listen c)
      | (None, Serve_api _) \<Rightarrow> api_listen (cli_api c) = Some addr
      | (None, Serve_metrics _) \<Rightarrow> listen_metrics (cli_listen c) = Some addr)"
| "secure c (Interval _ _) = True"
| "secure c (Background _) = True"

abbreviation insecure_cli :: "cli \<Rightarrow> bool" where
  "insecure_cli c \<equiv> listen_insecure_serve_http_only (cli_listen c)"

lemma worker_tasks_sat:
  "tasks_sat (secure c) sys s \<Longrightarrow> tasks_sat (secure c) sys (worker_tasks is s)"
  by (induction "is" s rule: worker_tasks.induct) simp_all

lemma interval_tasks_sat:
  "tasks_sat (secure c) sys s \<Longrightarrow>
     tasks_sat (secure c) sys (fold (\<lambda>(name, every). add_task (Interval name every)) tasks s)"
  by (induction tasks arbitrary: s) auto

lemma build_server_sat:
  assumes "tasks_sat (secure c) sys s" and "secure c (Server name addr serve tls)"
  shows "ends (\<lambda>_. tasks_sat (secure c) sys) (build_server S msg name addr serve tls s)"
  using assms by (simp add: build_server_def split: sum.split)

lemma step_sat:
  assumes "tasks_sat (secure c) sys s"
  shows "ends (\<lambda>_. tasks_sat (secure c) sys) (setup_vector S c s)"
    and "ends (\<lambda>_. tasks_sat (secure c) sys) (setup_waf S c s)"
    and "ends (\<lambda>_. tasks_sat (secure c) sys) (setup_http_client S c s)"
    and "ends (\<lambda>_. tasks_sat (secure c) sys) (setup_backend_manager S s)"
    and "ends (\<lambda>_. tasks_sat (secure c) sys) (setup_router_api S c waf s)"
    and "ends (\<lambda>_. tasks_sat (secure c) sys) (setup_axum S c router_api vector waf s)"
    and "ends (\<lambda>_. tasks_sat (secure c) sys) (start_api_server S c router_api s)"
proof -
  show "ends (\<lambda>_. tasks_sat (secure c) sys) (setup_http_client S c s)"
    unfolding setup_http_client_def
    by (rule ends_try [where I = "tasks_sat (secure c) sys"]) (use assms in \<open>auto simp: tasks_sat_def\<close>)
qed (use assms in \<open>auto simp: setup_vector_def setup_waf_def setup_backend_manager_def setup_router_api_def
      setup_axum_def start_api_server_def intro!: ends_try [where I = "tasks_sat (secure c) sys"]
      build_server_sat split: option.split\<close>)

lemma start_metrics_sat:
  assumes "tasks_sat (secure c) sys s"
  shows "ends (\<lambda>_. tasks_sat (secure c) sys) (start_metrics_server S c s)"
  using assms unfolding start_metrics_server_def
  by (auto intro!: ends_try [where I = "tasks_sat (secure c) sys"] build_server_sat interval_tasks_sat
      split: option.split)

lemma custom_domains_sat:
  assumes "tasks_sat (secure c) sys s"
  shows "ends (\<lambda>_. tasks_sat (secure c) sys) (setup_custom_domains S show_nat ps s)"
  using assms worker_tasks_sat unfolding setup_custom_domains_def
  by (auto intro!: ends_try [where I = "tasks_sat (secure c) sys"] split: option.split sum.split)

lemma tls_setup_sat:
  assumes "tasks_sat (secure c) sys s"
  shows "ends (\<lambda>_. tasks_sat (secure c) sys) (tls_setup S show_nat c' s)"
proof -
  have acme: "ends (\<lambda>_. tasks_sat (secure c) sys) (and_then m f)"
    if "\<And>a. ends (\<lambda>_. tasks_sat (secure c) sys) (f a)" for m :: "'z outcome" and f
    using that by (cases m) simp_all
  show ?thesis
    unfolding tls_setup_def Let_def
    by (rule ends_try [where I = "tasks_sat (secure c) sys"])
      (auto intro!: acme ends_try [where I = "tasks_sat (secure c) sys"] custom_domains_sat simp: assms)
qed

lemma start_https_sat:
  assumes "tasks_sat (secure c) sys s"
  shows "ends (\<lambda>_. tasks_sat (secure c) sys) (start_https_server S show_nat c (Serve_all app) s)"
proof (cases "insecure_cli c")
  case False
  then show ?thesis
    unfolding start_https_server_def
    by (auto intro!: ends_try [where I = "tasks_sat (secure c) sys"] build_server_sat tls_setup_sat assms)
qed (use assms in \<open>simp add: start_https_server_def\<close>)

text \<open>How \<open>core_main\<close> can end.\<close>

definition started_fully ::
  "('h, 'b) mgr_env \<Rightarrow> cli \<Rightarrow> sys \<Rightarrow> error + unit \<Rightarrow> 'r startup \<Rightarrow> bool" where
  "started_fully E c sys r s \<longleftrightarrow>
     load_config E sys = Done (Inr (), su_sys s) \<and> list_all (secure c) (su_tasks s) \<and>
     (\<exists>rest. su_journal s = [Config_loaded, Tasks_started (su_tasks s)] @ rest \<and>
        (case r of Inl _ \<Rightarrow> rest = [] | Inr _ \<Rightarrow> rest = [Tasks_stopped] \<or> rest = [Tasks_stopped, Vector_stopped]))"

definition main_end ::
  "('h, 'b) mgr_env \<Rightarrow> cli \<Rightarrow> sys \<Rightarrow> error + unit \<Rightarrow> 'r startup \<Rightarrow> bool" where
  "main_end E c sys r s \<longleftrightarrow> (su_journal s = [] \<and> (\<exists>e. r = Inl e)) \<or> started_fully E c sys r s"

lemma load_and_run_ends:
  assumes "tasks_sat (secure c) sys s"
  shows "ends (main_end (se_manager_env S) c sys)
     (try_step (load_initial_config S s) (\<lambda>_ s. run_and_shutdown S vector s))"
proof (cases "load_config (se_manager_env S) sys")
  case (Done p)
  obtain r sys' where p: "p = (r, sys')"
    by (cases p)
  from assms Done p show ?thesis
    by (cases r; cases "se_sigterm S")
      (auto simp: tasks_sat_def load_initial_config_def try_step_def run_and_shutdown_def checked_def
        main_end_def started_fully_def journal_def add_task_def Let_def)
qed (use assms in \<open>simp_all add: tasks_sat_def load_initial_config_def try_step_def\<close>)

lemma core_main_chain:
  assumes sat: "tasks_sat (secure c) sys s"
    and err: "\<And>e s. tasks_sat (secure c) sys s \<Longrightarrow> Q (Inl e) s"
    and rest: "\<And>app vector s. tasks_sat (secure c) sys s \<Longrightarrow>
      ends Q (try_step (start_https_server S show_nat c (Serve_all app) s) (\<lambda>_ s.
        try_step (load_initial_config S s) (\<lambda>_ s. run_and_shutdown S vector s)))"
  shows "ends Q (core_main S show_nat c s)"
proof -
  let ?I = "tasks_sat (secure c) sys"
  have http: "secure c (Server ''server_http'' (listen_http (cli_listen c))
      (if insecure_cli c then Serve_all app else Serve_redirect_to_https) None)" for app
    by simp
  note steps = statics_sat registry_sat step_sat start_metrics_sat build_server_sat [OF _ http]
  show ?thesis
    unfolding core_main_def
    by (rule ends_try [where I = ?I], simp add: sat, erule err,
        (rule ends_try [where I = ?I], (simp; fail | erule steps), erule err)+) (erule rest)
qed

lemma core_main_ends:
  fixes s :: "'r startup"
  assumes "tasks_sat (secure c) sys s"
  shows "ends (main_end (se_manager_env S) c sys) (core_main S show_nat c s)"
proof (rule core_main_chain [OF assms])
  let ?I = "tasks_sat (secure c) sys :: 'r startup \<Rightarrow> bool"
  have err: "?I s \<Longrightarrow> main_end (se_manager_env S) c sys (Inl e) s" for e s
    by (simp add: tasks_sat_def main_end_def)
  then show "?I s \<Longrightarrow> main_end (se_manager_env S) c sys (Inl e) s" for e s .
  show "?I s \<Longrightarrow> ends (main_end (se_manager_env S) c sys)
      (try_step (start_https_server S show_nat c (Serve_all app) s) (\<lambda>_ s.
        try_step (load_initial_config S s) (\<lambda>_ s. run_and_shutdown S vector s)))" for app vector s
    by (rule ends_try [where I = ?I], erule start_https_sat, erule err, erule load_and_run_ends)
qed

lemma lib_metrics_DoneD:
  "lib_metrics S part s = Done (r, s') \<Longrightarrow> r = Inr () \<and> (\<exists>reg. s' = s\<lparr>su_registry := Some reg\<rparr>)"
  by (auto simp: lib_metrics_def on_registry_def and_then_Done_iff split: option.splits)

text \<open>Without a certificate provider TLS cannot be set up.\<close>

lemma no_provider_ends:
  assumes "tasks_sat P sys s" and "\<not> insecure_cli c" and "\<not> cli_custom_domains c"
    and "cert_provider_file (cli_cert c) = []" and "cert_provider_dir (cli_cert c) = []"
  shows "ends (\<lambda>r s. (\<exists>e. r = Inl e) \<and> su_journal s = [])
     (try_step (start_https_server S show_nat c axum_router s) f)"
proof (cases "lib_metrics S ''tls_storage'' s")
  case (Done q)
  obtain r s' where q: "q = (r, s')"
    by (cases q)
  obtain reg where "r = Inr ()" "s' = s\<lparr>su_registry := Some reg\<rparr>"
    using lib_metrics_DoneD Done q by blast
  with assms Done q show ?thesis
    by (simp add: start_https_server_def tls_setup_def try_step_def tasks_sat_def)
qed (use assms in \<open>simp_all add: start_https_server_def tls_setup_def try_step_def\<close>)

abbreviation sys_of :: "cli \<Rightarrow> (string \<Rightarrow> bytes option) \<Rightarrow> sys" where
  "sys_of c fs \<equiv> sys_new (config_path (cli_config c)) (health_check_interval (cli_health c))
     (health_check_timeout (cli_health c)) fs"

lemma startup_new_sat: "tasks_sat P (sys_of c fs) (startup_new c fs)"
  by (simp add: tasks_sat_def startup_new_def)

lemma core_main_end:
  assumes "core_main S show_nat c (startup_new c fs) = Done (r, s')"
  shows "main_end (se_manager_env S) c (sys_of c fs) r s'"
  using core_main_ends [where S = S and show_nat = show_nat and c = c, OF startup_new_sat [where c = c and fs = fs]]
    assms by (simp add: ends_def)

subsection \<open>The library's metrics\<close>

text \<open>What the constructors of \<open>ic-bn-lib\<close> do with the registry, as a named hypothesis: each part has
  metric names of its own, different from those of the other parts and of the program itself, and
  registers them when none of them is taken.\<close>

definition own_metrics :: "string set" where
  "own_metrics = {''http_requests'', ''http_requests_duration_sec'', ''memory_allocated'', ''memory_resident''}"

definition library_law :: "('h, 'b, 'w, 'v, 'r) startup_env \<Rightarrow> (string \<Rightarrow> string set) \<Rightarrow> bool" where
  "library_law S names \<longleftrightarrow>
     registry_law (se_registry_env S) \<and>
     (\<forall>part r. names part \<inter> ge_names (se_registry_env S) r = {} \<longrightarrow>
        (\<exists>r'. se_lib_register S part r = Done r' \<and>
           ge_names (se_registry_env S) r' = names part \<union> ge_names (se_registry_env S) r)) \<and>
     (\<forall>part part'. part \<noteq> part' \<longrightarrow> names part \<inter> names part' = {}) \<and>
     (\<forall>part. names part \<inter> own_metrics = {})"

lemma library_lawD:
  assumes "library_law S names"
  shows "registry_law (se_registry_env S)"
    and "names part \<inter> ge_names (se_registry_env S) r = {} \<Longrightarrow>
      \<exists>r'. se_lib_register S part r = Done r' \<and>
        ge_names (se_registry_env S) r' = names part \<union> ge_names (se_registry_env S) r"
    and "part \<noteq> part' \<Longrightarrow> names part \<inter> names part' = {}"
    and "names part \<inter> own_metrics = {}"
  using assms by (simp_all add: library_law_def)

text \<open>At most the names of these parts, and of the program if \<open>own\<close>, are taken.\<close>

definition taken ::
  "('h, 'b, 'w, 'v, 'r) startup_env \<Rightarrow> (string \<Rightarrow> string set) \<Rightarrow> bool \<Rightarrow> string set \<Rightarrow> 'r \<Rightarrow> bool" where
  "taken S names own parts r \<longleftrightarrow>
     ge_names (se_registry_env S) r \<subseteq> (if own then own_metrics else {}) \<union> \<Union> (names ` parts)"

lemma library_registers:
  assumes "library_law S names" and "taken S names own parts r" and "part \<notin> parts"
  obtains r' where "se_lib_register S part r = Done r'" and "taken S names own (insert part parts) r'"
proof -
  have "names part \<inter> names q = {}" if "q \<in> parts" for q
    using assms(3) that by (intro library_lawD(3) [OF assms(1)]) blast
  then have "names part \<inter> \<Union> (names ` parts) = {}"
    by blast
  with library_lawD(4) [OF assms(1), of part] assms(2) have "names part \<inter> ge_names (se_registry_env S) r = {}"
    unfolding taken_def by (cases own) auto
  then obtain r' where "se_lib_register S part r = Done r'"
    "ge_names (se_registry_env S) r' = names part \<union> ge_names (se_registry_env S) r"
    using library_lawD(2) [OF assms(1)] by blast
  with assms(2) show thesis
    by (intro that [of r']) (auto simp: taken_def)
qed

lemma library_metrics_new:
  assumes "library_law S names" and "taken S names False parts r"
  obtains r' where
    "metrics_new (se_registry_env S) r = Done (\<lparr>me_requests = requests_desc, me_duration = duration_desc\<rparr>, r')"
    and "taken S names True parts r'"
proof -
  note new = metrics_new_law [OF library_lawD(1) [OF assms(1)], of r]
  have "{''http_requests'', ''http_requests_duration_sec''} \<inter> ge_names (se_registry_env S) r = {}"
    using assms(2) library_lawD(4) [OF assms(1)] by (force simp: taken_def own_metrics_def)
  with new(1,2) obtain p where p: "metrics_new (se_registry_env S) r = Done p"
    by (cases "metrics_new (se_registry_env S) r") auto
  obtain v r' where vr: "p = (v, r')"
    by (cases p)
  show thesis
    by (rule that [of r']) (use new(3) [of v r'] assms(2) p vr in \<open>auto simp: taken_def own_metrics_def\<close>)
qed

text \<open>Nothing that startup constructs fails, and its metrics are the first in the registry.\<close>

definition startup_ok :: "('h, 'b, 'w, 'v, 'r) startup_env \<Rightarrow> bool" where
  "startup_ok S \<longleftrightarrow>
     (\<exists>names r. library_law S names \<and> se_registry S = Inr r \<and> ge_names (se_registry_env S) r = {}) \<and>
     se_resolver S = Inr () \<and> se_reqwest S = Inr () \<and>
     se_request_meta S = Inr () \<and> (\<forall>name. se_build S name = Inr ()) \<and> se_sigterm S = Inr ()"

text \<open>A command line with a certificate and the API on a host name, without the options that add
  servers or layers.\<close>

definition plain_cli :: "cli \<Rightarrow> bool" where
  "plain_cli c \<longleftrightarrow>
     log_vector_url (cli_log c) = None \<and> \<not> cli_waf_enable c \<and> \<not> cli_sev_snp_enable c \<and>
     \<not> cli_custom_domains c \<and> \<not> insecure_cli c \<and> listen_metrics (cli_listen c) = None \<and>
     cert_provider_file (cli_cert c) \<noteq> [] \<and> api_hostname (cli_api c) \<noteq> None \<and>
     api_listen (cli_api c) = None \<and> \<not> api_acme (cli_api c) \<and> api_token (cli_api c) \<noteq> None"

definition plain_app :: "('h, 'b, 'w, 'v, 'r) startup_env \<Rightarrow> cli \<Rightarrow> app_router" where
  "plain_app S c = \<lparr>ap_state = handler_state_of (se_quarter S) c,
     ap_metrics_state =
       metrics_state_of False \<lparr>me_requests = requests_desc, me_duration = duration_desc\<rparr> c,
     ap_api = Some \<lparr>ar_token = the (api_token (cli_api c)), ar_routes = api_routes False False\<rparr>,
     ap_api_hostname = api_hostname (cli_api c), ap_waf = False\<rparr>"

lemma setup_http_client_runs:
  assumes "library_law S names" and "taken S names False {} r"
  obtains r' where "\<And>s. su_registry s = Some r \<Longrightarrow> setup_http_client S c s =
      Done (Inr (), s\<lparr>su_client := Some (http_client_of c), su_registry := Some r'\<rparr>)"
    and "taken S names False {''http_client''} r'"
proof -
  obtain r1 where r1: "se_lib_register S ''http_client'' r = Done r1" "taken S names False {''http_client''} r1"
    using library_registers [OF assms] by auto
  show thesis
  proof (cases "network_http_client_count (cli_network c) > 1")
    case True
    with r1 show thesis
      by (intro that [of r1])
        (simp_all add: setup_http_client_def lib_metrics_def on_registry_def try_step_def)
  next
    case False
    have "taken S names False {''http_client''} r"
      using assms(2) by (auto simp: taken_def)
    with False show thesis
      by (intro that [of r]) (simp_all add: setup_http_client_def try_step_def)
  qed
qed

lemma plain_start:
  assumes "startup_ok S" and "plain_cli c"
    and "load_config (se_manager_env S) (sys_of c fs) = Done (Inr (), sys)"
  shows "\<exists>s cfg. core_main S show_nat c (startup_new c fs) = Done (Inr (), s) \<and> su_sys s = sys \<and>
     su_journal s = [Config_loaded, Tasks_started (su_tasks s), Tasks_stopped] \<and>
     su_tasks s =
       [Server ''server_http'' (listen_http (cli_listen c)) Serve_redirect_to_https None,
        Interval ''cert_aggregator'' (cert_provider_poll_interval (cli_cert c)),
        Server ''server_https'' (listen_https (cli_listen c)) (Serve_all (plain_app S c)) (Some cfg),
        Background ''backend_manager'']"
proof -
  have ok: "se_resolver S = Inr ()" "se_reqwest S = Inr ()" "se_request_meta S = Inr ()"
    "\<And>name. se_build S name = Inr ()" "se_sigterm S = Inr ()"
    using assms(1) by (simp_all add: startup_ok_def)
  obtain names r0 where law: "library_law S names" and r0: "se_registry S = Inr r0" "taken S names False {} r0"
    using assms(1) by (auto simp: startup_ok_def taken_def)
  obtain r1 where r1: "\<And>s. su_registry s = Some r0 \<Longrightarrow> setup_http_client S c s =
      Done (Inr (), s\<lparr>su_client := Some (http_client_of c), su_registry := Some r1\<rparr>)"
    "taken S names False {''http_client''} r1"
    using setup_http_client_runs [OF law r0(2)] by metis
  obtain r2 where r2: "se_lib_register S ''distributor'' r1 = Done r2"
    "taken S names False {''distributor'', ''http_client''} r2"
    using library_registers [OF law r1(2), of "''distributor''"] by auto
  obtain r3 where r3: "se_lib_register S ''health_check'' r2 = Done r3"
    "taken S names False {''health_check'', ''distributor'', ''http_client''} r3"
    using library_registers [OF law r2(2), of "''health_check''"] by auto
  obtain r4 where r4: "metrics_new (se_registry_env S) r3 =
      Done (\<lparr>me_requests = requests_desc, me_duration = duration_desc\<rparr>, r4)"
    "taken S names True {''health_check'', ''distributor'', ''http_client''} r4"
    using library_metrics_new [OF law r3(2)] by auto
  obtain r5 where r5: "se_lib_register S ''http_server'' r4 = Done r5"
    "taken S names True {''http_server'', ''health_check'', ''distributor'', ''http_client''} r5"
    using library_registers [OF law r4(2), of "''http_server''"] by auto
  obtain r6 where r6: "se_lib_register S ''tls_storage'' r5 = Done r6"
    "taken S names True {''tls_storage'', ''http_server'', ''health_check'', ''distributor'', ''http_client''} r6"
    using library_registers [OF law r5(2), of "''tls_storage''"] by auto
  obtain r7 where r7: "se_lib_register S ''tls_resolver'' r6 = Done r7"
    "taken S names True {''tls_resolver'', ''tls_storage'', ''http_server'', ''health_check'', ''distributor'',
       ''http_client''} r7"
    using library_registers [OF law r6(2), of "''tls_resolver''"] by auto
  obtain r8 where r8: "se_lib_register S ''tls_server_config'' r7 = Done r8"
    using library_registers [OF law r7(2), of "''tls_server_config''"] by auto
  note cli = assms(2) [unfolded plain_cli_def]
  note field = add_task_def journal_def startup_new_def
  have tls: "\<exists>cfg. \<forall>s. su_registry s = Some r5 \<longrightarrow> tls_setup S show_nat c s = Done (Inr cfg,
      add_task (Interval ''cert_aggregator'' (cert_provider_poll_interval (cli_cert c))) s\<lparr>su_registry := Some r8\<rparr>)"
    using cli by (simp add: tls_setup_def try_step_def lib_metrics_def on_registry_def api_acme_resolver_def
        r6 r7 r8 Let_def add_task_def)
  then obtain cfg where cfg: "\<And>s. su_registry s = Some r5 \<Longrightarrow> tls_setup S show_nat c s = Done (Inr cfg,
      add_task (Interval ''cert_aggregator'' (cert_provider_poll_interval (cli_cert c))) s\<lparr>su_registry := Some r8\<rparr>)"
    by blast
  have app: "setup_axum S c (Some \<lparr>ar_token = the (api_token (cli_api c)), ar_routes = api_routes False False\<rparr>)
      False False s = Done (Inr (plain_app S c), s\<lparr>su_registry := Some r4\<rparr>)" if "su_registry s = Some r3" for s
    using that by (simp add: setup_axum_def on_registry_def setup_axum_router_def r4 ok try_step_def
        checked_def plain_app_def)
  have api: "setup_api_axum_router (se_api S) c False =
      Inr \<lparr>ar_token = the (api_token (cli_api c)), ar_routes = api_routes False False\<rparr>"
    using cli by (auto simp: setup_api_axum_router_def)
  show ?thesis
    unfolding core_main_def
    by (simp add: try_step_def set_statics_def create_registry_def r0 r1 r2 r3 r5 ok checked_def setup_vector_def
        setup_backend_manager_def lib_metrics_def on_registry_def setup_waf_def setup_router_api_def api_enabled_def
        api app build_server_def start_api_server_def start_metrics_server_def start_https_server_def cfg
        load_initial_config_def run_and_shutdown_def Let_def cli assms(3) field)
qed

subsection \<open>A concrete start\<close>

text \<open>Each part of the library registers one name, the first time only.\<close>

definition sample_register :: "string \<Rightarrow> string list \<Rightarrow> string list outcome" where
  "sample_register part r = (if ''lib_'' @ part \<in> set r then Panicked else Done ((''lib_'' @ part) # r))"

definition sample_startup :: "(headers, bytes, unit, nat, string list) startup_env" where
  "sample_startup = \<lparr>se_manager_env = sample_env, se_api = sample_api, se_quarter = (\<lambda>d. d div 4),
     se_registry = Inr [], se_registry_env = sample_registry, se_lib_register = sample_register,
     se_resolver = Inr (), se_reqwest = Inr (), se_vector_options = Inr (),
     se_waf = Inr (), se_request_meta = Inr (), se_build = (\<lambda>_. Inr ()), se_custom_domains = Inr 0,
     se_sigterm = Inr (), se_alpn_acme = ''acme-tls/1''\<rparr>"

definition sample_cert :: cert_args where
  "sample_cert = (cert_defaults sample_parsers)\<lparr>cert_provider_file := [''cert.pem'']\<rparr>"

definition sample_files :: "string \<Rightarrow> bytes option" where
  "sample_files = [''config.yaml'' \<mapsto> ''a'']"

lemma sample_load:
  "\<exists>s. load_config sample_env (sys_new ''config.yaml'' i t sample_files) = Done (Inr (), s)"
proof -
  have "load_config sample_env (sys_new ''config.yaml'' i t sample_files) =
      set_config sample_env config_a (sys_new ''config.yaml'' i t sample_files)"
    by (simp add: load_config_def sys_new_def manager_new_def sample_env_def sample_files_def)
  then show ?thesis
    using sample_set_a by simp
qed

text \<open>The command line of the API's tests with a certificate file.\<close>

definition sample_cli_tls :: cli where
  "sample_cli_tls = sample_cli\<lparr>cli_cert := sample_cert\<rparr>"

lemma sample_startup_sel [simp]:
  "se_manager_env sample_startup = sample_env" "se_api sample_startup = sample_api"
  "se_registry sample_startup = Inr []" "se_registry_env sample_startup = sample_registry"
  "se_lib_register sample_startup = sample_register" "se_resolver sample_startup = Inr ()"
  "se_reqwest sample_startup = Inr ()" "se_request_meta sample_startup = Inr ()"
  "se_build sample_startup name = Inr ()" "se_sigterm sample_startup = Inr ()"
  by (simp_all add: sample_startup_def)

lemma sample_cli_tls_sel [simp]:
  "cli_api sample_cli_tls = api_default\<lparr>api_token := Some ''deadbeef'', api_hostname := Some ''foobarhost''\<rparr>"
  "cli_cert sample_cli_tls = sample_cert" "cli_log sample_cli_tls = log_default"
  "cli_listen sample_cli_tls = listen_default" "\<not> cli_waf_enable sample_cli_tls"
  "\<not> cli_custom_domains sample_cli_tls" "\<not> cli_sev_snp_enable sample_cli_tls"
  "config_path (cli_config sample_cli_tls) = ''config.yaml''"
  by (simp_all add: sample_cli_tls_def sample_cli_def cli_default_def)

lemma sample_library_law: "library_law sample_startup (\<lambda>part. {''lib_'' @ part})"
proof -
  have "ge_names sample_registry = set"
    by (simp add: sample_registry_def)
  then show ?thesis
    by (simp add: library_law_def sample_registry_law sample_register_def own_metrics_def)
qed

lemma sample_startup_ok: "startup_ok sample_startup"
  using sample_library_law by (force simp: startup_ok_def sample_registry_def)

lemma sample_plain: "plain_cli sample_cli_tls"
  by (simp add: plain_cli_def log_default_def listen_default_def api_default_def sample_cert_def)

lemma sample_startup_run:
  "\<exists>s' app cfg. core_main sample_startup show_nat sample_cli_tls (startup_new sample_cli_tls sample_files) =
     Done (Inr (), s') \<and> Tasks_started (su_tasks s') \<in> set (su_journal s') \<and>
     Server ''server_https'' ''127.0.0.1:8443'' (Serve_all app) (Some cfg) \<in> set (su_tasks s')"
proof -
  obtain s where "load_config (se_manager_env sample_startup) (sys_of sample_cli_tls sample_files) = Done (Inr (), s)"
    using sample_load by fastforce
  from plain_start [OF sample_startup_ok sample_plain this] show ?thesis
    by (fastforce simp: listen_default_def)
qed

subsection \<open>Order and safety\<close>

text \<open>C23: no server and no background task starts before the configuration file has been loaded and
  is served by the manager's routers: if anything before fails, \<open>main\<close> returns an error and has
  started nothing; else it loads the configuration, starts all the tasks it has set up, and at
  the end stops the tasks first and Vector last.\<close>

theorem nothing_starts_before_config:
  assumes "core_main S show_nat c (startup_new c fs) = Done (r, s')"
  shows "if su_journal s' = [] then \<exists>e. r = Inl e
     else manager_inv (se_manager_env S) (su_sys s') \<and>
       (\<exists>rest. su_journal s' = [Config_loaded, Tasks_started (su_tasks s')] @ rest \<and>
          (case r of
             Inl _ \<Rightarrow> rest = []
           | Inr _ \<Rightarrow> rest = [Tasks_stopped] \<or> rest = [Tasks_stopped, Vector_stopped]))"
proof -
  have "main_end (se_manager_env S) c (sys_of c fs) r s'"
    by (rule core_main_end [OF assms])
  moreover have "manager_inv (se_manager_env S) (sys_of c fs)"
    by (rule sys_new_inv)
  ultimately show ?thesis
    by (auto simp: main_end_def started_fully_def intro: load_config_inv)
qed

theorem nothing_starts_before_config_witness:
  "\<exists>s'. core_main sample_startup (\<lambda>_. ''0'') sample_cli_tls
      (startup_new sample_cli_tls sample_files) = Done (Inr (), s') \<and>
     su_journal s' \<noteq> [] \<and> manager_inv sample_env (su_sys s')"
proof -
  obtain s' where run: "core_main sample_startup (\<lambda>_. ''0'') sample_cli_tls
      (startup_new sample_cli_tls sample_files) = Done (Inr (), s')"
    using sample_startup_run by blast
  from nothing_starts_before_config [OF run] run show ?thesis
    by (auto split: if_splits)
qed

text \<open>C33: unless the command line asks for the insecure HTTP-only mode, the application (the proxied
  traffic and, on its host name, the API) is served over TLS alone, on the address for HTTPS, and
  nothing else is. What main serves in the clear is the redirect to HTTPS on the address for HTTP,
  the API's router where the command line gives it an address of its own, and the metrics on
  theirs.\<close>

theorem endpoints_served_over_tls:
  assumes "core_main S show_nat c (startup_new c fs) = Done (r, s')"
    and "\<not> listen_insecure_serve_http_only (cli_listen c)"
    and "Tasks_started ts \<in> set (su_journal s')" and "Server name addr serve tls \<in> set ts"
  shows "case tls of
       Some _ \<Rightarrow> (\<exists>app. serve = Serve_all app) \<and> addr = listen_https (cli_listen c)
     | None \<Rightarrow>
         (serve = Serve_redirect_to_https \<and> addr = listen_http (cli_listen c)) \<or>
         ((\<exists>router. serve = Serve_api router) \<and> api_listen (cli_api c) = Some addr) \<or>
         ((\<exists>ep. serve = Serve_metrics ep) \<and> listen_metrics (cli_listen c) = Some addr)"
proof -
  have "main_end (se_manager_env S) c (sys_of c fs) r s'"
    by (rule core_main_end [OF assms(1)])
  with assms(3) have "list_all (secure c) ts"
    by (cases r) (auto simp: main_end_def started_fully_def)
  with assms(4) have "secure c (Server name addr serve tls)"
    by (auto simp: list_all_iff)
  with assms(2) show ?thesis
    by (cases serve) (auto split: option.splits)
qed

theorem endpoints_served_over_tls_witness:
  "\<exists>s' ts app tls. core_main sample_startup (\<lambda>_. ''0'') sample_cli_tls
      (startup_new sample_cli_tls sample_files) = Done (Inr (), s') \<and>
     Server ''server_https'' ''127.0.0.1:8443'' (Serve_all app) tls \<in> set ts \<and> tls \<noteq> None"
proof -
  obtain s' app cfg where run: "core_main sample_startup (\<lambda>_. ''0'') sample_cli_tls
      (startup_new sample_cli_tls sample_files) = Done (Inr (), s')"
    and start: "Tasks_started (su_tasks s') \<in> set (su_journal s')"
    and https: "Server ''server_https'' ''127.0.0.1:8443''
       (Serve_all app) (Some cfg) \<in> set (su_tasks s')"
    using sample_startup_run by blast
  have mode: "\<not> listen_insecure_serve_http_only (cli_listen sample_cli_tls)"
    by (simp add: listen_default_def)
  from endpoints_served_over_tls [OF run mode start https] run https show ?thesis
    by blast
qed

text \<open>C35: a command line that \<open>clap\<close> accepts makes the set-up of TLS panic exactly when ACME is
  switched on for the API without an API host name and there is a certificate provider: with custom
  domains, when their set-up succeeds, else when a file or a directory is given. Every other problem
  is an error. (That needs the static host name, which \<open>main\<close> sets first, and metric names that no
  one has taken.)\<close>

theorem tls_setup_panics_iff:
  assumes "cli_accepted c" and "su_statics s \<noteq> None"
    and "library_law S names" and "su_registry s = Some r"
    and "\<forall>part \<in> {''tls_storage'', ''custom_domains'', ''tls_resolver'', ''tls_server_config''}.
           names part \<inter> ge_names (se_registry_env S) r = {}"
  shows "tls_setup S show_nat c s = Panicked \<longleftrightarrow>
     api_acme (cli_api c) \<and> api_hostname (cli_api c) = None \<and>
     (if cli_custom_domains c then \<exists>workers. se_custom_domains S = Inr workers
      else cert_provider_file (cli_cert c) \<noteq> [] \<or> cert_provider_dir (cli_cert c) \<noteq> [])"
proof -
  have acme: "api_acme (cli_api c) \<Longrightarrow> \<exists>cache. api_acme_cache (cli_api c) = Some cache"
    using assms(1) by (auto simp: cli_accepted_def api_accepted_def)
  let ?G = "se_registry_env S"
  let ?free = "\<lambda>parts r. \<forall>part \<in> parts. names part \<inter> ge_names ?G r = {}"
  have register: "\<exists>r'. se_lib_register S part r = Done r' \<and> ?free (parts - {part}) r'"
    if "?free parts r" "part \<in> parts" for part parts r
  proof -
    have "names part \<inter> ge_names ?G r = {}"
      using that by blast
    then obtain r' where "se_lib_register S part r = Done r'" "ge_names ?G r' = names part \<union> ge_names ?G r"
      using library_lawD(2) [OF assms(3)] by blast
    moreover have "names q \<inter> names part = {}" if "q \<noteq> part" for q
      using library_lawD(3) [OF assms(3) that] .
    ultimately show ?thesis
      using that(1) by (auto simp: Int_Un_distrib)
  qed
  obtain r1 where r1: "se_lib_register S ''tls_storage'' r = Done r1"
    "?free {''custom_domains'', ''tls_resolver'', ''tls_server_config''} r1"
    using register [OF assms(5), of "''tls_storage''"] by auto
  obtain r2 where r2: "(if cli_custom_domains c then se_lib_register S ''custom_domains'' r1 else Done r1) = Done r2"
    "?free {''tls_resolver'', ''tls_server_config''} r2"
    using register [OF r1(2), of "''custom_domains''"] r1(2) by (cases "cli_custom_domains c") auto
  obtain r3 where r3: "se_lib_register S ''tls_resolver'' r2 = Done r3" "?free {''tls_server_config''} r3"
    using register [OF r2(2), of "''tls_resolver''"] by auto
  obtain r4 where r4: "se_lib_register S ''tls_server_config'' r3 = Done r4"
    using register [OF r3(2), of "''tls_server_config''"] by auto
  have keep: "su_registry (add_task k x) = su_registry x" "su_registry (worker_tasks is x) = su_registry x" for k x "is"
    by (simp add: add_task_def) (induction "is" x rule: worker_tasks.induct, simp_all add: add_task_def)
  obtain st where st: "su_statics s = Some st"
    using assms(2) by blast
  show ?thesis
    using acme r2(1) r3(1) r4
    by (cases "cli_custom_domains c"; cases "se_custom_domains S")
      (auto simp: tls_setup_def try_step_def lib_metrics_def on_registry_def assms(4) r1(1) st
        setup_custom_domains_def api_acme_resolver_def Let_def keep split: option.splits)
qed

theorem tls_setup_panics_iff_witness:
  "cli_accepted (sample_cli_tls\<lparr>cli_custom_domains := True,
      cli_api := api_default\<lparr>api_acme := True, api_acme_cache := Some ''/tmp''\<rparr>\<rparr>) \<and>
   tls_setup sample_startup (\<lambda>_. ''0'')
     (sample_cli_tls\<lparr>cli_custom_domains := True,
        cli_api := api_default\<lparr>api_acme := True, api_acme_cache := Some ''/tmp''\<rparr>\<rparr>)
     ((startup_new sample_cli_tls sample_files)\<lparr>su_statics := Some (''prod'', ''host''), su_registry := Some []\<rparr>)
       = Panicked"
proof -
  let ?c = "sample_cli_tls\<lparr>cli_custom_domains := True,
      cli_api := api_default\<lparr>api_acme := True, api_acme_cache := Some ''/tmp''\<rparr>\<rparr>"
  let ?s = "(startup_new sample_cli_tls sample_files)\<lparr>su_statics := Some (''prod'', ''host''),
      su_registry := Some []\<rparr>"
  have ok: "cli_accepted ?c" "su_statics ?s \<noteq> None"
    by (simp_all add: cli_accepted_def api_accepted_def api_default_def sample_cli_tls_def sample_cli_def
        cli_default_def network_accepted_def network_default_def retry_accepted_def retry_default_def)
  have free: "su_registry ?s = Some []"
    "\<forall>part \<in> {''tls_storage'', ''custom_domains'', ''tls_resolver'', ''tls_server_config''}.
       {''lib_'' @ part} \<inter> ge_names (se_registry_env sample_startup) [] = {}"
    by (simp_all add: sample_registry_def)
  show ?thesis
    using ok(1) unfolding tls_setup_panics_iff [OF ok sample_library_law free]
    by (simp add: api_default_def sample_startup_def)
qed

text \<open>C34: HTTPS needs a certificate: without a certificate file, directory or custom domains, and
  without the insecure HTTP-only mode, \<open>main\<close> never starts anything and only ever returns an error.
  This is the case of the default command line, which gives the configuration's path alone.\<close>

theorem no_start_without_certificates:
  assumes "\<not> listen_insecure_serve_http_only (cli_listen c)" and "\<not> cli_custom_domains c"
    and "cert_provider_file (cli_cert c) = []" and "cert_provider_dir (cli_cert c) = []"
    and "core_main S show_nat c (startup_new c fs) = Done (r, s')"
  shows "(\<exists>e. r = Inl e) \<and> su_journal s' = []"
proof -
  have "ends (\<lambda>r s. (\<exists>e. r = Inl e) \<and> su_journal s = []) (core_main S show_nat c (startup_new c fs))"
    by (rule core_main_chain [OF startup_new_sat])
      (simp_all add: no_provider_ends [OF _ assms(1-4)], simp_all add: tasks_sat_def)
  with assms(5) show ?thesis
    by (simp add: ends_def)
qed

theorem no_start_without_certificates_witness:
  "\<exists>r s'. core_main sample_startup (\<lambda>_. ''0'') (cli_default sample_parsers ''host'' ''config.yaml'')
      (startup_new (cli_default sample_parsers ''host'' ''config.yaml'') sample_files) = Done (r, s') \<and>
     (\<exists>e. r = Inl e) \<and> su_journal s' = []"
proof -
  let ?c = "cli_default sample_parsers ''host'' ''config.yaml''"
  have opts: "\<not> listen_insecure_serve_http_only (cli_listen ?c)" "\<not> cli_custom_domains ?c"
    "cert_provider_file (cli_cert ?c) = []" "cert_provider_dir (cli_cert ?c) = []"
    "log_vector_url (cli_log ?c) = None" "api_listen (cli_api ?c) = None" "api_hostname (cli_api ?c) = None"
    "listen_metrics (cli_listen ?c) = None" "\<not> cli_waf_enable ?c" "network_http_client_count (cli_network ?c) = 16"
    by (simp_all add: cli_default_def listen_default_def cert_defaults_def log_default_def api_default_def
        network_default_def)
  obtain r s' where run: "core_main sample_startup (\<lambda>_. ''0'') ?c (startup_new ?c sample_files) = Done (r, s')"
    by (simp add: core_main_def try_step_def checked_def setup_vector_def setup_waf_def setup_router_api_def
        api_enabled_def setup_axum_router_def Let_def build_server_def start_api_server_def
        start_metrics_server_def start_https_server_def tls_setup_def set_statics_def setup_http_client_def
        startup_new_def opts create_registry_def setup_backend_manager_def setup_axum_def lib_metrics_def
        on_registry_def sample_register_def setup_axum_router_def metrics_new_def register_unwrap_def
        sample_registry_def add_task_def)
  from no_start_without_certificates [OF opts(1-4) run] run show ?thesis
    by blast
qed

end
