(* ===== verification/Metrics_Registry.thy ===== *)
theory Metrics_Registry
  imports Metrics_Properties "HOL-Library.Multiset"
begin

section \<open>Metrics: recording\<close>

text \<open>
  What happens when the middleware's background task records a request: \<open>with_label_values\<close> panics
  when the number of values is not that of the labels a vector was registered with. The samples of
  the two vectors are counted, and the types of everything the task reports are checked.
\<close>

subsection \<open>Recording\<close>

text \<open>The samples of the two vectors: one element for each increment and each observation.\<close>

record 'f samples =
  sa_requests :: "labels multiset"
  sa_durations :: "(labels \<times> 'f) multiset"

definition no_samples :: "'f samples" where
  "no_samples = \<lparr>sa_requests = {#}, sa_durations = {#}\<rparr>"

definition with_label_values :: "metric_desc \<Rightarrow> labels \<Rightarrow> labels outcome" where
  "with_label_values d values =
     (if length values = length (md_labels d) then Done values else Panicked)"

fun record_effect :: "metrics \<Rightarrow> 'f effect \<Rightarrow> 'f samples \<Rightarrow> 'f samples outcome" where
  "record_effect M (Requests_inc l) s =
     and_then (with_label_values (me_requests M) l) (\<lambda>l.
       Done (s\<lparr>sa_requests := add_mset l (sa_requests s)\<rparr>))"
| "record_effect M (Duration_observe l d) s =
     and_then (with_label_values (me_duration M) l) (\<lambda>l.
       Done (s\<lparr>sa_durations := add_mset (l, d) (sa_durations s)\<rparr>))"
| "record_effect M (Dyn_event _ _) s = Done s"
| "record_effect M (Vector_send _) s = Done s"

fun record_effects :: "metrics \<Rightarrow> 'f effect list \<Rightarrow> 'f samples \<Rightarrow> 'f samples outcome" where
  "record_effects M [] s = Done s"
| "record_effects M (e # es) s = and_then (record_effect M e s) (record_effects M es)"

lemma record_effects_append:
  "record_effects M (es @ fs) s = and_then (record_effects M es s) (record_effects M fs)"
proof (induction es arbitrary: s)
  case (Cons e es)
  then show ?case
    by (cases "record_effect M e s") simp_all
qed simp

lemma record_other: "list_all (\<lambda>e. \<not> is_counting e) es \<Longrightarrow> record_effects M es s = Done s"
proof (induction es)
  case (Cons e es)
  then show ?case
    by (cases e) simp_all
qed simp

subsection \<open>Types of what is reported\<close>

datatype field_type = Text | Integer | Float | Boolean

fun field_type_of :: "'f field_value \<Rightarrow> field_type" where
  "field_type_of (JText _) = Text"
| "field_type_of (JInt _) = Integer"
| "field_type_of (JFloat _) = Float"
| "field_type_of (JBool _) = Boolean"

definition fields_type :: "'f fields \<Rightarrow> (string \<times> field_type) list" where
  "fields_type fs = map (\<lambda>(n, v). (n, field_type_of v)) fs"

text \<open>An integer that fits the 64 bits of the code's \<open>i64\<close>.\<close>

fun fits_i64 :: "'f field_value \<Rightarrow> bool" where
  "fits_i64 (JInt i) = (- (2 ^ 63) \<le> i \<and> i < 2 ^ 63)"
| "fits_i64 _ = True"

definition event_type :: "(string \<times> field_type) list" where
  "event_type =
     [(''request_id'', Text), (''conn_id'', Text), (''tls_version'', Text), (''tls_cipher'', Text),
      (''tls_handshake'', Float), (''http_version'', Text), (''authority'', Text), (''method'', Text),
      (''path'', Text), (''query'', Text), (''remote_addr'', Text), (''status'', Text),
      (''duration'', Float), (''backend'', Text), (''request_size'', Integer),
      (''request_body_buffered'', Boolean), (''response_size'', Integer),
      (''response_body_buffered'', Boolean), (''retries'', Integer), (''country_code'', Text),
      (''error_cause'', Text), (''error_details'', Text)]"

definition vector_type :: "(string \<times> field_type) list" where
  "vector_type =
     [(''env'', Text), (''hostname'', Text), (''timestamp'', Integer), (''conn_id'', Text),
      (''request_id'', Text), (''tls_version'', Text), (''tls_cipher'', Text),
      (''tls_handshake'', Float), (''http_version'', Text), (''authority'', Text), (''method'', Text),
      (''path'', Text), (''query'', Text), (''status'', Integer), (''duration'', Float),
      (''backend'', Text), (''remote_addr'', Text), (''request_body_buffered'', Boolean),
      (''request_size'', Integer), (''response_body_buffered'', Boolean), (''response_size'', Integer),
      (''retries'', Integer), (''country_code'', Text), (''error_cause'', Text), (''error_details'', Text)]"

lemma types_distinct: "distinct (map fst event_type)" "distinct (map fst vector_type)"
  by (simp_all add: event_type_def vector_type_def)

text \<open>An effect is well typed: the labels are as many as declared, the last is \<open>yes\<close> or \<open>no\<close>, and
  the fields of an event are those of its type, with numbers in range.\<close>

fun effect_typed :: "metrics \<Rightarrow> 'f effect \<Rightarrow> bool" where
  "effect_typed M (Requests_inc l) =
     (length l = length (md_labels (me_requests M)) \<and> last l \<in> {''yes'', ''no''})"
| "effect_typed M (Duration_observe l d) =
     (length l = length (md_labels (me_duration M)) \<and> last l \<in> {''yes'', ''no''})"
| "effect_typed M (Dyn_event lvl fs) =
     (lvl \<in> {WARN, INFO} \<and> fields_type fs = event_type \<and> list_all (fits_i64 \<circ> snd) fs)"
| "effect_typed M (Vector_send fs) = (fields_type fs = vector_type \<and> list_all (fits_i64 \<circ> snd) fs)"

lemma typed_records:
  "list_all (effect_typed M) es \<Longrightarrow> \<exists>s'. record_effects M es s = Done s'"
proof (induction es arbitrary: s)
  case (Cons e es)
  then show ?case
    by (cases e) (simp_all add: with_label_values_def)
qed simp


lemma u64_as_i64_range: "- (2 ^ 63) \<le> u64_as_i64 x \<and> u64_as_i64 x < 2 ^ 63"
  using sint_ge [of x] sint_lt [of x] by (simp add: u64_as_i64_def)

lemma exact_size_fits: "fits_i64 (JInt (exact_size H body))"
  using u64_as_i64_range by (simp add: exact_size_def split: option.split)

lemma retries_fit: "fits_i64 (JInt (uint (r :: u8)))"
proof -
  have "uint r < 2 ^ 8"
    using uint_lt2p [of r] by simp
  then have "uint r < 2 ^ 63"
    by (rule order.strict_trans) simp
  moreover have "- (2 ^ 63) \<le> uint r"
    by (rule order.trans [of _ 0]) simp_all
  ultimately show ?thesis
    by simp
qed

lemma request_size_fits: "fits_i64 (JInt (ri_request_size (request_info_of V conn_id ts req)))"
  using exact_size_fits [of "mv_http V" "rq_body req"] by (simp add: request_info_of_def Let_def)

abbreviation registered :: metrics where
  "registered \<equiv> \<lparr>me_requests = requests_desc, me_duration = duration_desc\<rparr>"

lemma labels_typed:
  "length (meta_labels V ri m) = length (md_labels requests_desc) \<and>
     length (meta_labels V ri m) = length (md_labels duration_desc) \<and> last (meta_labels V ri m) \<in> {''yes'', ''no''}"
  by (simp add: meta_labels_def requests_desc_def duration_desc_def LABELS_HTTP_def)

lemma event_typed:
  assumes "fits_i64 (JInt (ri_request_size ri))" and "fits_i64 (JInt (rm_size m))"
  shows "fields_type (dyn_event_fields V ri m) = event_type \<and>
     list_all (fits_i64 \<circ> snd) (dyn_event_fields V ri m)"
  using assms retries_fit [of "rm_retries m"]
  by (simp add: dyn_event_fields_def fields_type_def event_type_def)

text \<open>A status is a \<open>u16\<close> in the code, a number here.\<close>

lemma vector_typed:
  assumes "fits_i64 (JInt (ri_request_size ri))" and "fits_i64 (JInt (rm_size m))"
    and "fits_i64 (JInt (ri_timestamp ri))" and "rm_status m < 2 ^ 16"
  shows "fields_type (vector_fields V ri m) = vector_type \<and>
     list_all (fits_i64 \<circ> snd) (vector_fields V ri m)"
  using assms retries_fit [of "rm_retries m"]
  by (simp add: vector_fields_def fields_type_def vector_type_def)

lemma logging_task_typed:
  assumes "m = (case received of Some m \<Rightarrow> m | None \<Rightarrow> response_meta_default (mv_zero V))"
    and "fits_i64 (JInt (ri_request_size ri))" and "fits_i64 (JInt (rm_size m))"
    and "fits_i64 (JInt (ri_timestamp ri))" and "rm_status m < 2 ^ 16"
  shows "list_all (effect_typed registered) (logging_task V st ri received)"
  using labels_typed [of V ri m] event_typed [OF assms(2,3)] vector_typed [OF assms(2-5)]
  by (auto simp: logging_task_def Let_def assms(1) [symmetric] meta_log_level_def
      simp del: fits_i64.simps split: option.split)

subsection \<open>Properties\<close>

text \<open>C26: everything the middleware's background task reports is well typed: the values of both
  vectors are as many as the labels they were registered with, so that recording them cannot
  panic, the last one is \<open>yes\<close> or \<open>no\<close>, and the logged event and the one for Vector have exactly
  the fields of their type, none twice, with all numbers in the range of \<open>i64\<close>.\<close>

theorem middleware_effects_typed:
  assumes "- (2 ^ 63) \<le> ts" and "ts < 2 ^ 63"
    and "\<And>ctx q resp ctx'. next_run ctx q = Some (resp, ctx') \<Longrightarrow> rs_status resp < 2 ^ 16"
  shows "list_all (effect_typed \<lparr>me_requests = requests_desc, me_duration = duration_desc\<rparr>)
       (snd (middleware V st conn_id ts elapsed next_run req)) \<and>
     (\<exists>s'. record_effects \<lparr>me_requests = requests_desc, me_duration = duration_desc\<rparr>
       (snd (middleware V st conn_id ts elapsed next_run req)) s = Done s') \<and>
     distinct (map fst event_type) \<and> distinct (map fst vector_type)"
proof -
  let ?ri = "request_info_of V conn_id ts req"
  have ts: "fits_i64 (JInt (ri_timestamp ?ri))"
    using assms(1,2) by (simp add: request_info_of_def Let_def)
  have "list_all (effect_typed registered) (snd (middleware V st conn_id ts elapsed next_run req))"
  proof (cases "next_run (Some context_default) (without_request_id req)")
    case None
    have "list_all (effect_typed registered) (logging_task V st ?ri None)"
      by (rule logging_task_typed [OF refl request_size_fits _ ts])
        (simp_all add: response_meta_default_def)
    with None show ?thesis
      by (simp add: middleware_def Let_def)
  next
    case (Some p)
    obtain resp ctx where p: "p = (resp, ctx)"
      by (cases p)
    let ?m = "response_meta_of V elapsed resp ctx"
    have "fits_i64 (JInt (rm_size ?m))" "rm_status ?m < 2 ^ 16"
      using exact_size_fits [of "mv_http V" "rs_body resp"] assms(3) Some p
      by (auto simp: response_meta_of_def)
    then have "list_all (effect_typed registered) (logging_task V st ?ri (Some ?m))"
      by (intro logging_task_typed [OF refl request_size_fits _ ts]) simp_all
    with Some p show ?thesis
      by (simp add: middleware_def Let_def)
  qed
  then show ?thesis
    using typed_records types_distinct by blast
qed

theorem middleware_effects_typed_witness:
  "list_all (effect_typed \<lparr>me_requests = requests_desc, me_duration = duration_desc\<rparr>)
     (snd (middleware sample_metrics sample_metrics_state ''c1'' 1700000000 6000000000
        (\<lambda>ctx q. Some (sample_response, ctx)) sample_request))"
proof -
  have status: "\<And>ctx q resp ctx'. (\<lambda>ctx (q :: (headers, bytes) request). Some (sample_response, ctx)) ctx q =
      Some (resp, ctx' :: scope) \<Longrightarrow> rs_status resp < 2 ^ 16"
    by (auto simp: sample_response_def)
  have ts: "- (2 ^ 63) \<le> (1700000000 :: int)" "(1700000000 :: int) < 2 ^ 63"
    by simp_all
  show ?thesis
    using middleware_effects_typed [OF ts, where V = sample_metrics and st = sample_metrics_state
        and next_run = "\<lambda>ctx q. Some (sample_response, ctx)"] status
    by blast
qed

text \<open>C36: the metrics can be registered once: \<open>Metrics::new\<close> and the set-up of the metrics endpoint
  panic exactly when one of their two names is taken, they do not get in each other's way, a second
  call of either on the same registry panics, and the set-up adds the task that refreshes the
  snapshot every five seconds.\<close>

theorem metrics_register_once:
  assumes "registry_law G"
  shows "(metrics_new G r = Panicked \<longleftrightarrow>
       ''http_requests'' \<in> ge_names G r \<or> ''http_requests_duration_sec'' \<in> ge_names G r) \<and>
     (metrics_setup G r tasks = Panicked \<longleftrightarrow>
       ''memory_allocated'' \<in> ge_names G r \<or> ''memory_resident'' \<in> ge_names G r) \<and>
     (\<forall>M r1. metrics_new G r = Done (M, r1) \<longrightarrow> metrics_new G r1 = Panicked \<and>
       (metrics_setup G r1 tasks = Panicked \<longleftrightarrow> metrics_setup G r tasks = Panicked)) \<and>
     (\<forall>ep ts r1. metrics_setup G r tasks = Done (ep, ts, r1) \<longrightarrow> metrics_setup G r1 tasks = Panicked \<and>
       ep_runner ep = runner_new \<and> ts = tasks @ [(''metrics_runner'', 5000000000)])"
proof -
  note new = metrics_new_law [OF assms] and runner = metrics_runner_new_law [OF assms]
  have setup_iff: "metrics_setup G r tasks = Panicked \<longleftrightarrow>
      ''memory_allocated'' \<in> ge_names G r \<or> ''memory_resident'' \<in> ge_names G r" for r
    using runner(1,2) [of r] by (cases "metrics_runner_new G r") (auto simp: metrics_setup_def)
  have "metrics_setup G r1 tasks = Panicked \<and> ep_runner ep = runner_new \<and>
      ts = tasks @ [(''metrics_runner'', 5000000000)]"
    if run: "metrics_setup G r tasks = Done (ep, ts, r1)" for ep ts r1
  proof -
    obtain v where v: "metrics_runner_new G r = Done (v, r1)"
      and eps: "ep_runner ep = v" "ts = tasks @ [(''metrics_runner'', 5 * 10 ^ 9)]"
      using run by (auto simp: metrics_setup_def and_then_Done_iff)
    have "''memory_allocated'' \<in> ge_names G r1"
      using runner(3) [OF v] by simp
    with runner(3) [OF v] eps setup_iff show ?thesis
      by simp
  qed
  moreover have "metrics_new G r1 = Panicked \<and>
      (metrics_setup G r1 tasks = Panicked \<longleftrightarrow> metrics_setup G r tasks = Panicked)"
    if run: "metrics_new G r = Done (M, r1)" for M r1
    using new(3) [OF run] new(1) [of r1] by (simp add: setup_iff)
  moreover have "metrics_new G r = Panicked \<longleftrightarrow>
      ''http_requests'' \<in> ge_names G r \<or> ''http_requests_duration_sec'' \<in> ge_names G r"
    unfolding new(1) by blast
  ultimately show ?thesis
    using setup_iff [of r] by (intro conjI allI impI) blast+
qed

theorem metrics_register_once_witness:
  "\<exists>M r1. metrics_new sample_registry [] = Done (M, r1) \<and> metrics_new sample_registry r1 = Panicked"
proof -
  have "metrics_new sample_registry [] = Done (registered, [''http_requests_duration_sec'', ''http_requests''])"
    by (simp add: metrics_new_def register_unwrap_def sample_registry_def)
  with metrics_register_once [OF sample_registry_law, of "[]" "[]"] show ?thesis
    by blast
qed

end
