(* ===== verification/Traffic.thy ===== *)
theory Traffic
  imports System App Metrics_Registry
begin

section \<open>The load balancer as a function of its requests\<close>

text \<open>
  The parts put together in the order of \<open>setup_axum_router\<close> of \<open>src/routing.rs\<close>: the metrics
  middleware around WAF, dispatch, API and handler. \<open>serve_request\<close> takes one request through all
  of it; \<open>traffic\<close> serves requests one after the other, each in the state the one before has left,
  and records what the middleware's background tasks count. The request-meta layer outside the
  middleware belongs to \<open>ic-bn-lib\<close>: requests come with the extensions it sets.
\<close>

subsection \<open>One request through all layers\<close>

text \<open>A request with its connection, the time of its arrival, the time it takes, and what becomes of
  the HTTP client's call on each of its attempts.\<close>

record ('h, 'b, 'f) arrival =
  tq_conn_id :: string
  tq_timestamp :: int
  tq_elapsed :: 'f
  tq_request :: "('h, 'b) request"
  tq_client :: "nat \<Rightarrow> ('h, 'b) request \<Rightarrow> (string + ('h, 'b) response) outcome"

definition app_service ::
  "('h, 'b, 'w, 'v) api_env \<Rightarrow> ('h, 'b) mgr_env \<Rightarrow> bool \<Rightarrow>
   (('h, 'b) request \<Rightarrow> 'w \<Rightarrow> ('h, 'b) response option) \<Rightarrow> (router \<Rightarrow> ('h, 'b) exec) \<Rightarrow>
   app_router \<Rightarrow> (sys, 'w, 'v) world \<Rightarrow> scope \<Rightarrow> ('h, 'b) request \<Rightarrow> (('h, 'b) response \<times> scope) option" where
  "app_service A E checks waf_blocks execute app w ctx req =
     (case app_serve A E checks waf_blocks execute app ctx req w of
        Done ((resp, ctx', tr), w1) \<Rightarrow> Some (resp, ctx')
      | _ \<Rightarrow> None)"

definition serve_request ::
  "('h, 'b, 'w, 'v) api_env \<Rightarrow> ('h, 'b) mgr_env \<Rightarrow> ('h, 'b, 'f) metrics_env \<Rightarrow> bool \<Rightarrow>
   (('h, 'b) request \<Rightarrow> 'w \<Rightarrow> ('h, 'b) response option) \<Rightarrow> ('h, 'b) balancer \<Rightarrow> app_router \<Rightarrow>
   ('h, 'b, 'f) arrival \<Rightarrow> (sys, 'w, 'v) world \<Rightarrow>
   ((('h, 'b) response option \<times> 'f effect list) \<times> (sys, 'w, 'v) world) outcome" where
  "serve_request A E V checks waf_blocks lb app t w =
     (let execute = router_execute (ae_http A) (tq_client t) lb in
      and_then
        (app_serve A E checks waf_blocks execute app (Some context_default)
           (without_request_id (tq_request t)) w)
        (\<lambda>(_, w1). Done
          (middleware V (ap_metrics_state app) (tq_conn_id t) (tq_timestamp t) (tq_elapsed t)
             (app_service A E checks waf_blocks execute app w) (tq_request t), w1)))"

subsection \<open>Many requests\<close>

text \<open>The log has, for each request, the state of the program at its arrival, the response its client
  got and the labels it was counted under.\<close>

record ('h, 'b, 'w, 'v, 'f) log_entry =
  le_arrival :: "('h, 'b, 'f) arrival"
  le_world :: "(sys, 'w, 'v) world"
  le_response :: "('h, 'b) response option"
  le_labels :: labels

fun traffic ::
  "('h, 'b, 'w, 'v) api_env \<Rightarrow> ('h, 'b) mgr_env \<Rightarrow> ('h, 'b, 'f) metrics_env \<Rightarrow> bool \<Rightarrow>
   (('h, 'b) request \<Rightarrow> 'w \<Rightarrow> ('h, 'b) response option) \<Rightarrow> ('h, 'b) balancer \<Rightarrow>
   app_router \<Rightarrow> ('h, 'b, 'f) arrival list \<Rightarrow> (sys, 'w, 'v) world \<Rightarrow> 'f samples \<Rightarrow>
   (('h, 'b, 'w, 'v, 'f) log_entry list \<times> (sys, 'w, 'v) world \<times> 'f samples) outcome" where
  "traffic A E V checks waf_blocks lb app [] w s = Done ([], w, s)"
| "traffic A E V checks waf_blocks lb app (t # ts) w s =
     and_then (serve_request A E V checks waf_blocks lb app t w) (\<lambda>((resp, effs), w1).
     and_then (record_effects (ms_metrics (ap_metrics_state app)) effs s) (\<lambda>s1.
     and_then (traffic A E V checks waf_blocks lb app ts w1 s1) (\<lambda>(log, w2, s2).
       Done (\<lparr>le_arrival = t, le_world = w, le_response = resp, le_labels = counted_labels effs\<rparr> # log,
         w2, s2))))"

lemma app_serve_inv:
  assumes "app_serve A E checks waf_blocks execute app ctx req w = Done ((resp, ctx', tr), w')"
    and "manager_inv E (wo_manager w)"
  shows "manager_inv E (wo_manager w')"
  using assms(1)
proof (cases rule: app_serve_cases)
  case (api v)
  from api(5) assms(2) show ?thesis
    by (blast intro: api_manager.serve_inv)
qed (use assms(2) in simp_all)

lemma app_serve_label:
  assumes "app_serve A E checks waf_blocks (router_execute (ae_http A) client lb) app
      (Some context_default) req w = Done ((resp, ctx', tr), w')"
    and "manager_inv E (wo_manager w)" and "balancer_contract lb"
  shows "backend_label (case ctx' of Some c \<Rightarrow> c | None \<Rightarrow> context_default)
     \<in> (if tr = [] then {''unknown''}
        else if rs_error_cause resp = Some NoHealthyBackends
        then insert ''unknown'' (enabled_names (get_config (wo_manager w)))
        else enabled_names (get_config (wo_manager w)))"
  using assms(1)
proof (cases rule: app_serve_cases)
  case handled
  have "in_sync (sy_manager (wo_manager w))"
    using assms(2) by (simp add: manager_inv_def)
  from handler_label_enabled [OF this assms(3) handled(3)] show ?thesis
    unfolding get_config_def .
qed (simp_all add: backend_label_def context_default_def)

text \<open>A log entry is right: the client got the answer of the router behind the middleware, without
  the extensions for the metrics, and the backend label is \<open>unknown\<close> when nothing was sent to a
  backend, else a backend that the configuration of that moment enables; only when the last attempt
  found no healthy backend it may be \<open>unknown\<close> as well.\<close>

definition well_logged ::
  "('h, 'b, 'w, 'v) api_env \<Rightarrow> ('h, 'b) mgr_env \<Rightarrow> bool \<Rightarrow>
   (('h, 'b) request \<Rightarrow> 'w \<Rightarrow> ('h, 'b) response option) \<Rightarrow> ('h, 'b) balancer \<Rightarrow>
   app_router \<Rightarrow> ('h, 'b, 'w, 'v, 'f) log_entry \<Rightarrow> bool" where
  "well_logged A E checks waf_blocks lb app e \<longleftrightarrow>
     (\<exists>resp ctx tr w'. app_serve A E checks waf_blocks
          (router_execute (ae_http A) (tq_client (le_arrival e)) lb) app (Some context_default)
          (without_request_id (tq_request (le_arrival e))) (le_world e) = Done ((resp, ctx, tr), w') \<and>
        le_response e = Some (resp\<lparr>rs_retries := None, rs_error_cause := None\<rparr>) \<and>
        le_labels e ! 4 \<in>
          (if tr = [] then {''unknown''}
           else if rs_error_cause resp = Some NoHealthyBackends
           then insert ''unknown'' (enabled_names (get_config (wo_manager (le_world e))))
           else enabled_names (get_config (wo_manager (le_world e)))))"

text \<open>What one request adds to the counters.\<close>

lemma serve_request_effects:
  assumes "serve_request A E V checks waf_blocks lb app t w = Done ((out, effs), w')"
    and "manager_inv E (wo_manager w)" and "balancer_contract lb"
  obtains l rest where "effs = [Requests_inc l, Duration_observe l (tq_elapsed t)] @ rest"
    and "list_all (\<lambda>e. \<not> is_counting e) rest" and "length l = 6"
    and "well_logged A E checks waf_blocks lb app
      \<lparr>le_arrival = t, le_world = w, le_response = out, le_labels = l\<rparr>"
    and "manager_inv E (wo_manager w')"
proof -
  let ?exec = "router_execute (ae_http A) (tq_client t) lb"
  let ?ri = "request_info_of V (tq_conn_id t) (tq_timestamp t) (tq_request t)"
  obtain resp ctx tr where run: "app_serve A E checks waf_blocks ?exec app (Some context_default)
      (without_request_id (tq_request t)) w = Done ((resp, ctx, tr), w')"
    and mw: "middleware V (ap_metrics_state app) (tq_conn_id t) (tq_timestamp t) (tq_elapsed t)
      (app_service A E checks waf_blocks ?exec app w) (tq_request t) = (out, effs)"
    using assms(1) by (auto simp: serve_request_def Let_def and_then_Done_iff)
  let ?m = "response_meta_of V (tq_elapsed t) resp ctx"
  have served: "app_service A E checks waf_blocks ?exec app w (Some context_default)
      (without_request_id (tq_request t)) = Some (resp, ctx)"
    by (simp add: app_service_def run)
  have effs: "effs = logging_task V (ap_metrics_state app) ?ri (Some ?m)"
    and out: "out = Some (resp\<lparr>rs_retries := None, rs_error_cause := None\<rparr>)"
    using mw served by (auto simp: middleware_def Let_def)
  have dur: "rm_duration ?m = tq_elapsed t"
    by (simp add: response_meta_of_def)
  obtain rest where rest: "effs = [Requests_inc (meta_labels V ?ri ?m),
      Duration_observe (meta_labels V ?ri ?m) (tq_elapsed t)] @ rest"
    "list_all (\<lambda>e. \<not> is_counting e) rest"
    using logging_task_counts [where m = ?m and received = "Some ?m" and V = V
        and st = "ap_metrics_state app" and ri = ?ri] effs dur by auto
  have "meta_labels V ?ri ?m ! 4 = backend_label (case ctx of Some c \<Rightarrow> c | None \<Rightarrow> context_default)"
    by (simp add: meta_labels_def response_meta_of_def)
  with app_serve_label [OF run assms(2,3)] run out have
    "well_logged A E checks waf_blocks lb app
      \<lparr>le_arrival = t, le_world = w, le_response = out, le_labels = meta_labels V ?ri ?m\<rparr>"
    unfolding well_logged_def by force
  moreover have "length (meta_labels V ?ri ?m) = 6"
    by (simp add: meta_labels_def)
  ultimately show ?thesis
    using that rest app_serve_inv [OF run assms(2)] by blast
qed

text \<open>The account after some traffic, for metrics as \<open>Metrics::new\<close> makes them.\<close>

lemma registered_arity: "length (md_labels requests_desc) = 6" "length (md_labels duration_desc) = 6"
  by (simp_all add: requests_desc_def duration_desc_def LABELS_HTTP_def)

lemma traffic_account:
  assumes "traffic A E V checks waf_blocks lb app ts w s = Done (log, w', s')"
    and "manager_inv E (wo_manager w)" and "balancer_contract lb"
    and "ms_metrics (ap_metrics_state app) = registered"
  shows "manager_inv E (wo_manager w') \<and> map le_arrival log = ts \<and>
     list_all (well_logged A E checks waf_blocks lb app) log \<and>
     sa_requests s' = sa_requests s + mset (map le_labels log) \<and>
     sa_durations s' = sa_durations s + mset (map (\<lambda>e. (le_labels e, tq_elapsed (le_arrival e))) log)"
  using assms(1,2)
proof (induction ts arbitrary: w s log)
  case (Cons t ts)
  obtain out effs w1 s1 log1 where run: "serve_request A E V checks waf_blocks lb app t w = Done ((out, effs), w1)"
    and rec: "record_effects registered effs s = Done s1"
    and rest: "traffic A E V checks waf_blocks lb app ts w1 s1 = Done (log1, w', s')"
    and log: "log = \<lparr>le_arrival = t, le_world = w, le_response = out, le_labels = counted_labels effs\<rparr> # log1"
    using Cons.prems(1) assms(4) by (auto simp: and_then_Done_iff)
  obtain l others where l: "effs = [Requests_inc l, Duration_observe l (tq_elapsed t)] @ others"
    "list_all (\<lambda>e. \<not> is_counting e) others" "length l = 6"
    "well_logged A E checks waf_blocks lb app \<lparr>le_arrival = t, le_world = w, le_response = out, le_labels = l\<rparr>"
    "manager_inv E (wo_manager w1)"
    using serve_request_effects [OF run Cons.prems(2) assms(3)] by blast
  have s1: "s1 = s\<lparr>sa_requests := add_mset l (sa_requests s),
      sa_durations := add_mset (l, tq_elapsed t) (sa_durations s)\<rparr>"
    using rec l(2,3) unfolding l(1)
    by (simp add: with_label_values_def registered_arity record_other)
  show ?case
    using Cons.IH [OF rest l(5)] s1 l(4) by (simp add: log l(1))
qed simp

subsection \<open>Requests that are not for the API\<close>

lemma app_serve_proxied:
  assumes "authority_law (ae_http A)" and "hs_retry_attempts (ap_state app) \<noteq> 0"
    and "hs_retry_interval (ap_state app) * 2 ^ unat (hs_retry_attempts (ap_state app)) \<le> duration_max"
    and "\<not> for_api (ae_http A) app req" and "\<And>r n c q. completed (fst (execute r n c q))"
  shows "\<exists>resp ctx' tr. app_serve A E checks waf_blocks execute app ctx req w = Done ((resp, ctx', tr), w)"
proof (cases "if ap_waf app then waf_blocks req (wo_waf w) else None")
  case (Some b)
  then show ?thesis
    by (auto simp: app_serve_def)
next
  case None
  obtain resp ctx' tr where run: "handler (ae_http A) (ap_state app) checks (me_healthy E)
      (sy_manager (wo_manager w)) execute ctx req = Done (resp, ctx', tr)"
    using handler_answers [where execute = execute, OF assms(1-3,5)] by blast
  show ?thesis
    unfolding app_serve_def None option.case dispatch_def
    using run assms(4) by (auto simp: for_api_def split: option.split)
qed

lemma middleware_records:
  "\<exists>s'. record_effects registered (snd (middleware V st conn_id ts elapsed next_run req)) s = Done s'"
proof -
  have "\<exists>s'. record_effects registered (logging_task V st ri received) s = Done s'" for ri received
  proof -
    define m where "m = (case received of Some m \<Rightarrow> m | None \<Rightarrow> response_meta_default (mv_zero V))"
    obtain rest where "logging_task V st ri received =
        [Requests_inc (meta_labels V ri m), Duration_observe (meta_labels V ri m) (rm_duration m)] @ rest"
      "list_all (\<lambda>e. \<not> is_counting e) rest"
      using logging_task_counts [OF m_def] by blast
    then show ?thesis
      using labels_typed [of V ri m] by (simp add: with_label_values_def record_other)
  qed
  then show ?thesis
    by (auto simp: middleware_def Let_def split: option.split)
qed

lemma traffic_proxied:
  assumes "authority_law (ae_http A)" and "hs_retry_attempts (ap_state app) \<noteq> 0"
    and "hs_retry_interval (ap_state app) * 2 ^ unat (hs_retry_attempts (ap_state app)) \<le> duration_max"
    and "ms_metrics (ap_metrics_state app) = registered" and "balancer_contract lb"
    and "list_all (\<lambda>t. \<not> for_api (ae_http A) app (without_request_id (tq_request t))) ts"
    and "list_all (\<lambda>t. client_completes (tq_client t)) ts"
  shows "\<exists>log s'. traffic A E V checks waf_blocks lb app ts w s = Done (log, w, s') \<and>
     map le_arrival log = ts \<and> list_all (\<lambda>e. le_response e \<noteq> None) log"
  using assms(6,7)
proof (induction ts arbitrary: s)
  case (Cons t ts)
  let ?exec = "router_execute (ae_http A) (tq_client t) lb"
  have ends: "completed (fst (?exec r n c q))" for r n c q
  proof -
    have "client_completes (tq_client t)"
      using Cons.prems(2) by simp
    from router_execute_Done [OF assms(5) this, of "ae_http A" r n c q] show ?thesis
      by auto
  qed
  obtain resp ctx tr where run: "app_serve A E checks waf_blocks ?exec app (Some context_default)
      (without_request_id (tq_request t)) w = Done ((resp, ctx, tr), w)"
    using app_serve_proxied [OF assms(1-3) _ ends] Cons.prems(1) by fastforce
  let ?mw = "middleware V (ap_metrics_state app) (tq_conn_id t) (tq_timestamp t) (tq_elapsed t)
      (app_service A E checks waf_blocks ?exec app w) (tq_request t)"
  obtain s1 where s1: "record_effects registered (snd ?mw) s = Done s1"
    by (rule exE [OF middleware_records])
  have "serve_request A E V checks waf_blocks lb app t w = Done (?mw, w)"
    by (simp add: serve_request_def Let_def run)
  moreover obtain log s' where "traffic A E V checks waf_blocks lb app ts w s1 = Done (log, w, s')"
    "map le_arrival log = ts" "list_all (\<lambda>e. le_response e \<noteq> None) log"
    using Cons.IH [of s1] Cons.prems by auto
  moreover have "fst ?mw \<noteq> None"
    by (simp add: middleware_def Let_def app_service_def run)
  ultimately show ?case
    using s1 by (cases ?mw) (simp add: assms(4))
qed simp

end
