(* ===== verification/Manager_Queue.thy ===== *)
theory Manager_Queue
  imports Interleaving_Properties "HOL-Library.Sublist"
begin

section \<open>The queue of the configuration lock\<close>

text \<open>
  Many tasks at once: \<open>config: Mutex<Config>\<close> of \<open>BackendManager\<close> (\<open>src/backend.rs\<close>) is a tokio
  mutex, documented to serve its waiters in the order in which they asked for it. A request for
  the lock is one of three: to replace the configuration, to switch a backend, or to copy the
  configuration (\<open>get_config\<close> and the first step of \<open>persist_config\<close>). \<open>locked\<close> is what each does
  while it holds the lock; the relation \<open>queue_step\<close> lets requests arrive, the holder go on one
  step of \<open>apply_step\<close> at a time, and the future of any of them be dropped: of a task that waits
  for the lock, which leaves no trace, and of the holder at an await, which abandons its update
  half-way. The lemmas explain every such run by a sequential one: the log of the answered and
  the abandoned requests, taken one after the other in order of arrival (\<open>serially\<close>), gives the
  same replies and the same state, where an abandoned request has done the first steps of its own
  update and nothing more. Without abandoned ones this is linearizability with respect to
  \<open>locked_all\<close>. Writing and reading the configuration file happens outside the lock and is not part
  of these steps.
\<close>

subsection \<open>What is done under the lock\<close>

datatype lock_op = Replace config | Switch string bool | Copy

datatype lock_reply = Applied | Missing string | Copied config

fun locked :: "('h, 'b) mgr_env \<Rightarrow> lock_op \<Rightarrow> sys \<Rightarrow> (lock_reply \<times> sys) outcome" where
  "locked E (Replace c) s = and_then (apply_config E (with_config c s)) (\<lambda>s1. Done (Applied, s1))"
| "locked E (Switch n en) s =
     (case switch_backend n en (bm_config (sy_manager s)) of
        None \<Rightarrow> Done (Missing n, s)
      | Some c \<Rightarrow> and_then (apply_config E (with_config c s)) (\<lambda>s1. Done (Applied, s1)))"
| "locked E Copy s = Done (Copied (get_config s), s)"

fun locked_all :: "('h, 'b) mgr_env \<Rightarrow> lock_op list \<Rightarrow> sys \<Rightarrow> (lock_reply list \<times> sys) outcome" where
  "locked_all E [] s = Done ([], s)"
| "locked_all E (x # xs) s =
     and_then (locked E x s) (\<lambda>(r, s1). and_then (locked_all E xs s1) (\<lambda>(rs, s2). Done (r # rs, s2)))"

text \<open>The operations of the manager around their locked parts.\<close>

fun switch_result :: "lock_reply \<Rightarrow> error + unit" where
  "switch_result (Missing n) = Inl [''Backend not found: '' @ n]"
| "switch_result _ = Inr ()"

lemma set_config_locked:
  "set_config E c s =
     (if distinct (config_names c)
      then and_then (locked E (Replace c) s) (\<lambda>(r, s1). Done (Inr (), s1))
      else Done (Inl [''Non-unique backend names''], s))"
  by (cases "apply_config E (with_config c s)") (simp_all add: set_config_def)

lemma set_backend_state_locked:
  "set_backend_state E n en s =
     and_then (locked E (Switch n en) s) (\<lambda>(r, s1). Done (switch_result r, s1))"
proof (cases "switch_backend n en (bm_config (sy_manager s))")
  case (Some c)
  then show ?thesis
    by (cases "apply_config E (with_config c s)") (simp_all add: set_backend_state_def)
qed (simp add: set_backend_state_def)

text \<open>What the request installs, given the configuration it finds, or the reply it gives at once.\<close>

fun wanted :: "lock_op \<Rightarrow> config \<Rightarrow> config option" where
  "wanted (Replace c) _ = Some c"
| "wanted (Switch n en) old = switch_backend n en old"
| "wanted Copy _ = None"

fun at_once :: "lock_op \<Rightarrow> config \<Rightarrow> lock_reply" where
  "at_once (Replace c) _ = Applied"
| "at_once (Switch n en) _ = Missing n"
| "at_once Copy old = Copied old"

lemma locked_alt:
  "locked E x s =
     (case wanted x (bm_config (sy_manager s)) of
        Some c \<Rightarrow> and_then (apply_config E (with_config c s)) (\<lambda>s1. Done (Applied, s1))
      | None \<Rightarrow> Done (at_once x (bm_config (sy_manager s)), s))"
  by (cases x) (simp_all add: get_config_def split: option.split)

lemma locked_all_snoc:
  "locked_all E (xs @ [x]) s =
     and_then (locked_all E xs s) (\<lambda>(rs, s1).
       and_then (locked E x s1) (\<lambda>(r, s2). Done (rs @ [r], s2)))"
proof (induction xs arbitrary: s)
  case Nil
  then show ?case
    by (cases "locked E x s") auto
next
  case (Cons y ys)
  show ?case
  proof (cases "locked E y s")
    case (Done p)
    then show ?thesis
      by (cases p; cases "locked_all E ys (snd p)") (auto simp: Cons and_then_assoc split_beta)
  qed simp_all
qed

subsection \<open>The queue\<close>

type_synonym waiter = "nat \<times> lock_op"

text \<open>\<open>qu_arrived\<close>: every request so far; \<open>qu_waiting\<close>: those not yet served; \<open>qu_current\<close>: the
  holder; \<open>qu_log\<close>: the requests that are through, in the order in which they were, with the reply,
  or with \<open>None\<close> when the task was dropped while it held the lock.\<close>

type_synonym lock_log = "(waiter \<times> lock_reply option) list"

record queue_state =
  qu_core :: cstate
  qu_arrived :: "waiter list"
  qu_waiting :: "waiter list"
  qu_current :: "waiter option"
  qu_log :: lock_log

fun answers :: "lock_log \<Rightarrow> (waiter \<times> lock_reply) list" where
  "answers [] = []"
| "answers ((x, Some r) # l) = (x, r) # answers l"
| "answers ((x, None) # l) = answers l"

definition qu_answered :: "queue_state \<Rightarrow> (waiter \<times> lock_reply) list" where
  "qu_answered q = answers (qu_log q)"

lemma answers_append [simp]: "answers (l @ l') = answers l @ answers l'"
  by (induction l rule: answers.induct) simp_all

lemma answers_subseq: "subseq (map fst (answers l)) (map fst l)"
  by (induction l rule: answers.induct) auto

lemma answers_all: "\<forall>e \<in> set l. snd e \<noteq> None \<Longrightarrow> map fst (answers l) = map fst l"
  by (induction l rule: answers.induct) simp_all

text \<open>Serving: the first in the queue takes the free lock, and either has its answer at once or
  goes through \<open>apply\<close>, at whose end it is answered.\<close>

inductive serve_step :: "('h, 'b) mgr_env \<Rightarrow> queue_state \<Rightarrow> queue_state \<Rightarrow> bool" for E where
  take_lock: "cs_lock (qu_core q) = None \<Longrightarrow> qu_waiting q = x # rest \<Longrightarrow>
     wanted (snd x) (cs_config (qu_core q)) = Some c \<Longrightarrow>
     serve_step E q (q\<lparr>qu_core := started c (qu_core q), qu_waiting := rest, qu_current := Some x\<rparr>)"
| reply_at_once: "cs_lock (qu_core q) = None \<Longrightarrow> qu_waiting q = x # rest \<Longrightarrow>
     wanted (snd x) (cs_config (qu_core q)) = None \<Longrightarrow>
     serve_step E q (q\<lparr>qu_waiting := rest,
       qu_log := qu_log q @ [(x, Some (at_once (snd x) (cs_config (qu_core q))))]\<rparr>)"
| go_on: "apply_step E (qu_core q) t \<Longrightarrow> cs_lock t \<noteq> None \<Longrightarrow> serve_step E q (q\<lparr>qu_core := t\<rparr>)"
| release: "apply_step E (qu_core q) t \<Longrightarrow> cs_lock t = None \<Longrightarrow> qu_current q = Some x \<Longrightarrow>
     serve_step E q (q\<lparr>qu_core := t, qu_current := None,
       qu_log := qu_log q @ [(x, Some Applied)]\<rparr>)"

text \<open>Around it: a task asks for the lock (to replace the configuration only after the names were
  found unique), is dropped while it waits for it, or is dropped while it holds it.\<close>

fun asks :: "lock_op \<Rightarrow> bool" where
  "asks (Replace c) = distinct (config_names c)"
| "asks _ = True"

inductive queue_step :: "('h, 'b) mgr_env \<Rightarrow> queue_state \<Rightarrow> queue_state \<Rightarrow> bool" for E where
  arrive: "asks (snd x) \<Longrightarrow>
     queue_step E q (q\<lparr>qu_arrived := qu_arrived q @ [x], qu_waiting := qu_waiting q @ [x]\<rparr>)"
| give_up: "qu_waiting q = before @ x # after \<Longrightarrow> queue_step E q (q\<lparr>qu_waiting := before @ after\<rparr>)"
| abandon: "cancel_step (qu_core q) t \<Longrightarrow> qu_current q = Some x \<Longrightarrow>
     queue_step E q (q\<lparr>qu_core := t, qu_current := None, qu_log := qu_log q @ [(x, None)]\<rparr>)"
| serve: "serve_step E q t \<Longrightarrow> queue_step E q t"

definition queue_start :: "cstate \<Rightarrow> queue_state" where
  "queue_start c = \<lparr>qu_core = c, qu_arrived = [], qu_waiting = [], qu_current = None, qu_log = []\<rparr>"

subsection \<open>The sequential explanation\<close>

text \<open>Nobody holds the lock.\<close>

definition idle :: "config list \<Rightarrow> sys \<Rightarrow> cstate" where
  "idle p s = \<lparr>cs_sys = s, cs_lock = None, cs_pending = p\<rparr>"

text \<open>\<open>midway E x s t\<close>: the request \<open>x\<close>, alone on a manager in state \<open>s\<close>, has begun its update and
  stands at \<open>t\<close>. \<open>left_at E x s u\<close>: dropped at an await of its update, it leaves the state \<open>u\<close>.\<close>

definition midway :: "('h, 'b) mgr_env \<Rightarrow> lock_op \<Rightarrow> sys \<Rightarrow> cstate \<Rightarrow> bool" where
  "midway E x s t \<longleftrightarrow>
     (\<exists>c p. wanted x (bm_config (sy_manager s)) = Some c \<and> (apply_step E)\<^sup>*\<^sup>* (started c (idle p s)) t)"

definition left_at :: "('h, 'b) mgr_env \<Rightarrow> lock_op \<Rightarrow> sys \<Rightarrow> sys \<Rightarrow> bool" where
  "left_at E x s u \<longleftrightarrow> (\<exists>t v. midway E x s t \<and> cancel_step t v \<and> u = cs_sys v)"

text \<open>The requests of a log, one after the other.\<close>

inductive serially :: "('h, 'b) mgr_env \<Rightarrow> sys \<Rightarrow> lock_log \<Rightarrow> sys \<Rightarrow> bool" for E s where
  nothing: "serially E s [] s"
| answered: "serially E s l s1 \<Longrightarrow> locked E (snd x) s1 = Done (r, s2) \<Longrightarrow>
     serially E s (l @ [(x, Some r)]) s2"
| abandoned: "serially E s l s1 \<Longrightarrow> left_at E (snd x) s1 s2 \<Longrightarrow> serially E s (l @ [(x, None)]) s2"

text \<open>When none is abandoned, this is the run of the operations themselves.\<close>

lemma serially_locked_all:
  "serially E s l s1 \<Longrightarrow> \<forall>e \<in> set l. snd e \<noteq> None \<Longrightarrow>
     locked_all E (map (snd \<circ> fst) (answers l)) s = Done (map snd (answers l), s1)"
  by (induction rule: serially.induct) (simp_all add: locked_all_snoc)

text \<open>The line as it stands: through, being served, waiting; and those of it who are or can still be
  answered.\<close>

definition line_with :: "waiter list \<Rightarrow> queue_state \<Rightarrow> waiter list" where
  "line_with xs q = xs @ (case qu_current q of Some x \<Rightarrow> [x] | None \<Rightarrow> []) @ qu_waiting q"

definition in_line :: "queue_state \<Rightarrow> waiter list" where
  "in_line q = line_with (map fst (qu_answered q)) q"

definition served_line :: "queue_state \<Rightarrow> waiter list" where
  "served_line q = line_with (map fst (qu_log q)) q"

text \<open>The holder stands where it would stand alone, started from \<open>s\<close>.\<close>

definition serving :: "('h, 'b) mgr_env \<Rightarrow> queue_state \<Rightarrow> sys \<Rightarrow> bool" where
  "serving E q s \<longleftrightarrow>
     (case qu_current q of
        None \<Rightarrow> cs_lock (qu_core q) = None \<and> cs_sys (qu_core q) = s
      | Some x \<Rightarrow> cs_lock (qu_core q) \<noteq> None \<and> midway E (snd x) s (qu_core q))"

definition queue_inv :: "('h, 'b) mgr_env \<Rightarrow> sys \<Rightarrow> queue_state \<Rightarrow> bool" where
  "queue_inv E s0 q \<longleftrightarrow>
     subseq (served_line q) (qu_arrived q) \<and> (\<exists>s. serially E s0 (qu_log q) s \<and> serving E q s)"

lemma idle_sel [simp]: "cs_sys (idle p s) = s" "cs_lock (idle p s) = None" "cs_pending (idle p s) = p"
  by (simp_all add: idle_def)

lemma idle_eq: "cs_lock c = None \<Longrightarrow> idle (cs_pending c) (cs_sys c) = c"
  by (simp add: idle_def)

lemma midway_start:
  "cs_lock t = None \<Longrightarrow> wanted x (cs_config t) = Some c \<Longrightarrow> midway E x (cs_sys t) (started c t)"
  unfolding midway_def by (metis idle_eq rtranclp.rtrancl_refl)

lemma midway_step: "midway E x s t \<Longrightarrow> apply_step E t u \<Longrightarrow> midway E x s u"
  unfolding midway_def by (blast intro: rtranclp.rtrancl_into_rtrancl)

lemma midway_finish:
  assumes "midway E x s t"
  obtains c where "wanted x (bm_config (sy_manager s)) = Some c" and "cs_config t = c"
    and "finish E (cs_lock t) (cs_sys t) = apply_config E (with_config c s)"
proof -
  obtain c p where c: "wanted x (bm_config (sy_manager s)) = Some c"
    and run: "(apply_step E)\<^sup>*\<^sup>* (started c (idle p s)) t"
    using assms by (auto simp: midway_def)
  show thesis
    using apply_steps_finish [OF run] apply_run_frame [OF run] finish_start [of E "with_config c s"]
    by (intro that [OF c]) simp_all
qed

lemma midway_end:
  assumes "midway E x s t" and "cs_lock t = None"
  shows "locked E x s = Done (Applied, cs_sys t)"
proof -
  obtain c where "wanted x (bm_config (sy_manager s)) = Some c"
    and "finish E (cs_lock t) (cs_sys t) = apply_config E (with_config c s)"
    using assms(1) by (rule midway_finish)
  then have "apply_config E (with_config c s) = Done (cs_sys t)" "wanted x (bm_config (sy_manager s)) = Some c"
    using assms(2) by simp_all
  then show ?thesis
    by (simp add: locked_alt)
qed

lemma left_at_config:
  "left_at E x s u \<Longrightarrow> wanted x (bm_config (sy_manager s)) = Some (bm_config (sy_manager u))"
  by (auto simp: left_at_def elim!: cancel_step_E elim: midway_finish)

lemma queue_start_inv: "cs_lock c = None \<Longrightarrow> queue_inv E (cs_sys c) (queue_start c)"
  by (simp add: queue_inv_def queue_start_def served_line_def line_with_def serving_def serially.nothing)

lemma apply_step_lock: "apply_step E s t \<Longrightarrow> cs_lock s \<noteq> None"
  by (erule apply_step.cases) simp_all

lemma serving_free: "serving E q s \<Longrightarrow> cs_lock (qu_core q) = None \<Longrightarrow> qu_current q = None \<and> cs_sys (qu_core q) = s"
  by (simp add: serving_def split: option.splits)

lemma serve_step_inv:
  assumes "queue_inv E s0 q" and "serve_step E q t"
  shows "queue_inv E s0 t"
proof -
  obtain s where line: "subseq (served_line q) (qu_arrived q)" and s: "serially E s0 (qu_log q) s" "serving E q s"
    using assms(1) by (auto simp: queue_inv_def)
  show ?thesis
    using assms(2)
  proof (cases rule: serve_step.cases)
    case (take_lock x rest c)
    note free = serving_free [OF s(2) take_lock(2)]
    have "serving E t s"
      using take_lock free midway_start [OF take_lock(2,4)] by (simp add: serving_def)
    then show ?thesis
      using line s take_lock free by (auto simp: queue_inv_def served_line_def line_with_def)
  next
    case (reply_at_once x rest)
    note free = serving_free [OF s(2) reply_at_once(2)]
    have "serially E s0 (qu_log t) s"
      using answered [OF s(1)] reply_at_once free by (simp add: locked_alt)
    moreover have "serving E t s"
      using reply_at_once free by (simp add: serving_def)
    ultimately show ?thesis
      using line reply_at_once free by (auto simp: queue_inv_def served_line_def line_with_def)
  next
    case (go_on u)
    then have "serving E t s"
      using s(2) apply_step_lock [OF go_on(2)] midway_step [OF _ go_on(2)]
      by (auto simp: serving_def split: option.splits)
    then show ?thesis
      using line s(1) go_on(1) by (auto simp: queue_inv_def served_line_def line_with_def)
  next
    case (release u x)
    have "midway E (snd x) s u"
      using s(2) release(4) midway_step [OF _ release(2)] by (simp add: serving_def)
    then have "serially E s0 (qu_log t) (cs_sys u)"
      using release(1) by (simp add: answered [OF s(1) midway_end [OF _ release(3)]])
    then show ?thesis
      using line release by (auto simp: queue_inv_def served_line_def line_with_def serving_def)
  qed
qed

lemma cancel_step_lock: "cancel_step s t \<Longrightarrow> cs_lock t = None"
  by (erule cancel_step_E) simp_all

lemma queue_step_inv:
  assumes "queue_inv E s0 q" and "queue_step E q t"
  shows "queue_inv E s0 t"
  using assms(2)
proof (cases rule: queue_step.cases)
  case (arrive x)
  have "served_line t = served_line q @ [x]"
    using arrive by (simp add: served_line_def line_with_def)
  then show ?thesis
    using assms(1) arrive by (auto simp: queue_inv_def serving_def cong: option.case_cong)
next
  case (give_up before x after)
  have "subseq (served_line t) (served_line q)"
    using give_up by (auto simp: served_line_def line_with_def intro!: list_emb_append_mono)
  then show ?thesis
    using assms(1) give_up
    by (auto simp: queue_inv_def serving_def cong: option.case_cong intro: subseq_order.trans)
next
  case (abandon u x)
  obtain s where s: "serially E s0 (qu_log q) s" "midway E (snd x) s (qu_core q)"
    using assms(1) abandon(3) by (auto simp: queue_inv_def serving_def)
  have "serially E s0 (qu_log q @ [(x, None)]) (cs_sys u)"
    by (rule abandoned [OF s(1)]) (use s(2) abandon(2) in \<open>auto simp: left_at_def\<close>)
  then show ?thesis
    using assms(1) abandon cancel_step_lock [OF abandon(2)]
    by (auto simp: queue_inv_def serving_def served_line_def line_with_def)
next
  case serve
  then show ?thesis
    by (blast intro: serve_step_inv [OF assms(1)])
qed

interpretation lock_queue: transition_system
  "\<lambda>q. cs_lock c = None \<and> q = queue_start c" "queue_step E" "queue_inv E (cs_sys c)" for E c
  by unfold_locales (auto intro: queue_start_inv queue_step_inv)


subsection \<open>Progress\<close>

text \<open>Nine steps for a waiting request, and those the holder has left.\<close>

definition queue_size :: "queue_state \<Rightarrow> nat" where
  "queue_size q = 9 * length (qu_waiting q) + todo (cs_lock (qu_core q))"

lemma serve_step_size: "serve_step E q t \<Longrightarrow> queue_size t < queue_size q"
proof (erule serve_step.cases)
  fix qa u x
  assume "q = qa" "t = qa\<lparr>qu_core := u, qu_current := None, qu_log := qu_log qa @ [(x, Some Applied)]\<rparr>"
    and "apply_step E (qu_core qa) u"
  then show ?thesis
    using apply_step_todo [of E "qu_core qa" u] by (simp add: queue_size_def)
qed (auto simp: queue_size_def dest: apply_step_todo)

lemma serve_run_length: "(serve_step E ^^ n) q t \<Longrightarrow> n + queue_size t \<le> queue_size q"
proof (induction n arbitrary: t)
  case (Suc n)
  then obtain u where "(serve_step E ^^ n) q u" and "serve_step E u t"
    by auto
  with Suc.IH [of u] serve_step_size [of E u t] show ?case
    by simp
qed simp

lemma todo_le: "todo pc \<le> 8"
  by (induction pc rule: todo.induct) simp_all

lemma serve_run_queue: "(serve_step E ^^ n) q t \<Longrightarrow> (queue_step E)\<^sup>*\<^sup>* q t"
  by (induction n arbitrary: t) (auto intro: rtranclp.rtrancl_into_rtrancl serve)

lemma serve_run_arrived: "(serve_step E ^^ n) q t \<Longrightarrow> qu_arrived t = qu_arrived q"
  by (induction n arbitrary: t) (auto elim!: serve_step.cases)

text \<open>Configurations all of whose URLs can be used, enabled or not.\<close>

definition urls_ok :: "('h, 'b) mgr_env \<Rightarrow> config \<Rightarrow> bool" where
  "urls_ok E c = list_all (url_ok (me_http E)) (cf_backends c @ fallback_list c)"

fun op_urls_ok :: "('h, 'b) mgr_env \<Rightarrow> lock_op \<Rightarrow> bool" where
  "op_urls_ok E (Replace c) = urls_ok E c"
| "op_urls_ok E _ = True"

lemma urls_ok_enabled:
  "urls_ok E c \<Longrightarrow> \<forall>b \<in> set (enabled_backends c) \<union> set (enabled_fallback c). url_ok (me_http E) b"
  by (auto simp: urls_ok_def list_all_iff enabled_backends_def enabled_fallback_def)

lemma url_ok_enabled [simp]: "url_ok H (b\<lparr>bc_enabled := en\<rparr>) = url_ok H b"
  by (simp add: url_ok_def)

lemma update_first_all:
  assumes "update_first P f xs = Some ys" and "list_all Q xs" and "\<And>x. Q x \<Longrightarrow> Q (f x)"
  shows "list_all Q ys"
  using assms(1,2) by (induction xs arbitrary: ys) (auto split: if_splits intro: assms(3))

lemma wanted_urls_ok:
  "wanted x old = Some c \<Longrightarrow> op_urls_ok E x \<Longrightarrow> urls_ok E old \<Longrightarrow> urls_ok E c"
  by (cases x) (auto simp: urls_ok_def switch_backend_def fallback_list_def intro: update_first_all)

lemma locked_urls_ok:
  assumes "locked E x s = Done (r, s1)" and "op_urls_ok E x" and "urls_ok E (bm_config (sy_manager s))"
  shows "urls_ok E (bm_config (sy_manager s1))"
proof (cases "wanted x (bm_config (sy_manager s))")
  case None
  with assms show ?thesis
    by (simp add: locked_alt)
next
  case (Some c)
  then have "apply_config E (with_config c s) = Done s1"
    using assms(1) by (auto simp: locked_alt and_then_Done_iff)
  from apply_config_frame(1) [OF this] wanted_urls_ok [OF Some assms(2,3)] show ?thesis
    by simp
qed

lemma serially_urls_ok:
  "serially E s l s1 \<Longrightarrow> list_all (op_urls_ok E \<circ> snd \<circ> fst) l \<Longrightarrow>
     urls_ok E (bm_config (sy_manager s)) \<Longrightarrow> urls_ok E (bm_config (sy_manager s1))"
proof (induction rule: serially.induct)
  case (answered l s1 x r s2)
  then show ?case
    by (intro locked_urls_ok [OF answered.hyps(2)]) simp_all
next
  case (abandoned l s1 x s2)
  then show ?case
    by (intro wanted_urls_ok [OF left_at_config [OF abandoned.hyps(2)]]) simp_all
qed

text \<open>As long as somebody is served or waits, the service goes on.\<close>

lemma serve_step_enabled:
  assumes "queue_inv E s0 q" and "env_live E"
    and "list_all (op_urls_ok E \<circ> snd) (qu_arrived q)" and "urls_ok E (bm_config (sy_manager s0))"
    and "qu_waiting q \<noteq> [] \<or> qu_current q \<noteq> None"
  shows "\<exists>t. serve_step E q t"
proof -
  obtain s where line: "set (served_line q) \<subseteq> set (qu_arrived q)"
    and s: "serially E s0 (qu_log q) s" "serving E q s"
    using assms(1) by (auto simp: queue_inv_def elim: list_emb_set)
  have ok: "op_urls_ok E (snd x)" if "x \<in> set (served_line q)" for x
    using that line assms(3) by (auto simp: list_all_iff)
  have "list_all (op_urls_ok E \<circ> snd \<circ> fst) (qu_log q)"
    using ok by (auto simp: list_all_iff served_line_def line_with_def)
  then have ok_s: "urls_ok E (bm_config (sy_manager s))"
    using serially_urls_ok [OF s(1)] assms(4) by blast
  show ?thesis
  proof (cases "qu_current q")
    case None
    with s(2) assms(5) obtain x rest where "cs_lock (qu_core q) = None" "qu_waiting q = x # rest"
      by (cases "qu_waiting q") (auto simp: serving_def)
    then show ?thesis
      by (cases "wanted (snd x) (cs_config (qu_core q))") (blast intro: take_lock reply_at_once)+
  next
    case (Some x)
    with s(2) have held: "cs_lock (qu_core q) \<noteq> None" "midway E (snd x) s (qu_core q)"
      by (simp_all add: serving_def)
    obtain c where c: "wanted (snd x) (bm_config (sy_manager s)) = Some c"
      "finish E (cs_lock (qu_core q)) (cs_sys (qu_core q)) = apply_config E (with_config c s)"
      by (rule midway_finish [OF held(2)])
    have "urls_ok E c"
      by (rule wanted_urls_ok [OF c(1) _ ok_s]) (use ok Some in \<open>simp add: served_line_def line_with_def\<close>)
    then obtain s' where "apply_config E (with_config c s) = Done s'"
      using apply_config_total [of "with_config c s" E] urls_ok_enabled assms(2) by auto
    then obtain t where t: "apply_step E (qu_core q) t"
      using apply_step_enabled [of E "qu_core q"] held(1) c(2) by auto
    show ?thesis
      by (cases "cs_lock t = None") (use t Some in \<open>blast intro: go_on release\<close>)+
  qed
qed


lemma serve_step_line:
  assumes "queue_inv E s0 q" and "serve_step E q t"
  shows "in_line t = in_line q"
proof -
  obtain s where s: "serving E q s"
    using assms(1) by (auto simp: queue_inv_def)
  show ?thesis
    using assms(2) serving_free [OF s] by (cases rule: serve_step.cases) (auto simp: in_line_def line_with_def qu_answered_def)
qed

lemma serve_run_line:
  "(serve_step E ^^ n) q t \<Longrightarrow> queue_inv E s0 q \<Longrightarrow> in_line t = in_line q \<and> queue_inv E s0 t"
proof (induction n arbitrary: t)
  case (Suc n)
  then obtain u where "(serve_step E ^^ n) q u" and step: "serve_step E u t"
    by auto
  then have "in_line u = in_line q \<and> queue_inv E s0 u"
    using Suc by blast
  with step show ?case
    by (metis serve_step_line serve_step_inv)
qed simp

text \<open>Nobody is left in the queue: all have been answered.\<close>

definition drained :: "queue_state \<Rightarrow> bool" where
  "drained q \<longleftrightarrow> qu_waiting q = [] \<and> qu_current q = None"

lemma drained_line: "drained q \<Longrightarrow> map fst (qu_answered q) = in_line q"
  by (simp add: drained_def in_line_def line_with_def)

lemma serve_run_drains:
  assumes "queue_inv E s0 q" and "env_live E"
    and "list_all (op_urls_ok E \<circ> snd) (qu_arrived q)" and "urls_ok E (bm_config (sy_manager s0))"
  shows "\<exists>n t. (serve_step E ^^ n) q t \<and> drained t"
  using assms(1,3)
proof (induction "queue_size q" arbitrary: q rule: less_induct)
  case less
  show ?case
  proof (cases "drained q")
    case True
    then show ?thesis
      by (intro exI [of _ 0]) auto
  next
    case False
    then obtain u where u: "serve_step E q u"
      using serve_step_enabled [OF less.prems(1) assms(2) less.prems(2) assms(4)] by (auto simp: drained_def)
    have "qu_arrived u = qu_arrived q"
      using u by (auto elim: serve_step.cases)
    then obtain n t where "(serve_step E ^^ n) u t" "drained t"
      using less.hyps [OF serve_step_size [OF u] serve_step_inv [OF less.prems(1) u]] less.prems(2) by auto
    with u show ?thesis
      by (meson relpowp_Suc_I2)
  qed
qed

end
