(* ===== verification/Queue_Properties.thy ===== *)
theory Queue_Properties
  imports Manager_Queue
begin

section \<open>Properties of the lock's queue\<close>

text \<open>
  The manager under any number of tasks is linearizable, and its queue drains. The witnesses run
  an upload and a read that arrive while nobody holds the lock.
\<close>

subsection \<open>A concrete queue\<close>

definition sample_line :: "waiter list" where
  "sample_line = [(1, Replace config_a), (2, Copy)]"

definition sample_queue :: queue_state where
  "sample_queue = (queue_start sample_start)\<lparr>qu_arrived := sample_line, qu_waiting := sample_line\<rparr>"

lemma sample_queue_reachable: "(queue_step sample_env)\<^sup>*\<^sup>* (queue_start sample_start) sample_queue"
proof -
  let ?q0 = "queue_start sample_start"
  let ?q1 = "?q0\<lparr>qu_arrived := [(1, Replace config_a)], qu_waiting := [(1, Replace config_a)]\<rparr>"
  have "queue_step sample_env ?q0 ?q1"
    using arrive [of "(1, Replace config_a)" sample_env ?q0] by (simp add: queue_start_def)
  moreover have "queue_step sample_env ?q1 sample_queue"
    using arrive [of "(2, Copy)" sample_env ?q1] by (simp add: sample_queue_def sample_line_def)
  ultimately show ?thesis
    by (blast intro: converse_rtranclp_into_rtranclp)
qed

lemma sample_queue_urls:
  "urls_ok sample_env (cs_config sample_start)"
  "list_all (op_urls_ok sample_env \<circ> snd) (qu_arrived sample_queue)"
  by (simp_all add: sample_queue_def sample_line_def sample_start_def sample_sys_def sys_new_def
      manager_new_def config_default_def urls_ok_def fallback_list_def config_a_def sample_url_ok)

lemma sample_free [simp]: "cs_lock sample_start = None" "cs_sys sample_start = sample_sys"
  by (simp_all add: sample_start_def)

lemma sample_queue_inv: "queue_inv sample_env sample_sys sample_queue"
  using lock_queue.reachable_inv [of sample_start, OF _ sample_queue_reachable] by simp

lemma sample_in_line: "in_line sample_queue = sample_line"
  by (simp add: in_line_def line_with_def qu_answered_def sample_queue_def queue_start_def)

subsection \<open>Linearizability\<close>

text \<open>An upload dropped while it waits for its routers, and a read served after it.\<close>

lemma abandoned_run:
  "\<exists>q. (queue_step sample_env)\<^sup>*\<^sup>* (queue_start sample_start) q \<and> cs_lock (qu_core q) = None \<and>
     qu_log q = [((1, Replace config_a), None), ((2, Copy), Some (Copied config_a))]"
proof -
  obtain r where r: "apply_step sample_env (started config_a sample_start) (sample_built r)"
    using sample_built_step by blast
  let ?q1 = "sample_queue\<lparr>qu_core := started config_a sample_start, qu_waiting := [(2, Copy)],
     qu_current := Some (1, Replace config_a)\<rparr>"
  let ?q2 = "?q1\<lparr>qu_core := sample_built r\<rparr>"
  let ?q3 = "?q2\<lparr>qu_core := (sample_built r)\<lparr>cs_lock := None\<rparr>, qu_current := None,
     qu_log := [((1, Replace config_a), None)]\<rparr>"
  let ?q4 = "?q3\<lparr>qu_waiting := [],
     qu_log := [((1, Replace config_a), None), ((2, Copy), Some (Copied config_a))]\<rparr>"
  have "queue_step sample_env sample_queue ?q1"
    using take_lock [of sample_queue "(1, Replace config_a)" "[(2, Copy)]" config_a sample_env]
    by (intro serve) (simp add: sample_queue_def sample_line_def queue_start_def)
  moreover have "queue_step sample_env ?q1 ?q2"
    using go_on [of sample_env ?q1 "sample_built r"] r by (intro serve) (simp add: sample_built_def)
  moreover have "queue_step sample_env ?q2 ?q3"
    using abandon [of ?q2 "(sample_built r)\<lparr>cs_lock := None\<rparr>" "(1, Replace config_a)" sample_env]
      cancel_wait [of "sample_built r" Main r]
    by (simp add: sample_queue_def queue_start_def) (simp add: sample_built_def)
  moreover have "queue_step sample_env ?q3 ?q4"
    using reply_at_once [of ?q3 "(2, Copy)" "[]" sample_env]
    by (intro serve) (simp add: sample_built_def)
  ultimately have "(queue_step sample_env)\<^sup>*\<^sup>* sample_queue ?q4"
    by (blast intro: converse_rtranclp_into_rtranclp)
  then show ?thesis
    using sample_queue_reachable by (intro exI [of _ ?q4]) (simp add: rtranclp_trans)
qed

text \<open>C2: whatever tasks that want the configuration lock are interleaved, and whichever of them are
  dropped, while they wait for the lock or while they hold it, the run is explained by a sequential
  one: those that got the lock, taken in the order of their arrival one after the other, give the
  replies that were given and the state the manager is in whenever the lock is free, where a task
  dropped while it held the lock has done the first steps of its own update and left the manager as
  it stood at one of its awaits. If none was dropped there, the manager is linearizable: replies and
  state are those of the whole operations run one after the other.\<close>

theorem lock_queue_linearizable:
  assumes "cs_lock c = None" and "(queue_step E)\<^sup>*\<^sup>* (queue_start c) q"
  shows "\<exists>s. serially E (cs_sys c) (qu_log q) s \<and>
     subseq (map fst (qu_log q)) (qu_arrived q) \<and>
     (cs_lock (qu_core q) = None \<longrightarrow> cs_sys (qu_core q) = s) \<and>
     ((\<forall>e \<in> set (qu_log q). snd e \<noteq> None) \<longrightarrow>
        map fst (qu_answered q) = map fst (qu_log q) \<and>
        locked_all E (map (snd \<circ> fst) (qu_answered q)) (cs_sys c) = Done (map snd (qu_answered q), s))"
proof -
  obtain s where line: "subseq (served_line q) (qu_arrived q)"
    and s: "serially E (cs_sys c) (qu_log q) s" "serving E q s"
    using lock_queue.reachable_inv [OF _ assms(2)] assms(1) by (auto simp: queue_inv_def)
  have "subseq (map fst (qu_log q)) (served_line q)"
    unfolding served_line_def line_with_def using subseq_rev_drop_many by blast
  with line have "subseq (map fst (qu_log q)) (qu_arrived q)"
    by (blast intro: subseq_order.trans)
  then show ?thesis
    using s serving_free [OF s(2)] serially_locked_all [OF s(1)] answers_all [of "qu_log q"]
    by (auto simp: qu_answered_def)
qed

theorem lock_queue_linearizable_witness:
  "\<exists>q s. (queue_step sample_env)\<^sup>*\<^sup>* (queue_start sample_start) q \<and>
     qu_log q = [((1, Replace config_a), None), ((2, Copy), Some (Copied config_a))] \<and>
     serially sample_env sample_sys (qu_log q) s \<and> cs_sys (qu_core q) = s"
proof -
  obtain q where q: "(queue_step sample_env)\<^sup>*\<^sup>* (queue_start sample_start) q" "cs_lock (qu_core q) = None"
    "qu_log q = [((1, Replace config_a), None), ((2, Copy), Some (Copied config_a))]"
    using abandoned_run by blast
  with lock_queue_linearizable [OF _ q(1)] show ?thesis
    by auto
qed

subsection \<open>The queue drains\<close>

text \<open>C20: nobody waits for ever: when health states are reported, routers stop and all URLs
  submitted are usable, serving the queue takes at most nine steps for each waiting task and eight
  for the holder, whoever cannot be served further has left nobody behind, and all of the line
  has then been answered.\<close>

theorem lock_queue_drains:
  assumes "env_live E" and "cs_lock c = None" and "(queue_step E)\<^sup>*\<^sup>* (queue_start c) q"
    and "urls_ok E (cs_config c)" and "list_all (op_urls_ok E \<circ> snd) (qu_arrived q)"
    and "(serve_step E ^^ n) q t"
  shows "n \<le> 9 * length (qu_waiting q) + 8 \<and>
     (drained t \<and> map fst (qu_answered t) = in_line q \<or> (\<exists>u. serve_step E t u))"
proof -
  have inv: "queue_inv E (cs_sys c) q"
    using lock_queue.reachable_inv [OF _ assms(3)] assms(2) by simp
  note t = serve_run_line [OF assms(6) inv]
  have "n \<le> 9 * length (qu_waiting q) + 8"
    using serve_run_length [OF assms(6)] todo_le [of "cs_lock (qu_core q)"] by (simp add: queue_size_def)
  moreover have "\<exists>u. serve_step E t u" if "\<not> drained t"
    using that serve_step_enabled [of E "cs_sys c" t] t assms(1,4,5) serve_run_arrived [OF assms(6)]
    by (auto simp: drained_def)
  ultimately show ?thesis
    using t drained_line [of t] by metis
qed

theorem lock_queue_drains_witness:
  "\<exists>n t. (serve_step sample_env ^^ n) sample_queue t \<and> n \<le> 26 \<and>
     (map fst (qu_answered t) = sample_line \<or> (\<exists>u. serve_step sample_env t u))"
proof -
  obtain n t where run: "(serve_step sample_env ^^ n) sample_queue t" and d: "drained t"
    using serve_run_drains [OF sample_queue_inv sample_env_live sample_queue_urls(2)]
      sample_queue_urls(1) by auto
  have "length (qu_waiting sample_queue) = 2"
    by (simp add: sample_queue_def sample_line_def)
  with lock_queue_drains [OF sample_env_live _ sample_queue_reachable sample_queue_urls run] run show ?thesis
    by (auto simp: sample_in_line)
qed

end
