(* ===== verification/Handler_Reference.thy ===== *)
theory Handler_Reference
  imports Routing_Properties
begin

section \<open>A closed form of the retry loop\<close>

text \<open>
  What the retry loop of the request handler (\<open>src/routing.rs\<close>) comes to, without a loop, a counter
  or a running delay. The result of each attempt, the request context it starts with and the pause
  after it are functions of its number; one attempt decides, the first that does not fail or else
  the last one allowed; and the trace is the list of the attempts before it with their pauses. The
  theorem at the end shows that the loop computes exactly that, also when an attempt never returns.
\<close>

subsection \<open>The attempts\<close>

definition context_before :: "('h, 'b) exec \<Rightarrow> ('h, 'b) request \<Rightarrow> scope \<Rightarrow> nat \<Rightarrow> scope" where
  "context_before exec req ctx i = fold (\<lambda>j c. snd (exec j c req)) [0..<i] ctx"

definition result_of ::
  "('h, 'b) exec \<Rightarrow> ('h, 'b) request \<Rightarrow> scope \<Rightarrow> nat \<Rightarrow> (lb_error + ('h, 'b) response) outcome" where
  "result_of exec req ctx i = fst (exec i (context_before exec req ctx i) req)"

text \<open>An attempt that a backend's error ended, and how many of them came before attempt \<open>i\<close>.\<close>

definition request_error :: "(lb_error + 'r) outcome \<Rightarrow> bool" where
  "request_error res = (case res of Done (Inl (Inner _)) \<Rightarrow> True | _ \<Rightarrow> False)"

definition request_errors :: "('h, 'b) exec \<Rightarrow> ('h, 'b) request \<Rightarrow> scope \<Rightarrow> nat \<Rightarrow> nat" where
  "request_errors exec req ctx i = length (filter (\<lambda>j. request_error (result_of exec req ctx j)) [0..<i])"

text \<open>After a backend's error the handler waits for the configured interval, doubled for each such
  error before it; after an attempt that found no healthy backend, for the interval of its own.\<close>

definition pause_after ::
  "handler_state \<Rightarrow> ('h, 'b) exec \<Rightarrow> ('h, 'b) request \<Rightarrow> scope \<Rightarrow> nat \<Rightarrow> duration" where
  "pause_after hs exec req ctx i =
     (if request_error (result_of exec req ctx i)
      then hs_retry_interval hs * 2 ^ request_errors exec req ctx i
      else hs_retry_interval_no_healthy_nodes hs)"

definition events_before ::
  "handler_state \<Rightarrow> ('h, 'b) exec \<Rightarrow> ('h, 'b) request \<Rightarrow> scope \<Rightarrow> nat \<Rightarrow> ('h, 'b) event list" where
  "events_before hs exec req ctx i =
     concat (map (\<lambda>j. [Executed req, Slept (pause_after hs exec req ctx j)]) [0..<i])"

subsection \<open>The loop\<close>

text \<open>The attempt that decides, among at most \<open>k\<close> of them.\<close>

definition deciding :: "('h, 'b) exec \<Rightarrow> ('h, 'b) request \<Rightarrow> scope \<Rightarrow> nat \<Rightarrow> nat" where
  "deciding exec req ctx k =
     (case List.find (\<lambda>i. \<not> failed (result_of exec req ctx i)) [0..<k] of Some i \<Rightarrow> i | None \<Rightarrow> k - 1)"

definition retry_reference ::
  "('h, 'b) http_env \<Rightarrow> handler_state \<Rightarrow> ('h, 'b) exec \<Rightarrow> ('h, 'b) request \<Rightarrow> scope \<Rightarrow>
   ('h, 'b) loop_result outcome" where
  "retry_reference H hs exec req ctx =
     (let i = deciding exec req ctx (unat (hs_retry_attempts hs)) in
      and_then (result_of exec req ctx i)
        (\<lambda>res. case res of
           Inr v \<Rightarrow> Done (Inr (v, hs_retry_attempts hs - of_nat i), context_before exec req ctx (Suc i),
             events_before hs exec req ctx i @ [Executed req])
         | Inl e \<Rightarrow> Done (Inl (into_response H (lb_cause e)), context_before exec req ctx (Suc i),
             events_before hs exec req ctx (Suc i))))"

subsection \<open>The running values in closed form\<close>

lemma error_kinds [simp]:
  "request_error (Done (Inl (Inner m)))" "\<not> request_error (Done (Inl No_Healthy_Nodes))"
  by (simp_all add: request_error_def)

lemma scope_after_fold: "scope_after exec req n ctx k = fold (\<lambda>j c. snd (exec j c req)) [n..<n + k] ctx"
proof (induction k arbitrary: n ctx)
  case (Suc k)
  have "[n..<n + Suc k] = n # [Suc n..<Suc n + k]"
    by (simp add: upt_conv_Cons del: upt_Suc)
  with Suc show ?case
    by simp
qed simp

lemma context_before_scope: "context_before exec req ctx k = scope_after exec req 0 ctx k"
  by (simp add: scope_after_fold context_before_def)

lemma result_of_attempt: "result_of exec req ctx i = attempt exec req 0 ctx i"
  by (simp add: result_of_def attempt_def context_before_scope)

text \<open>Numbers of list elements with a property, counted from the second element.\<close>

lemma count_below_Suc:
  "length (filter P [0..<Suc i]) = (if P 0 then 1 else 0) + length (filter (\<lambda>j. P (Suc j)) [0..<i])"
  by (simp add: upt_conv_Cons map_Suc_upt [symmetric] filter_map o_def del: upt_Suc)

lemma failed_events_closed:
  assumes "\<forall>i < k. failed (attempt exec req n ctx i)"
  shows "failed_events hs exec req n ctx d k =
     concat (map (\<lambda>i. [Executed req, Slept (if request_error (attempt exec req n ctx i)
        then d * 2 ^ length (filter (\<lambda>j. request_error (attempt exec req n ctx j)) [0..<i])
        else hs_retry_interval_no_healthy_nodes hs)]) [0..<k])"
  using assms
proof (induction k arbitrary: n ctx d)
  case (Suc k)
  obtain e ctx1 where ex: "exec n ctx req = (Done (Inl e), ctx1)"
    using Suc.prems by (cases "exec n ctx req") (auto simp: all_less_Suc)
  have fs: "\<forall>i < k. failed (attempt exec req (Suc n) ctx1 i)"
    using Suc.prems ex by (simp add: all_less_Suc)
  have upt: "[0..<Suc k] = 0 # map Suc [0..<k]"
    by (simp add: upt_conv_Cons map_Suc_upt [symmetric] del: upt_Suc)
  show ?case
    unfolding upt using Suc.IH [OF fs] ex
    by (cases e) (simp_all add: error_kinds count_below_Suc o_def mult.assoc mult.left_commute
        cong: if_cong del: upt_Suc)
qed simp

lemma events_before_failed:
  assumes "\<forall>i < k. failed (attempt exec req 0 ctx i)"
  shows "failed_events hs exec req 0 ctx (hs_retry_interval hs) k = events_before hs exec req ctx k"
  unfolding failed_events_closed [OF assms]
  by (simp add: events_before_def pause_after_def request_errors_def result_of_attempt cong: if_cong)

lemma find_first:
  assumes "List.find P [0..<k] = Some i"
  shows "i < k" and "P i" and "\<forall>j < i. \<not> P j"
  using assms by (auto simp: find_Some_iff)

subsection \<open>The theorem\<close>

text \<open>C6: the handler's retry loop computes the closed form, in a checked and in a release build
  alike, for at least one attempt and pauses that fit a \<open>Duration\<close>. The deciding attempt is the
  first that does not fail, or else the last one allowed: its success is the result, marked with the
  attempts left, its error is the error response, and when it never returns (or panics) neither does
  the loop. The pause after attempt \<open>j\<close> depends on \<open>j\<close>'s error and on the number of request errors
  before it alone: the interval times two to that number, or the interval for missing backends.\<close>

theorem retry_loop_equals_reference:
  assumes "hs_retry_attempts hs \<noteq> 0"
    and "hs_retry_interval hs * 2 ^ unat (hs_retry_attempts hs) \<le> duration_max"
  shows "retry_loop H hs checks exec req 0 ctx (hs_retry_attempts hs) (hs_retry_interval hs) =
     retry_reference H hs exec req ctx"
proof (cases "List.find (\<lambda>i. \<not> failed (result_of exec req ctx i)) [0..<unat (hs_retry_attempts hs)]")
  case None
  obtain k where k: "unat (hs_retry_attempts hs) = Suc k"
    using assms(1) by (metis not0_implies_Suc unat_eq_zero)
  have fs: "\<forall>i < Suc k. failed (attempt exec req 0 ctx i)"
    using None unfolding find_None_iff k result_of_attempt by (metis add_0 atLeastLessThan_upt atLeastLessThan_iff le0)
  then obtain e where e: "attempt exec req 0 ctx k = Done (Inl e)"
    by blast
  have "deciding exec req ctx (unat (hs_retry_attempts hs)) = k"
    using None by (simp add: deciding_def k del: upt_Suc)
  then show ?thesis
    using retry_loop_all_failed [OF k fs assms(2) [unfolded k]] e
    by (simp add: retry_reference_def Let_def result_of_attempt context_before_scope
        flip: events_before_failed [OF fs] del: failed_events.simps scope_after.simps attempt_Suc)
next
  case (Some i)
  note first = find_first [OF Some, unfolded result_of_attempt]
  have fs: "\<forall>j < i. failed (attempt exec req 0 ctx j)"
    using first(3) by simp
  have "hs_retry_interval hs * 2 ^ i \<le> hs_retry_interval hs * 2 ^ unat (hs_retry_attempts hs)"
    using first(1) by (intro mult_left_mono power_increasing) simp_all
  with assms(2) have "hs_retry_interval hs * 2 ^ i \<le> duration_max"
    by (rule order_trans [rotated])
  note loop = retry_loop_first_not_failed [OF first(1) fs first(2) this]
  show ?thesis
    unfolding loop using first(2) Some
    by (cases "attempt exec req 0 ctx i")
      (auto simp: retry_reference_def deciding_def result_of_attempt context_before_scope
        events_before_failed [OF fs] split: sum.splits simp del: scope_after.simps)
qed

theorem retry_loop_equals_reference_witness:
  "retry_loop sample_http sample_state False (sample_execute 2 sample_router) sample_sent 0 None 3 50000000 =
     retry_reference sample_http sample_state (sample_execute 2 sample_router) sample_sent None"
  using retry_loop_equals_reference [of sample_state sample_http False "sample_execute 2 sample_router"
      sample_sent None]
  by (simp add: sample_state_def duration_max_def)

end
