(* ===== verification/Test_Bench.thy ===== *)
theory Test_Bench
  imports Routing_Properties Api_Properties Metrics_Cache
begin

section \<open>The bench of the unit tests\<close>

text \<open>
  The servers and helpers of the test modules of \<open>src/backend.rs\<close>, \<open>src/routing.rs\<close> and
  \<open>src/main.rs\<close>: the fake backend with its three ways to fail, the backend that is always healthy,
  the stub with a health endpoint, and the constructors of
  configurations, managers and handler states. What the tests use of other crates (an HTTP client
  over real sockets, the balancer, bodies and headers) is an argument, the record \<open>bench\<close>;
  \<open>bench_laws\<close> says what the tests rely on: requests are delivered to the server that listens,
  a closed port refuses them, a router knows its healthy backends from its health checker.
\<close>

subsection \<open>Servers\<close>

datatype FakeBackendBehavior = Drop | StallBody | TruncateBody

text \<open>What a server does with a request: nothing but closing the connection, or a response head with
  its content length and the bytes sent after it, and then the connection stays open for the next
  request, stays open in silence, or is closed.\<close>

datatype connection = Next_request | Silence | Connection_closed

datatype reaction = No_response | Responds status usize bytes connection

text \<open>\<open>spawn_fake_backend\<close> answers everything that starts with \<open>GET /health\<close>.\<close>

fun fake_reply :: "FakeBackendBehavior \<Rightarrow> reaction" where
  "fake_reply Drop = No_response"
| "fake_reply StallBody = Responds 200 5 ''hi'' Silence"
| "fake_reply TruncateBody = Responds 200 5 ''hi'' Connection_closed"

definition spawn_fake_backend :: "FakeBackendBehavior \<Rightarrow> bytes \<Rightarrow> reaction" where
  "spawn_fake_backend behavior request_line =
     (let is_health = starts_with request_line ''GET /health'' in
      if is_health then Responds 200 0 [] Next_request else fake_reply behavior)"

text \<open>\<open>spawn_healthy_backend\<close> answers any request.\<close>

definition spawn_healthy_backend :: "bytes \<Rightarrow> reaction" where
  "spawn_healthy_backend request_line = Responds OK 0 [] Next_request"

text \<open>The stub backend of \<open>src/main.rs\<close>: a route for \<open>GET\<close>, and with it \<open>HEAD\<close>, on \<open>/health\<close>, which
  answers any other method with 405; everything else is answered by the fallback. An answer to
  \<open>HEAD\<close> has no body.\<close>

definition stub_backend :: "bytes \<Rightarrow> reaction" where
  "stub_backend line =
     (let meth = takeWhile (\<lambda>c. c \<noteq> CHR '' '') line;
          path = takeWhile (\<lambda>c. c \<noteq> CHR ''?'') (drop (Suc (length meth)) line);
          answer = (\<lambda>text. if meth = ''HEAD'' then Responds OK 0 [] Next_request
                     else Responds OK (of_nat (length text)) text Next_request)
      in if path = ''/health''
         then if meth \<in> {''GET'', ''HEAD''} then answer ''HEALTHY'' else Responds 405 0 [] Next_request
         else answer ''DEADBEEF'')"

subsection \<open>Helpers of the tests\<close>

definition http_url :: "string \<Rightarrow> url" where
  "http_url authority = \<lparr>url_scheme = ''http'', url_authority = authority, url_path = ''/''\<rparr>"

definition test_backend_conf :: "string \<Rightarrow> url \<Rightarrow> backend_conf" where
  "test_backend_conf name u = \<lparr>bc_name = name, bc_url = u, bc_enabled = True, bc_weight = 1\<rparr>"

definition new_config :: "backend_conf list \<Rightarrow> backend_conf list option \<Rightarrow> config" where
  "new_config backends fallback =
     \<lparr>cf_strategy = LeastOutstandingRequests, cf_backends = backends, cf_fallback = fallback\<rparr>"

definition load_balancer_config :: "string \<Rightarrow> config" where
  "load_balancer_config addr =
     \<lparr>cf_strategy = Strategy_named ''wrr'',
      cf_backends = [test_backend_conf ''foo'' (http_url addr),
        test_backend_conf ''bar'' (http_url ''127.0.0.1:666'')],
      cf_fallback = None\<rparr>"

text \<open>\<open>new_backend_manager\<close> of \<open>src/routing.rs\<close> and \<open>new_manager\<close> of \<open>src/backend.rs\<close>; the file
  system has no part in these tests.\<close>

definition new_backend_manager :: sys where
  "new_backend_manager = sys_new [] 1000000000 1000000000 (\<lambda>_. None)"

definition new_manager :: sys where
  "new_manager = sys_new [] 50000000 500000000 (\<lambda>_. None)"

definition new_state :: "bool \<Rightarrow> usize \<Rightarrow> handler_state" where
  "new_state response_body_buffer response_body_size_limit =
     \<lparr>hs_request_body_buffer = False, hs_request_body_size_limit = 1024,
      hs_request_body_timeout = 1000000000, hs_response_body_buffer = response_body_buffer,
      hs_response_body_size_limit = response_body_size_limit, hs_response_body_timeout = 1000000000,
      hs_retry_attempts = 1, hs_retry_interval = 1000000,
      hs_retry_interval_no_healthy_nodes = 1000000\<rparr>"

text \<open>\<open>Request::builder().uri("/")\<close>, with the header \<open>HOST\<close> where the test sets it.\<close>

definition test_request :: "('h, 'b) http_env \<Rightarrow> 'h \<Rightarrow> 'b \<Rightarrow> ('h, 'b) request" where
  "test_request H hdrs body =
     \<lparr>rq_method = ''GET'',
      rq_uri = \<lparr>uri_scheme = None, uri_authority = None, uri_path_and_query = Some ''/''\<rparr>,
      rq_version = HTTP_11, rq_headers = hdrs, rq_body = body, rq_extensions = no_extensions\<rparr>"

definition host_header :: "('h, 'b) http_env \<Rightarrow> 'h" where
  "host_header H = he_insert H ''host'' ''example.com'' (he_no_headers H)"

text \<open>\<open>Response::new(body)\<close>.\<close>

definition new_response :: "('h, 'b) http_env \<Rightarrow> 'b \<Rightarrow> ('h, 'b) response" where
  "new_response H body = \<lparr>rs_status = OK, rs_headers = he_no_headers H, rs_body = body,
     rs_error_cause = None, rs_retries = None\<rparr>"

subsection \<open>The bench\<close>

text \<open>\<open>tb_execute\<close>: the HTTP client; \<open>tb_lb\<close>: the balancer; \<open>tb_bytes\<close>: the bytes of a body that has
  been collected to its end, without limit; \<open>tb_stalled\<close>: the body of the last test, which says
  that it is empty and never ends.\<close>

record ('h, 'b) bench =
  tb_env :: "('h, 'b) mgr_env"
  tb_execute :: "nat \<Rightarrow> ('h, 'b) request \<Rightarrow> string + ('h, 'b) response"
  tb_lb :: "('h, 'b) balancer"
  tb_bytes :: "'b \<Rightarrow> bytes option"
  tb_stalled :: 'b

abbreviation tb_http :: "('h, 'b) bench \<Rightarrow> ('h, 'b) http_env" where
  "tb_http B \<equiv> me_http (tb_env B)"

text \<open>What a client makes of a reaction: no response is an error; a response has status and content
  length as sent, and its body can be collected when all of it was sent, fails when the connection
  closes before, and never ends when it stays silent.\<close>

fun delivered :: "('h, 'b) http_env \<Rightarrow> reaction \<Rightarrow> string + ('h, 'b) response \<Rightarrow> bool" where
  "delivered H No_response res = (case res of Inl _ \<Rightarrow> True | Inr _ \<Rightarrow> False)"
| "delivered H (Responds st len sent con) res =
     (case res of
        Inl _ \<Rightarrow> False
      | Inr resp \<Rightarrow>
          rs_status resp = st \<and> rs_error_cause resp = None \<and>
          he_size_exact H (rs_body resp) = Some len \<and>
          (\<forall>d limit. len \<le> limit \<longrightarrow>
             (case he_collect H d limit (rs_body resp) of
                Elapsed \<Rightarrow> of_nat (length sent) \<noteq> len \<and> con \<noteq> Connection_closed
              | In_time (Inl _) \<Rightarrow> of_nat (length sent) \<noteq> len \<and> con = Connection_closed
              | In_time (Inr v) \<Rightarrow> of_nat (length sent) = len \<and> v = sent)))"

text \<open>\<open>net\<close>: what listens at an authority. The request line is method, space and path.\<close>

definition request_line :: "('h, 'b) request \<Rightarrow> bytes" where
  "request_line req = rq_method req @ '' '' @ request_path req"

definition client_law :: "(string \<Rightarrow> (bytes \<Rightarrow> reaction) option) \<Rightarrow> ('h, 'b) bench \<Rightarrow> bool" where
  "client_law net B \<longleftrightarrow>
     (\<forall>n req a. uri_authority (rq_uri req) = Some a \<longrightarrow>
        (case net a of
           None \<Rightarrow> (\<exists>e. tb_execute B n req = Inl e)
         | Some srv \<Rightarrow> delivered (tb_http B) (srv (request_line req)) (tb_execute B n req)))"

text \<open>The client as the executor sees it: with these servers every call comes to an end.\<close>

definition client_calls :: "('h, 'b) bench \<Rightarrow> nat \<Rightarrow> ('h, 'b) request \<Rightarrow> (string + ('h, 'b) response) outcome" where
  "client_calls B n req = Done (tb_execute B n req)"

text \<open>The health checker of a router, and the backends it finds healthy.\<close>

definition bench_check :: "('h, 'b) bench \<Rightarrow> duration \<Rightarrow> backend \<Rightarrow> target_state" where
  "bench_check B check_timeout b =
     check (tb_http B) (\<lambda>d req. In_time (tb_execute B 0 req)) check_timeout b"

definition bench_healthy :: "('h, 'b) bench \<Rightarrow> router \<Rightarrow> backend list" where
  "bench_healthy B r = filter (\<lambda>b. bench_check B (rt_check_timeout r) b = Healthy) (map fst (rt_backends r))"

definition health_law :: "('h, 'b) bench \<Rightarrow> bool" where
  "health_law B \<longleftrightarrow>
     env_live (tb_env B) \<and> (\<forall>r. me_healthy (tb_env B) r = bench_healthy B r) \<and>
     (\<forall>n r ex ctx req.
        if bench_healthy B r = [] then tb_lb B n r ex ctx req = (Done (Inl No_Healthy_Nodes), ctx)
        else \<exists>b \<in> set (bench_healthy B r). tb_lb B n r ex ctx req = wrap_executor (ex b ctx req))"

definition uri_law :: "('h, 'b) http_env \<Rightarrow> bool" where
  "uri_law H \<longleftrightarrow>
     (\<forall>s a p. a \<noteq> [] \<longrightarrow> he_uri_build H s a p =
        Inr \<lparr>uri_scheme = Some s, uri_authority = Some a, uri_path_and_query = Some p\<rparr>)"

definition host_law :: "('h, 'b) http_env \<Rightarrow> bool" where
  "host_law H \<longleftrightarrow>
     (\<forall>req. uri_authority (rq_uri req) = None \<longrightarrow> he_authority H req = he_get H ''host'' (rq_headers req)) \<and>
     he_get H ''host'' (he_no_headers H) = None"

definition body_law :: "('h, 'b) bench \<Rightarrow> bool" where
  "body_law B \<longleftrightarrow>
     (\<forall>bs. tb_bytes B (he_full_body (tb_http B) bs) = Some bs) \<and>
     (\<forall>d limit bs. unat limit \<ge> length bs \<longrightarrow>
        he_collect (tb_http B) d limit (he_full_body (tb_http B) bs) = In_time (Inr bs)) \<and>
     (\<forall>limit d bs. he_buffer_body (tb_http B) (he_full_body (tb_http B) bs) limit d =
        (if length bs \<le> unat limit then Inr bs else Inl ''body too big'')) \<and>
     he_size_exact (tb_http B) (tb_stalled B) = Some 0 \<and>
     (\<forall>limit d. \<exists>e. he_buffer_body (tb_http B) (tb_stalled B) limit d = Inl e)"

definition bench_laws :: "(string \<Rightarrow> (bytes \<Rightarrow> reaction) option) \<Rightarrow> ('h, 'b) bench \<Rightarrow> bool" where
  "bench_laws net B \<longleftrightarrow>
     client_law net B \<and> health_law B \<and> uri_law (tb_http B) \<and> host_law (tb_http B) \<and>
     header_laws (tb_http B) \<and> authority_law (tb_http B) \<and> full_body_law (tb_http B) \<and> body_law B"

lemma bench_lawsD:
  assumes "bench_laws net B"
  shows "client_law net B" "health_law B" "uri_law (tb_http B)" "host_law (tb_http B)"
    "header_laws (tb_http B)" "authority_law (tb_http B)" "full_body_law (tb_http B)" "body_law B"
  using assms by (simp_all add: bench_laws_def)

subsection \<open>Health as the checker sees it\<close>

definition http_backend :: "string \<Rightarrow> string \<Rightarrow> backend" where
  "http_backend name a = \<lparr>be_name = name, be_url = http_url a,
     be_uri_health = \<lparr>uri_scheme = Some ''http'', uri_authority = Some a, uri_path_and_query = Some ''/health''\<rparr>\<rparr>"

lemma backend_from_http:
  "uri_law H \<Longrightarrow> a \<noteq> [] \<Longrightarrow> backend_from_conf H (test_backend_conf name (http_url a)) = Done (http_backend name a)"
  by (simp add: backend_from_conf_def uri_law_def test_backend_conf_def http_url_def http_backend_def)

lemma client_refused:
  assumes "client_law net B" and "uri_authority (rq_uri req) = Some a" and "net a = None"
  obtains e where "tb_execute B n req = Inl e"
proof -
  have "case net a of
      None \<Rightarrow> (\<exists>e. tb_execute B n req = Inl e)
    | Some srv \<Rightarrow> delivered (tb_http B) (srv (request_line req)) (tb_execute B n req)"
    using assms(1,2) unfolding client_law_def by blast
  with assms(3) that show thesis
    by auto
qed

lemma client_delivered:
  assumes "client_law net B" and "uri_authority (rq_uri req) = Some a" and "net a = Some srv"
  shows "delivered (tb_http B) (srv (request_line req)) (tb_execute B n req)"
proof -
  have "case net a of
      None \<Rightarrow> (\<exists>e. tb_execute B n req = Inl e)
    | Some srv \<Rightarrow> delivered (tb_http B) (srv (request_line req)) (tb_execute B n req)"
    using assms(1,2) unfolding client_law_def by blast
  with assms(3) show ?thesis
    by simp
qed

lemma bench_check_closed:
  assumes "client_law net B" and "net a = None"
  shows "bench_check B t (http_backend name a) = Degraded"
proof -
  let ?req = "health_request (tb_http B) (http_backend name a)"
  have "uri_authority (rq_uri ?req) = Some a"
    by (simp add: health_request_def http_backend_def)
  then obtain e where "tb_execute B 0 ?req = Inl e"
    using client_refused [OF assms(1) _ assms(2)] by blast
  then show ?thesis
    by (simp add: bench_check_def check_def)
qed

lemma bench_check_ok:
  assumes "client_law net B" and "net a = Some srv" and "srv ''GET /health'' = Responds 200 len sent Next_request"
  shows "bench_check B t (http_backend name a) = Healthy"
proof -
  let ?req = "health_request (tb_http B) (http_backend name a)"
  have line: "request_line ?req = ''GET /health''" and a: "uri_authority (rq_uri ?req) = Some a"
    by (simp_all add: request_line_def request_path_def health_request_def http_backend_def)
  have "delivered (tb_http B) (Responds 200 len sent Next_request) (tb_execute B 0 ?req)"
    using client_delivered [OF assms(1) a assms(2)] unfolding line assms(3) .
  then obtain resp where "tb_execute B 0 ?req = Inr resp" "rs_status resp = 200"
    by (cases "tb_execute B 0 ?req") simp_all
  then show ?thesis
    by (simp add: bench_check_def check_def is_success_def)
qed

lemma fake_health [simp]: "spawn_fake_backend behavior ''GET /health'' = Responds 200 0 [] Next_request"
  by (simp add: spawn_fake_backend_def starts_with_def)

lemma stub_simps [simp]:
  "stub_backend ''GET /health'' = Responds OK 7 ''HEALTHY'' Next_request"
  "stub_backend ''GET /test'' = Responds OK 8 ''DEADBEEF'' Next_request"
  by (simp_all add: stub_backend_def Let_def)

lemma healthy_health [simp]: "spawn_healthy_backend line = Responds 200 0 [] Next_request"
  by (simp add: spawn_healthy_backend_def)

end
