(* ===== verification/Unit_Tests.thy ===== *)
theory Unit_Tests
  imports Test_Bench
begin

section \<open>The repository's unit tests, as theorems\<close>

text \<open>
  The tests of \<open>src/routing.rs\<close> (the others are in \<open>Service_Tests\<close>), each
  translated to the conjunction of its assertions over the model, and proved for every bench that
  keeps \<open>bench_laws\<close>. Where a test builds a manager and a configuration, the model runs the whole
  way too: \<open>set_config\<close>, the health checks against the test's server, the choice of the router, the
  handler and the buffering of the response.
\<close>

subsection \<open>Running the handler\<close>

text \<open>\<open>bm.set_config(c).await.unwrap()\<close>.\<close>

definition configured :: "('h, 'b) bench \<Rightarrow> config \<Rightarrow> sys \<Rightarrow> sys outcome" where
  "configured B c s =
     and_then (set_config (tb_env B) c s) (\<lambda>(r, s1). case r of Inl _ \<Rightarrow> Panicked | Inr _ \<Rightarrow> Done s1)"

text \<open>\<open>handler(State(state), request).await\<close>, outside of any request context.\<close>

definition respond ::
  "('h, 'b) bench \<Rightarrow> handler_state \<Rightarrow> sys \<Rightarrow> ('h, 'b) request \<Rightarrow> ('h, 'b) response outcome" where
  "respond B hs bm request =
     and_then
       (handler (tb_http B) hs True (me_healthy (tb_env B)) (sy_manager bm)
          (router_execute (tb_http B) (client_calls B) (tb_lb B)) None request)
       (\<lambda>(response, _, _). Done response)"

definition passes :: "bool outcome \<Rightarrow> bool" where
  "passes t \<longleftrightarrow> t = Done True"

text \<open>The two assertions at the end of the handler's tests.\<close>

definition has_cause :: "status \<Rightarrow> (error_cause \<Rightarrow> bool) \<Rightarrow> ('h, 'b) response \<Rightarrow> bool outcome" where
  "has_cause st cause_matches response =
     Done (rs_status response = st \<and>
       (case rs_error_cause response of Some c \<Rightarrow> cause_matches c | None \<Rightarrow> False))"

fun is_request_error :: "error_cause \<Rightarrow> bool" where
  "is_request_error (BackendRequestError _) = True"
| "is_request_error _ = False"

fun is_body_error :: "error_cause \<Rightarrow> bool" where
  "is_body_error (BackendBodyError _) = True"
| "is_body_error _ = False"

definition host_request :: "('h, 'b) bench \<Rightarrow> 'b \<Rightarrow> ('h, 'b) request" where
  "host_request B body = test_request (tb_http B) (host_header (tb_http B)) body"

subsection \<open>Tests of routing.rs\<close>

definition test_error_cause_into_response :: "('h, 'b) bench \<Rightarrow> bool" where
  "test_error_cause_into_response B =
     list_all (\<lambda>(err, expected_status).
         let expected_name = error_name err;
             expected_text = error_display err;
             response = into_response (tb_http B) err
         in rs_status response = expected_status \<and>
            (case rs_error_cause response of
               None \<Rightarrow> False
             | Some ext \<Rightarrow> error_name ext = expected_name \<and> error_display ext = expected_text) \<and>
            tb_bytes B (rs_body response) = Some expected_text)
       [(BackendRequestError ''connection refused'', BAD_GATEWAY),
        (BackendBodyError ''unexpected eof'', BAD_GATEWAY),
        (BackendTimeout, GATEWAY_TIMEOUT),
        (NoAuthority, BAD_REQUEST),
        (ServiceNotReady, SERVICE_UNAVAILABLE),
        (NoHealthyBackends, SERVICE_UNAVAILABLE),
        (RequestBodyBufferTimeout, REQUEST_TIMEOUT)]"

text \<open>\<open>Response::new(Body::from("hello"))\<close> through \<open>buffer_response\<close>, in a state with these settings.\<close>

definition buffered_hello :: "('h, 'b) bench \<Rightarrow> bool \<Rightarrow> usize \<Rightarrow> ('h, 'b) response" where
  "buffered_hello B buffer limit =
     (let state = new_state buffer limit;
          response = new_response (tb_http B) (he_full_body (tb_http B) ''hello'')
      in fst (buffer_response (tb_http B) state None response))"

definition test_buffer_response_disabled_passes_through :: "('h, 'b) bench \<Rightarrow> bool" where
  "test_buffer_response_disabled_passes_through B =
     (tb_bytes B (rs_body (buffered_hello B False 1024)) = Some ''hello'')"

definition test_buffer_response_buffers_small_body :: "('h, 'b) bench \<Rightarrow> bool" where
  "test_buffer_response_buffers_small_body B =
     (let response = buffered_hello B True 1024
      in rs_status response = OK \<and> tb_bytes B (rs_body response) = Some ''hello'')"

definition test_buffer_response_skips_body_over_limit :: "('h, 'b) bench \<Rightarrow> bool" where
  "test_buffer_response_skips_body_over_limit B =
     (tb_bytes B (rs_body (buffered_hello B True 2)) = Some ''hello'')"

definition test_buffer_request_ok :: "('h, 'b) bench \<Rightarrow> bool" where
  "test_buffer_request_ok B =
     (let request = test_request (tb_http B) (he_no_headers (tb_http B)) (he_full_body (tb_http B) ''payload'')
      in case buffer_request (tb_http B) (new_state False 1024) request of
           Inl _ \<Rightarrow> False
         | Inr (_, body) \<Rightarrow> body = ''payload'')"

definition test_buffer_request_too_big :: "('h, 'b) bench \<Rightarrow> bool" where
  "test_buffer_request_too_big B =
     (let state = (new_state False 1024)\<lparr>hs_request_body_size_limit := 3\<rparr>;
          request = test_request (tb_http B) (he_no_headers (tb_http B)) (he_full_body (tb_http B) ''payload'')
      in case buffer_request (tb_http B) state request of Inl _ \<Rightarrow> True | Inr _ \<Rightarrow> False)"

definition test_handler_missing_authority_returns_bad_request :: "('h, 'b) bench \<Rightarrow> bool" where
  "test_handler_missing_authority_returns_bad_request B =
     (let state = new_state False 1024;
          request = test_request (tb_http B) (he_no_headers (tb_http B)) (he_empty_body (tb_http B))
      in passes (and_then (respond B state new_backend_manager request)
           (has_cause BAD_REQUEST (\<lambda>c. c = NoAuthority))))"

definition test_handler_backend_not_ready_returns_service_unavailable :: "('h, 'b) bench \<Rightarrow> bool" where
  "test_handler_backend_not_ready_returns_service_unavailable B =
     passes (and_then
       (respond B (new_state False 1024) new_backend_manager (host_request B (he_empty_body (tb_http B))))
       (has_cause SERVICE_UNAVAILABLE (\<lambda>c. c = ServiceNotReady)))"

text \<open>The other tests of the handler first set a configuration.\<close>

definition test_handler ::
  "('h, 'b) bench \<Rightarrow> config \<Rightarrow> handler_state \<Rightarrow> 'b \<Rightarrow> status \<Rightarrow> (error_cause \<Rightarrow> bool) \<Rightarrow> bool" where
  "test_handler B c state body st cause_matches =
     passes (and_then (configured B c new_backend_manager) (\<lambda>bm.
       and_then (respond B state bm (host_request B body)) (has_cause st cause_matches)))"

definition test_handler_no_healthy_backends_returns_service_unavailable :: "('h, 'b) bench \<Rightarrow> bool" where
  "test_handler_no_healthy_backends_returns_service_unavailable B =
     test_handler B (new_config [] (Some [test_backend_conf ''fallback'' (http_url ''127.0.0.1:1'')]))
       (new_state False 1024) (he_empty_body (tb_http B))
       SERVICE_UNAVAILABLE (\<lambda>c. c = NoHealthyBackends)"

text \<open>\<open>addr\<close>: where the fake backend listens.\<close>

definition test_handler_backend_request_error_returns_bad_gateway :: "('h, 'b) bench \<Rightarrow> string \<Rightarrow> bool" where
  "test_handler_backend_request_error_returns_bad_gateway B addr =
     test_handler B (new_config [test_backend_conf ''main'' (http_url addr)] None)
       (new_state False 1024) (he_empty_body (tb_http B)) BAD_GATEWAY is_request_error"

definition test_handler_backend_timeout_returns_gateway_timeout :: "('h, 'b) bench \<Rightarrow> string \<Rightarrow> bool" where
  "test_handler_backend_timeout_returns_gateway_timeout B addr =
     test_handler B (new_config [test_backend_conf ''main'' (http_url addr)] None)
       ((new_state True 1024)\<lparr>hs_response_body_timeout := 50000000\<rparr>) (he_empty_body (tb_http B))
       GATEWAY_TIMEOUT (\<lambda>c. c = BackendTimeout)"

definition test_handler_backend_body_error_returns_bad_gateway :: "('h, 'b) bench \<Rightarrow> string \<Rightarrow> bool" where
  "test_handler_backend_body_error_returns_bad_gateway B addr =
     test_handler B (new_config [test_backend_conf ''main'' (http_url addr)] None)
       (new_state True 1024) (he_empty_body (tb_http B)) BAD_GATEWAY is_body_error"

definition test_handler_request_body_buffer_timeout_returns_request_timeout :: "('h, 'b) bench \<Rightarrow> bool" where
  "test_handler_request_body_buffer_timeout_returns_request_timeout B =
     test_handler B (new_config [] (Some [test_backend_conf ''fallback'' (http_url ''127.0.0.1:1'')]))
       ((new_state False 1024)\<lparr>hs_request_body_buffer := True, hs_request_body_timeout := 50000000\<rparr>)
       (tb_stalled B) REQUEST_TIMEOUT (\<lambda>c. c = RequestBodyBufferTimeout)"

subsection \<open>What a configuration of the tests leads to\<close>

definition bench_router :: "nat \<Rightarrow> sys \<Rightarrow> (backend \<times> usize) list \<Rightarrow> router" where
  "bench_router i s bs = \<lparr>rt_id = i, rt_backends = bs, rt_strategy = LeastOutstandingRequests,
     rt_check_interval = bm_check_interval (sy_manager s), rt_check_timeout = bm_check_timeout (sy_manager s)\<rparr>"

lemma env_liveD: "env_live E \<Longrightarrow> wait_healthchecks (me_watch E r) = Done ()" "env_live E \<Longrightarrow> me_stop E r = Done ()"
  by (simp_all add: env_live_def)

lemma test_backend_conf_sel [simp]:
  "bc_name (test_backend_conf n u) = n" "bc_url (test_backend_conf n u) = u"
  "bc_enabled (test_backend_conf n u)" "bc_weight (test_backend_conf n u) = 1"
  by (simp_all add: test_backend_conf_def)

lemmas run_defs = configured_def set_config_def config_names_def fallback_list_def new_config_def
  apply_config_def update_router_def Let_def enabled_backends_def enabled_fallback_def
  create_backend_router_def setup_backend_router_def with_config_def store_main_def store_fallback_def
  new_backend_manager_def new_manager_def sys_new_def manager_new_def bench_router_def

lemma configured_main:
  assumes "env_live (tb_env B)" and "uri_law (tb_http B)" and "a \<noteq> []"
  shows "configured B (new_config [test_backend_conf n (http_url a)] None) new_backend_manager =
     Done (new_backend_manager\<lparr>sy_created := 1, sy_manager := (sy_manager new_backend_manager)
       \<lparr>bm_config := new_config [test_backend_conf n (http_url a)] None,
        bm_router := Some (bench_router 0 new_backend_manager [(http_backend n a, 1)])\<rparr>\<rparr>)"
  using backend_from_http [OF assms(2,3), of n] env_liveD [OF assms(1)]
  by (simp add: run_defs)

lemma configured_fallback:
  assumes "env_live (tb_env B)" and "uri_law (tb_http B)" and "a \<noteq> []"
  shows "configured B (new_config [] (Some [test_backend_conf n (http_url a)])) new_backend_manager =
     Done (new_backend_manager\<lparr>sy_created := 1, sy_manager := (sy_manager new_backend_manager)
       \<lparr>bm_config := new_config [] (Some [test_backend_conf n (http_url a)]),
        bm_router_fallback := Some (bench_router 0 new_backend_manager [(http_backend n a, 1)])\<rparr>\<rparr>)"
  using backend_from_http [OF assms(2,3), of n] env_liveD [OF assms(1)]
  by (simp add: run_defs)

lemma configured_main_fallback:
  assumes "env_live (tb_env B)" and "uri_law (tb_http B)" and "a \<noteq> []" and "b \<noteq> []" and "n \<noteq> k"
  shows "configured B (new_config [test_backend_conf n (http_url a)] (Some [test_backend_conf k (http_url b)]))
       new_manager =
     Done (new_manager\<lparr>sy_created := 2, sy_manager := (sy_manager new_manager)
       \<lparr>bm_config := new_config [test_backend_conf n (http_url a)] (Some [test_backend_conf k (http_url b)]),
        bm_router := Some (bench_router 0 new_manager [(http_backend n a, 1)]),
        bm_router_fallback := Some (bench_router 1 new_manager [(http_backend k b, 1)])\<rparr>\<rparr>)"
  using backend_from_http [OF assms(2,3), of n] backend_from_http [OF assms(2,4), of k]
    env_liveD [OF assms(1)] assms(5)
  by (simp add: run_defs)

lemma bench_router_sel [simp]:
  "rt_backends (bench_router i s bs) = bs" "rt_check_timeout (bench_router i s bs) = bm_check_timeout (sy_manager s)"
  by (simp_all add: bench_router_def)

subsection \<open>How the handler answers\<close>

lemma host_request_authority:
  assumes "bench_laws net B"
  shows "he_authority (tb_http B) (host_request B body) = Some ''example.com''"
    and "he_header_value (tb_http B) ''example.com'' = Some ''example.com''"
proof -
  have "he_get (tb_http B) ''host'' (host_header (tb_http B)) = Some ''example.com''"
    using bench_lawsD(5) [OF assms] by (simp add: header_laws_def host_header_def)
  then show a: "he_authority (tb_http B) (host_request B body) = Some ''example.com''"
    using bench_lawsD(4) [OF assms] by (simp add: host_law_def host_request_def test_request_def)
  show "he_header_value (tb_http B) ''example.com'' = Some ''example.com''"
    using bench_lawsD(6) [OF assms] a by (auto simp: authority_law_def)
qed

text \<open>The request as it is executed.\<close>

definition bench_sent :: "('h, 'b) bench \<Rightarrow> 'b \<Rightarrow> ('h, 'b) request" where
  "bench_sent B body = forwarded (tb_http B) ''example.com'' (host_request B body)"

lemma respond_once:
  assumes "bench_laws net B" and "get_backend_router (me_healthy (tb_env B)) (sy_manager bm) = Some r"
    and "\<not> hs_request_body_buffer hs" and "hs_retry_attempts hs = 1"
  shows "respond B hs bm (host_request B body) =
     (case router_execute (tb_http B) (client_calls B) (tb_lb B) r 0 None (bench_sent B body) of
        (Done (Inl e), ctx) \<Rightarrow> Done (into_response (tb_http B) (lb_cause e))
      | (Done (Inr v), ctx) \<Rightarrow> Done (fst (buffer_response (tb_http B) hs ctx v))
      | (Panicked, ctx) \<Rightarrow> Panicked
      | (Pending, ctx) \<Rightarrow> Pending)"
proof -
  have "\<not> should_buffer (tb_http B) hs req" for req
    using assms(3,4) by (simp add: should_buffer_def)
  then show ?thesis
    using host_request_authority(1) [OF assms(1), of body] host_request_authority(2) [OF assms(1)] assms(2)
    by (auto simp: respond_def handler_def Let_def forwarded_def [symmetric] bench_sent_def
        split: prod.split sum.split outcome.split)
qed

lemma balanced_one:
  assumes "health_law B" and "bench_healthy B r = [b]"
  shows "tb_lb B n r ex ctx req = wrap_executor (ex b ctx req)"
proof -
  have "if bench_healthy B r = [] then tb_lb B n r ex ctx req = (Done (Inl No_Healthy_Nodes), ctx)
      else \<exists>b \<in> set (bench_healthy B r). tb_lb B n r ex ctx req = wrap_executor (ex b ctx req)"
    using assms(1) unfolding health_law_def by blast
  with assms(2) show ?thesis
    by simp
qed

lemma execute_none:
  assumes "bench_laws net B" and "bench_healthy B r = []"
  shows "router_execute (tb_http B) client (tb_lb B) r n ctx req = (Done (Inl No_Healthy_Nodes), ctx)"
  using bench_lawsD(2) [OF assms(1)] assms(2) by (simp add: health_law_def router_execute_def)

text \<open>With one healthy backend, that is where the request goes.\<close>

lemma execute_at:
  assumes "bench_laws net B" and "net addr = Some srv" and "addr \<noteq> []"
    and "bench_healthy B r = [http_backend n addr]" and "rq_method req = ''GET''"
  shows "\<exists>res. router_execute (tb_http B) (client_calls B) (tb_lb B) r 0 ctx req =
       wrap_executor (Done res, map_option (\<lambda>c. c\<lparr>rc_backend := Some (http_backend n addr)\<rparr>) ctx) \<and>
     delivered (tb_http B) (srv (''GET '' @ request_path req)) res"
proof -
  let ?u = "\<lparr>uri_scheme = Some ''http'', uri_authority = Some addr, uri_path_and_query = Some (request_path req)\<rparr>"
  let ?req = "req\<lparr>rq_uri := ?u, rq_version := HTTP_11, rq_headers := he_strip (tb_http B) (rq_headers req)\<rparr>"
  have "router_execute (tb_http B) (client_calls B) (tb_lb B) r 0 ctx req =
      wrap_executor (executor_execute (tb_http B) (client_calls B 0) (http_backend n addr) ctx req)"
    using balanced_one [OF bench_lawsD(2) [OF assms(1)] assms(4)] by (simp add: router_execute_def)
  also have "executor_execute (tb_http B) (client_calls B 0) (http_backend n addr) ctx req =
      (Done (tb_execute B 0 ?req), map_option (\<lambda>c. c\<lparr>rc_backend := Some (http_backend n addr)\<rparr>) ctx)"
    using bench_lawsD(3) [OF assms(1)] assms(3)
    by (simp add: executor_execute_def uri_law_def http_backend_def http_url_def client_calls_def)
  finally have "router_execute (tb_http B) (client_calls B) (tb_lb B) r 0 ctx req =
      wrap_executor (Done (tb_execute B 0 ?req), map_option (\<lambda>c. c\<lparr>rc_backend := Some (http_backend n addr)\<rparr>) ctx)" .
  moreover have "request_line ?req = ''GET '' @ request_path req"
    using assms(5) by (simp add: request_line_def request_path_def)
  then have "delivered (tb_http B) (srv (''GET '' @ request_path req)) (tb_execute B 0 ?req)"
    using client_delivered [OF bench_lawsD(1) [OF assms(1)] _ assms(2), of ?req 0] by simp
  ultimately show ?thesis
    by blast
qed

lemma execute_one:
  assumes "bench_laws net B" and "net addr = Some srv" and "addr \<noteq> []"
    and "srv ''GET /health'' = Responds 200 0 [] Next_request"
    and "r = bench_router i s [(http_backend n addr, 1)]"
  shows "me_healthy (tb_env B) r = [http_backend n addr]"
    and "\<exists>res. router_execute (tb_http B) (client_calls B) (tb_lb B) r 0 None (bench_sent B body) =
            wrap_executor (Done res, None) \<and> delivered (tb_http B) (srv ''GET /'') res"
proof -
  have healthy: "bench_healthy B r = [http_backend n addr]"
    using bench_check_ok [OF bench_lawsD(1) [OF assms(1)] assms(2,4)] by (simp add: bench_healthy_def assms(5))
  then show "me_healthy (tb_env B) r = [http_backend n addr]"
    using bench_lawsD(2) [OF assms(1)] by (simp add: health_law_def)
  have "request_path (bench_sent B body) = ''/''" "rq_method (bench_sent B body) = ''GET''"
    by (simp_all add: request_path_def bench_sent_def forwarded_def host_request_def test_request_def)
  with execute_at [OF assms(1-3) healthy, of "bench_sent B body" None]
  show "\<exists>res. router_execute (tb_http B) (client_calls B) (tb_lb B) r 0 None (bench_sent B body) =
      wrap_executor (Done res, None) \<and> delivered (tb_http B) (srv ''GET /'') res"
    by simp
qed

subsection \<open>The handler's tests against a fake backend\<close>

lemma main_router:
  assumes "bench_laws net B" and "net addr = Some (spawn_fake_backend behavior)" and "addr \<noteq> []"
  shows "\<exists>bm res. configured B (new_config [test_backend_conf ''main'' (http_url addr)] None) new_backend_manager = Done bm \<and>
     delivered (tb_http B) (fake_reply behavior) res \<and>
     (\<forall>hs. \<not> hs_request_body_buffer hs \<longrightarrow> hs_retry_attempts hs = 1 \<longrightarrow>
        respond B hs bm (host_request B body) =
          (case res of
             Inl e \<Rightarrow> Done (into_response (tb_http B) (BackendRequestError e))
           | Inr v \<Rightarrow> Done (fst (buffer_response (tb_http B) hs None v))))"
proof -
  let ?r = "bench_router 0 new_backend_manager [(http_backend ''main'' addr, 1)]"
  let ?bm = "new_backend_manager\<lparr>sy_created := 1, sy_manager := (sy_manager new_backend_manager)
       \<lparr>bm_config := new_config [test_backend_conf ''main'' (http_url addr)] None, bm_router := Some ?r\<rparr>\<rparr>"
  note one = execute_one [OF assms(1,2,3) fake_health refl, where n = "''main''" and i = 0
      and s = new_backend_manager]
  have live: "env_live (tb_env B)"
    using bench_lawsD(2) [OF assms(1)] by (simp add: health_law_def)
  have bm: "configured B (new_config [test_backend_conf ''main'' (http_url addr)] None) new_backend_manager = Done ?bm"
    using configured_main [OF live bench_lawsD(3) [OF assms(1)] assms(3)] .
  have r: "get_backend_router (me_healthy (tb_env B)) (sy_manager ?bm) = Some ?r"
    using one(1) by (simp add: get_backend_router_def)
  obtain res where res: "router_execute (tb_http B) (client_calls B) (tb_lb B) ?r 0 None (bench_sent B body) =
      wrap_executor (Done res, None)" "delivered (tb_http B) (fake_reply behavior) res"
    using one(2) [of body] by (auto simp: spawn_fake_backend_def starts_with_def)
  have "respond B hs ?bm (host_request B body) =
          (case res of
             Inl e \<Rightarrow> Done (into_response (tb_http B) (BackendRequestError e))
           | Inr v \<Rightarrow> Done (fst (buffer_response (tb_http B) hs None v)))"
    if "\<not> hs_request_body_buffer hs" "hs_retry_attempts hs = 1" for hs
    unfolding respond_once [OF assms(1) r that] res(1) by (cases res) (simp_all add: wrap_executor_def)
  with bm res(2) show ?thesis
    by blast
qed

lemma new_state_sel [simp]:
  "\<not> hs_request_body_buffer (new_state b l)" "hs_retry_attempts (new_state b l) = 1"
  "hs_response_body_buffer (new_state b l) = b" "hs_response_body_size_limit (new_state b l) = l"
  "hs_request_body_size_limit (new_state b l) = 1024"
  by (simp_all add: new_state_def)

lemma request_error_passes:
  assumes "bench_laws net B" and "net addr = Some (spawn_fake_backend Drop)" and "addr \<noteq> []"
  shows "test_handler_backend_request_error_returns_bad_gateway B addr"
proof -
  obtain bm res where bm: "configured B (new_config [test_backend_conf ''main'' (http_url addr)] None)
      new_backend_manager = Done bm" "delivered (tb_http B) (fake_reply Drop) res"
    and answer: "\<And>hs. \<not> hs_request_body_buffer hs \<Longrightarrow> hs_retry_attempts hs = 1 \<Longrightarrow>
        respond B hs bm (host_request B (he_empty_body (tb_http B))) =
          (case res of
             Inl e \<Rightarrow> Done (into_response (tb_http B) (BackendRequestError e))
           | Inr v \<Rightarrow> Done (fst (buffer_response (tb_http B) hs None v)))"
    using main_router [OF assms] by blast
  then obtain e where "res = Inl e"
    by (cases res) simp_all
  with bm(1) answer [of "new_state False 1024"] show ?thesis
    by (simp add: test_handler_backend_request_error_returns_bad_gateway_def test_handler_def passes_def has_cause_def)
qed


text \<open>The two tests in which the response head arrives but the body does not.\<close>

lemma partial_body:
  assumes "delivered H (Responds 200 5 ''hi'' con) (Inr v)" and "hs_response_body_buffer hs"
    and "hs_response_body_size_limit hs = 1024"
  shows "buffer_response H hs None v = (into_response H BackendTimeout, None) \<and> con \<noteq> Connection_closed \<or>
     (\<exists>e. buffer_response H hs None v = (into_response H (BackendBodyError e), None)) \<and> con = Connection_closed"
proof -
  have size: "he_size_exact H (rs_body v) = Some 5"
    using assms(1) by simp
  have "case he_collect H (hs_response_body_timeout hs) 1024 (rs_body v) of
      Elapsed \<Rightarrow> con \<noteq> Connection_closed
    | In_time (Inl _) \<Rightarrow> con = Connection_closed
    | In_time (Inr _) \<Rightarrow> False"
    using assms(1) by (auto split: timed.splits sum.splits dest!: spec [where x = "hs_response_body_timeout hs"]
        spec [where x = "1024 :: usize"])
  then show ?thesis
    using assms(2,3) size
    by (auto simp: buffer_response_def bufferable_def split: timed.splits sum.splits)
qed

lemma timeout_passes:
  assumes "bench_laws net B" and "net addr = Some (spawn_fake_backend StallBody)" and "addr \<noteq> []"
  shows "test_handler_backend_timeout_returns_gateway_timeout B addr"
proof -
  let ?hs = "(new_state True 1024)\<lparr>hs_response_body_timeout := 50000000\<rparr>"
  obtain bm res where bm: "configured B (new_config [test_backend_conf ''main'' (http_url addr)] None)
      new_backend_manager = Done bm" "delivered (tb_http B) (fake_reply StallBody) res"
    and answer: "\<And>hs. \<not> hs_request_body_buffer hs \<Longrightarrow> hs_retry_attempts hs = 1 \<Longrightarrow>
        respond B hs bm (host_request B (he_empty_body (tb_http B))) =
          (case res of
             Inl e \<Rightarrow> Done (into_response (tb_http B) (BackendRequestError e))
           | Inr v \<Rightarrow> Done (fst (buffer_response (tb_http B) hs None v)))"
    using main_router [OF assms] by blast
  then obtain v where v: "res = Inr v"
    by (cases res) simp_all
  have "buffer_response (tb_http B) ?hs None v = (into_response (tb_http B) BackendTimeout, None)"
    using partial_body [of "tb_http B" Silence v ?hs] bm(2) by (simp add: v)
  with bm(1) answer [of ?hs] v show ?thesis
    by (simp add: test_handler_backend_timeout_returns_gateway_timeout_def test_handler_def passes_def has_cause_def)
qed

lemma body_error_passes:
  assumes "bench_laws net B" and "net addr = Some (spawn_fake_backend TruncateBody)" and "addr \<noteq> []"
  shows "test_handler_backend_body_error_returns_bad_gateway B addr"
proof -
  let ?hs = "new_state True 1024"
  obtain bm res where bm: "configured B (new_config [test_backend_conf ''main'' (http_url addr)] None)
      new_backend_manager = Done bm" "delivered (tb_http B) (fake_reply TruncateBody) res"
    and answer: "\<And>hs. \<not> hs_request_body_buffer hs \<Longrightarrow> hs_retry_attempts hs = 1 \<Longrightarrow>
        respond B hs bm (host_request B (he_empty_body (tb_http B))) =
          (case res of
             Inl e \<Rightarrow> Done (into_response (tb_http B) (BackendRequestError e))
           | Inr v \<Rightarrow> Done (fst (buffer_response (tb_http B) hs None v)))"
    using main_router [OF assms] by blast
  then obtain v where v: "res = Inr v"
    by (cases res) simp_all
  obtain e where "buffer_response (tb_http B) ?hs None v = (into_response (tb_http B) (BackendBodyError e), None)"
    using partial_body [of "tb_http B" Connection_closed v ?hs] bm(2) by (auto simp: v)
  with bm(1) answer [of ?hs] v show ?thesis
    by (simp add: test_handler_backend_body_error_returns_bad_gateway_def test_handler_def passes_def has_cause_def)
qed

subsection \<open>The handler's tests without a backend\<close>

lemma fallback_router:
  assumes "bench_laws net B"
  shows "\<exists>bm r. configured B (new_config [] (Some [test_backend_conf ''fallback'' (http_url ''127.0.0.1:1'')]))
       new_backend_manager = Done bm \<and>
     get_backend_router (me_healthy (tb_env B)) (sy_manager bm) = Some r \<and>
     r = bench_router 0 new_backend_manager [(http_backend ''fallback'' ''127.0.0.1:1'', 1)]"
proof -
  have live: "env_live (tb_env B)"
    using bench_lawsD(2) [OF assms] by (simp add: health_law_def)
  show ?thesis
    using configured_fallback [OF live bench_lawsD(3) [OF assms], of "''127.0.0.1:1''" "''fallback''"]
    by (simp add: get_backend_router_def new_backend_manager_def sys_new_def manager_new_def)
qed

lemma no_healthy_passes:
  assumes "bench_laws net B" and "net ''127.0.0.1:1'' = None"
  shows "test_handler_no_healthy_backends_returns_service_unavailable B"
proof -
  obtain bm r where bm: "configured B (new_config [] (Some [test_backend_conf ''fallback'' (http_url ''127.0.0.1:1'')]))
       new_backend_manager = Done bm"
    and r: "get_backend_router (me_healthy (tb_env B)) (sy_manager bm) = Some r"
    "r = bench_router 0 new_backend_manager [(http_backend ''fallback'' ''127.0.0.1:1'', 1)]"
    using fallback_router [OF assms(1)] by blast
  have "bench_healthy B r = []"
    using bench_check_closed [OF bench_lawsD(1) [OF assms(1)] assms(2)] by (simp add: bench_healthy_def r(2))
  then have "respond B (new_state False 1024) bm (host_request B (he_empty_body (tb_http B))) =
      Done (into_response (tb_http B) NoHealthyBackends)"
    unfolding respond_once [OF assms(1) r(1) new_state_sel(1,2)] by (simp add: execute_none [OF assms(1)])
  with bm show ?thesis
    by (simp add: test_handler_no_healthy_backends_returns_service_unavailable_def test_handler_def passes_def has_cause_def)
qed

lemma buffer_timeout_passes:
  assumes "bench_laws net B"
  shows "test_handler_request_body_buffer_timeout_returns_request_timeout B"
proof -
  let ?hs = "(new_state False 1024)\<lparr>hs_request_body_buffer := True, hs_request_body_timeout := 50000000\<rparr>"
  let ?req = "host_request B (tb_stalled B)"
  obtain bm r where bm: "configured B (new_config [] (Some [test_backend_conf ''fallback'' (http_url ''127.0.0.1:1'')]))
       new_backend_manager = Done bm"
    and r: "get_backend_router (me_healthy (tb_env B)) (sy_manager bm) = Some r"
    using fallback_router [OF assms] by blast
  have body: "rq_body (forwarded (tb_http B) ''example.com'' ?req) = tb_stalled B"
    by (simp add: forwarded_def host_request_def test_request_def)
  have "should_buffer (tb_http B) ?hs (forwarded (tb_http B) ''example.com'' ?req)"
    using bench_lawsD(8) [OF assms] by (simp add: should_buffer_def bufferable_def body body_law_def)
  moreover obtain e where "he_buffer_body (tb_http B) (tb_stalled B) 1024 50000000 = Inl e"
    using bench_lawsD(8) [OF assms] unfolding body_law_def by blast
  then have "buffer_request (tb_http B) ?hs (forwarded (tb_http B) ''example.com'' ?req) = Inl e"
    by (simp add: buffer_request_def body)
  ultimately have "respond B ?hs bm ?req = Done (into_response (tb_http B) RequestBodyBufferTimeout)"
    using host_request_authority(1) [OF assms, of "tb_stalled B"] host_request_authority(2) [OF assms] r
    by (simp add: respond_def handler_def Let_def forwarded_def [symmetric])
  with bm show ?thesis
    by (simp add: test_handler_request_body_buffer_timeout_returns_request_timeout_def test_handler_def passes_def has_cause_def)
qed

lemma fresh_manager_tests_pass:
  assumes "bench_laws net B"
  shows "test_handler_missing_authority_returns_bad_request B" and "test_handler_backend_not_ready_returns_service_unavailable B"
proof -
  have "he_authority (tb_http B) (test_request (tb_http B) (he_no_headers (tb_http B)) b) = None" for b
    using bench_lawsD(4) [OF assms] by (simp add: host_law_def test_request_def)
  then show "test_handler_missing_authority_returns_bad_request B"
    by (simp add: test_handler_missing_authority_returns_bad_request_def respond_def handler_def passes_def has_cause_def)
  have "get_backend_router (me_healthy (tb_env B)) (sy_manager new_backend_manager) = None"
    by (simp add: get_backend_router_def new_backend_manager_def sys_new_def manager_new_def)
  with host_request_authority(1) [OF assms] show "test_handler_backend_not_ready_returns_service_unavailable B"
    by (simp add: test_handler_backend_not_ready_returns_service_unavailable_def respond_def handler_def passes_def has_cause_def)
qed

lemma body_tests_pass:
  assumes "bench_laws net B"
  shows "test_error_cause_into_response B" "test_buffer_response_disabled_passes_through B"
    "test_buffer_response_buffers_small_body B" "test_buffer_response_skips_body_over_limit B"
    "test_buffer_request_ok B" "test_buffer_request_too_big B"
proof -
  note laws = bench_lawsD(7,8) [OF assms]
  have bytes: "tb_bytes B (he_full_body (tb_http B) bs) = Some bs"
    and size: "he_size_exact (tb_http B) (he_full_body (tb_http B) bs) = Some (of_nat (length bs))" for bs
    using laws by (simp_all add: body_law_def full_body_law_def)
  have collect: "he_collect (tb_http B) d 1024 (he_full_body (tb_http B) ''hello'') = In_time (Inr ''hello'')" for d
    using laws(2) by (simp add: body_law_def)
  have buffered: "he_buffer_body (tb_http B) (he_full_body (tb_http B) bs) limit d =
      (if length bs \<le> unat limit then Inr bs else Inl ''body too big'')" for bs limit d
    using laws(2) by (simp add: body_law_def)
  show "test_error_cause_into_response B"
    by (simp add: test_error_cause_into_response_def bytes)
  show "test_buffer_response_disabled_passes_through B" "test_buffer_response_buffers_small_body B"
    "test_buffer_response_skips_body_over_limit B"
    by (simp_all add: test_buffer_response_disabled_passes_through_def
        test_buffer_response_buffers_small_body_def test_buffer_response_skips_body_over_limit_def
        buffered_hello_def Let_def buffer_response_def bufferable_def new_response_def bytes size collect)
  show "test_buffer_request_ok B" "test_buffer_request_too_big B"
    by (simp_all add: test_buffer_request_ok_def test_buffer_request_too_big_def buffer_request_def
        test_request_def buffered)
qed

end
