(* ===== verification/Service_Tests.thy ===== *)
theory Service_Tests
  imports Unit_Tests
begin

section \<open>The unit tests of the backend manager, the API and the metrics\<close>

text \<open>
  The tests of \<open>src/backend.rs\<close>, \<open>src/api.rs\<close>, \<open>src/metrics.rs\<close> and \<open>src/cli.rs\<close>, translated as
  those of \<open>Unit_Tests\<close>.
\<close>

subsection \<open>Tests of backend.rs\<close>

text \<open>\<open>err.to_string().contains(..)\<close>: the outermost message of the chain.\<close>

fun contains :: "string \<Rightarrow> string \<Rightarrow> bool" where
  "contains [] p = (p = [])"
| "contains (x # xs) p = (starts_with (x # xs) p \<or> contains xs p)"

definition error_contains :: "error + unit \<Rightarrow> string \<Rightarrow> bool" where
  "error_contains r p = (case r of Inl (msg # _) \<Rightarrow> contains msg p | _ \<Rightarrow> False)"

definition test_config_default :: bool where
  "test_config_default =
     (let cfg = config_default in
      cf_strategy cfg = LeastOutstandingRequests \<and> cf_backends cfg = [] \<and> cf_fallback cfg = None)"

definition test_backend_from_conf_builds_health_uri :: "('h, 'b) bench \<Rightarrow> bool" where
  "test_backend_from_conf_builds_health_uri B =
     (let u = \<lparr>url_scheme = ''http'', url_authority = ''example.com:1234'', url_path = ''/base/path''\<rparr>;
          conf = test_backend_conf ''foo'' u
      in passes (and_then (backend_from_conf (tb_http B) conf) (\<lambda>backend. Done
           (be_name backend = ''foo'' \<and>
            be_uri_health backend = \<lparr>uri_scheme = Some ''http'', uri_authority = Some ''example.com:1234'',
              uri_path_and_query = Some ''/health''\<rparr>))))"

definition test_set_config_rejects_duplicate_names :: "('h, 'b) bench \<Rightarrow> bool" where
  "test_set_config_rejects_duplicate_names B =
     (let config = new_config [test_backend_conf ''dup'' (http_url ''127.0.0.1:1'')]
            (Some [test_backend_conf ''dup'' (http_url ''127.0.0.1:2'')])
      in passes (and_then (set_config (tb_env B) config new_manager) (\<lambda>(err, _). Done
           (error_contains err ''Non-unique''))))"

definition test_set_config_empty_backends_ok :: "('h, 'b) bench \<Rightarrow> bool" where
  "test_set_config_empty_backends_ok B =
     (let config = new_config [] None in
      passes (and_then (configured B config new_manager) (\<lambda>bm. Done
        (get_config bm = config \<and>
         get_backend_router (me_healthy (tb_env B)) (sy_manager bm) = None \<and>
         get_healthy_nodes (me_healthy (tb_env B)) (sy_manager bm) = []))))"

definition test_set_backend_state_not_found :: "('h, 'b) bench \<Rightarrow> bool" where
  "test_set_backend_state_not_found B =
     passes (and_then (set_backend_state (tb_env B) ''nonexistent'' True new_manager) (\<lambda>(err, _). Done
       (error_contains err ''Backend not found'')))"

text \<open>\<open>bm.set_backend_state(name, enabled).await.unwrap()\<close>.\<close>

definition switched_state :: "('h, 'b) bench \<Rightarrow> string \<Rightarrow> bool \<Rightarrow> sys \<Rightarrow> sys outcome" where
  "switched_state B name enabled s =
     and_then (set_backend_state (tb_env B) name enabled s)
       (\<lambda>(r, s1). case r of Inl _ \<Rightarrow> Panicked | Inr _ \<Rightarrow> Done s1)"

text \<open>The test asserts after each step; after enabling it expects \<open>get_backend_router\<close> to be \<open>None\<close>,
  since the port is closed and there is no fallback.\<close>

definition test_set_backend_state_toggle :: "('h, 'b) bench \<Rightarrow> bool" where
  "test_set_backend_state_toggle B =
     (let config = new_config [(test_backend_conf ''foo'' (http_url ''127.0.0.1:1''))\<lparr>bc_enabled := False\<rparr>] None;
          router = (\<lambda>bm. get_backend_router (me_healthy (tb_env B)) (sy_manager bm))
      in passes
        (and_then (configured B config new_manager) (\<lambda>bm0.
         and_then (switched_state B ''foo'' True bm0) (\<lambda>bm1.
         and_then (switched_state B ''foo'' False bm1) (\<lambda>bm2.
         Done (router bm0 = None \<and>
           get_healthy_nodes (me_healthy (tb_env B)) (sy_manager bm1) = [] \<and> router bm1 = None \<and>
           router bm2 = None))))))"

text \<open>\<open>healthy_addr\<close>: where the healthy backend listens.\<close>

definition test_get_backend_router_falls_back_when_main_unhealthy :: "('h, 'b) bench \<Rightarrow> string \<Rightarrow> bool" where
  "test_get_backend_router_falls_back_when_main_unhealthy B healthy_addr =
     (let config = new_config [test_backend_conf ''main'' (http_url ''127.0.0.1:1'')]
            (Some [test_backend_conf ''fb'' (http_url healthy_addr)])
      in passes (and_then (configured B config new_manager) (\<lambda>bm. Done
           (get_healthy_nodes (me_healthy (tb_env B)) (sy_manager bm) = [] \<and>
            (case get_backend_router (me_healthy (tb_env B)) (sy_manager bm) of
               None \<Rightarrow> False
             | Some router \<Rightarrow>
                 let healthy = me_healthy (tb_env B) router
                 in length healthy = 1 \<and> be_name (healthy ! 0) = ''fb'')))))"

lemma backend_from_enabled: "backend_from_conf H (b\<lparr>bc_enabled := en\<rparr>) = backend_from_conf H b"
  by (simp add: backend_from_conf_def split: sum.split)

lemma manager_tests_pass:
  assumes "bench_laws net B" and "net ''127.0.0.1:1'' = None"
  shows "test_config_default" "test_backend_from_conf_builds_health_uri B"
    "test_set_config_rejects_duplicate_names B" "test_set_config_empty_backends_ok B"
    "test_set_backend_state_not_found B" "test_set_backend_state_toggle B"
proof -
  have live: "env_live (tb_env B)" and healthy: "me_healthy (tb_env B) r = bench_healthy B r" for r
    using bench_lawsD(2) [OF assms(1)] by (simp_all add: health_law_def)
  note uri = bench_lawsD(3) [OF assms(1)]
  show "test_config_default"
    by (simp add: test_config_default_def config_default_def)
  show "test_backend_from_conf_builds_health_uri B"
    using uri by (simp add: test_backend_from_conf_builds_health_uri_def backend_from_conf_def uri_law_def passes_def)
  show "test_set_config_rejects_duplicate_names B"
    by (simp add: test_set_config_rejects_duplicate_names_def set_config_def config_names_def
        fallback_list_def new_config_def passes_def error_contains_def starts_with_def)
  show "test_set_config_empty_backends_ok B"
    by (simp add: test_set_config_empty_backends_ok_def run_defs passes_def get_config_def
        get_backend_router_def get_healthy_nodes_def)
  show "test_set_backend_state_not_found B"
    by (simp add: test_set_backend_state_not_found_def set_backend_state_def switch_backend_def new_manager_def
        sys_new_def manager_new_def config_default_def passes_def error_contains_def starts_with_def)
  have "bench_check B t (http_backend ''foo'' ''127.0.0.1:1'') = Degraded" for t
    using bench_check_closed [OF bench_lawsD(1) [OF assms(1)] assms(2)] .
  moreover have "backend_from_conf (tb_http B) ((test_backend_conf ''foo'' (http_url ''127.0.0.1:1''))\<lparr>bc_enabled := True\<rparr>) =
      Done (http_backend ''foo'' ''127.0.0.1:1'')"
    using backend_from_http [OF uri, of "''127.0.0.1:1''" "''foo''"] by (simp add: backend_from_enabled)
  ultimately show "test_set_backend_state_toggle B"
    using env_liveD [OF live]
    by (simp add: test_set_backend_state_toggle_def run_defs passes_def switched_state_def set_backend_state_def
        switch_backend_def get_backend_router_def get_healthy_nodes_def healthy bench_healthy_def stop_router_def)
qed

lemma fall_back_test_passes:
  assumes "bench_laws net B" and "net ''127.0.0.1:1'' = None" and "net addr = Some spawn_healthy_backend"
    and "addr \<noteq> []"
  shows "test_get_backend_router_falls_back_when_main_unhealthy B addr"
proof -
  have live: "env_live (tb_env B)" and healthy: "me_healthy (tb_env B) r = bench_healthy B r" for r
    using bench_lawsD(2) [OF assms(1)] by (simp_all add: health_law_def)
  have "bench_check B t (http_backend ''main'' ''127.0.0.1:1'') = Degraded" for t
    using bench_check_closed [OF bench_lawsD(1) [OF assms(1)] assms(2)] .
  moreover have "bench_check B t (http_backend ''fb'' addr) = Healthy" for t
    using bench_check_ok [OF bench_lawsD(1) [OF assms(1)] assms(3) healthy_health] .
  ultimately show ?thesis
    using configured_main_fallback [OF live bench_lawsD(3) [OF assms(1)], of "''127.0.0.1:1''" addr "''main''" "''fb''"]
      assms(4)
    by (simp add: test_get_backend_router_falls_back_when_main_unhealthy_def passes_def get_backend_router_def get_healthy_nodes_def
        healthy bench_healthy_def) (simp add: http_backend_def)
qed


subsection \<open>Tests of api.rs\<close>

text \<open>The command line \<open>--config-path foo --api-token deadbeef\<close>.\<close>

definition test_cli_args :: "cli_parsers \<Rightarrow> string \<Rightarrow> cli" where
  "test_cli_args P host =
     (let c = cli_default P host ''foo'' in c\<lparr>cli_api := (cli_api c)\<lparr>api_token := Some ''deadbeef''\<rparr>\<rparr>)"

definition test_cli :: "cli_parsers \<Rightarrow> string \<Rightarrow> bool" where
  "test_cli P host = cli_accepted (cli_default P host ''foo'')"

text \<open>A request of these tests, and the world: a fresh manager, a log handle whose layer is gone.\<close>

definition test_api_request ::
  "('h, 'b) http_env \<Rightarrow> string \<Rightarrow> uri \<Rightarrow> 'b \<Rightarrow> string \<Rightarrow> ('h, 'b) request" where
  "test_api_request H meth u body auth =
     \<lparr>rq_method = meth, rq_uri = u, rq_version = HTTP_11,
      rq_headers = he_insert H ''authorization'' auth (he_no_headers H), rq_body = body,
      rq_extensions = no_extensions\<rparr>"

definition api_uri :: "string \<Rightarrow> uri" where
  "api_uri path = \<lparr>uri_scheme = None, uri_authority = None, uri_path_and_query = Some path\<rparr>"

definition foo_uri :: "string \<Rightarrow> uri" where
  "foo_uri path = \<lparr>uri_scheme = Some ''http'', uri_authority = Some ''foo'', uri_path_and_query = Some path\<rparr>"

text \<open>\<open>lib\<close>: the states of the library's layers, the WAF's and that of the SEV-SNP endpoint.\<close>

definition test_world :: "string \<Rightarrow> 'w \<times> 'v \<Rightarrow> (sys, 'w, 'v) world" where
  "test_world path lib = \<lparr>wo_manager = sys_new path 1000000000 3000000000 (\<lambda>_. None),
     wo_log_level = None, wo_waf = fst lib, wo_sev = snd lib\<rparr>"

definition api_status ::
  "('h, 'b, 'w, 'v) api_env \<Rightarrow> ('h, 'b) mgr_env \<Rightarrow> api_router \<Rightarrow> (sys, 'w, 'v) world \<Rightarrow> ('h, 'b) request \<Rightarrow>
   status outcome" where
  "api_status A E router w req =
     and_then (serve_api A (bm_ops E) router req w) (\<lambda>(resp, _). Done (rs_status resp))"

text \<open>Each request is served by a clone of the router, on the same manager; the first three leave it
  as it is.\<close>

definition test_api_auth ::
  "('h, 'b, 'w, 'v) api_env \<Rightarrow> ('h, 'b) mgr_env \<Rightarrow> cli \<Rightarrow> 'w \<times> 'v \<Rightarrow> bool" where
  "test_api_auth A E c lib =
     (case setup_api_axum_router A c False of
        Inl _ \<Rightarrow> False
      | Inr router \<Rightarrow>
          let get = (\<lambda>u. test_api_request (ae_http A) ''GET'' (u ''/config/get'') (he_empty_body (ae_http A)));
              status = api_status A E router (test_world [] lib)
          in status (get api_uri ''beef'') = Done UNAUTHORIZED \<and>
             status (get api_uri ''Bearer '') = Done UNAUTHORIZED \<and>
             status (get api_uri ''Bearer foobar'') = Done UNAUTHORIZED \<and>
             status (get foo_uri ''Bearer deadbeef'') = Done OK)"

text \<open>\<open>config_yaml\<close>: the bytes of the repository's \<open>config.yaml\<close>.\<close>

definition test_config ::
  "('h, 'b, 'w, 'v) api_env \<Rightarrow> ('h, 'b) mgr_env \<Rightarrow> cli \<Rightarrow> 'w \<times> 'v \<Rightarrow> bytes \<Rightarrow> bool" where
  "test_config A E c lib config_yaml =
     (case setup_api_axum_router A c False of
        Inl _ \<Rightarrow> False
      | Inr router \<Rightarrow>
          api_status A E router (test_world ''testconfig.yaml'' lib)
            (test_api_request (ae_http A) ''PUT'' (foo_uri ''/config/put'')
               (he_full_body (ae_http A) config_yaml) ''Bearer deadbeef'') = Done OK)"

text \<open>What \<open>config.yaml\<close> says.\<close>

definition repository_config :: config where
  "repository_config =
     \<lparr>cf_strategy = Strategy_named ''wrr'',
      cf_backends = [test_backend_conf ''host1'' (http_url ''127.0.0.1:9001''),
        (test_backend_conf ''host2'' (http_url ''127.0.0.1:9002''))\<lparr>bc_weight := 2\<rparr>],
      cf_fallback = Some [test_backend_conf ''host3'' (http_url ''127.0.0.1:9003'')]\<rparr>"

text \<open>What these tests rely on besides the laws of the bench: paths match the routes without
  captures only literally and no pattern with captures, a body made from bytes is extracted, the
  file is read as YAML and is no JSON, the configuration can be printed, the file written.\<close>

definition api_laws :: "('h, 'b) bench \<Rightarrow> ('h, 'b, 'w, 'v) api_env \<Rightarrow> bytes \<Rightarrow> bool" where
  "api_laws B A config_yaml \<longleftrightarrow>
     ae_http A = tb_http B \<and>
     (\<forall>req p q. uri_path_and_query (rq_uri req) = Some q \<longrightarrow> q \<in> {''/config/get'', ''/config/put''} \<longrightarrow>
        ae_captures A (Exact p) req = (if p = q then Some [] else None)) \<and>
     (\<forall>bs. ae_bytes A (he_full_body (ae_http A) bs) = Inr bs) \<and>
     (\<exists>e. ae_from_json A config_yaml = Inl e) \<and> ae_from_yaml A config_yaml = Inr repository_config \<and>
     (\<exists>j. ae_to_json_pretty A config_default = Inr j) \<and>
     (\<exists>y. me_to_yaml (tb_env B) repository_config = Inr y) \<and>
     (\<forall>y fs. \<exists>fs'. me_write (tb_env B) ''testconfig.yaml'' y fs = (Inr (), fs'))"

lemma api_router_of_cli:
  "setup_api_axum_router A (test_cli_args P host) False = Inr \<lparr>ar_token = ''deadbeef'', ar_routes = api_routes False False\<rparr>"
  by (simp add: setup_api_axum_router_def test_cli_args_def Let_def cli_default_def)

lemma api_route_found:
  assumes "api_laws B A yaml" and "uri_path_and_query (rq_uri req) = Some q"
  shows "q = ''/config/get'' \<Longrightarrow> find_route A req (api_routes False False) =
      Some (\<lparr>ro_pattern = Exact ''/config/get'', ro_methods = get_methods, ro_auth = True, ro_endpoint = Ep_config_get\<rparr>, [])"
    and "q = ''/config/put'' \<Longrightarrow> find_route A req (api_routes False False) =
      Some (\<lparr>ro_pattern = Exact ''/config/put'', ro_methods = Some [''PUT''], ro_auth = True, ro_endpoint = Ep_config_put\<rparr>, [])"
  using assms by (simp_all add: api_laws_def api_routes_def)

lemma authorized_status:
  assumes "find_route A req (api_routes False False) = Some (ro, caps)" and "ro_auth ro"
    and "he_get (ae_http A) authorization (rq_headers req) = Some ''Bearer deadbeef''"
  shows "api_status A E \<lparr>ar_token = ''deadbeef'', ar_routes = api_routes False False\<rparr> w req =
     and_then (route_service A (bm_ops E) ro caps req w) (\<lambda>(resp, _). Done (rs_status resp))"
  using assms by (simp add: api_status_def serve_api_def auth_middleware_cases bearer_def)

lemma api_auth_passes:
  assumes "bench_laws net B" and "api_laws B A yaml"
  shows "test_api_auth A (tb_env B) (test_cli_args P host) lib"
proof -
  have H: "ae_http A = tb_http B"
    using assms(2) by (simp add: api_laws_def)
  obtain j where j: "ae_to_json_pretty A config_default = Inr j"
    using assms(2) by (auto simp: api_laws_def)
  let ?get = "\<lambda>u. test_api_request (ae_http A) ''GET'' (u ''/config/get'') (he_empty_body (ae_http A))"
  have auth: "he_get (ae_http A) authorization (rq_headers (?get u a)) = Some a" for u a
    using bench_lawsD(5) [OF assms(1)] by (simp add: H authorization_def test_api_request_def header_laws_def)
  have path: "uri_path_and_query (rq_uri (?get u a)) = Some ''/config/get''" if "u = api_uri \<or> u = foo_uri" for u a
    using that by (auto simp: test_api_request_def api_uri_def foo_uri_def)
  note route = api_route_found(1) [OF assms(2) path refl]
  let ?status = "api_status A (tb_env B) \<lparr>ar_token = ''deadbeef'', ar_routes = api_routes False False\<rparr> (test_world [] lib)"
  have refused: "?status (?get api_uri a) = Done UNAUTHORIZED" if "a \<noteq> ''Bearer deadbeef''" for a
    using that auth [of api_uri a]
    by (simp add: api_status_def serve_api_def route auth_middleware_cases bearer_def)
  have meth: "rq_method (?get u a) = ''GET''" for u a
    by (simp add: test_api_request_def)
  have config: "get_config (wo_manager (test_world [] lib)) = config_default"
    by (simp add: get_config_def test_world_def sys_new_def manager_new_def)
  have "?status (?get foo_uri ''Bearer deadbeef'') = Done OK"
    using authorized_status [OF route [of foo_uri]] auth [of foo_uri] j config
    by (simp add: route_service_def meth get_methods_def endpoint_handler_def config_get_def)
  with refused show ?thesis
    by (simp add: test_api_auth_def api_router_of_cli)
qed

lemma repository_config_applies:
  assumes "bench_laws net B"
  shows "\<exists>s'. set_config (tb_env B) repository_config s = Done (Inr (), s') \<and>
     get_config s' = repository_config \<and> bm_config_path (sy_manager s') = bm_config_path (sy_manager s)"
proof -
  have live: "env_live (tb_env B)"
    using bench_lawsD(2) [OF assms] by (simp add: health_law_def)
  have "url_ok (tb_http B) b" if "url_authority (bc_url b) \<noteq> []" for b
    using bench_lawsD(3) [OF assms] that by (simp add: url_ok_def uri_law_def)
  then have "\<forall>b \<in> set (enabled_backends repository_config) \<union> set (enabled_fallback repository_config).
      url_ok (tb_http B) b"
    by (auto simp: enabled_backends_def enabled_fallback_def fallback_list_def repository_config_def
        http_url_def test_backend_conf_def)
  then obtain s' where s': "apply_config (tb_env B) (with_config repository_config s) = Done s'"
    using apply_config_total [of "with_config repository_config s" "tb_env B"] live by auto
  moreover have "distinct (config_names repository_config)"
    by (simp add: config_names_def fallback_list_def repository_config_def)
  ultimately show ?thesis
    using apply_config_frame(1,2) [OF s'] by (simp add: set_config_def get_config_def)
qed

lemma config_upload_passes:
  assumes "bench_laws net B" and "api_laws B A yaml"
  shows "test_config A (tb_env B) (test_cli_args P host) lib yaml"
proof -
  let ?req = "test_api_request (ae_http A) ''PUT'' (foo_uri ''/config/put'') (he_full_body (ae_http A) yaml)
      ''Bearer deadbeef''"
  let ?w = "test_world ''testconfig.yaml'' lib"
  have H: "ae_http A = tb_http B"
    using assms(2) by (simp add: api_laws_def)
  have auth: "he_get (ae_http A) authorization (rq_headers ?req) = Some ''Bearer deadbeef''"
    using bench_lawsD(5) [OF assms(1)] by (simp add: H authorization_def test_api_request_def header_laws_def)
  have path: "uri_path_and_query (rq_uri ?req) = Some ''/config/put''" and meth: "rq_method ?req = ''PUT''"
    by (simp_all add: test_api_request_def foo_uri_def)
  have "ae_bytes A (he_full_body (ae_http A) yaml) = Inr yaml"
    using assms(2) unfolding api_laws_def by blast
  then have body: "ae_bytes A (rq_body ?req) = Inr yaml"
    by (simp add: test_api_request_def)
  have parse: "parse_config (ae_from_json A) (ae_from_yaml A) yaml = Inr repository_config"
    using assms(2) by (auto simp: api_laws_def parse_config_def)
  obtain s' where s': "set_config (tb_env B) repository_config (wo_manager ?w) = Done (Inr (), s')"
    "get_config s' = repository_config" "bm_config_path (sy_manager s') = ''testconfig.yaml''"
    using repository_config_applies [OF assms(1), of "wo_manager ?w"]
    by (auto simp: test_world_def sys_new_def manager_new_def)
  obtain y where y: "me_to_yaml (tb_env B) repository_config = Inr y"
    using assms(2) by (auto simp: api_laws_def)
  obtain fs' where fs': "me_write (tb_env B) ''testconfig.yaml'' y (sy_files s') = (Inr (), fs')"
    using assms(2) unfolding api_laws_def by blast
  have "persist_config (tb_env B) s' = (Inr (), s'\<lparr>sy_files := fs'\<rparr>)"
    using s'(2,3) y fs' by (simp add: persist_config_def get_config_def)
  then show ?thesis
    using authorized_status [OF api_route_found(2) [OF assms(2) path refl] _ auth, of "tb_env B" ?w] s'(1)
    by (simp add: test_config_def api_router_of_cli route_service_def meth endpoint_handler_def body
        config_put_def parse get_methods_def)
qed

subsection \<open>The tests of metrics.rs and cli.rs\<close>

text \<open>\<open>R\<close>, \<open>tick\<close>: the environment in which \<open>runner.update()\<close> runs.\<close>

definition test_metrics_handler_serves_cached_snapshot ::
  "('h, 'b) http_env \<Rightarrow> runner_env \<Rightarrow> nat \<Rightarrow> bool" where
  "test_metrics_handler_serves_cached_snapshot H R tick =
     (case update R tick runner_new of
        (Inl _, _) \<Rightarrow> False
      | (Inr _, cache) \<Rightarrow>
          let response = metrics_handler H cache
          in rs_status response = OK \<and>
             he_get H ''content-type'' (rs_headers response) = Some prometheus_content_type)"

lemma metrics_test_passes:
  assumes "header_laws H" and "succeeds R tick"
  shows "test_metrics_handler_serves_cached_snapshot H R tick"
  using assms
  by (auto simp: test_metrics_handler_serves_cached_snapshot_def succeeds_def metrics_handler_def header_laws_def
      Let_def split: prod.splits sum.splits)

lemma cli_test_passes: "test_cli P host"
  by (simp add: test_cli_def cli_default_accepted)

end
