(* ===== verification/Test_Properties.thy ===== *)
theory Test_Properties
  imports Service_Tests
begin

section \<open>The unit tests hold for the model\<close>

text \<open>
  A concrete bench on which the laws of \<open>Test_Bench\<close> hold (a network of a few servers, bodies that
  are complete or broken off), and the properties: all translated tests pass on every bench with
  these laws.
\<close>

subsection \<open>A concrete bench\<close>

datatype bench_body = Complete bytes | Broken usize connection

definition bench_http :: "(headers, bench_body) http_env" where
  "bench_http =
     \<lparr>he_uri_build = (\<lambda>s a p. if a = [] then Inl ''empty authority''
        else Inr \<lparr>uri_scheme = Some s, uri_authority = Some a, uri_path_and_query = Some p\<rparr>),
      he_uri_error = (\<lambda>e. e),
      he_header_value = Some,
      he_insert = sample_insert,
      he_get = (\<lambda>n h. map_of h n),
      he_strip = filter (\<lambda>p. fst p \<noteq> ''connection''),
      he_no_headers = [],
      he_text_headers = [(''content-type'', ''text/plain'')],
      he_empty_body = Complete [],
      he_full_body = Complete,
      he_size_exact = (\<lambda>b. case b of Complete bs \<Rightarrow> Some (of_nat (length bs)) | Broken n _ \<Rightarrow> Some n),
      he_authority = (\<lambda>req. case uri_authority (rq_uri req) of Some a \<Rightarrow> Some a
        | None \<Rightarrow> map_of (rq_headers req) ''host''),
      he_host = (\<lambda>a. Some (takeWhile (\<lambda>c. c \<noteq> CHR '':'') a)),
      he_buffer_body = (\<lambda>b limit d. case b of
          Complete bs \<Rightarrow> if length bs \<le> unat limit then Inr bs else Inl ''body too big''
        | Broken _ _ \<Rightarrow> Inl ''timed out''),
      he_collect = (\<lambda>d limit b. case b of
          Complete bs \<Rightarrow> In_time (if length bs \<le> unat limit then Inr bs else Inl ''length limit exceeded'')
        | Broken _ con \<Rightarrow> if con = Connection_closed then In_time (Inl ''unexpected eof'') else Elapsed)\<rparr>"

definition bench_net :: "string \<Rightarrow> (bytes \<Rightarrow> reaction) option" where
  "bench_net = [''127.0.0.1:2001'' \<mapsto> spawn_fake_backend Drop, ''127.0.0.1:2002'' \<mapsto> spawn_fake_backend StallBody,
     ''127.0.0.1:2003'' \<mapsto> spawn_fake_backend TruncateBody, ''127.0.0.1:2004'' \<mapsto> spawn_healthy_backend,
     ''127.0.0.1:2005'' \<mapsto> stub_backend]"

fun bench_deliver :: "reaction \<Rightarrow> string + (headers, bench_body) response" where
  "bench_deliver No_response = Inl ''connection closed''"
| "bench_deliver (Responds st len sent con) = Inr \<lparr>rs_status = st, rs_headers = [],
     rs_body = (if of_nat (length sent) = len then Complete sent else Broken len con),
     rs_error_cause = None, rs_retries = None\<rparr>"

definition bench_client :: "nat \<Rightarrow> (headers, bench_body) request \<Rightarrow> string + (headers, bench_body) response" where
  "bench_client n req =
     (case uri_authority (rq_uri req) of
        None \<Rightarrow> Inl ''no authority''
      | Some a \<Rightarrow> (case bench_net a of
            None \<Rightarrow> Inl ''connection refused''
          | Some srv \<Rightarrow> bench_deliver (srv (request_line req))))"

definition client_healthy :: "router \<Rightarrow> backend list" where
  "client_healthy r = filter (\<lambda>b. check bench_http (\<lambda>d req. In_time (bench_client 0 req)) (rt_check_timeout r) b = Healthy)
     (map fst (rt_backends r))"

definition bench_env :: "(headers, bench_body) mgr_env" where
  "bench_env =
     \<lparr>me_http = bench_http,
      me_watch = (\<lambda>r. Changed (map (\<lambda>p. (fst p, Degraded)) (rt_backends r)) Silent),
      me_healthy = client_healthy,
      me_stop = (\<lambda>r. Done ()),
      me_read = (\<lambda>p fs. case fs p of Some b \<Rightarrow> Inr b | None \<Rightarrow> Inl ''No such file or directory''),
      me_write = (\<lambda>p b fs. (Inr (), fs(p \<mapsto> b))),
      me_from_yaml = (\<lambda>y. if y = ''config'' then Inr repository_config
        else if y = ''lb'' then Inr (load_balancer_config ''127.0.0.1:2005'') else Inl ''invalid yaml''),
      me_to_yaml = (\<lambda>c. Inr ''config''),
      me_from_json = (\<lambda>j. Inl ''invalid json''),
      me_to_json_pretty = (\<lambda>c. Inr ''{}'')\<rparr>"

definition sample_bench :: "(headers, bench_body) bench" where
  "sample_bench =
     \<lparr>tb_env = bench_env, tb_execute = bench_client,
      tb_lb = (\<lambda>n r ex ctx req. case client_healthy r of
          [] \<Rightarrow> (Done (Inl No_Healthy_Nodes), ctx)
        | b # _ \<Rightarrow> wrap_executor (ex b ctx req)),
      tb_bytes = (\<lambda>b. case b of Complete bs \<Rightarrow> Some bs | Broken _ _ \<Rightarrow> None),
      tb_stalled = Broken 0 Silence\<rparr>"

lemma bench_http_sel [simp]: "tb_http sample_bench = bench_http" "tb_execute sample_bench = bench_client"
  by (simp_all add: sample_bench_def bench_env_def)

text \<open>The servers of the network send nothing, all or part of what they promise.\<close>

lemma deliver_law:
  assumes "bench_net a = Some srv"
  shows "delivered bench_http (srv line) (bench_deliver (srv line))"
proof -
  have "delivered bench_http (Responds st len [] Next_request)
      (bench_deliver (Responds st len [] Next_request))" if "len = 0" for st len
    using that by (simp add: bench_http_def)
  moreover have "delivered bench_http (fake_reply b) (bench_deliver (fake_reply b))" for b
    by (cases b) (simp_all add: bench_http_def)
  moreover have "delivered bench_http (stub_backend line) (bench_deliver (stub_backend line))"
    by (auto simp: stub_backend_def Let_def bench_http_def word_le_nat_alt)
  ultimately have "delivered bench_http (spawn_fake_backend b line) (bench_deliver (spawn_fake_backend b line))"
    "delivered bench_http (spawn_healthy_backend line) (bench_deliver (spawn_healthy_backend line))"
    "delivered bench_http (stub_backend line) (bench_deliver (stub_backend line))" for b
    by (simp_all add: spawn_fake_backend_def del: delivered.simps)
  with assms show ?thesis
    by (auto simp: bench_net_def simp del: delivered.simps split: if_splits)
qed

lemma sample_client_law: "client_law bench_net sample_bench"
  using deliver_law
  by (auto simp: client_law_def bench_client_def simp del: delivered.simps split: option.split)

lemma sample_health_law: "health_law sample_bench"
proof -
  have healthy: "bench_healthy sample_bench r = client_healthy r" for r
    by (simp add: bench_healthy_def bench_check_def client_healthy_def)
  have lb: "if client_healthy r = [] then tb_lb sample_bench n r ex ctx req = (Done (Inl No_Healthy_Nodes), ctx)
      else \<exists>b \<in> set (client_healthy r). tb_lb sample_bench n r ex ctx req = wrap_executor (ex b ctx req)"
    for n r ex ctx req
    by (cases "client_healthy r") (simp_all add: sample_bench_def)
  have "env_live (tb_env sample_bench)"
    by (simp add: env_live_def sample_bench_def bench_env_def list_all_iff)
  moreover have "me_healthy (tb_env sample_bench) r = client_healthy r" for r
    by (simp add: sample_bench_def bench_env_def)
  ultimately show ?thesis
    unfolding health_law_def healthy using lb by blast
qed

lemma bench_header_laws: "header_laws bench_http"
  by (auto simp: header_laws_def bench_http_def sample_insert_def map_of_filter_other)

lemma sample_bench_laws: "bench_laws bench_net sample_bench"
  unfolding bench_laws_def bench_http_sel
proof (intro conjI)
  show "uri_law bench_http" "host_law bench_http" "authority_law bench_http" "full_body_law bench_http"
    by (simp_all add: uri_law_def host_law_def authority_law_def full_body_law_def bench_http_def)
  show "body_law sample_bench"
    by (simp add: body_law_def) (simp add: sample_bench_def bench_http_def)
qed (rule sample_client_law sample_health_law bench_header_laws)+

lemma bench_net_simps [simp]:
  "bench_net ''127.0.0.1:1'' = None"
  "bench_net ''127.0.0.1:2001'' = Some (spawn_fake_backend Drop)"
  "bench_net ''127.0.0.1:2002'' = Some (spawn_fake_backend StallBody)"
  "bench_net ''127.0.0.1:2003'' = Some (spawn_fake_backend TruncateBody)"
  "bench_net ''127.0.0.1:2004'' = Some spawn_healthy_backend"
  "bench_net ''127.0.0.1:2005'' = Some stub_backend" "bench_net ''127.0.0.1:666'' = None"
  by (simp_all add: bench_net_def)

subsection \<open>All tests pass\<close>

text \<open>C37: the tests of \<open>src/routing.rs\<close> pass: for every bench that keeps the laws, with fake backends
  that drop, stall and truncate listening at three addresses and port 1 closed, the error responses,
  the buffering of bodies and each of the handler's error answers are what the tests expect, from
  the uploaded configuration through health checks and retries to the status and the cause.\<close>

theorem routing_tests_pass:
  assumes "bench_laws net B" and "net ''127.0.0.1:1'' = None"
    and "net dropping = Some (spawn_fake_backend Drop)" and "dropping \<noteq> []"
    and "net stalling = Some (spawn_fake_backend StallBody)" and "stalling \<noteq> []"
    and "net truncating = Some (spawn_fake_backend TruncateBody)" and "truncating \<noteq> []"
  shows "test_error_cause_into_response B \<and> test_buffer_response_disabled_passes_through B \<and>
     test_buffer_response_buffers_small_body B \<and> test_buffer_response_skips_body_over_limit B \<and>
     test_buffer_request_ok B \<and> test_buffer_request_too_big B \<and>
     test_handler_missing_authority_returns_bad_request B \<and> test_handler_backend_not_ready_returns_service_unavailable B \<and>
     test_handler_no_healthy_backends_returns_service_unavailable B \<and> test_handler_backend_request_error_returns_bad_gateway B dropping \<and>
     test_handler_backend_timeout_returns_gateway_timeout B stalling \<and> test_handler_backend_body_error_returns_bad_gateway B truncating \<and>
     test_handler_request_body_buffer_timeout_returns_request_timeout B"
  using body_tests_pass [OF assms(1)] fresh_manager_tests_pass [OF assms(1)]
    no_healthy_passes [OF assms(1,2)] request_error_passes [OF assms(1,3,4)]
    timeout_passes [OF assms(1,5,6)] body_error_passes [OF assms(1,7,8)] buffer_timeout_passes [OF assms(1)]
  by (intro conjI)

theorem routing_tests_pass_witness:
  "test_handler_backend_request_error_returns_bad_gateway sample_bench ''127.0.0.1:2001'' \<and>
   test_handler_backend_timeout_returns_gateway_timeout sample_bench ''127.0.0.1:2002'' \<and>
   test_handler_backend_body_error_returns_bad_gateway sample_bench ''127.0.0.1:2003''"
  using routing_tests_pass [OF sample_bench_laws bench_net_simps(1,2) _ bench_net_simps(3) _ bench_net_simps(4)]
  by simp

text \<open>C38: the tests of \<open>src/backend.rs\<close>, \<open>src/api.rs\<close>, \<open>src/metrics.rs\<close> and \<open>src/cli.rs\<close> pass: rejected and
  empty configurations, switching a backend whose port is closed, the fallback when the main
  backend is unreachable, the four authorization headers, and the upload of the repository's own
  configuration file.\<close>

theorem service_tests_pass:
  assumes "bench_laws net B" and "net ''127.0.0.1:1'' = None"
    and "net healthy_addr = Some spawn_healthy_backend" and "healthy_addr \<noteq> []"
    and "api_laws B A config_yaml" and "succeeds R tick"
  shows "test_config_default \<and> test_backend_from_conf_builds_health_uri B \<and>
     test_set_config_rejects_duplicate_names B \<and> test_set_config_empty_backends_ok B \<and>
     test_set_backend_state_not_found B \<and> test_set_backend_state_toggle B \<and>
     test_get_backend_router_falls_back_when_main_unhealthy B healthy_addr \<and>
     test_api_auth A (tb_env B) (test_cli_args P host) lib \<and>
     test_config A (tb_env B) (test_cli_args P host) lib config_yaml \<and>
     test_metrics_handler_serves_cached_snapshot (tb_http B) R tick \<and> test_cli P host"
  using manager_tests_pass [OF assms(1,2)] fall_back_test_passes [OF assms(1-4)]
    api_auth_passes [OF assms(1,5), of P host lib] config_upload_passes [OF assms(1,5), of P host lib]
    metrics_test_passes [OF bench_lawsD(5) [OF assms(1)] assms(6)] cli_test_passes [of P host]
  by (intro conjI)

definition bench_api :: "(headers, bench_body, unit, nat) api_env" where
  "bench_api = \<lparr>ae_http = bench_http,
     ae_captures = (\<lambda>p req. case p of Exact s \<Rightarrow> if uri_path_and_query (rq_uri req) = Some s then Some [] else None
       | Nested _ \<Rightarrow> None),
     ae_bytes = (\<lambda>b. case b of Complete bs \<Rightarrow> Inr bs | Broken _ _ \<Rightarrow> Inl (status_response bench_http 400)),
     ae_level = (\<lambda>s. None), ae_from_json = me_from_json bench_env, ae_from_yaml = me_from_yaml bench_env,
     ae_to_json_pretty = me_to_json_pretty bench_env,
     ae_waf = (\<lambda>req f. (status_response bench_http 200, f)), ae_sev_snp = (\<lambda>req n. (status_response bench_http 200, n)),
     ae_sev_snp_init = Inr (), ae_limiter_init = Inr (), ae_admit = (\<lambda>req n. (n < 100, Suc n)),
     ae_path_rejection = status_response bench_http 500, ae_not_found = status_response bench_http 404,
     ae_method_not_allowed = status_response bench_http 405\<rparr>"

lemma bench_api_laws: "api_laws sample_bench bench_api ''config''"
  by (simp add: api_laws_def bench_api_def)
    (auto simp: sample_bench_def bench_env_def bench_http_def)

definition bench_runner :: runner_env where
  "bench_runner = \<lparr>re_epoch_advance = (\<lambda>t. Inr ()), re_allocated = (\<lambda>t. Inr 1), re_resident = (\<lambda>t. Inr 2),
     re_encode = (\<lambda>t a r. Inr ''metrics'')\<rparr>"

lemma bench_runner_succeeds: "succeeds bench_runner 0"
  by (simp add: succeeds_def update_def bench_runner_def)

theorem service_tests_pass_witness:
  "test_get_backend_router_falls_back_when_main_unhealthy sample_bench ''127.0.0.1:2004'' \<and>
   test_set_backend_state_toggle sample_bench \<and>
   test_api_auth bench_api (tb_env sample_bench) (test_cli_args sample_parsers ''host'') ((), 0) \<and>
   test_config bench_api (tb_env sample_bench) (test_cli_args sample_parsers ''host'') ((), 0) ''config''"
  using service_tests_pass [OF sample_bench_laws bench_net_simps(1,5) _ bench_api_laws bench_runner_succeeds,
      of sample_parsers "''host''" "((), 0)"]
  by simp

end
