(* ===== verification/Load_Balancer_Test.thy ===== *)
theory Load_Balancer_Test
  imports Test_Properties Startup_Properties Traffic
begin

section \<open>The end-to-end test of main.rs\<close>

text \<open>
  \<open>test_load_balancer\<close> of \<open>src/main.rs\<close> starts the whole program on a command line, with one good
  and one bad backend in its configuration file, and sends two requests to its HTTPS server: one
  to the API's health endpoint, one to be proxied. Here it runs \<open>core_main\<close> from the command line
  to the started tasks, takes the router that the HTTPS server serves, and serves the two requests
  with it, through the metrics middleware and everything behind it, on the manager as startup has
  left it. The request-meta layer in front of the middleware belongs to \<open>ic-bn-lib\<close>.
\<close>

subsection \<open>The test\<close>

text \<open>\<open>cfg_path\<close>, \<open>crt_path\<close>: the files in the temporary directory.\<close>

definition load_balancer_cli :: "cli_parsers \<Rightarrow> string \<Rightarrow> string \<Rightarrow> string \<Rightarrow> cli" where
  "load_balancer_cli P host cfg_path crt_path =
     (let c = cli_default P host cfg_path in
      c\<lparr>cli_listen := listen_default\<lparr>listen_http := ''127.0.0.1:18080'', listen_https := ''127.0.0.1:18443''\<rparr>,
        cli_cert := (cert_defaults P)\<lparr>cert_provider_file := [crt_path]\<rparr>,
        cli_api := api_default\<lparr>api_hostname := Some ''foobarhost'', api_token := Some ''blah''\<rparr>\<rparr>)"

text \<open>The application behind the server with that name.\<close>

fun served_by :: "string \<Rightarrow> task list \<Rightarrow> app_router option" where
  "served_by name [] = None"
| "served_by name (t # ts) =
     (case t of
        Server n _ (Serve_all app) _ \<Rightarrow> if n = name then Some app else served_by name ts
      | _ \<Rightarrow> served_by name ts)"

definition client_get :: "('h, 'b) bench \<Rightarrow> string \<Rightarrow> string \<Rightarrow> ('h, 'b) request" where
  "client_get B authority path =
     \<lparr>rq_method = ''GET'', rq_uri = api_uri path, rq_version = HTTP_11,
      rq_headers = he_insert (tb_http B) ''host'' authority (he_no_headers (tb_http B)),
      rq_body = he_empty_body (tb_http B), rq_extensions = no_extensions\<rparr>"

text \<open>What the client gets: \<open>conn\<close>, \<open>time\<close> and \<open>elapsed\<close> are the connection's id, the clock and the
  measured duration, which the middleware reports.\<close>

definition lb_serve ::
  "('h, 'b, 'w, 'v, 'r) startup_env \<Rightarrow> ('h, 'b, 'f) metrics_env \<Rightarrow> ('h, 'b) bench \<Rightarrow> string \<times> int \<times> 'f \<Rightarrow>
   app_router \<Rightarrow> (sys, 'w, 'v) world \<Rightarrow> ('h, 'b) request \<Rightarrow> ('h, 'b) response outcome" where
  "lb_serve S V B at app w req =
     (case at of (conn, time, elapsed) \<Rightarrow>
        and_then
          (serve_request (se_api S) (se_manager_env S) V True (\<lambda>_ _. None) (tb_lb B) app
             \<lparr>tq_conn_id = conn, tq_timestamp = time, tq_elapsed = elapsed, tq_request = req,
              tq_client = client_calls B\<rparr> w)
          (\<lambda>((resp, _), _). case resp of Some v \<Rightarrow> Done v | None \<Rightarrow> Pending))"

text \<open>\<open>r.text()\<close>: the body collected without limit.\<close>

definition body_is :: "('h, 'b) http_env \<Rightarrow> 'b \<Rightarrow> bytes \<Rightarrow> bool" where
  "body_is H body bs \<longleftrightarrow> he_collect H 1000000000 (- 1) body = In_time (Inr bs)"

text \<open>\<open>lib\<close>: the states of the library's layers when the requests come in.\<close>

definition test_load_balancer ::
  "('h, 'b, 'w, 'v, 'r) startup_env \<Rightarrow> ('h, 'b, 'f) metrics_env \<Rightarrow> ('h, 'b) bench \<Rightarrow> string \<times> int \<times> 'f \<Rightarrow>
   (nat \<Rightarrow> string) \<Rightarrow> cli \<Rightarrow> (string \<Rightarrow> bytes option) \<Rightarrow> 'w \<times> 'v \<Rightarrow> bool" where
  "test_load_balancer S V B at show_nat c fs lib =
     (case core_main S show_nat c (startup_new c fs) of
        Done (Inr _, s) \<Rightarrow>
          (case served_by ''server_https'' (su_tasks s) of
             None \<Rightarrow> False
           | Some app \<Rightarrow>
               let w = \<lparr>wo_manager = su_sys s, wo_log_level = None, wo_waf = fst lib, wo_sev = snd lib\<rparr>
               in passes (and_then (lb_serve S V B at app w (client_get B ''foobarhost:18443'' ''/health''))
                    (\<lambda>v. Done (rs_status v = NO_CONTENT))) \<and>
                  passes (and_then (lb_serve S V B at app w (client_get B ''127.0.0.1:18443'' ''/test''))
                    (\<lambda>r. Done (is_success (rs_status r) \<and> body_is (tb_http B) (rs_body r) ''DEADBEEF''))))
      | _ \<Rightarrow> False)"

subsection \<open>What the test relies on\<close>

text \<open>Nothing that startup constructs fails (\<open>startup_ok\<close>), and the files are there.\<close>

definition load_balancer_laws ::
  "('h, 'b, 'w, 'v, 'r) startup_env \<Rightarrow> ('h, 'b) bench \<Rightarrow> string \<Rightarrow> string \<Rightarrow> (string \<Rightarrow> bytes option) \<Rightarrow> bool" where
  "load_balancer_laws S B addr cfg_path fs \<longleftrightarrow>
     startup_ok S \<and> se_manager_env S = tb_env B \<and> ae_http (se_api S) = tb_http B \<and>
     (\<exists>b. me_read (tb_env B) cfg_path fs = Inr b \<and>
        me_from_yaml (tb_env B) b = Inr (load_balancer_config addr)) \<and>
     he_host (tb_http B) ''foobarhost:18443'' = Some ''foobarhost'' \<and>
     he_host (tb_http B) ''127.0.0.1:18443'' = Some ''127.0.0.1'' \<and>
     (\<forall>req. uri_path_and_query (rq_uri req) = Some ''/health'' \<longrightarrow>
        ae_captures (se_api S) (Exact ''/health'') req = Some [])"

subsection \<open>Startup\<close>

lemma load_balancer_cli_sel [simp]:
  "cli_api (load_balancer_cli P host cfg crt) =
     api_default\<lparr>api_hostname := Some ''foobarhost'', api_token := Some ''blah''\<rparr>"
  "cli_cert (load_balancer_cli P host cfg crt) = (cert_defaults P)\<lparr>cert_provider_file := [crt]\<rparr>"
  "cli_log (load_balancer_cli P host cfg crt) = log_default"
  "cli_listen (load_balancer_cli P host cfg crt) =
     listen_default\<lparr>listen_http := ''127.0.0.1:18080'', listen_https := ''127.0.0.1:18443''\<rparr>"
  "\<not> cli_waf_enable (load_balancer_cli P host cfg crt)" "\<not> cli_custom_domains (load_balancer_cli P host cfg crt)"
  "\<not> cli_sev_snp_enable (load_balancer_cli P host cfg crt)"
  "config_path (cli_config (load_balancer_cli P host cfg crt)) = cfg"
  "cli_network (load_balancer_cli P host cfg crt) = network_default"
  "cli_retry (load_balancer_cli P host cfg crt) = retry_default P"
  "cli_limits (load_balancer_cli P host cfg crt) = limits_default P"
  "cli_health (load_balancer_cli P host cfg crt) = health_default P"
  by (simp_all add: load_balancer_cli_def Let_def cli_default_def)

lemma load_balancer_plain: "plain_cli (load_balancer_cli P host cfg_path crt_path)"
  by (simp add: plain_cli_def log_default_def listen_default_def api_default_def)

lemma load_balancer_starts:
  assumes "startup_ok S" and "c = load_balancer_cli P host cfg_path crt_path"
    and "load_config (se_manager_env S) (sys_of c fs) = Done (Inr (), sys)"
  shows "\<exists>s. core_main S show_nat c (startup_new c fs) = Done (Inr (), s) \<and> su_sys s = sys \<and>
     served_by ''server_https'' (su_tasks s) = Some (plain_app S c)"
  using plain_start [OF assms(1) load_balancer_plain assms(3) [unfolded assms(2)], of show_nat]
  by (auto simp: assms(2))

subsection \<open>The manager after startup\<close>

lemma load_balancer_loads:
  assumes "bench_laws net B" and "addr \<noteq> []" and "me_read (tb_env B) cfg_path fs = Inr b"
    and "me_from_yaml (tb_env B) b = Inr (load_balancer_config addr)"
  shows "\<exists>sys r. load_config (tb_env B) (sys_new cfg_path i t fs) = Done (Inr (), sys) \<and>
     bm_router (sy_manager sys) = Some r \<and>
     rt_backends r = [(http_backend ''foo'' addr, 1), (http_backend ''bar'' ''127.0.0.1:666'', 1)]"
proof -
  have live: "env_live (tb_env B)"
    using bench_lawsD(2) [OF assms(1)] by (simp add: health_law_def)
  note uri = bench_lawsD(3) [OF assms(1)]
  have foo: "backend_from_conf (tb_http B) (test_backend_conf ''foo'' (http_url addr)) = Done (http_backend ''foo'' addr)"
    and bar: "backend_from_conf (tb_http B) (test_backend_conf ''bar'' (http_url ''127.0.0.1:666'')) =
      Done (http_backend ''bar'' ''127.0.0.1:666'')"
    using backend_from_http [OF uri] assms(2) by simp_all
  have "load_config (tb_env B) (sys_new cfg_path i t fs) =
      set_config (tb_env B) (load_balancer_config addr) (sys_new cfg_path i t fs)"
    using assms(3,4) by (simp add: load_config_def sys_new_def manager_new_def)
  then show ?thesis
    using env_liveD [OF live] foo bar by (simp add: load_balancer_config_def run_defs)
qed

lemma load_balancer_healthy:
  assumes "bench_laws net B" and "net addr = Some stub_backend" and "net ''127.0.0.1:666'' = None"
    and "rt_backends r = [(http_backend ''foo'' addr, 1), (http_backend ''bar'' ''127.0.0.1:666'', 1)]"
  shows "bench_healthy B r = [http_backend ''foo'' addr]"
proof -
  have "stub_backend ''GET /health'' = Responds 200 7 ''HEALTHY'' Next_request"
    by (simp add: stub_backend_def)
  from bench_check_ok [OF bench_lawsD(1) [OF assms(1)] assms(2) this] show ?thesis
    using bench_check_closed [OF bench_lawsD(1) [OF assms(1)] assms(3)] by (simp add: bench_healthy_def assms(4))
qed

subsection \<open>The two requests\<close>

lemma client_get_authority:
  assumes "bench_laws net B"
  shows "he_authority (tb_http B) (client_get B a path) = Some a"
    and "he_header_value (tb_http B) a = Some a"
proof -
  have "he_get (tb_http B) ''host'' (he_insert (tb_http B) ''host'' a (he_no_headers (tb_http B))) = Some a"
    using bench_lawsD(5) [OF assms] by (simp add: header_laws_def)
  then show get: "he_authority (tb_http B) (client_get B a path) = Some a" for path
    using bench_lawsD(4) [OF assms] by (simp add: host_law_def client_get_def api_uri_def)
  show "he_header_value (tb_http B) a = Some a"
    using bench_lawsD(6) [OF assms] get by (auto simp: authority_law_def)
qed

text \<open>What the client gets is what the router behind the middleware answers, but for extensions.\<close>

lemma lb_serve_app:
  assumes "ae_http (se_api S) = tb_http B"
    and "app_serve (se_api S) (se_manager_env S) True (\<lambda>_ _. None)
        (router_execute (tb_http B) (client_calls B) (tb_lb B)) app (Some context_default)
        (client_get B a path) w = Done ((resp, ctx, tr), w')"
  shows "lb_serve S V B at app w (client_get B a path) = Done (resp\<lparr>rs_retries := None, rs_error_cause := None\<rparr>)"
proof -
  have "without_request_id (client_get B a path) = client_get B a path"
    by (simp add: without_request_id_def client_get_def no_extensions_def)
  then show ?thesis
    using assms by (cases at) (simp add: lb_serve_def serve_request_def Let_def middleware_def app_service_def)
qed

lemma plain_app_sel:
  assumes "c = load_balancer_cli P host cfg_path crt_path"
  shows "ap_api (plain_app S c) = Some \<lparr>ar_token = ''blah'', ar_routes = api_routes False False\<rparr>"
    "ap_api_hostname (plain_app S c) = Some ''foobarhost''" "\<not> ap_waf (plain_app S c)"
    "ap_state (plain_app S c) = handler_state_of (se_quarter S) c"
  by (simp_all add: plain_app_def assms)

lemma health_request_answered:
  assumes "bench_laws net B" and "load_balancer_laws S B addr cfg_path fs"
    and "get_healthy_nodes (me_healthy (tb_env B)) (sy_manager (wo_manager w)) \<noteq> []"
    and "c = load_balancer_cli P host cfg_path crt_path"
  shows "passes (and_then (lb_serve S V B at (plain_app S c) w (client_get B ''foobarhost:18443'' ''/health''))
     (\<lambda>v. Done (rs_status v = NO_CONTENT)))"
proof -
  let ?req = "client_get B ''foobarhost:18443'' ''/health''"
  have S: "se_manager_env S = tb_env B" "ae_http (se_api S) = tb_http B"
    "he_host (tb_http B) ''foobarhost:18443'' = Some ''foobarhost''"
    using assms(2) by (simp_all add: load_balancer_laws_def)
  have "uri_path_and_query (rq_uri ?req) = Some ''/health''" and meth: "rq_method ?req = ''GET''"
    by (simp_all add: client_get_def api_uri_def)
  then have route: "ae_captures (se_api S) (Exact ''/health'') ?req = Some []"
    using assms(2) by (simp add: load_balancer_laws_def)
  have "serve_api (se_api S) (bm_ops (tb_env B)) \<lparr>ar_token = ''blah'', ar_routes = api_routes False False\<rparr> ?req w =
      Done (status_response (tb_http B) NO_CONTENT, w)"
    using assms(3)
    by (simp add: serve_api_def api_routes_def route route_service_def meth get_methods_def endpoint_handler_def
        health_handler_def S)
  then have "app_serve (se_api S) (se_manager_env S) True (\<lambda>_ _. None)
      (router_execute (tb_http B) (client_calls B) (tb_lb B)) (plain_app S c) (Some context_default) ?req w =
      Done ((status_response (tb_http B) NO_CONTENT, Some context_default, []), w)"
    using client_get_authority(1) [OF assms(1), of "''foobarhost:18443''" "''/health''"]
    by (simp add: app_serve_def plain_app_sel [OF assms(4)] dispatch_def S)
  from lb_serve_app [where V = V and at = at, OF S(2) this] show ?thesis
    by (simp add: passes_def status_response_def)
qed

lemma proxied_request_answered:
  assumes "bench_laws net B" and "load_balancer_laws S B addr cfg_path fs"
    and "c = load_balancer_cli P host cfg_path crt_path" and "net addr = Some stub_backend" and "addr \<noteq> []"
    and "bm_router (sy_manager (wo_manager w)) = Some r" and "bench_healthy B r = [http_backend ''foo'' addr]"
  shows "passes (and_then (lb_serve S V B at (plain_app S c) w (client_get B ''127.0.0.1:18443'' ''/test''))
     (\<lambda>r. Done (is_success (rs_status r) \<and> body_is (tb_http B) (rs_body r) ''DEADBEEF'')))"
proof -
  let ?req = "client_get B ''127.0.0.1:18443'' ''/test''"
  let ?sent = "forwarded (tb_http B) ''127.0.0.1:18443'' ?req"
  have S: "se_manager_env S = tb_env B" "ae_http (se_api S) = tb_http B"
    "he_host (tb_http B) ''127.0.0.1:18443'' = Some ''127.0.0.1''"
    using assms(2) by (simp_all add: load_balancer_laws_def)
  have router: "get_backend_router (me_healthy (tb_env B)) (sy_manager (wo_manager w)) = Some r"
    using assms(6,7) bench_lawsD(2) [OF assms(1)] by (simp add: get_backend_router_def health_law_def)
  note args = load_balancer_cli_sel [of P host cfg_path crt_path, folded assms(3)]
  let ?hs = "handler_state_of (se_quarter S) c"
  have hs: "\<not> hs_request_body_buffer ?hs" "hs_retry_attempts ?hs = 1" "\<not> hs_response_body_buffer ?hs"
    by (simp_all add: handler_state_of_def args network_default_def retry_default_def)
  then have once: "\<not> should_buffer (tb_http B) ?hs q" for q
    by (simp add: should_buffer_def)
  have "rq_method ?sent = ''GET''" and path: "request_path ?sent = ''/test''"
    by (simp_all add: forwarded_def client_get_def api_uri_def request_path_def)
  with execute_at [OF assms(1,4,5,7), of ?sent "Some context_default"] obtain res ctx where
    ex: "router_execute (tb_http B) (client_calls B) (tb_lb B) r 0 (Some context_default) ?sent =
        wrap_executor (Done res, ctx)"
    and d: "delivered (tb_http B) (Responds OK 8 ''DEADBEEF'' Next_request) res"
    by auto
  obtain v where v: "res = Inr v" "rs_status v = OK"
    using d by (cases res) simp_all
  have "case he_collect (tb_http B) 1000000000 (- 1) (rs_body v) of
      Elapsed \<Rightarrow> False | In_time (Inl _) \<Rightarrow> False | In_time (Inr x) \<Rightarrow> x = ''DEADBEEF''"
    using d v(1) by (auto split: timed.splits sum.splits dest!: spec [where x = "1000000000 :: duration"]
        spec [where x = "- 1 :: usize"])
  then have body: "body_is (tb_http B) (rs_body v) ''DEADBEEF''"
    by (auto simp: body_is_def split: timed.splits sum.splits)
  have "handler (tb_http B) ?hs True (me_healthy (tb_env B)) (sy_manager (wo_manager w))
      (router_execute (tb_http B) (client_calls B) (tb_lb B)) (Some context_default) ?req =
      Done (v, ctx, [Executed ?sent])"
    using client_get_authority(1) [OF assms(1), of "''127.0.0.1:18443''" "''/test''"]
      client_get_authority(2) [OF assms(1), of "''127.0.0.1:18443''"] router once ex v(1) hs(3)
    by (simp add: handler_def forwarded_def [symmetric] wrap_executor_def buffer_response_def)
  then have "app_serve (se_api S) (se_manager_env S) True (\<lambda>_ _. None)
      (router_execute (tb_http B) (client_calls B) (tb_lb B)) (plain_app S c) (Some context_default) ?req w =
      Done ((v, ctx, [Executed ?sent]), w)"
    using client_get_authority(1) [OF assms(1), of "''127.0.0.1:18443''" "''/test''"]
    by (simp add: app_serve_def plain_app_sel [OF assms(3)] dispatch_def S)
  from lb_serve_app [where V = V and at = at, OF S(2) this] show ?thesis
    using body v(2) by (simp add: passes_def is_success_def)
qed

subsection \<open>From the command line to the answer\<close>

text \<open>C3: the end-to-end test passes: started from its command line, with a configuration file that
  names a good backend and one that cannot be reached, the program comes up, its health endpoint
  answers 204 on the API's host name without a token, and a request for another host is proxied to
  the good backend, whose answer comes back unchanged.\<close>

theorem load_balancer_test_passes:
  assumes "bench_laws net B" and "net addr = Some stub_backend" and "addr \<noteq> []"
    and "net ''127.0.0.1:666'' = None" and "load_balancer_laws S B addr cfg_path fs"
  shows "test_load_balancer S V B at show_nat (load_balancer_cli P host cfg_path crt_path) fs lib"
proof -
  let ?c = "load_balancer_cli P host cfg_path crt_path"
  have ok: "startup_ok S" and E: "se_manager_env S = tb_env B"
    using assms(5) by (simp_all add: load_balancer_laws_def)
  obtain b where "me_read (tb_env B) cfg_path fs = Inr b"
    "me_from_yaml (tb_env B) b = Inr (load_balancer_config addr)"
    using assms(5) by (auto simp: load_balancer_laws_def)
  then obtain sys r where load: "load_config (se_manager_env S) (sys_of ?c fs) = Done (Inr (), sys)"
    and r: "bm_router (sy_manager sys) = Some r"
    "rt_backends r = [(http_backend ''foo'' addr, 1), (http_backend ''bar'' ''127.0.0.1:666'', 1)]"
    using load_balancer_loads [OF assms(1,3)] by (fastforce simp: E)
  obtain s where s: "core_main S show_nat ?c (startup_new ?c fs) = Done (Inr (), s)" "su_sys s = sys"
    "served_by ''server_https'' (su_tasks s) = Some (plain_app S ?c)"
    using load_balancer_starts [OF ok refl load] by blast
  note healthy = load_balancer_healthy [OF assms(1,2,4) r(2)]
  let ?w = "\<lparr>wo_manager = sys, wo_log_level = None, wo_waf = fst lib, wo_sev = snd lib\<rparr>"
  have "get_healthy_nodes (me_healthy (tb_env B)) (sy_manager (wo_manager ?w)) \<noteq> []"
    using bench_lawsD(2) [OF assms(1)] healthy r(1) by (simp add: get_healthy_nodes_def health_law_def)
  from health_request_answered [where V = V and at = at, OF assms(1,5) this refl]
    proxied_request_answered [where V = V and at = at, OF assms(1,5) refl assms(2,3), of ?w r] healthy r(1) s
  show ?thesis
    by (simp add: test_load_balancer_def Let_def)
qed


definition bench_startup :: "(headers, bench_body, unit, nat, string list) startup_env" where
  "bench_startup = \<lparr>se_manager_env = bench_env, se_api = bench_api, se_quarter = (\<lambda>d. d div 4),
     se_registry = Inr [], se_registry_env = sample_registry, se_lib_register = sample_register,
     se_resolver = Inr (), se_reqwest = Inr (), se_vector_options = Inr (),
     se_waf = Inr (), se_request_meta = Inr (), se_build = (\<lambda>_. Inr ()), se_custom_domains = Inr 0,
     se_sigterm = Inr (), se_alpn_acme = ''acme-tls/1''\<rparr>"

lemma bench_startup_laws:
  "load_balancer_laws bench_startup sample_bench ''127.0.0.1:2005'' ''config.json'' [''config.json'' \<mapsto> ''lb'']"
proof -
  have "library_law bench_startup (\<lambda>part. {''lib_'' @ part})"
    using sample_library_law by (simp add: library_law_def) (simp add: bench_startup_def sample_startup_def)
  then have "startup_ok bench_startup"
    unfolding startup_ok_def by (intro conjI exI [of _ "\<lambda>part. {''lib_'' @ part}"] exI [of _ "[]"])
      (simp_all add: bench_startup_def sample_registry_def)
  then show ?thesis
    by (simp add: load_balancer_laws_def) (simp add: bench_startup_def bench_api_def sample_bench_def
        bench_env_def bench_http_def)
qed

definition bench_metrics :: "(headers, bench_body, nat) metrics_env" where
  "bench_metrics = \<lparr>mv_http = bench_http, mv_method = (\<lambda>s. s), mv_version = (\<lambda>_. ''HTTP/1.1''),
     mv_path = (\<lambda>_. ''/''), mv_query = (\<lambda>_. None), mv_status = (\<lambda>s. if s = 204 then ''204'' else ''200''),
     mv_secs = (\<lambda>d. d), mv_ge = (\<ge>), mv_zero = 0, mv_env = ''dev'', mv_hostname = ''host''\<rparr>"

theorem load_balancer_test_passes_witness:
  "test_load_balancer bench_startup bench_metrics sample_bench (''c1'', 1700000000, 5) (\<lambda>_. ''0'')
     (load_balancer_cli sample_parsers ''host'' ''config.json'' ''test_cert.pem'') [''config.json'' \<mapsto> ''lb''] ((), 0)"
  by (rule load_balancer_test_passes [OF sample_bench_laws bench_net_simps(6) _ bench_net_simps(7) bench_startup_laws])
    simp

end
