(* ===== verification/In_Flight_Properties.thy ===== *)
theory In_Flight_Properties
  imports In_Flight Routing_Properties
begin

section \<open>Properties of requests in flight\<close>

text \<open>
  What holds of requests that are served while the configuration is replaced. The witnesses run a
  request that starts under one configuration and is executed under the next.
\<close>

subsection \<open>A concrete flight\<close>

abbreviation sample_fleet :: "(headers, bytes) fleet \<Rightarrow> (headers, bytes) fleet \<Rightarrow> bool" where
  "sample_fleet \<equiv> fleet_step (any_step sample_env) sample_env sample_state True sample_lb"

lemma core_run: "(any_step E)\<^sup>*\<^sup>* c c' \<Longrightarrow>
    (fleet_step (any_step E) E hs checks lb)\<^sup>*\<^sup>* \<lparr>ft_core = c, ft_flights = fs\<rparr> \<lparr>ft_core = c', ft_flights = fs\<rparr>"
proof (induction rule: rtranclp_induct)
  case (step d d')
  have "fleet_step (any_step E) E hs checks lb \<lparr>ft_core = d, ft_flights = fs\<rparr> \<lparr>ft_core = d', ft_flights = fs\<rparr>"
    using manage [of "any_step E" "\<lparr>ft_core = d, ft_flights = fs\<rparr>" d'] step(2) by simp
  with step.IH show ?case
    by (rule rtranclp.rtrancl_into_rtrancl)
qed simp

lemma only_flight:
  "flight_step E hs checks lb (cs_manager c) f f' \<Longrightarrow>
     fleet_step core E hs checks lb \<lparr>ft_core = c, ft_flights = [f]\<rparr> \<lparr>ft_core = c, ft_flights = [f']\<rparr>"
  using fly [of 0 "\<lparr>ft_core = c, ft_flights = [f]\<rparr>" E hs checks lb f'] by simp

lemma only_flight_twice:
  assumes "flight_step E hs checks lb (cs_manager c) f f'" and "flight_step E hs checks lb (cs_manager c) f' f''"
  shows "(fleet_step core E hs checks lb)\<^sup>*\<^sup>* \<lparr>ft_core = c, ft_flights = [f]\<rparr> \<lparr>ft_core = c, ft_flights = [f'']\<rparr>"
  using assms [THEN only_flight [of E hs checks lb c _ _ core]] by (meson converse_rtranclp_into_rtranclp rtranclp.rtrancl_refl)

text \<open>The manager with \<open>config_a\<close>, and afterwards with \<open>config_b\<close>.\<close>

lemma sample_cores:
  obtains c d where "(any_step sample_env)\<^sup>*\<^sup>* sample_start c" and "cs_config c = config_a" and "cs_lock c = None"
    and "in_sync (cs_manager c)" and "(any_step sample_env)\<^sup>*\<^sup>* c d" and "cs_config d = config_b"
    and "cs_lock d = None" and "in_sync (cs_manager d)"
proof -
  obtain x where "apply_config sample_env (with_config config_a (cs_sys sample_start)) = Done x"
    using sample_apply_a by blast
  then obtain c where c: "(mgr_step sample_env)\<^sup>*\<^sup>* sample_start c" "cs_lock c = None" "cs_config c = config_a"
    by (elim install_run [rotated 2]) (simp_all add: sample_start_def)
  obtain y where y: "apply_config sample_env (with_config config_b (cs_sys c)) = Done y"
    using sample_apply_b by blast
  obtain d where d: "(mgr_step sample_env)\<^sup>*\<^sup>* c d" "cs_lock d = None" "cs_config d = config_b"
    by (rule install_run [OF c(2) sample_names(2) y])
  have "(mgr_step sample_env)\<^sup>*\<^sup>* sample_start d"
    using c(1) d(1) by (rule rtranclp_trans)
  then have "in_sync (cs_manager c)" "in_sync (cs_manager d)"
    using c d uncancelled.reachable_inv [OF sample_start_initial] by (force simp: cs_inv_def)+
  with c d show thesis
    using mgr_run_any by (intro that [of c d]) blast+
qed

text \<open>A router of \<open>config_a\<close> has one backend, on which a request succeeds.\<close>

lemma sample_slot:
  assumes "in_sync m" and "bm_config m = config_a"
  obtains r b w where "get_backend_router sample_healthy m = Some r" and "rt_backends r = [(b, w)]"
    and "be_name b = ''host1''" and "url_authority (be_url b) \<noteq> []"
proof -
  obtain r where r: "bm_router m = Some r"
    "map router_entry (rt_backends r) = [conf_entry (sample_conf ''host1'' ''127.0.0.1:9001'' True)]"
    using assms by (auto simp: in_sync_def slot_ok_def slot_spec_def split: option.splits)
  then obtain b w where "rt_backends r = [(b, w)]"
    by (cases "rt_backends r") auto
  with r show thesis
    by (intro that [of r b w])
      (simp_all add: get_backend_router_def sample_healthy_def router_entry_def conf_entry_def sample_conf_def)
qed

lemma sample_flight_steps:
  assumes "in_sync (cs_manager c)" and "cs_config c = config_a"
  obtains waiting b resp where
    "sample_fleet\<^sup>*\<^sup>* \<lparr>ft_core = c, ft_flights = []\<rparr> \<lparr>ft_core = c, ft_flights = [waiting]\<rparr>"
    and "fl_trace waiting = []" and "be_name b = ''host1''"
    and "\<And>d. \<exists>over. sample_fleet\<^sup>*\<^sup>* \<lparr>ft_core = d, ft_flights = [waiting]\<rparr> \<lparr>ft_core = d, ft_flights = [over]\<rparr> \<and>
      fl_request over = sample_request \<and> fl_client over = sample_client 0 \<and> fl_phase over = Answered resp (Some (context_default\<lparr>rc_backend := Some b,
        rc_request_body_buffered := True, rc_response_body_buffered := True\<rparr>))"
proof -
  let ?H = "me_http sample_env" and ?m = "cs_manager c"
  obtain r b w where r: "get_backend_router sample_healthy ?m = Some r" "rt_backends r = [(b, w)]"
    and b: "be_name b = ''host1''" "url_authority (be_url b) \<noteq> []"
    using sample_slot [OF assms] by blast
  let ?f0 = "new_flight sample_request (sample_client 0)"
  let ?f1 = "moved (Buffering r sample_sent) [] ?f0"
  let ?ctx = "Some (context_default\<lparr>rc_request_body_buffered := True\<rparr>)"
  let ?f2 = "moved (Trying r sample_sent 0 ?ctx 3 50000000) [] ?f1"
  let ?ctx1 = "Some (context_default\<lparr>rc_request_body_buffered := True, rc_backend := Some b\<rparr>)"
  let ?v = "sample_response\<lparr>rs_retries := Some 0\<rparr>"
  let ?f3 = "moved (Collecting ?v ?ctx1) [Executed sample_sent] ?f2"
  let ?ctx2 = "Some (context_default\<lparr>rc_request_body_buffered := True, rc_backend := Some b,
      rc_response_body_buffered := True\<rparr>)"
  let ?f4 = "moved (Answered ?v ?ctx2) [] ?f3"
  have H: "?H = sample_http"
    by (simp add: sample_env_def)
  have ex: "flight_execute sample_http sample_lb f = sample_execute 0" if "fl_client f = sample_client 0" for f
    using that by (simp add: flight_execute_def)
  have "start_handler ?H sample_state sample_healthy ?m (Some context_default) sample_request =
      Buffering r sample_sent"
    using r(1) unfolding H
    by (simp add: start_handler_def sample_request_def sample_http_def sample_sent_def sample_insert_def
        x_forwarded_host_def should_buffer_def bufferable_def sample_state_def word_le_nat_alt)
  then have "flight_step sample_env sample_state True sample_lb ?m ?f0 ?f1"
    using start [of ?f0 sample_env sample_state True sample_lb ?m sample_healthy] by (simp add: new_flight_def)
  moreover have "flight_step sample_env sample_state True sample_lb ?m ?f1 ?f2"
    by (rule go)
      (simp add: H sample_http_def buffer_request_def sample_state_def sample_sent_def sample_request_def
        mark_request_buffered_def)
  ultimately have "sample_fleet\<^sup>*\<^sup>* \<lparr>ft_core = c, ft_flights = [?f0]\<rparr> \<lparr>ft_core = c, ft_flights = [?f2]\<rparr>"
    by (rule only_flight_twice)
  moreover have "sample_fleet \<lparr>ft_core = c, ft_flights = []\<rparr> \<lparr>ft_core = c, ft_flights = [?f0]\<rparr>"
    using incoming [of "any_step sample_env" sample_env sample_state True sample_lb "\<lparr>ft_core = c, ft_flights = []\<rparr>"
        sample_request "sample_client 0"] by simp
  ultimately have begun: "sample_fleet\<^sup>*\<^sup>* \<lparr>ft_core = c, ft_flights = []\<rparr> \<lparr>ft_core = c, ft_flights = [?f2]\<rparr>"
    by (rule converse_rtranclp_into_rtranclp [rotated])
  have "sample_execute 0 r 0 ?ctx sample_sent = (Done (Inr sample_response), ?ctx1)"
    using r(2) b(2)
    by (simp add: router_execute_def sample_lb_def executor_execute_def wrap_executor_def sample_client_def
        sample_http_def Let_def)
  then have three: "flight_step sample_env sample_state True sample_lb m ?f2 ?f3" for m
    by (intro go) (simp add: H ex new_flight_def moved_def sample_state_def)
  have four: "flight_step sample_env sample_state True sample_lb m ?f3 ?f4" for m
    by (rule go) (simp add: H sample_http_def buffer_response_def sample_state_def sample_response_def
        bufferable_def word_le_nat_alt)
  have "\<exists>over. sample_fleet\<^sup>*\<^sup>* \<lparr>ft_core = d, ft_flights = [?f2]\<rparr> \<lparr>ft_core = d, ft_flights = [over]\<rparr> \<and>
      fl_request over = sample_request \<and> fl_client over = sample_client 0 \<and> fl_phase over = Answered ?v (Some (context_default\<lparr>rc_backend := Some b,
        rc_request_body_buffered := True, rc_response_body_buffered := True\<rparr>))" for d
    by (intro exI [of _ ?f4] conjI only_flight_twice [OF three four]) (simp_all add: new_flight_def moved_def)
  with begun b(1) show thesis
    by (intro that [of ?f2 b ?v]) simp_all
qed

lemma sample_flight_answered:
  assumes "in_sync (cs_manager c)" and "cs_config c = config_a"
  obtains f b resp where "sample_fleet\<^sup>*\<^sup>* \<lparr>ft_core = c, ft_flights = []\<rparr> \<lparr>ft_core = c, ft_flights = [f]\<rparr>"
    and "fl_request f = sample_request" and "fl_client f = sample_client 0" and "be_name b = ''host1''"
    and "fl_phase f = Answered resp (Some (context_default\<lparr>rc_backend := Some b,
        rc_request_body_buffered := True, rc_response_body_buffered := True\<rparr>))"
proof (rule sample_flight_steps [OF assms])
  fix waiting b resp
  assume start: "sample_fleet\<^sup>*\<^sup>* \<lparr>ft_core = c, ft_flights = []\<rparr> \<lparr>ft_core = c, ft_flights = [waiting]\<rparr>"
    and b: "be_name b = ''host1''"
    and go: "\<And>d. \<exists>over. sample_fleet\<^sup>*\<^sup>* \<lparr>ft_core = d, ft_flights = [waiting]\<rparr> \<lparr>ft_core = d, ft_flights = [over]\<rparr> \<and>
      fl_request over = sample_request \<and> fl_client over = sample_client 0 \<and> fl_phase over =
        Answered resp (Some (context_default\<lparr>rc_backend := Some b,
        rc_request_body_buffered := True, rc_response_body_buffered := True\<rparr>))"
  from go [of c] obtain f where f: "sample_fleet\<^sup>*\<^sup>* \<lparr>ft_core = c, ft_flights = [waiting]\<rparr> \<lparr>ft_core = c, ft_flights = [f]\<rparr>"
    "fl_request f = sample_request" "fl_client f = sample_client 0" "fl_phase f =
      Answered resp (Some (context_default\<lparr>rc_backend := Some b,
        rc_request_body_buffered := True, rc_response_body_buffered := True\<rparr>))"
    by blast
  show thesis
    by (rule that [OF rtranclp_trans [OF start f(1)] f(2,3) b f(4)])
qed

subsection \<open>Answers\<close>

text \<open>C8: replacing the configuration does not disturb requests: whatever the manager and the other
  requests do meanwhile, dropped futures included, a request that has been answered has got the
  response, the context and the trace of attempts and pauses that the sequential handler computes
  on the manager of one moment after the request came in, with the health states of that moment.\<close>

theorem in_flight_refines_handler:
  assumes "(fleet_step (any_step E) E hs checks lb)\<^sup>*\<^sup>* s t"
    and "length (ft_flights s) \<le> i" and "i < length (ft_flights t)"
    and "fl_phase (ft_flights t ! i) = Answered resp ctx"
  shows "\<exists>c healthy. (any_step E)\<^sup>*\<^sup>* (ft_core s) c \<and> (any_step E)\<^sup>*\<^sup>* c (ft_core t) \<and>
     handler (me_http E) hs checks healthy (cs_manager c)
       (router_execute (me_http E) (fl_client (ft_flights t ! i)) lb) (Some context_default)
       (fl_request (ft_flights t ! i)) = Done (resp, ctx, fl_trace (ft_flights t ! i))"
proof -
  have "flight_ok E hs checks lb (ft_core s) (ft_core t) (ft_flights t ! i)"
    using flown.later_flight_good [OF assms(1) _ assms(2,3), of "ft_core s"] by simp
  with assms(4) show ?thesis
    by (auto simp: flight_ok_def as_handled_def flight_execute_def)
qed

theorem in_flight_refines_handler_witness:
  "\<exists>c healthy resp ctx tr. (any_step sample_env)\<^sup>*\<^sup>* sample_start c \<and>
     handler (me_http sample_env) sample_state True healthy (cs_manager c)
       (router_execute (me_http sample_env) (sample_client 0) sample_lb) (Some context_default) sample_request =
       Done (resp, ctx, tr) \<and> executed_on ''host1'' ctx"
proof -
  obtain c where c: "(any_step sample_env)\<^sup>*\<^sup>* sample_start c" "cs_config c = config_a" "in_sync (cs_manager c)"
    using sample_cores by blast
  obtain f b resp where f: "sample_fleet\<^sup>*\<^sup>* \<lparr>ft_core = c, ft_flights = []\<rparr> \<lparr>ft_core = c, ft_flights = [f]\<rparr>"
      "fl_request f = sample_request" "fl_client f = sample_client 0" "be_name b = ''host1''"
      "fl_phase f = Answered resp (Some (context_default\<lparr>rc_backend := Some b,
        rc_request_body_buffered := True, rc_response_body_buffered := True\<rparr>))"
    by (rule sample_flight_answered [OF c(3,2)])
  have run: "sample_fleet\<^sup>*\<^sup>* \<lparr>ft_core = sample_start, ft_flights = []\<rparr> \<lparr>ft_core = c, ft_flights = [f]\<rparr>"
    by (rule rtranclp_trans [OF core_run [OF c(1)] f(1)])
  have "fl_phase (ft_flights \<lparr>ft_core = c, ft_flights = [f]\<rparr> ! 0) =
      Answered resp (Some (context_default\<lparr>rc_backend := Some b,
        rc_request_body_buffered := True, rc_response_body_buffered := True\<rparr>))"
    using f(5) by simp
  from in_flight_refines_handler [OF run _ _ this] f(2-4) show ?thesis
    by (force simp: executed_on_def)
qed

text \<open>C21: a request in flight is never starved by the manager: it takes at most two steps for each
  attempt and three more, and until it is over there is always a next one, other than being
  dropped, except while the backend's answer it waits for does not come: the code sets no time limit
  for that call.\<close>

theorem in_flight_requests_finish:
  assumes "(fleet_step (any_step E) E hs checks lb)\<^sup>*\<^sup>* s t"
    and "length (ft_flights s) \<le> i" and "i < length (ft_flights t)"
  shows "fl_steps (ft_flights t ! i) \<le> 2 * unat (hs_retry_attempts hs - 1) + 5 \<and>
     (over (fl_phase (ft_flights t ! i)) \<or>
       hanging (flight_execute (me_http E) lb (ft_flights t ! i)) (Some context_default)
         (fl_phase (ft_flights t ! i)) \<or>
       (\<exists>f. flight_step E hs checks lb (cs_manager (ft_core t)) (ft_flights t ! i) f \<and> fl_phase f \<noteq> Dropped))"
proof -
  let ?f = "ft_flights t ! i"
  have "flight_ok E hs checks lb (ft_core s) (ft_core t) ?f"
    using flown.later_flight_good [OF assms(1) _ assms(2,3), of "ft_core s"] by simp
  then have "fl_steps ?f \<le> 2 * unat (hs_retry_attempts hs - 1) + 5"
    by (simp add: flight_ok_def attempts_left_def)
  moreover have "\<exists>f. flight_step E hs checks lb m ?f f \<and> fl_phase f \<noteq> Dropped"
    if going: "\<not> over (fl_phase ?f)"
      and comes: "\<not> hanging (flight_execute (me_http E) lb ?f) (Some context_default) (fl_phase ?f)" for m
  proof (cases "fl_phase ?f = Arrived")
    case True
    from start [OF this, of E hs checks lb m "\<lambda>r. []"] show ?thesis
      using start_not by fastforce
  next
    case False
    obtain p evs where p: "advance (me_http E) hs checks (flight_execute (me_http E) lb ?f)
        (Some context_default) (fl_phase ?f) = Some (p, evs)"
      using advance_enabled [OF going False comes] by fastforce
    from go [OF p, of m] show ?thesis
      using advance_not [OF p] by fastforce
  qed
  ultimately show ?thesis
    by blast
qed

theorem in_flight_requests_finish_witness:
  "\<exists>f. sample_fleet\<^sup>*\<^sup>* \<lparr>ft_core = sample_start, ft_flights = []\<rparr> \<lparr>ft_core = sample_start, ft_flights = [f]\<rparr> \<and>
     fl_steps f \<le> 9 \<and> (\<exists>f'. flight_step sample_env sample_state True sample_lb (cs_manager sample_start) f f')"
proof -
  let ?f = "new_flight sample_request (sample_client 0) :: (headers, bytes) flight"
  have run: "sample_fleet\<^sup>*\<^sup>* \<lparr>ft_core = sample_start, ft_flights = []\<rparr> \<lparr>ft_core = sample_start, ft_flights = [?f]\<rparr>"
    using incoming [of "any_step sample_env" sample_env sample_state True sample_lb
        "\<lparr>ft_core = sample_start, ft_flights = []\<rparr>" sample_request "sample_client 0"] by auto
  have "unat (hs_retry_attempts sample_state - 1) = 2"
    by (simp add: sample_state_def)
  with in_flight_requests_finish [OF run, of 0] run show ?thesis
    by (intro exI [of _ ?f]) auto
qed

subsection \<open>Disabled backends\<close>

interpretation spared: flight_invariant "leaves_out E n" E hs checks lb
  "\<lambda>c. balancer_contract lb \<and> rid_of n c" "\<lambda>c f. spared n (fl_phase f)" for E n hs checks lb
  by unfold_locales (auto intro: rid_of_step flight_step_spared)

text \<open>C9: disabling a backend takes effect for all later requests: from a state with a free lock and
  slots in sync, in which the configuration does not enable the backend, and as long as no
  configuration is stored that enables it, no request that comes in afterwards ever holds a router
  with that backend or is executed on it, whatever is interleaved and whichever futures are
  dropped.\<close>

theorem disabled_backend_gets_no_new_requests:
  assumes "balancer_contract lb" and "in_sync (cs_manager (ft_core s))" and "cs_lock (ft_core s) = None"
    and "n \<notin> enabled_names (cs_config (ft_core s))"
    and "(fleet_step (leaves_out E n) E hs checks lb)\<^sup>*\<^sup>* s t"
    and "length (ft_flights s) \<le> i" and "i < length (ft_flights t)"
  shows "spared n (fl_phase (ft_flights t ! i))"
  using spared.later_flight_good [OF assms(5) _ assms(6,7)] rid_of_start [OF assms(2-4)] assms(1) by blast

theorem disabled_backend_gets_no_new_requests_witness:
  "\<exists>c f. (any_step sample_env)\<^sup>*\<^sup>* sample_start c \<and> cs_config c = config_a \<and>
     (fleet_step (leaves_out sample_env ''host2'') sample_env sample_state True sample_lb)\<^sup>*\<^sup>*
       \<lparr>ft_core = c, ft_flights = []\<rparr> \<lparr>ft_core = c, ft_flights = [f]\<rparr> \<and> spared ''host2'' (fl_phase f)"
proof -
  obtain c where c: "(any_step sample_env)\<^sup>*\<^sup>* sample_start c" "cs_config c = config_a" "in_sync (cs_manager c)"
    "cs_lock c = None"
    using sample_cores by blast
  let ?f0 = "new_flight sample_request (sample_client 0) :: (headers, bytes) flight"
  let ?f1 = "moved (start_handler (me_http sample_env) sample_state sample_healthy (cs_manager c)
      (Some context_default) (fl_request ?f0)) [] ?f0"
  let ?step = "fleet_step (leaves_out sample_env ''host2'') sample_env sample_state True sample_lb"
  have "flight_step sample_env sample_state True sample_lb (cs_manager c) ?f0 ?f1"
    by (rule start) simp
  then have "?step \<lparr>ft_core = c, ft_flights = [?f0]\<rparr> \<lparr>ft_core = c, ft_flights = [?f1]\<rparr>"
    by (rule only_flight)
  moreover have "?step \<lparr>ft_core = c, ft_flights = []\<rparr> \<lparr>ft_core = c, ft_flights = [?f0]\<rparr>"
    using incoming [of "leaves_out sample_env ''host2''" sample_env sample_state True sample_lb
        "\<lparr>ft_core = c, ft_flights = []\<rparr>" sample_request "sample_client 0"] by simp
  ultimately have run: "?step\<^sup>*\<^sup>* \<lparr>ft_core = c, ft_flights = []\<rparr> \<lparr>ft_core = c, ft_flights = [?f1]\<rparr>"
    by (meson converse_rtranclp_into_rtranclp rtranclp.rtrancl_refl)
  have "''host2'' \<notin> enabled_names config_a"
    by (auto simp: enabled_names_def config_a_def fallback_list_def sample_conf_def)
  from disabled_backend_gets_no_new_requests [OF sample_balancer _ _ _ run, of 0] this c run show ?thesis
    by (intro exI [of _ c] exI [of _ ?f1]) simp
qed

text \<open>C29: but requests in flight are not waited for: a request that came in before can be executed
  on a backend after it was taken out of the configuration, also when the operation that did so has
  returned, the configuration lock is free again and the slots serve the new configuration.\<close>

theorem requests_outlive_their_configuration:
  "\<exists>t u resp ctx. (fleet_step (any_step sample_env) sample_env sample_state True sample_lb)\<^sup>*\<^sup>*
       \<lparr>ft_core = sample_start, ft_flights = []\<rparr> t \<and>
     cs_lock (ft_core t) = None \<and> in_sync (cs_manager (ft_core t)) \<and>
     ''host1'' \<notin> enabled_names (cs_config (ft_core t)) \<and> fl_trace (ft_flights t ! 0) = [] \<and>
     (fleet_step (any_step sample_env) sample_env sample_state True sample_lb)\<^sup>*\<^sup>* t u \<and>
     ft_core u = ft_core t \<and> fl_phase (ft_flights u ! 0) = Answered resp ctx \<and> executed_on ''host1'' ctx"
proof -
  obtain c d where c: "(any_step sample_env)\<^sup>*\<^sup>* sample_start c" "cs_config c = config_a" "in_sync (cs_manager c)"
    and d: "(any_step sample_env)\<^sup>*\<^sup>* c d" "cs_config d = config_b" "cs_lock d = None" "in_sync (cs_manager d)"
    using sample_cores by blast
  obtain waiting b resp where w: "sample_fleet\<^sup>*\<^sup>* \<lparr>ft_core = c, ft_flights = []\<rparr> \<lparr>ft_core = c, ft_flights = [waiting]\<rparr>"
      "fl_trace waiting = []" "be_name b = ''host1''"
    and go: "\<And>d. \<exists>over. sample_fleet\<^sup>*\<^sup>* \<lparr>ft_core = d, ft_flights = [waiting]\<rparr> \<lparr>ft_core = d, ft_flights = [over]\<rparr> \<and>
      fl_request over = sample_request \<and> fl_client over = sample_client 0 \<and> fl_phase over = Answered resp (Some (context_default\<lparr>rc_backend := Some b,
        rc_request_body_buffered := True, rc_response_body_buffered := True\<rparr>))"
    using sample_flight_steps [OF c(3,2)] by metis
  have "sample_fleet\<^sup>*\<^sup>* \<lparr>ft_core = sample_start, ft_flights = []\<rparr> \<lparr>ft_core = d, ft_flights = [waiting]\<rparr>"
    by (rule rtranclp_trans [OF rtranclp_trans [OF core_run [OF c(1)] w(1)] core_run [OF d(1)]])
  moreover have "''host1'' \<notin> enabled_names config_b"
    by (auto simp: enabled_names_def config_b_def fallback_list_def sample_conf_def)
  moreover obtain over where "sample_fleet\<^sup>*\<^sup>* \<lparr>ft_core = d, ft_flights = [waiting]\<rparr> \<lparr>ft_core = d, ft_flights = [over]\<rparr>"
    "fl_phase over = Answered resp (Some (context_default\<lparr>rc_backend := Some b,
        rc_request_body_buffered := True, rc_response_body_buffered := True\<rparr>))"
    using go by blast
  ultimately show ?thesis
    using d w(2,3)
    by (intro exI [of _ "\<lparr>ft_core = d, ft_flights = [waiting]\<rparr>"] exI [of _ "\<lparr>ft_core = d, ft_flights = [over]\<rparr>"])
      (auto simp: executed_on_def)
qed

end
