(* ===== verification/Spec2Isabelle.thy ===== *)
theory Spec2Isabelle
  imports Router_Provenance Interleaving_Properties Manager_Properties Routing_Properties Api_Properties
    Metrics_Properties Startup_Properties System App Traffic Queue_Properties
    Handler_Reference Load_Balancer_Test In_Flight_Properties
begin

text \<open>
A verification development for \<open>ic-http-lb\<close>, the HTTP load balancer in front of HTTP gateways.

  \<^bold>\<open>The program.\<close> A request reaches the metrics middleware (\<open>src/middleware/metrics.rs\<close>), then the
  top-level router of \<open>src/routing.rs\<close>, which passes it to the API (\<open>src/api.rs\<close>) if it is for the
  API's host name and to the request handler otherwise. The handler takes the router that the
  backend manager (\<open>src/backend.rs\<close>) currently hands out, buffers the body if it may, and executes
  the request on a backend, several times if configured. The manager keeps the configuration and
  the two slots for routers, main and fallback; the API and a signal handler replace the
  configuration. \<open>src/core.rs\<close>, \<open>src/tls.rs\<close>, \<open>src/log.rs\<close> and \<open>src/main.rs\<close> build and start all this
  from the command line of \<open>src/cli.rs\<close>; \<open>src/metrics.rs\<close> serves the collected metrics.

  \<^bold>\<open>The theories\<close>, in the order in which they build on one another:
  \<^item> \<open>Lb_Prelude\<close>: machine integers, durations, the outcomes of an asynchronous call (it returns,
    panics or never completes), error chains, list functions.
  \<^item> \<open>Http_Types\<close>: requests, responses, error causes, and the record \<open>http_env\<close> of the functions of
    other crates that the code calls, with the laws some properties assume of them.
  \<^item> \<open>Backend\<close>: configuration, backends, the set-up of a router (\<open>setup_backend_router\<close>), the wait for
    health states (\<open>wait_healthchecks\<close>), the health checker (\<open>check\<close>), the request executor
    (\<open>executor_execute\<close>).
  \<^item> \<open>Backend_Manager\<close>: \<open>BackendManager\<close> as the record \<open>manager\<close>, one definition per method, and the
    specification: \<open>in_sync\<close> (both slots hold exactly the enabled backends of the configuration),
    \<open>accounted\<close> (every router is stopped or installed, once) and \<open>manager_inv\<close>. The locales
    \<open>router_slot\<close> and \<open>router_slots\<close> are the interface of the slots, interpreted for the two.
  \<^item> \<open>Manager_Ops\<close>: each operation on every branch, and that all keep the invariant.
  \<^item> \<open>Manager_Steps\<close>, \<open>Manager_Safety\<close>, \<open>Manager_Refinement\<close>: the same operations in atomic steps
    under the configuration lock, interleaved (\<open>mgr_step\<close>) and with dropped futures
    (\<open>cancel_step\<close>); invariants through the locale \<open>transition_system\<close>; and that a run of the lock's
    holder computes what the sequential operation computes.
  \<^item> \<open>Manager_Queue\<close>, \<open>Queue_Properties\<close>: any number of tasks that want the lock, served in the order
    in which they asked, and dropped while they wait or while they hold the lock (\<open>queue_step\<close>);
    that each run is explained by a sequential one (\<open>serially\<close>), and that the queue drains.
  \<^item> \<open>Router_Provenance\<close>: for which configuration a router in use was built.
  \<^item> \<open>Cli\<close>: the argument structs, their defaults, and what \<open>clap\<close> accepts (\<open>cli_accepted\<close>).
  \<^item> \<open>Routing\<close>: \<open>handler_state\<close>, buffering, the retry loop, the handler and the dispatch.
    \<open>Retry_Loop\<close> relates the loop to the sequence of its attempts, \<open>Handler_Reference\<close> gives its
    closed form, without loop, counter and running delay.
  \<^item> \<open>In_Flight\<close>, \<open>In_Flight_Properties\<close>: the handler in steps from await to await (\<open>advance\<close>), any
    number of requests interleaved with the manager's steps and with dropped futures
    (\<open>fleet_step\<close>); the locale \<open>flight_invariant\<close> lifts invariants of one request to all.
  \<^item> \<open>Api\<close>, \<open>Api_Service\<close>: authentication, handlers and route table; the locale \<open>manager_service\<close> is
    the contract between them and the manager, interpreted on \<open>bm_ops\<close>.
  \<^item> \<open>App\<close>: the top-level router and the passage of a request through WAF, dispatch, API or handler.
  \<^item> \<open>Request_Metrics\<close>: the middleware and its background task as a list of effects.
    \<open>Metrics_Setup\<close>: registration of the metrics of middleware and endpoint in a registry.
    \<open>Metrics_Registry\<close>: recording into them, the types of events.
  \<^item> \<open>Metrics_Cache\<close>: the metrics endpoint. \<open>Startup\<close>: building, starting and stopping everything, with
    the registry of metrics that is threaded through it.
  \<^item> \<open>Traffic\<close>: all layers as one function of a request (\<open>serve_request\<close>), and of a list of requests.
  \<^item> \<open>Sample_Env\<close>, \<open>Sample_Requests\<close>: concrete instances of all parameters, for the witnesses.
  \<^item> \<open>Manager_Properties\<close>, \<open>Interleaving_Properties\<close>, \<open>Routing_Properties\<close>, \<open>Api_Properties\<close>,
    \<open>Metrics_Properties\<close>, \<open>Startup_Properties\<close>: the properties of the parts. \<open>System\<close> connects manager,
    handler and metrics; the properties that span them are below.

  \<^item> \<open>Test_Bench\<close>, \<open>Unit_Tests\<close>, \<open>Service_Tests\<close>, \<open>Load_Balancer_Test\<close>: the repository's own tests, with
    their servers, as propositions about the model; \<open>Test_Properties\<close> has the concrete bench and that
    the unit tests pass, \<open>Load_Balancer_Test\<close> the end-to-end test of \<open>src/main.rs\<close>.

  \<^bold>\<open>State and effects.\<close> Operations take and return their state. A function that can fail returns a
  sum with the error on the left; a panic and a wait that never ends are outcomes of their own, so
  that a property which says that an operation returns says so. The handler also returns the
  trace of the requests it executed and of its pauses. Machine integers keep their width: \<open>u8\<close> for
  the attempts, \<open>u64\<close> for sizes, whose cast to \<open>i64\<close> is written out.

  \<^bold>\<open>Loops.\<close> The retry loop is a function with the termination measure \<open>retries - 1\<close> on \<open>u8\<close>, so no
  fuel is needed: it also ends for 0 attempts, where the counter wraps in a release build and
  panics in a checked one. The wait for health states recurses over what the watch channel
  shows. A task that holds the configuration lock takes at most eight steps,
  so a queue is served in at most nine steps for each waiting task and eight for the holder.

  \<^bold>\<open>Assumptions.\<close> Code outside this repository is an argument: header maps, bodies, URIs, the
  balancer, codecs, files, clocks. Laws about it are named hypotheses, each shown to hold for the
  sample instance: \<open>header_laws\<close>, \<open>authority_law\<close>, \<open>full_body_law\<close>, \<open>collect_law\<close>, \<open>file_law\<close>,
  \<open>yaml_law\<close>, \<open>env_live\<close> (health states are reported and routers stop) and \<open>balancer_contract\<close> (a
  router runs its executor on one of its own backends, or reports that none is healthy),
  \<open>registry_law\<close> (a name is registered once), \<open>library_law\<close> (what the constructors of \<open>ic-bn-lib\<close>
  register), \<open>client_completes\<close> (each call of the HTTP client comes to an end) and, for the tests, \<open>bench_laws\<close>, \<open>api_laws\<close> and
  \<open>load_balancer_laws\<close> (requests are delivered to the server that listens, closed ports refuse them,
  health checks tell which backends are healthy, the configuration files parse as written).

  \<^bold>\<open>Not modelled.\<close> Sockets, TLS handshakes and HTTP framing, the balancing strategies and health
  check scheduling of \<open>ic-bn-lib\<close>, the WAF's rules, the codecs that \<open>serde\<close> and \<open>clap\<close> generate, and log
  output other than that of requests. A panic is an outcome of the operation that panics: with
  \<open>panic=abort\<close> it ends the process, which is not followed further. Responses being streamed
  are bodies of unknown size; what happens to them after the handler returned is not seen. The
  client call for a proxied request has no time limit in this code, so its outcome may be that it
  never completes; properties that say that a request is answered assume that it does. The
  end-to-end test polls the health endpoint until it answers; here its answer is asserted at once.

  \<^bold>\<open>Plan.\<close> Next: the health states of a router as they evolve with \<open>check\<close>, so that the choice
  between main and fallback router can be followed over time; the environment variables of the
  command line; the API's handlers from await to await; the polling of the end-to-end test.
\<close>

section \<open>Properties of the whole load balancer\<close>

text \<open>C1: a request, whatever is interleaved with it and whichever futures have been dropped, is sent
  by the router it was handed to no backend or to one that was enabled in the configuration for
  which that router was built: a configuration that the manager had at this or an earlier moment,
  and its current one when no task holds the lock and no future has been dropped. The request goes
  out with that backend's scheme and authority, its own path and query, as HTTP/1.1 and with its
  connection headers stripped, the outcome is the client's, and the request's context names the
  backend.\<close>

theorem requests_reach_enabled_backends_only:
  assumes "initial s0" and "(any_step E)\<^sup>*\<^sup>* s0 s" and "balancer_contract lb"
    and "get_backend_router healthy (cs_manager s) = Some r"
  shows "\<exists>s1. (any_step E)\<^sup>*\<^sup>* s0 s1 \<and> (any_step E)\<^sup>*\<^sup>* s1 s \<and>
     ((mgr_step E)\<^sup>*\<^sup>* s0 s \<and> cs_lock s = None \<longrightarrow> s1 = s) \<and>
     (\<forall>H client n ctx req.
        router_execute H client lb r n ctx req = (Done (Inl No_Healthy_Nodes), ctx) \<or>
        (\<exists>c b. c \<in> set (enabled_backends (cs_config s1)) \<union> set (enabled_fallback (cs_config s1)) \<and>
           bc_enabled c \<and> be_name b = bc_name c \<and>
           snd (router_execute H client lb r n ctx req) = map_option (\<lambda>x. x\<lparr>rc_backend := Some b\<rparr>) ctx \<and>
           fst (router_execute H client lb r n ctx req) =
             (case he_uri_build H (url_scheme (bc_url c)) (url_authority (bc_url c))
                     (case uri_path_and_query (rq_uri req) of Some p \<Rightarrow> p | None \<Rightarrow> ''/'') of
                Inl e \<Rightarrow> Done (Inl (Inner (he_uri_error H e)))
              | Inr u \<Rightarrow>
                  (case client n (req\<lparr>rq_uri := u, rq_version := HTTP_11,
                           rq_headers := he_strip H (rq_headers req)\<rparr>) of
                     Done (Inl e) \<Rightarrow> Done (Inl (Inner e))
                   | Done (Inr v) \<Rightarrow> Done (Inr v)
                   | Panicked \<Rightarrow> Panicked
                   | Pending \<Rightarrow> Pending))))"
proof -
  obtain s1 where s1: "(any_step E)\<^sup>*\<^sup>* s0 s1" "(any_step E)\<^sup>*\<^sup>* s1 s" "built_for (cs_config s1) r"
    "(mgr_step E)\<^sup>*\<^sup>* s0 s \<and> cs_lock s = None \<longrightarrow> s1 = s"
    using handed_out_provenance [OF assms(1,2,4)] by blast
  have reached: "router_execute H client lb r n ctx req = (Done (Inl No_Healthy_Nodes), ctx) \<or>
      (\<exists>c b. c \<in> set (enabled_backends (cs_config s1)) \<union> set (enabled_fallback (cs_config s1)) \<and>
         bc_enabled c \<and> be_name b = bc_name c \<and> be_url b = bc_url c \<and>
         router_execute H client lb r n ctx req = wrap_executor (executor_execute H (client n) b ctx req))"
    for H client n ctx req
  proof (cases rule: router_execute_cases [OF assms(3), of H client r n ctx req])
    case (2 b w)
    from built_for_backend [OF s1(3) 2(1)] 2(2) show ?thesis
      by auto
  qed simp
  show ?thesis
    by (intro exI [of _ s1] conjI s1(1,2,4) allI) (use reached wrapped_execution in metis)
qed

theorem requests_reach_enabled_backends_only_witness:
  "\<exists>s r s1 c b. (mgr_step sample_env)\<^sup>*\<^sup>* sample_start s \<and> cs_config s = config_a \<and>
     get_backend_router sample_healthy (cs_manager s) = Some r \<and>
     (any_step sample_env)\<^sup>*\<^sup>* sample_start s1 \<and>
     c \<in> set (enabled_backends (cs_config s1)) \<union> set (enabled_fallback (cs_config s1)) \<and> bc_enabled c \<and>
     snd (sample_execute 0 r 0 (Some context_default) sample_sent) =
       Some (context_default\<lparr>rc_backend := Some b\<rparr>) \<and> be_name b = bc_name c"
proof -
  obtain x where x: "apply_config sample_env (with_config config_a (cs_sys sample_start)) = Done x"
    using sample_apply_a by blast
  obtain s where s: "(mgr_step sample_env)\<^sup>*\<^sup>* sample_start s" "cs_lock s = None" "cs_config s = config_a"
    by (rule install_run [OF _ _ x]) (simp_all add: sample_start_def)
  have sync: "in_sync (cs_manager s)"
    using uncancelled.reachable_inv [OF sample_start_initial s(1)] s(2) by (simp add: cs_inv_def)
  obtain r b w where r: "get_backend_router sample_healthy (cs_manager s) = Some r" "rt_backends r = [(b, w)]"
    using sample_slot [OF sync s(3)] by blast
  obtain s1 where s1: "(any_step sample_env)\<^sup>*\<^sup>* sample_start s1" and
    sent: "sample_execute 0 r 0 (Some context_default) sample_sent = (Done (Inl No_Healthy_Nodes), Some context_default) \<or>
        (\<exists>c b. c \<in> set (enabled_backends (cs_config s1)) \<union> set (enabled_fallback (cs_config s1)) \<and>
           bc_enabled c \<and> be_name b = bc_name c \<and>
           snd (sample_execute 0 r 0 (Some context_default) sample_sent) =
             map_option (\<lambda>x. x\<lparr>rc_backend := Some b\<rparr>) (Some context_default))"
    using requests_reach_enabled_backends_only [OF sample_start_initial mgr_run_any [OF s(1)] sample_balancer r(1)]
    by metis
  have "snd (sample_execute 0 r 0 (Some context_default) sample_sent) \<noteq> Some context_default"
    using r(2) by (simp add: router_execute_def sample_lb_def wrap_executor_def executor_execute_scope context_default_def)
  with sent obtain c b where "c \<in> set (enabled_backends (cs_config s1)) \<union> set (enabled_fallback (cs_config s1))"
    "bc_enabled c" "be_name b = bc_name c" "snd (sample_execute 0 r 0 (Some context_default) sample_sent) =
       Some (context_default\<lparr>rc_backend := Some b\<rparr>)"
    by auto
  then show ?thesis
    using s(1,3) r(1) s1 by blast
qed

text \<open>C12: the API and the proxied traffic are separate: a request for the API's host name never
  reaches a backend, any other request never changes the manager, its configuration or the WAF,
  and nothing changes at all without the API's token but the state of the SEV-SNP endpoint and its
  rate limiter, for requests to that endpoint.\<close>

theorem api_and_backends_are_separate:
  assumes "\<And>v. ap_api app = Some v \<Longrightarrow> setup_api_axum_router A c waf = Inr v"
    and "app_serve A E checks waf_blocks execute app ctx req w = Done ((resp, ctx', tr), w')"
  shows "if for_api (ae_http A) app req
     then tr = [] \<and> ctx' = ctx \<and>
       (w' = w \<or> (\<exists>v. ap_api app = Some v \<and>
          (he_get (ae_http A) ''authorization'' (rq_headers req) = Some (''Bearer '' @ ar_token v) \<or>
           (\<exists>ro caps. find_route A req (ar_routes v) = Some (ro, caps) \<and> ro_endpoint ro = Ep_sev_snp \<and>
              w' = w\<lparr>wo_sev := wo_sev w'\<rparr>))))
     else w' = w"
  using assms(2)
proof (cases rule: app_serve_cases)
  case (api v)
  from serve_api_changes_need_token [OF setup_api_axum_router_InrD(2) [OF assms(1) [OF api(2)]] api(5)] api
  show ?thesis
    by (auto simp: authorization_def bearer_def)
qed simp_all

definition sample_app :: app_router where
  "sample_app = \<lparr>ap_state = sample_state, ap_metrics_state = sample_metrics_state,
     ap_api = Some sample_api_router, ap_api_hostname = Some ''foobarhost'', ap_waf = False\<rparr>"

theorem api_and_backends_are_separate_witness:
  "\<exists>resp ctx' tr w'. app_serve sample_api sample_env True (\<lambda>_ _. None) (sample_execute 0) sample_app None
      ((api_request ''GET'' ''/nowhere'' [] [])\<lparr>rq_headers := [(''host'', ''foobarhost'')]\<rparr>) sample_world =
        Done ((resp, ctx', tr), w') \<and> tr = [] \<and> w' = sample_world"
proof -
  let ?req = "(api_request ''GET'' ''/nowhere'' [] [])\<lparr>rq_headers := [(''host'', ''foobarhost'')]\<rparr>"
  have ok: "\<And>v. ap_api sample_app = Some v \<Longrightarrow> setup_api_axum_router sample_api sample_cli False = Inr v"
    by (simp add: sample_app_def sample_api_setup)
  have for_api: "for_api (ae_http sample_api) sample_app ?req"
    by (simp add: for_api_def sample_app_def sample_api_def sample_http_def)
  obtain resp where run: "app_serve sample_api sample_env True (\<lambda>_ _. None) (sample_execute 0) sample_app None
      ?req sample_world = Done ((resp, None, []), sample_world)"
    by (simp add: app_serve_def dispatch_def sample_app_def sample_api_def sample_http_def serve_api_def
        sample_api_router_def api_routes_def sample_captures_def api_request_def)
  from api_and_backends_are_separate [OF ok run] run for_api show ?thesis
    by auto
qed


text \<open>C7: any sequence of requests, to the API or to be proxied, each served in the state the one
  before has left, is accounted for, as long as they return: the manager's invariant holds at the
  end; every request has got a response, the counter has one sample for each and the histogram one
  duration, under the same labels. The backend label is right: \<open>unknown\<close> when nothing was sent to a
  backend (which is so for the API, what the WAF blocks and errors before the first attempt), and
  otherwise the name of a backend that the configuration at the request's arrival enables, or
  perhaps \<open>unknown\<close> when the response says that no healthy backend was left.\<close>

theorem traffic_is_accounted_for:
  assumes "balancer_contract lb" and "manager_inv E (wo_manager w)"
    and "metrics_new G r = Done (ms_metrics (ap_metrics_state app), r')"
    and "traffic A E V checks waf_blocks lb app ts w no_samples = Done (log, w', s)"
  shows "manager_inv E (wo_manager w') \<and> map le_arrival log = ts \<and>
     sa_requests s = mset (map le_labels log) \<and>
     sa_durations s = mset (map (\<lambda>e. (le_labels e, tq_elapsed (le_arrival e))) log) \<and>
     list_all (\<lambda>e. \<exists>resp ctx tr w1.
       app_serve A E checks waf_blocks (router_execute (ae_http A) (tq_client (le_arrival e)) lb) app
         (Some context_default) (without_request_id (tq_request (le_arrival e))) (le_world e) =
         Done ((resp, ctx, tr), w1) \<and>
       le_response e = Some (resp\<lparr>rs_retries := None, rs_error_cause := None\<rparr>) \<and>
       (for_api (ae_http A) app (without_request_id (tq_request (le_arrival e))) \<longrightarrow> tr = []) \<and>
       le_labels e ! 4 \<in>
         (let enabled = bc_name ` {b \<in> set (cf_backends (get_config (wo_manager (le_world e))) @
                fallback_list (get_config (wo_manager (le_world e)))). bc_enabled b}
          in if tr = [] then {''unknown''}
             else if rs_error_cause resp = Some NoHealthyBackends then insert ''unknown'' enabled
             else enabled)) log"
proof -
  have "ms_metrics (ap_metrics_state app) = registered"
    using assms(3) by (auto simp: metrics_new_def register_unwrap_def and_then_Done_iff split: sum.splits)
  note account = traffic_account [OF assms(4,2,1) this]
  have entry: "\<exists>resp ctx tr w1.
       app_serve A E checks waf_blocks (router_execute (ae_http A) (tq_client (le_arrival e)) lb) app
         (Some context_default) (without_request_id (tq_request (le_arrival e))) (le_world e) =
         Done ((resp, ctx, tr), w1) \<and>
       le_response e = Some (resp\<lparr>rs_retries := None, rs_error_cause := None\<rparr>) \<and>
       (for_api (ae_http A) app (without_request_id (tq_request (le_arrival e))) \<longrightarrow> tr = []) \<and>
       le_labels e ! 4 \<in>
         (let enabled = bc_name ` {b \<in> set (cf_backends (get_config (wo_manager (le_world e))) @
                fallback_list (get_config (wo_manager (le_world e)))). bc_enabled b}
          in if tr = [] then {''unknown''}
             else if rs_error_cause resp = Some NoHealthyBackends then insert ''unknown'' enabled
             else enabled)" if logged: "well_logged A E checks waf_blocks lb app e" for e
  proof -
    obtain resp ctx tr w1 where run: "app_serve A E checks waf_blocks
          (router_execute (ae_http A) (tq_client (le_arrival e)) lb) app (Some context_default)
          (without_request_id (tq_request (le_arrival e))) (le_world e) = Done ((resp, ctx, tr), w1)"
      and entry: "le_response e = Some (resp\<lparr>rs_retries := None, rs_error_cause := None\<rparr>)"
        "le_labels e ! 4 \<in>
          (if tr = [] then {''unknown''}
           else if rs_error_cause resp = Some NoHealthyBackends
           then insert ''unknown'' (enabled_names (get_config (wo_manager (le_world e))))
           else enabled_names (get_config (wo_manager (le_world e))))"
      using logged unfolding well_logged_def by blast
    have "for_api (ae_http A) app (without_request_id (tq_request (le_arrival e))) \<longrightarrow> tr = []"
      using run by (cases rule: app_serve_cases) simp_all
    with run entry show ?thesis
      unfolding Let_def enabled_names_def [symmetric] by blast
  qed
  from account have "list_all (well_logged A E checks waf_blocks lb app) log"
    by blast
  then show ?thesis
    using account by (simp only: list_all_iff no_samples_def samples.select_convs add_0) (blast intro: entry)
qed

definition sample_arrival :: "nat \<Rightarrow> (headers, bytes, nat) arrival" where
  "sample_arrival k = \<lparr>tq_conn_id = ''c1'', tq_timestamp = 1700000000, tq_elapsed = 6000000000,
     tq_request = sample_request, tq_client = sample_client k\<rparr>"

lemma sample_not_for_api:
  "list_all (\<lambda>t. \<not> for_api (ae_http sample_api) sample_app (without_request_id (tq_request t)))
     [sample_arrival 0, sample_arrival 9]"
  "list_all (\<lambda>t. client_completes (tq_client t)) [sample_arrival 0, sample_arrival 9]"
  by (simp_all add: for_api_def sample_app_def sample_api_def sample_http_def sample_arrival_def
      sample_request_def without_request_id_def sample_client_completes)

lemma sample_app_retries:
  "authority_law (ae_http sample_api)" "hs_retry_attempts (ap_state sample_app) \<noteq> 0"
  "hs_retry_interval (ap_state sample_app) * 2 ^ unat (hs_retry_attempts (ap_state sample_app)) \<le> duration_max"
  "ms_metrics (ap_metrics_state sample_app) = registered"
  by (simp_all add: sample_api_def sample_authority_law)
    (simp_all add: sample_app_def sample_state_def duration_max_def sample_metrics_state_def)

lemma sample_app_registered:
  "metrics_new sample_registry [] =
     Done (ms_metrics (ap_metrics_state sample_app), [''http_requests_duration_sec'', ''http_requests''])"
  by (simp add: metrics_new_def register_unwrap_def sample_registry_def sample_app_retries(4))

theorem traffic_is_accounted_for_witness:
  "\<exists>log w' s. traffic sample_api sample_env sample_metrics True (\<lambda>_ _. None) sample_lb sample_app
      [sample_arrival 0, sample_arrival 9] sample_world no_samples = Done (log, w', s) \<and>
     size (sa_requests s) = 2 \<and> manager_inv sample_env (wo_manager w')"
proof -
  obtain log s where run: "traffic sample_api sample_env sample_metrics True (\<lambda>_ _. None) sample_lb
      sample_app [sample_arrival 0, sample_arrival 9] sample_world no_samples = Done (log, sample_world, s)"
    using traffic_proxied [OF sample_app_retries sample_balancer sample_not_for_api] by blast
  have "manager_inv sample_env (wo_manager sample_world)"
    by (simp add: sample_world_def sample_sys_inv)
  note account = traffic_is_accounted_for [OF sample_balancer this sample_app_registered run]
  then have "length log = 2"
    using map_eq_imp_length_eq [of le_arrival log id "[sample_arrival 0, sample_arrival 9]"] by simp
  with account run show ?thesis
    by auto
qed

text \<open>C14: every request that is not for the API is answered, however many there are, whatever the
  backends answer and however often they fail, as long as each call of the HTTP client comes to an
  end (the code sets it no time limit of its own, so a call that never ends hangs its request):
  nothing panics and nothing waits for ever, also not in the recording of the metrics, provided
  attempts are not 0 and the doubled pauses fit a \<open>Duration\<close>; and the manager is afterwards as it
  was.\<close>

theorem proxied_traffic_is_answered:
  assumes "authority_law (ae_http A)" and "hs_retry_attempts (ap_state app) \<noteq> 0"
    and "hs_retry_interval (ap_state app) * 2 ^ unat (hs_retry_attempts (ap_state app)) \<le> duration_max"
    and "metrics_new G r = Done (ms_metrics (ap_metrics_state app), r')" and "balancer_contract lb"
    and "list_all (\<lambda>t. \<not> for_api (ae_http A) app (without_request_id (tq_request t))) ts"
    and "list_all (\<lambda>t. client_completes (tq_client t)) ts"
  shows "\<exists>log s'. traffic A E V checks waf_blocks lb app ts w s = Done (log, w, s') \<and>
     map le_arrival log = ts \<and> list_all (\<lambda>e. le_response e \<noteq> None) log"
proof -
  have "ms_metrics (ap_metrics_state app) = registered"
    using assms(4) by (auto simp: metrics_new_def register_unwrap_def and_then_Done_iff split: sum.splits)
  from traffic_proxied [OF assms(1-3) this assms(5-7)] show ?thesis .
qed

theorem proxied_traffic_is_answered_witness:
  "\<exists>log s'. traffic sample_api sample_env sample_metrics True (\<lambda>_ _. None) sample_lb sample_app
      [sample_arrival 0, sample_arrival 9] sample_world no_samples = Done (log, sample_world, s') \<and>
     map le_arrival log = [sample_arrival 0, sample_arrival 9] \<and> list_all (\<lambda>e. le_response e \<noteq> None) log"
  by (rule proxied_traffic_is_answered [OF sample_app_retries(1-3) sample_app_registered sample_balancer
      sample_not_for_api])

end
